(* ===== verification/Prelude.thy ===== *)
theory Prelude
  imports Main "HOL-Library.Sublist"
begin

text \<open>
  Shared vocabulary of the development: the JavaScript runtime operations the sources
  call (\<open>String.prototype.toLowerCase\<close>, \<open>includes\<close>, \<open>padStart\<close>, the decimal
  rendering of a number by \<open>String(n)\<close> and template literals, \<open>parseInt\<close>, the \<open>x || d\<close>
  default of an optional field, \<open>split\<close> and \<open>join\<close>), with the generic lemmas on lists, options and strings that the
  component theories share. None of these is repository code; they model the runtime.
\<close>

named_theorems js_simps "evaluation rules of the JavaScript runtime helpers"
named_theorems list_frame "frame lemmas for the list updates the React handlers perform"

section \<open>Optional fields\<close>

text \<open>\<open>x || d\<close> on an optional field: \<open>undefined\<close> falls back to the default.\<close>

definition opt_or :: "'a option \<Rightarrow> 'a \<Rightarrow> 'a" where
  "opt_or x d = (case x of None \<Rightarrow> d | Some v \<Rightarrow> v)"

text \<open>\<open>x || d\<close> on an optional string: \<open>undefined\<close> and \<open>''\<close> give the default.\<close>

definition js_or_str :: "string option \<Rightarrow> string \<Rightarrow> string" where
  "js_or_str x d = (case x of Some v \<Rightarrow> if v = [] then d else v | None \<Rightarrow> d)"

section \<open>Strings\<close>

text \<open>
  \<open>toLowerCase\<close> on the ASCII range: an upper-case letter is replaced by its lower-case
  letter (a table of the 26 pairs), every other character is kept. JavaScript also
  lower-cases non-ASCII letters; the sources only compare user input against ASCII mock
  data, and the table keeps the definition evaluable by the simplifier.
\<close>

definition js_lower_char :: "char \<Rightarrow> char" where
  "js_lower_char c =
     (case map_of (zip ''ABCDEFGHIJKLMNOPQRSTUVWXYZ'' ''abcdefghijklmnopqrstuvwxyz'') c of
        Some l \<Rightarrow> l
      | None \<Rightarrow> c)"

definition toLowerCase :: "string \<Rightarrow> string" where
  "toLowerCase s = map js_lower_char s"

text \<open>
  \<open>s.includes(t)\<close>: \<open>t\<close> occurs as a contiguous block of \<open>s\<close>. The search below walks
  the start positions of \<open>s\<close> and tests a prefix at each; it is proved equal to the
  library's \<open>sublist\<close>.
\<close>

fun js_includes :: "string \<Rightarrow> string \<Rightarrow> bool" where
  "js_includes [] t = (t = [])"
| "js_includes (c # cs) t = (prefix t (c # cs) \<or> js_includes cs t)"

text \<open>The decimal digits, as \<open>String(n)\<close> prints them.\<close>

definition digit_char :: "nat \<Rightarrow> char" where
  "digit_char d = ''0123456789'' ! d"

fun string_of_nat :: "nat \<Rightarrow> string" where
  "string_of_nat n =
     (if n < 10 then [digit_char n] else string_of_nat (n div 10) @ [digit_char (n mod 10)])"

declare string_of_nat.simps [simp del]

text \<open>\<open>String(n)\<close> for an integer-valued number: a minus sign before the magnitude.\<close>

definition string_of_int :: "int \<Rightarrow> string" where
  "string_of_int i =
     (if i < 0 then CHR ''-'' # string_of_nat (nat (- i)) else string_of_nat (nat i))"

text \<open>Reading the digits back: the inverse used by the round-trip lemmas.\<close>

definition digit_val :: "char \<Rightarrow> nat" where
  "digit_val c = of_char c - 48"

definition nat_of_digits :: "string \<Rightarrow> nat" where
  "nat_of_digits s = foldl (\<lambda>acc c. 10 * acc + digit_val c) 0 s"

text \<open>\<open>s.padStart(n, c)\<close> with a one-character pad: nothing is cut when \<open>s\<close> is long.\<close>

definition padStart :: "string \<Rightarrow> nat \<Rightarrow> char \<Rightarrow> string" where
  "padStart s n c = replicate (n - length s) c @ s"

text \<open>\<open>s.split(c)\<close> with a one-character separator: \<open>''.split(c)\<close> is \<open>['']\<close>.\<close>

fun split_on :: "char \<Rightarrow> string \<Rightarrow> string list" where
  "split_on c [] = [[]]"
| "split_on c (x # xs) = (let r = split_on c xs in if x = c then [] # r else (x # hd r) # tl r)"

text \<open>\<open>xs.join(sep)\<close>.\<close>

fun js_join :: "string \<Rightarrow> string list \<Rightarrow> string" where
  "js_join sep [] = []"
| "js_join sep [x] = x"
| "js_join sep (x # xs) = x @ sep @ js_join sep xs"

text \<open>\<open>n.toLocaleString()\<close> of a non-negative integer in the en-US locale: the decimal
  digits with a comma before every group of three, counted from the right.\<close>

function comma_groups :: "string \<Rightarrow> string" where
  "comma_groups s =
     (if length s \<le> 3 then s else comma_groups (take (length s - 3) s) @ CHR '','' # drop (length s - 3) s)"
  by pat_completeness auto
termination by (relation "measure length") auto

declare comma_groups.simps [simp del]

definition toLocaleString_nat :: "nat \<Rightarrow> string" where
  "toLocaleString_nat n = comma_groups (string_of_nat n)"

text \<open>
  \<open>parseInt(s)\<close> in base 10: an optional sign, then the longest run of digits; no digit
  gives \<open>NaN\<close> (\<open>None\<close>). Leading white space, which \<open>parseInt\<close> skips, does not occur in
  the number inputs it is applied to.
\<close>

definition is_digit :: "char \<Rightarrow> bool" where
  "is_digit c = (c \<in> set ''0123456789'')"

definition js_parseInt :: "string \<Rightarrow> int option" where
  "js_parseInt s =
     (let (sg, r) = (if s \<noteq> [] \<and> hd s = CHR ''-'' then (-1, tl s)
                     else if s \<noteq> [] \<and> hd s = CHR ''+'' then (1, tl s) else (1, s));
          ds = takeWhile is_digit r
      in if ds = [] then None else Some (sg * int (nat_of_digits ds)))"

section \<open>Lemmas on the string helpers\<close>

lemma opt_or_simps [simp, js_simps]:
  "opt_or None d = d" "opt_or (Some v) d = v"
  by (simp_all add: opt_or_def)

lemma js_includes_sublist: "js_includes s t = sublist t s"
  by (induction s) (auto simp: sublist_Cons_right)

lemma js_includes_Nil [simp, js_simps]: "js_includes s []"
  by (simp add: js_includes_sublist)

lemma js_includes_refl [simp]: "js_includes s s"
  by (simp add: js_includes_sublist)

lemma length_toLowerCase [simp]: "length (toLowerCase s) = length s"
  by (simp add: toLowerCase_def)

lemma toLowerCase_Nil [simp, js_simps]: "toLowerCase [] = []"
  by (simp add: toLowerCase_def)

lemma digit_val_digit_char [simp]: "d < 10 \<Longrightarrow> digit_val (digit_char d) = d"
  by (auto simp: numeral_eq_Suc less_Suc_eq digit_val_def digit_char_def)

lemma digit_char_not_minus [simp]: "d < 10 \<Longrightarrow> digit_char d \<noteq> CHR ''-''"
proof -
  assume "d < 10"
  then have "digit_val (digit_char d) = d" by simp
  moreover have "digit_val CHR ''-'' = 0" by (simp add: digit_val_def)
  ultimately show ?thesis
    by (cases "d = 0") (auto simp: digit_char_def)
qed

lemma foldl_digits_append:
  "foldl (\<lambda>acc c. 10 * acc + digit_val c) a (xs @ [c]) =
   10 * foldl (\<lambda>acc c. 10 * acc + digit_val c) a xs + digit_val c"
  by simp

lemma nat_of_digits_snoc:
  "nat_of_digits (xs @ [c]) = 10 * nat_of_digits xs + digit_val c"
  by (simp add: nat_of_digits_def)

text \<open>Round trip: reading back the printed digits gives the number.\<close>

lemma nat_of_string_of_nat [simp]: "nat_of_digits (string_of_nat n) = n"
proof (induction n rule: string_of_nat.induct)
  case (1 n)
  show ?case
  proof (cases "n < 10")
    case True
    then show ?thesis
      by (simp add: string_of_nat.simps [of n] nat_of_digits_def)
  next
    case False
    with "1.IH" have "nat_of_digits (string_of_nat (n div 10)) = n div 10" by simp
    with False show ?thesis
      by (simp add: string_of_nat.simps [of n] nat_of_digits_snoc)
  qed
qed

lemma string_of_nat_inj [simp]: "string_of_nat m = string_of_nat n \<longleftrightarrow> m = n"
  by (metis nat_of_string_of_nat)

lemma string_of_nat_not_Nil [simp]: "string_of_nat n \<noteq> []"
  by (subst string_of_nat.simps) simp

lemma string_of_nat_digits: "c \<in> set (string_of_nat n) \<Longrightarrow> c \<noteq> CHR ''-''"
proof (induction n rule: string_of_nat.induct)
  case (1 n)
  have "digit_char (n mod 10) \<noteq> CHR ''-''" by simp
  with 1 show ?case
    by (cases "n < 10") (auto simp: string_of_nat.simps [of n] dest: sym)
qed

lemma hd_string_of_nat_not_minus [simp]: "hd (string_of_nat n) \<noteq> CHR ''-''"
  using string_of_nat_digits hd_in_set string_of_nat_not_Nil by blast

lemma string_of_int_inj [simp]: "string_of_int i = string_of_int j \<longleftrightarrow> i = j"
proof
  assume eq: "string_of_int i = string_of_int j"
  consider "i < 0" "j < 0" | "i < 0" "\<not> j < 0" | "\<not> i < 0" "j < 0" | "\<not> i < 0" "\<not> j < 0"
    by blast
  then show "i = j"
  proof cases
    case 1
    with eq show ?thesis by (simp add: string_of_int_def)
  next
    case 2
    with eq have "CHR ''-'' # string_of_nat (nat (- i)) = string_of_nat (nat j)"
      by (simp add: string_of_int_def)
    then have "hd (string_of_nat (nat j)) = CHR ''-''" by (metis list.sel(1))
    then show ?thesis by simp
  next
    case 3
    with eq have "string_of_nat (nat i) = CHR ''-'' # string_of_nat (nat (- j))"
      by (simp add: string_of_int_def)
    then have "hd (string_of_nat (nat i)) = CHR ''-''" by (metis list.sel(1))
    then show ?thesis by simp
  next
    case 4
    with eq show ?thesis by (simp add: string_of_int_def)
  qed
qed simp

lemma length_padStart [simp]: "length (padStart s n c) = max n (length s)"
  by (simp add: padStart_def)

lemma padStart_suffix: "suffix s (padStart s n c)"
  by (simp add: padStart_def suffix_def)

lemma takeWhile_replicate_other:
  "hd s \<noteq> c \<Longrightarrow> s \<noteq> [] \<Longrightarrow> takeWhile (\<lambda>x. x = c) (replicate k c @ s) = replicate k c"
  by (induction k) (cases s, auto)

text \<open>Two strings padded with a character they never start with stay apart.\<close>

lemma padStart_inj:
  assumes "c \<notin> set s" "c \<notin> set t"
    and "s \<noteq> [] \<and> t \<noteq> []"
    and "padStart s n c = padStart t n c"
  shows "s = t"
proof -
  let ?k = "n - length s" and ?l = "n - length t"
  from assms(4) have eq: "replicate ?k c @ s = replicate ?l c @ t"
    by (simp add: padStart_def)
  have "takeWhile (\<lambda>x. x = c) (replicate ?k c @ s) = replicate ?k c"
    using assms(1,3) by (intro takeWhile_replicate_other) auto
  moreover have "takeWhile (\<lambda>x. x = c) (replicate ?l c @ t) = replicate ?l c"
    using assms(2,3) by (intro takeWhile_replicate_other) auto
  ultimately have "replicate ?k c = replicate ?l c" using eq by simp
  with eq show ?thesis by simp
qed

text \<open>Leading zeros: what \<open>padStart(n, '0')\<close> adds can be stripped again.\<close>

lemma string_of_nat_0: "string_of_nat 0 = ''0''"
  by (simp add: string_of_nat.simps [of 0] digit_char_def)

lemma hd_string_of_nat_nonzero: "0 < n \<Longrightarrow> hd (string_of_nat n) \<noteq> CHR ''0''"
proof (induction n rule: string_of_nat.induct)
  case (1 n)
  show ?case
  proof (cases "n < 10")
    case True
    then have "digit_val (digit_char n) = n" by simp
    moreover have "digit_val CHR ''0'' = 0" by (simp add: digit_val_def)
    ultimately have "digit_char n \<noteq> CHR ''0''" using "1.prems" by auto
    with True show ?thesis by (simp add: string_of_nat.simps [of n])
  next
    case False
    then have "0 < n div 10" by simp
    with False "1.IH" show ?thesis
      by (simp add: string_of_nat.simps [of n] hd_append)
  qed
qed

lemma dropWhile_replicate_same: "dropWhile (\<lambda>x. x = c) (replicate k c @ s) = dropWhile (\<lambda>x. x = c) s"
  by (induction k) simp_all

lemma dropWhile_padStart: "dropWhile (\<lambda>x. x = c) (padStart s n c) = dropWhile (\<lambda>x. x = c) s"
  by (simp add: padStart_def dropWhile_replicate_same)

lemma string_of_int_not_Nil [simp]: "string_of_int i \<noteq> []"
  by (simp add: string_of_int_def)

lemma dropWhile_string_of_int:
  "dropWhile (\<lambda>x. x = CHR ''0'') (string_of_int i) = (if i = 0 then [] else string_of_int i)"
proof -
  consider "i = 0" | "i < 0" | "0 < i" by linarith
  then show ?thesis
  proof cases
    case 1 then show ?thesis by (simp add: string_of_int_def string_of_nat_0)
  next
    case 2 then show ?thesis by (simp add: string_of_int_def)
  next
    case 3
    then have "hd (string_of_nat (nat i)) \<noteq> CHR ''0''" by (simp add: hd_string_of_nat_nonzero)
    moreover have "string_of_nat (nat i) \<noteq> []" by simp
    ultimately show ?thesis using 3
      by (cases "string_of_nat (nat i)") (simp_all add: string_of_int_def)
  qed
qed

section \<open>Lists updated the way the handlers update them\<close>

text \<open>\<open>xs.map(e => e.id === k ? f(e) : e)\<close>: update every element with a matching key.\<close>

lemma map_if_length [simp, list_frame]:
  "length (map (\<lambda>e. if P e then f e else e) xs) = length xs"
  by simp

lemma map_if_keys [list_frame]:
  "(\<And>e. key (f e) = key e) \<Longrightarrow>
   map key (map (\<lambda>e. if P e then f e else e) xs) = map key xs"
  by (induction xs) auto

lemma map_if_other [list_frame]:
  "e \<in> set (map (\<lambda>e. if P e then f e else e) xs) \<Longrightarrow> \<not> P e \<Longrightarrow> (\<And>e. P (f e) = P e) \<Longrightarrow>
   e \<in> set xs"
  by auto

lemma find_append_list [list_frame]:
  "find P (xs @ ys) = (case find P xs of None \<Rightarrow> find P ys | Some x \<Rightarrow> Some x)"
  by (induction xs) auto

lemma find_SomeD_set [list_frame]: "find P xs = Some x \<Longrightarrow> x \<in> set xs \<and> P x"
  by (induction xs) (auto split: if_splits)

lemma length_filter_disj:
  "(\<And>x. x \<in> set xs \<Longrightarrow> \<not> (P x \<and> Q x)) \<Longrightarrow>
   length (filter (\<lambda>x. P x \<or> Q x) xs) = length (filter P xs) + length (filter Q xs)"
  by (induction xs) auto

text \<open>Counting the elements of a list under each of distinct keys counts each element once.\<close>

lemma sum_length_filter_keys:
  "distinct ks \<Longrightarrow>
   sum_list (map (\<lambda>k. length (filter (\<lambda>x. f x = Some k) xs)) ks) =
   length (filter (\<lambda>x. \<exists>k\<in>set ks. f x = Some k) xs)"
proof (induction ks)
  case (Cons k ks)
  have "length (filter (\<lambda>x. f x = Some k \<or> (\<exists>k'\<in>set ks. f x = Some k')) xs) =
        length (filter (\<lambda>x. f x = Some k) xs) + length (filter (\<lambda>x. \<exists>k'\<in>set ks. f x = Some k') xs)"
    using Cons.prems by (intro length_filter_disj) auto
  with Cons show ?case by simp
qed simp

lemma js_or_str_not_Nil: "d \<noteq> [] \<Longrightarrow> js_or_str x d \<noteq> []"
  by (simp add: js_or_str_def split: option.splits)

text \<open>Dropping the separators gives the digits back; the separators add one character
  per full group of three after the first.\<close>

lemma comma_groups_filter:
  "CHR '','' \<notin> set s \<Longrightarrow> filter (\<lambda>c. c \<noteq> CHR '','') (comma_groups s) = s"
proof (induction s rule: comma_groups.induct)
  case (1 s)
  show ?case
  proof (cases "length s \<le> 3")
    case True
    with "1.prems" show ?thesis by (auto simp: comma_groups.simps [of s] filter_id_conv)
  next
    case False
    have "CHR '','' \<notin> set (take (length s - 3) s)"
      using "1.prems" by (auto dest: in_set_takeD)
    moreover have "filter (\<lambda>c. c \<noteq> CHR '','') (drop (length s - 3) s) = drop (length s - 3) s"
      using "1.prems" by (auto simp: filter_id_conv dest: in_set_dropD)
    ultimately show ?thesis
      using False "1.IH" by (simp add: comma_groups.simps [of s])
  qed
qed

lemma length_comma_groups:
  "s \<noteq> [] \<Longrightarrow> length (comma_groups s) = length s + (length s - 1) div 3"
proof (induction s rule: comma_groups.induct)
  case (1 s)
  show ?case
  proof (cases "length s \<le> 3")
    case True
    then show ?thesis by (simp add: comma_groups.simps [of s])
  next
    case False
    with "1.prems" have "take (length s - 3) s \<noteq> []" by simp
    with False "1.IH" have "length (comma_groups (take (length s - 3) s)) = (length s - 3) + (length s - 4) div 3"
      by simp
    with False show ?thesis
      by (simp add: comma_groups.simps [of s])
  qed
qed

lemma comma_not_in_string_of_nat: "CHR '','' \<notin> set (string_of_nat n)"
proof (induction n rule: string_of_nat.induct)
  case (1 n)
  have "d < 10 \<Longrightarrow> digit_char d \<in> set ''0123456789''" for d
    unfolding digit_char_def by (rule nth_mem) simp
  then have "d < 10 \<Longrightarrow> CHR '','' \<noteq> digit_char d" for d
    by fastforce
  with 1 show ?case by (auto simp: string_of_nat.simps [of n])
qed

lemma toLocaleString_nat_digits:
  "nat_of_digits (filter (\<lambda>c. c \<noteq> CHR '','') (toLocaleString_nat n)) = n"
  by (simp add: toLocaleString_nat_def comma_groups_filter comma_not_in_string_of_nat)

lemma in_set_map_filter [list_frame]:
  "y \<in> set (List.map_filter f xs) \<longleftrightarrow> (\<exists>x \<in> set xs. f x = Some y)"
  by (induction xs) (auto split: option.splits)

lemma distinct_map_filter [list_frame]:
  "distinct (map f xs) \<Longrightarrow> distinct (map f (filter P xs))"
  by (induction xs) auto

text \<open>Round trip: \<open>parseInt(String(n))\<close> gives \<open>n\<close> back.\<close>

lemma digit_char_is_digit: "d < 10 \<Longrightarrow> is_digit (digit_char d)"
  unfolding is_digit_def digit_char_def by (rule nth_mem) simp

lemma string_of_nat_all_digits: "list_all is_digit (string_of_nat n)"
proof (induction n rule: string_of_nat.induct)
  case (1 n) then show ?case
    by (cases "n < 10") (simp_all add: string_of_nat.simps [of n] digit_char_is_digit)
qed

lemma takeWhile_string_of_nat [simp]: "takeWhile is_digit (string_of_nat n) = string_of_nat n"
  using string_of_nat_all_digits by (simp add: list_all_iff)

lemma hd_string_of_nat_digit: "is_digit (hd (string_of_nat n))"
  using string_of_nat_all_digits [of n] string_of_nat_not_Nil [of n]
  by (cases "string_of_nat n") simp_all

lemma js_parseInt_string_of_int [simp]: "js_parseInt (string_of_int i) = Some i"
proof (cases "i < 0")
  case True then show ?thesis by (simp add: js_parseInt_def string_of_int_def)
next
  case False
  have "hd (string_of_nat (nat i)) \<noteq> CHR ''-''" "hd (string_of_nat (nat i)) \<noteq> CHR ''+''"
    using hd_string_of_nat_digit [of "nat i"] by (auto simp: is_digit_def)
  with False show ?thesis by (simp add: js_parseInt_def string_of_int_def)
qed

end
