(* ===== verification/Flow_Model.thy ===== *)
theory Flow_Model
  imports Prelude
begin

text \<open>
  The conversational-flow data model of \<open>src/src/types/index.ts\<close> (\<open>FlowNode\<close>,
  \<open>FlowAnswer\<close>, \<open>FlowAction\<close>, \<open>ConversationalFlow\<close>) and the builder's
  \<open>CanvasNode\<close> of \<open>ConversationalFlowBuilder.tsx\<close>, which extends \<open>FlowNode\<close>
  with a position exactly as a record extension does here. Optional TypeScript fields
  (\<open>field?: T\<close>) are \<open>T option\<close>; the untyped \<open>value: any\<close> is a string, the only
  kind of value the builder ever stores. Dates are not modelled.
  The section on graph well-formedness states the spec's invariants (a) and (c) as
  executable predicates; the code never checks them, and the builder theories prove which
  of them its operations keep.
\<close>

section \<open>Data\<close>

datatype node_type = Question | Action | End

datatype action_type = Populate_field | Add_line_item | Go_to_node | End_flow

text \<open>
  Field names shared by several interfaces, or clashing with Isabelle keywords
  (\<open>text\<close>, \<open>type\<close>), carry a prefix (\<open>act_\<close>, \<open>answer_\<close>, \<open>n\<close>).
\<close>

record flow_action =
  action_type :: action_type
  act_field_id :: "string option"
  act_value :: "string option"
  act_product_id :: "string option"
  act_quantity :: "int option"
  act_next_node_id :: "string option"

record flow_answer =
  answer_id :: string
  answer_text :: string
  answer_value :: string
  next_node_id :: "string option"
  answer_actions :: "flow_action list option"

record flow_node =
  node_id :: string
  ntype :: node_type
  question :: "string option"
  field_id :: "string option"
  answers :: "flow_answer list option"
  actions :: "flow_action list option"

text \<open>\<open>interface CanvasNode extends FlowNode { x: number; y: number }\<close>.\<close>

record canvas_node = flow_node +
  pos_x :: int
  pos_y :: int

record conversational_flow =
  flow_id :: string
  flow_name :: string
  trade_id :: string
  start_node_id :: string
  flow_nodes :: "flow_node list"
  is_active :: bool

text \<open>The string tags the source compares against (\<open>node.type === 'question'\<close>).\<close>

fun node_type_tag :: "node_type \<Rightarrow> string" where
  "node_type_tag Question = ''question''"
| "node_type_tag Action = ''action''"
| "node_type_tag End = ''end''"

section \<open>Graph well-formedness (the spec's invariants)\<close>

text \<open>
  JavaScript tests a link with \<open>if (!answer.next_node_id)\<close>: both \<open>undefined\<close> and the
  empty string mean ``no link'' (the properties panel offers \<open>''\<close> as ``None'').
\<close>

definition js_link :: "string option \<Rightarrow> string option" where
  "js_link r = (case r of Some t \<Rightarrow> if t = [] then None else Some t | None \<Rightarrow> None)"

definition node_ids :: "'a flow_node_scheme list \<Rightarrow> string list" where
  "node_ids ns = map node_id ns"

definition answers_of :: "'a flow_node_scheme \<Rightarrow> flow_answer list" where
  "answers_of n = opt_or (answers n) []"

definition actions_of :: "'a flow_node_scheme \<Rightarrow> flow_action list" where
  "actions_of n = opt_or (actions n) []"

text \<open>Every forward reference of a node: its answers' links and its actions' jumps.\<close>

definition node_refs :: "'a flow_node_scheme \<Rightarrow> string list" where
  "node_refs n =
     List.map_filter (\<lambda>a. js_link (next_node_id a)) (answers_of n) @
     List.map_filter (\<lambda>c. js_link (act_next_node_id c)) (actions_of n)"

text \<open>Invariant (a): no dangling reference.\<close>

definition refs_ok :: "'a flow_node_scheme list \<Rightarrow> bool" where
  "refs_ok ns = (\<forall>n \<in> set ns. \<forall>r \<in> set (node_refs n). r \<in> set (node_ids ns))"

text \<open>Invariant (c), and the uniqueness of node ids the spec's mapping implies.\<close>

definition answer_ids_distinct :: "'a flow_node_scheme list \<Rightarrow> bool" where
  "answer_ids_distinct ns = (\<forall>n \<in> set ns. distinct (map answer_id (answers_of n)))"

definition node_ids_distinct :: "'a flow_node_scheme list \<Rightarrow> bool" where
  "node_ids_distinct ns = distinct (node_ids ns)"

lemma node_ids_append [simp]: "node_ids (xs @ ys) = node_ids xs @ node_ids ys"
  by (simp add: node_ids_def)

lemma node_ids_Cons [simp]: "node_ids (x # xs) = node_id x # node_ids xs"
  by (simp add: node_ids_def)

lemma node_ids_Nil [simp]: "node_ids [] = []"
  by (simp add: node_ids_def)

lemma set_node_ids: "set (node_ids ns) = node_id ` set ns"
  by (simp add: node_ids_def)

end
