(* ===== verification/Flow_Builder.thy ===== *)
theory Flow_Builder
  imports Flow_Model
begin

text \<open>
  The editing state of \<open>ConversationalFlowBuilder\<close> and its handlers
  (\<open>ConversationalFlowBuilder.tsx\<close>, lines 450--523) and the handlers of
  \<open>NodePropertiesPanel\<close> (lines 307--333). React state is explicit state passing: the
  two \<open>useState\<close> hooks are the fields of \<open>builder_state\<close>, and each
  \<open>setNodes(prev => ...)\<close> is a function of the previous state. \<open>Date.now()\<close>, read
  when a node or an answer is created, is the parameter \<open>now\<close>.
  A \<open>Partial<T>\<close> update spread over a record (\<open>{...node, ...updates}\<close>) is a
  patch: a record of options, \<open>None\<close> for a key the update does not have.
\<close>

section \<open>Patches: \<open>{...x, ...updates}\<close>\<close>

definition spread_opt :: "'a option \<Rightarrow> 'a option \<Rightarrow> 'a option" where
  "spread_opt new old = (case new of None \<Rightarrow> old | Some v \<Rightarrow> Some v)"

record node_patch =
  set_node_id :: "string option"
  set_ntype :: "node_type option"
  set_question :: "string option"
  set_field_id :: "string option"
  set_answers :: "flow_answer list option"
  set_actions :: "flow_action list option"

definition no_patch :: node_patch where
  "no_patch = \<lparr>set_node_id = None, set_ntype = None, set_question = None,
     set_field_id = None, set_answers = None, set_actions = None\<rparr>"

definition apply_node_patch :: "node_patch \<Rightarrow> 'a flow_node_scheme \<Rightarrow> 'a flow_node_scheme" where
  "apply_node_patch p n = n\<lparr>
     node_id := opt_or (set_node_id p) (node_id n),
     ntype := opt_or (set_ntype p) (ntype n),
     question := spread_opt (set_question p) (question n),
     field_id := spread_opt (set_field_id p) (field_id n),
     answers := spread_opt (set_answers p) (answers n),
     actions := spread_opt (set_actions p) (actions n)\<rparr>"

record answer_patch =
  set_answer_id :: "string option"
  set_answer_text :: "string option"
  set_answer_value :: "string option"
  set_next_node_id :: "string option"
  set_answer_actions :: "flow_action list option"

definition no_answer_patch :: answer_patch where
  "no_answer_patch = \<lparr>set_answer_id = None, set_answer_text = None,
     set_answer_value = None, set_next_node_id = None, set_answer_actions = None\<rparr>"

definition apply_answer_patch :: "answer_patch \<Rightarrow> flow_answer \<Rightarrow> flow_answer" where
  "apply_answer_patch p a = a\<lparr>
     answer_id := opt_or (set_answer_id p) (answer_id a),
     answer_text := opt_or (set_answer_text p) (answer_text a),
     answer_value := opt_or (set_answer_value p) (answer_value a),
     next_node_id := spread_opt (set_next_node_id p) (next_node_id a),
     answer_actions := spread_opt (set_answer_actions p) (answer_actions a)\<rparr>"

section \<open>Builder state and its initial value\<close>

record builder_state =
  nodes :: "canvas_node list"
  selectedNode :: "string option"

text \<open>The two demo nodes the builder opens with (\<open>useState<CanvasNode[]>([...])\<close>).\<close>

definition initial_nodes :: "canvas_node list" where
  "initial_nodes =
    [\<lparr>node_id = ''start'', ntype = Question,
      question = Some ''Welcome! What type of project are you planning?'',
      field_id = None,
      answers = Some
        [\<lparr>answer_id = ''residential'', answer_text = ''Residential'',
          answer_value = ''residential'', next_node_id = Some ''location'',
          answer_actions = None\<rparr>,
         \<lparr>answer_id = ''commercial'', answer_text = ''Commercial'',
          answer_value = ''commercial'', next_node_id = Some ''location'',
          answer_actions = None\<rparr>],
      actions = None, pos_x = 100, pos_y = 100\<rparr>,
     \<lparr>node_id = ''location'', ntype = Question,
      question = Some ''What is the project location?'',
      field_id = None, answers = Some [], actions = None, pos_x = 400, pos_y = 200\<rparr>]"

definition initial_builder :: builder_state where
  "initial_builder = \<lparr>nodes = initial_nodes, selectedNode = None\<rparr>"

section \<open>The builder's handlers\<close>

definition handleNodeSelect :: "string \<Rightarrow> builder_state \<Rightarrow> builder_state" where
  "handleNodeSelect nid s = s\<lparr>selectedNode := Some nid\<rparr>"

definition handleNodeMove :: "string \<Rightarrow> int \<Rightarrow> int \<Rightarrow> builder_state \<Rightarrow> builder_state" where
  "handleNodeMove nid x y s =
     s\<lparr>nodes := map (\<lambda>n. if node_id n = nid then n\<lparr>pos_x := x, pos_y := y\<rparr> else n) (nodes s)\<rparr>"

text \<open>The node \<open>handleNodeAdd\<close> builds: id \<open>node_${Date.now()}\<close>, kind-specific fields.\<close>

definition new_canvas_node :: "nat \<Rightarrow> node_type \<Rightarrow> int \<Rightarrow> int \<Rightarrow> canvas_node" where
  "new_canvas_node now t x y =
     \<lparr>node_id = ''node_'' @ string_of_nat now, ntype = t,
      question = (if t = Question then Some ''New Question'' else None),
      field_id = None,
      answers = (if t = Question then Some [] else None),
      actions = (if t = Action then Some [] else None),
      pos_x = x, pos_y = y\<rparr>"

definition handleNodeAdd :: "nat \<Rightarrow> node_type \<Rightarrow> int \<Rightarrow> int \<Rightarrow> builder_state \<Rightarrow> builder_state" where
  "handleNodeAdd now t x y s =
     (let nn = new_canvas_node now t x y
      in s\<lparr>nodes := nodes s @ [nn], selectedNode := Some (node_id nn)\<rparr>)"

definition handleNodeDelete :: "string \<Rightarrow> builder_state \<Rightarrow> builder_state" where
  "handleNodeDelete nid s =
     s\<lparr>nodes := filter (\<lambda>n. node_id n \<noteq> nid) (nodes s),
       selectedNode := (if selectedNode s = Some nid then None else selectedNode s)\<rparr>"

definition handleUpdateNode :: "string \<Rightarrow> node_patch \<Rightarrow> builder_state \<Rightarrow> builder_state" where
  "handleUpdateNode nid p s =
     s\<lparr>nodes := map (\<lambda>n. if node_id n = nid then apply_node_patch p n else n) (nodes s)\<rparr>"

text \<open>\<open>nodes.find(node => node.node_id === selectedNode)\<close>: the node the panel shows.\<close>

definition selectedNodeData :: "builder_state \<Rightarrow> canvas_node option" where
  "selectedNodeData s = find (\<lambda>n. selectedNode s = Some (node_id n)) (nodes s)"

section \<open>The properties panel's handlers\<close>

text \<open>
  Each panel handler receives the node the panel renders and calls \<open>onUpdateNode\<close>,
  which is \<open>handleUpdateNode\<close>.
\<close>

definition handleQuestionChange :: "canvas_node \<Rightarrow> string \<Rightarrow> builder_state \<Rightarrow> builder_state" where
  "handleQuestionChange n v = handleUpdateNode (node_id n) (no_patch\<lparr>set_question := Some v\<rparr>)"

definition new_answer :: "nat \<Rightarrow> flow_answer" where
  "new_answer now =
     \<lparr>answer_id = ''answer_'' @ string_of_nat now, answer_text = ''New Answer'',
      answer_value = [], next_node_id = None, answer_actions = Some []\<rparr>"

definition handleAddAnswer :: "nat \<Rightarrow> canvas_node \<Rightarrow> builder_state \<Rightarrow> builder_state" where
  "handleAddAnswer now n =
     handleUpdateNode (node_id n)
       (no_patch\<lparr>set_answers := Some (opt_or (answers n) [] @ [new_answer now])\<rparr>)"

definition handleUpdateAnswer ::
  "string \<Rightarrow> answer_patch \<Rightarrow> canvas_node \<Rightarrow> builder_state \<Rightarrow> builder_state" where
  "handleUpdateAnswer aid p n =
     handleUpdateNode (node_id n)
       (no_patch\<lparr>set_answers := Some (case answers n of
           None \<Rightarrow> []
         | Some as \<Rightarrow> map (\<lambda>a. if answer_id a = aid then apply_answer_patch p a else a) as)\<rparr>)"

definition handleDeleteAnswer :: "string \<Rightarrow> canvas_node \<Rightarrow> builder_state \<Rightarrow> builder_state" where
  "handleDeleteAnswer aid n =
     handleUpdateNode (node_id n)
       (no_patch\<lparr>set_answers := Some (case answers n of
           None \<Rightarrow> []
         | Some as \<Rightarrow> filter (\<lambda>a. answer_id a \<noteq> aid) as)\<rparr>)"

section \<open>Lemmas: what each handler changes\<close>

named_theorems builder_defs "definitions of the builder's handlers"

declare handleNodeSelect_def [builder_defs] handleNodeMove_def [builder_defs]
  handleNodeAdd_def [builder_defs] handleNodeDelete_def [builder_defs]
  handleUpdateNode_def [builder_defs]

lemma spread_opt_simps [simp]:
  "spread_opt None x = x" "spread_opt (Some v) x = Some v"
  by (simp_all add: spread_opt_def)

lemma apply_node_patch_id [simp]:
  "set_node_id p = None \<Longrightarrow> node_id (apply_node_patch p n) = node_id n"
  by (simp add: apply_node_patch_def)

lemma no_patch_simps [simp]:
  "set_node_id (no_patch\<lparr>set_question := q\<rparr>) = None"
  "set_node_id (no_patch\<lparr>set_answers := a\<rparr>) = None"
  by (simp_all add: no_patch_def)

lemma nodes_handleNodeSelect [simp]: "nodes (handleNodeSelect nid s) = nodes s"
  by (simp add: handleNodeSelect_def)

lemma nodes_handleNodeAdd [simp]:
  "nodes (handleNodeAdd now t x y s) = nodes s @ [new_canvas_node now t x y]"
  by (simp add: handleNodeAdd_def Let_def)

lemma selectedNode_handleNodeAdd [simp]:
  "selectedNode (handleNodeAdd now t x y s) = Some (''node_'' @ string_of_nat now)"
  by (simp add: handleNodeAdd_def new_canvas_node_def)

lemma node_id_new_canvas_node [simp]:
  "node_id (new_canvas_node now t x y) = ''node_'' @ string_of_nat now"
  by (simp add: new_canvas_node_def)

lemma nodes_handleNodeDelete [simp]:
  "nodes (handleNodeDelete nid s) = filter (\<lambda>n. node_id n \<noteq> nid) (nodes s)"
  by (simp add: handleNodeDelete_def)

lemma selectedNode_handleNodeDelete [simp]:
  "selectedNode (handleNodeDelete nid s) =
     (if selectedNode s = Some nid then None else selectedNode s)"
  by (simp add: handleNodeDelete_def)

lemma selectedNode_handleNodeMove [simp]: "selectedNode (handleNodeMove nid x y s) = selectedNode s"
  by (simp add: handleNodeMove_def)

lemma selectedNode_handleUpdateNode [simp]:
  "selectedNode (handleUpdateNode nid p s) = selectedNode s"
  by (simp add: handleUpdateNode_def)

lemma node_ids_handleNodeMove [simp]:
  "node_ids (nodes (handleNodeMove nid x y s)) = node_ids (nodes s)"
  by (simp add: handleNodeMove_def node_ids_def comp_def)

lemma node_ids_handleUpdateNode [simp]:
  "set_node_id p = None \<Longrightarrow> node_ids (nodes (handleUpdateNode nid p s)) = node_ids (nodes s)"
  by (simp add: handleUpdateNode_def node_ids_def comp_def)

lemma node_ids_filter: "node_ids (filter P ns) = map node_id (filter P ns)"
  by (simp add: node_ids_def)

text \<open>With unique ids, updating the node with a given id touches that node only.\<close>

lemma unique_node_eq:
  "distinct (node_ids ns) \<Longrightarrow> n \<in> set ns \<Longrightarrow> m \<in> set ns \<Longrightarrow> node_id m = node_id n \<Longrightarrow> m = n"
  unfolding node_ids_def distinct_map by (auto dest: inj_onD)

lemma find_unique_id:
  "distinct (node_ids ns) \<Longrightarrow> n \<in> set ns \<Longrightarrow> find (\<lambda>m. node_id n = node_id m) ns = Some n"
proof (induction ns)
  case (Cons a ns)
  show ?case
  proof (cases "a = n")
    case False
    with Cons.prems have "n \<in> set ns" "node_id a \<noteq> node_id n"
      by (auto simp: node_ids_def)
    with Cons show ?thesis by (simp add: node_ids_def)
  qed simp
qed simp

lemma nodes_handleUpdateNode_unique:
  assumes "distinct (node_ids (nodes s))" "n \<in> set (nodes s)"
  shows "nodes (handleUpdateNode (node_id n) p s) =
           map (\<lambda>m. if m = n then apply_node_patch p n else m) (nodes s)"
  unfolding handleUpdateNode_def
  using unique_node_eq [OF assms] by (auto intro: map_cong)

lemma find_fresh_snoc:
  "i \<notin> set (node_ids xs) \<Longrightarrow> node_id y = i \<Longrightarrow>
   find (\<lambda>n. i = node_id n) (xs @ [y]) = Some y"
  by (induction xs) auto

lemma selectedNodeData_SomeD:
  "selectedNodeData s = Some n \<Longrightarrow> n \<in> set (nodes s) \<and> selectedNode s = Some (node_id n)"
  by (auto simp: selectedNodeData_def dest: find_Some_iff [THEN iffD1] simp: find_Some_iff nth_mem)

lemma selectedNodeData_None:
  "selectedNodeData s = None \<longleftrightarrow> (\<forall>n \<in> set (nodes s). selectedNode s \<noteq> Some (node_id n))"
  by (auto simp: selectedNodeData_def find_None_iff)

lemma answers_apply_node_patch [simp]:
  "answers (apply_node_patch (no_patch\<lparr>set_answers := Some as\<rparr>) n) = Some as"
  by (simp add: apply_node_patch_def no_patch_def spread_opt_def)

lemma apply_node_patch_answers_twice:
  "apply_node_patch (no_patch\<lparr>set_answers := Some bs\<rparr>)
     (apply_node_patch (no_patch\<lparr>set_answers := Some as\<rparr>) n) =
   apply_node_patch (no_patch\<lparr>set_answers := Some bs\<rparr>) n"
  by (simp add: apply_node_patch_def no_patch_def spread_opt_def)

lemma apply_node_patch_same_answers:
  "answers n = Some as \<Longrightarrow> apply_node_patch (no_patch\<lparr>set_answers := Some as\<rparr>) n = n"
  by (simp add: apply_node_patch_def no_patch_def spread_opt_def)

section \<open>Properties of the handlers\<close>

text \<open>
  C7. Moving a node changes the layout only, and only at the dragged node: with the
  positions forgotten (\<open>flow_node.truncate\<close>) the nodes are the nodes before, and the
  node with the dragged id is at the drop point while every other node keeps its
  position, so the canvas layout is independent of the flow graph, as the spec requires.
\<close>

theorem handleNodeMove_graph_unchanged:
  "map flow_node.truncate (nodes (handleNodeMove nid x y s)) = map flow_node.truncate (nodes s) \<and>
   map (\<lambda>n. (pos_x n, pos_y n)) (nodes (handleNodeMove nid x y s)) =
     map (\<lambda>n. if node_id n = nid then (x, y) else (pos_x n, pos_y n)) (nodes s)"
proof
  show "map flow_node.truncate (nodes (handleNodeMove nid x y s)) = map flow_node.truncate (nodes s)"
    by (induction "nodes s" arbitrary: s) (auto simp: handleNodeMove_def flow_node.truncate_def)
  show "map (\<lambda>n. (pos_x n, pos_y n)) (nodes (handleNodeMove nid x y s)) =
        map (\<lambda>n. if node_id n = nid then (x, y) else (pos_x n, pos_y n)) (nodes s)"
    by (simp add: handleNodeMove_def)
qed

text \<open>
  C8. Adding a node whose generated id is fresh appends it to the canvas and makes it the
  node the properties panel shows.
\<close>

theorem handleNodeAdd_selects_new:
  "''node_'' @ string_of_nat now \<notin> set (node_ids (nodes s)) \<Longrightarrow>
   nodes (handleNodeAdd now t x y s) = nodes s @ [new_canvas_node now t x y] \<and>
   selectedNodeData (handleNodeAdd now t x y s) = Some (new_canvas_node now t x y)"
proof -
  assume h: "''node_'' @ string_of_nat now \<notin> set (node_ids (nodes s))"
  have "find (\<lambda>n. node_id (new_canvas_node now t x y) = node_id n)
          (nodes s @ [new_canvas_node now t x y]) = Some (new_canvas_node now t x y)"
    by (rule find_fresh_snoc) (use h in simp_all)
  then show ?thesis
    by (simp add: selectedNodeData_def handleNodeAdd_def Let_def del: node_id_new_canvas_node)
qed

theorem handleNodeAdd_selects_new_witness:
  "''node_'' @ string_of_nat 7 \<notin> set (node_ids (nodes initial_builder)) \<and>
   nodes (handleNodeAdd 7 Action 10 20 initial_builder) =
     nodes initial_builder @ [new_canvas_node 7 Action 10 20] \<and>
   selectedNodeData (handleNodeAdd 7 Action 10 20 initial_builder) =
     Some (new_canvas_node 7 Action 10 20)"
proof -
  have h: "''node_'' @ string_of_nat 7 \<notin> set (node_ids (nodes initial_builder))"
    by (simp add: initial_builder_def initial_nodes_def)
  show ?thesis using h handleNodeAdd_selects_new [OF h] by blast
qed

text \<open>
  C9. Adding an answer with a fresh id to the node the properties panel shows puts it at
  the end of that node's answers as the panel re-renders it, and deleting that answer
  from the re-rendered node restores the builder state exactly (ids being unique).
\<close>

theorem add_then_delete_answer_roundtrip:
  assumes "distinct (node_ids (nodes s))" "n \<in> set (nodes s)" "selectedNode s = Some (node_id n)"
    and "answers n = Some as" "answer_id (new_answer now) \<notin> set (map answer_id as)"
  shows "\<exists>n1. selectedNodeData (handleAddAnswer now n s) = Some n1 \<and>
              answers n1 = Some (as @ [new_answer now]) \<and>
              handleDeleteAnswer (answer_id (new_answer now)) n1 (handleAddAnswer now n s) = s"
proof -
  let ?p1 = "no_patch\<lparr>set_answers := Some (as @ [new_answer now])\<rparr>"
  let ?n1 = "apply_node_patch ?p1 n"
  let ?s1 = "handleAddAnswer now n s"
  have s1: "nodes ?s1 = map (\<lambda>m. if m = n then ?n1 else m) (nodes s)"
    using assms(1,2,4) by (simp add: handleAddAnswer_def nodes_handleUpdateNode_unique)
  have d1: "distinct (node_ids (nodes ?s1))"
    using assms(1) by (simp add: handleAddAnswer_def)
  have m1: "?n1 \<in> set (nodes ?s1)" using s1 assms(2) by auto
  have id1: "node_id ?n1 = node_id n" by (simp add: no_patch_def apply_node_patch_def)
  have sel: "selectedNodeData ?s1 = Some ?n1"
  proof -
    have "selectedNode ?s1 = Some (node_id n)"
      using assms(3) by (simp add: handleAddAnswer_def handleUpdateNode_def)
    then show ?thesis
      using find_unique_id [OF d1 m1] id1 by (simp add: selectedNodeData_def)
  qed
  have ans: "answers ?n1 = Some (as @ [new_answer now])"
    by (simp add: no_patch_def apply_node_patch_def)
  have filt: "filter (\<lambda>a. answer_id a \<noteq> answer_id (new_answer now)) (as @ [new_answer now]) = as"
    using assms(5) by (induction as) auto
  have "nodes (handleDeleteAnswer (answer_id (new_answer now)) ?n1 ?s1) =
        map (\<lambda>m. if m = ?n1 then apply_node_patch (no_patch\<lparr>set_answers := Some as\<rparr>) ?n1 else m)
          (nodes ?s1)"
    using nodes_handleUpdateNode_unique [OF d1 m1] filt
    by (simp add: handleDeleteAnswer_def id1)
  also have "\<dots> = nodes s"
  proof -
    have "(\<lambda>m. if m = ?n1 then apply_node_patch (no_patch\<lparr>set_answers := Some as\<rparr>) ?n1 else m)
            ((\<lambda>m. if m = n then ?n1 else m) m) = m" if m: "m \<in> set (nodes s)" for m
    proof (cases "m = n")
      case True
      with assms(4) show ?thesis
        by (simp add: apply_node_patch_answers_twice apply_node_patch_same_answers)
    next
      case False
      have "m \<noteq> ?n1"
      proof
        assume "m = ?n1"
        then have "node_id m = node_id n" using id1 by simp
        with False show False using unique_node_eq [OF assms(1,2) m] by blast
      qed
      with False show ?thesis by simp
    qed
    then show ?thesis using s1 by (simp add: map_idI)
  qed
  finally have "handleDeleteAnswer (answer_id (new_answer now)) ?n1 ?s1 = s"
    by (simp add: handleDeleteAnswer_def handleAddAnswer_def handleUpdateNode_def)
  with sel ans show ?thesis by blast
qed


theorem add_then_delete_answer_roundtrip_witness:
  "distinct (node_ids (nodes (handleNodeSelect ''location'' initial_builder))) \<and>
   initial_nodes ! 1 \<in> set (nodes (handleNodeSelect ''location'' initial_builder)) \<and>
   selectedNode (handleNodeSelect ''location'' initial_builder) = Some (node_id (initial_nodes ! 1)) \<and>
   answers (initial_nodes ! 1) = Some [] \<and>
   answer_id (new_answer 3) \<notin> set (map answer_id []) \<and>
   (\<exists>n1. selectedNodeData (handleAddAnswer 3 (initial_nodes ! 1) (handleNodeSelect ''location'' initial_builder)) = Some n1 \<and>
     answers n1 = Some ([] @ [new_answer 3]) \<and>
     handleDeleteAnswer (answer_id (new_answer 3)) n1
       (handleAddAnswer 3 (initial_nodes ! 1) (handleNodeSelect ''location'' initial_builder)) =
     handleNodeSelect ''location'' initial_builder)"
proof -
  have h1: "distinct (node_ids (nodes (handleNodeSelect ''location'' initial_builder)))"
    by (simp add: handleNodeSelect_def initial_builder_def initial_nodes_def)
  have h2: "initial_nodes ! 1 \<in> set (nodes (handleNodeSelect ''location'' initial_builder))"
    by (simp add: handleNodeSelect_def initial_builder_def initial_nodes_def)
  have h3: "selectedNode (handleNodeSelect ''location'' initial_builder) = Some (node_id (initial_nodes ! 1))"
    by (simp add: handleNodeSelect_def initial_nodes_def)
  have h4: "answers (initial_nodes ! 1) = Some []"
    by (simp add: initial_nodes_def)
  have h5: "answer_id (new_answer 3) \<notin> set (map answer_id [])" by simp
  show ?thesis
    using h1 h2 h3 h4 h5 add_then_delete_answer_roundtrip [OF h1 h2 h3 h4 h5] by blast
qed

end
