(* ===== verification/Flow_Canvas.thy ===== *)
theory Flow_Canvas
  imports Flow_Builder
begin

text \<open>
  The canvas side of \<open>ConversationalFlowBuilder.tsx\<close>: what a drop on the canvas does
  (\<open>FlowCanvas\<close>'s \<open>useDrop\<close> handler, lines 191--210), which connections the canvas
  draws (lines 246--271), and what a node card shows (\<open>FlowNodeComponent\<close>, lines
  74--141). The drag-and-drop library is an event source: a drop delivers the dragged
  item, the pointer offset and the canvas rectangle, each of which may be missing.
\<close>

section \<open>Drops\<close>

text \<open>
  The two kinds of drag item: an existing node (\<open>{ id, x, y }\<close>, from \<open>useDrag\<close> in
  \<open>FlowNodeComponent\<close>) and a palette entry (\<open>{ nodeType }\<close>, from \<open>PaletteItem\<close>).
\<close>

datatype drag_item = NodeDrag string int int | PaletteDrag node_type

record client_offset =
  off_x :: int
  off_y :: int

record canvas_rect =
  rect_left :: int
  rect_top :: int

text \<open>
  The drop handler: nothing happens unless both the pointer offset and the canvas
  rectangle are known; the node is centred by \<open>(-96, -50)\<close>.
\<close>

definition canvas_drop ::
  "nat \<Rightarrow> drag_item \<Rightarrow> client_offset option \<Rightarrow> canvas_rect option \<Rightarrow> builder_state \<Rightarrow> builder_state" where
  "canvas_drop now item co cr s =
     (case (co, cr) of
        (Some c, Some r) \<Rightarrow>
          (let x = off_x c - rect_left r; y = off_y c - rect_top r
           in (case item of
                 PaletteDrag t \<Rightarrow> handleNodeAdd now t (x - 96) (y - 50) s
               | NodeDrag nid _ _ \<Rightarrow> handleNodeMove nid (x - 96) (y - 50) s))
      | _ \<Rightarrow> s)"

section \<open>Connections\<close>

text \<open>
  One drawn arrow per answer whose link is set (JavaScript truthiness, \<open>js_link\<close>) and
  whose target is found among the nodes: from the right edge of the source card
  (\<open>x + 192\<close>, \<open>y + 60\<close>) to the left edge of the target card (\<open>x\<close>, \<open>y + 60\<close>); the
  quadratic curve's control point \<open>((startX + endX) / 2, startY)\<close> is determined by these.
  The key is \<open>`${node.node_id}-${answer.answer_id}`\<close>.
\<close>

record connection_path =
  conn_key :: string
  conn_from :: string
  conn_to :: string
  start_x :: int
  start_y :: int
  end_x :: int
  end_y :: int

definition answer_connection ::
  "canvas_node list \<Rightarrow> canvas_node \<Rightarrow> flow_answer \<Rightarrow> connection_path option" where
  "answer_connection ns n a =
     (case js_link (next_node_id a) of
        None \<Rightarrow> None
      | Some t \<Rightarrow>
          (case find (\<lambda>m. node_id m = t) ns of
             None \<Rightarrow> None
           | Some tn \<Rightarrow> Some
               \<lparr>conn_key = node_id n @ ''-'' @ answer_id a, conn_from = node_id n,
                conn_to = node_id tn,
                start_x = pos_x n + 192, start_y = pos_y n + 60,
                end_x = pos_x tn, end_y = pos_y tn + 60\<rparr>))"

definition render_connections :: "canvas_node list \<Rightarrow> connection_path list" where
  "render_connections ns =
     concat (map (\<lambda>n. List.map_filter (answer_connection ns n) (opt_or (answers n) [])) ns)"

section \<open>Node cards\<close>

datatype node_icon = MessageSquare | Play | Square

fun getNodeIcon :: "node_type \<Rightarrow> node_icon" where
  "getNodeIcon Question = MessageSquare"
| "getNodeIcon Action = Play"
| "getNodeIcon End = Square"

fun getNodeColor :: "node_type \<Rightarrow> string" where
  "getNodeColor Question = ''bg-blue-500''"
| "getNodeColor Action = ''bg-green-500''"
| "getNodeColor End = ''bg-red-500''"

text \<open>\<open>{node.question || node.node_id}\<close>: an empty question falls back to the id.\<close>

definition node_card_title :: "'a flow_node_scheme \<Rightarrow> string" where
  "node_card_title n =
     (case question n of Some q \<Rightarrow> if q = [] then node_id n else q | None \<Rightarrow> node_id n)"

text \<open>The answer count line, shown only when the node has at least one answer.\<close>

definition node_card_answers :: "'a flow_node_scheme \<Rightarrow> string option" where
  "node_card_answers n =
     (case answers n of
        Some as \<Rightarrow>
          if as \<noteq> [] then
            Some (string_of_nat (length as) @ '' answer'' @ (if length as \<noteq> 1 then ''s'' else []))
          else None
      | None \<Rightarrow> None)"

section \<open>Lemmas\<close>

lemma canvas_drop_palette [simp]:
  "canvas_drop now (PaletteDrag t) (Some c) (Some r) s =
     handleNodeAdd now t (off_x c - rect_left r - 96) (off_y c - rect_top r - 50) s"
  by (simp add: canvas_drop_def Let_def)

lemma canvas_drop_node [simp]:
  "canvas_drop now (NodeDrag nid a b) (Some c) (Some r) s =
     handleNodeMove nid (off_x c - rect_left r - 96) (off_y c - rect_top r - 50) s"
  by (simp add: canvas_drop_def Let_def)

lemma canvas_drop_missing [simp]:
  "canvas_drop now item None cr s = s"
  "canvas_drop now item co None s = s"
  by (simp_all add: canvas_drop_def split: option.splits)

lemma answer_connection_SomeD:
  assumes "answer_connection ns n a = Some c"
  shows "\<exists>t tn. js_link (next_node_id a) = Some t \<and> tn \<in> set ns \<and> node_id tn = t \<and>
           conn_to c = t \<and> conn_from c = node_id n"
  using assms
  by (auto simp: answer_connection_def split: option.splits dest!: find_Some_iff [THEN iffD1])
     (metis nth_mem)

lemma answer_connection_found:
  assumes "js_link (next_node_id a) = Some t" "t \<in> set (node_ids ns)"
  shows "\<exists>c. answer_connection ns n a = Some c \<and> conn_to c = t"
proof -
  from assms(2) obtain m where "m \<in> set ns" "node_id m = t"
    by (auto simp: node_ids_def)
  then obtain tn where "find (\<lambda>m. node_id m = t) ns = Some tn"
    by (metis (mono_tags) find_None_iff not_Some_eq)
  then have "node_id tn = t" by (auto simp: find_Some_iff)
  with assms(1) \<open>find _ ns = Some tn\<close> show ?thesis
    by (simp add: answer_connection_def)
qed

lemma set_render_connections:
  "c \<in> set (render_connections ns) \<longleftrightarrow>
     (\<exists>n \<in> set ns. \<exists>a \<in> set (opt_or (answers n) []). answer_connection ns n a = Some c)"
  by (auto simp: render_connections_def in_set_map_filter)

lemma answer_connection_exists_iff:
  "(\<exists>c. answer_connection ns n a = Some c) \<longleftrightarrow>
     (\<exists>t. js_link (next_node_id a) = Some t \<and> t \<in> set (node_ids ns))"
  using answer_connection_SomeD answer_connection_found by (fastforce simp: set_node_ids)

lemma length_map_filter_filter:
  "length (List.map_filter f xs) = length (filter (\<lambda>x. f x \<noteq> None) xs)"
  by (simp add: List.map_filter_def)

section \<open>Properties of the drawn connections\<close>

text \<open>
  C10. Every arrow the canvas draws joins two nodes that are on the canvas: an answer
  whose link names no node draws nothing.
\<close>

theorem render_connections_targets_exist:
  "c \<in> set (render_connections ns) \<Longrightarrow>
   conn_from c \<in> set (node_ids ns) \<and> conn_to c \<in> set (node_ids ns)"
  by (auto simp: set_render_connections set_node_ids dest!: answer_connection_SomeD)

theorem render_connections_targets_exist_witness:
  "hd (render_connections initial_nodes) \<in> set (render_connections initial_nodes) \<and>
   conn_from (hd (render_connections initial_nodes)) \<in> set (node_ids initial_nodes) \<and>
   conn_to (hd (render_connections initial_nodes)) \<in> set (node_ids initial_nodes)"
proof -
  have h: "hd (render_connections initial_nodes) \<in> set (render_connections initial_nodes)"
    by (simp add: render_connections_def answer_connection_def initial_nodes_def js_link_def)
  show ?thesis using h render_connections_targets_exist [OF h] by blast
qed

text \<open>
  C11. Conversely, every answer whose link names a node on the canvas is drawn as an
  arrow from its node to that node.
\<close>

theorem render_connections_complete:
  assumes "n \<in> set ns" "a \<in> set (answers_of n)"
    and "js_link (next_node_id a) = Some t" "t \<in> set (node_ids ns)"
  shows "\<exists>c \<in> set (render_connections ns). conn_from c = node_id n \<and> conn_to c = t"
proof -
  obtain c where c: "answer_connection ns n a = Some c" "conn_to c = t"
    using answer_connection_found [OF assms(3,4)] by blast
  then have "conn_from c = node_id n"
    using answer_connection_SomeD by blast
  moreover have "c \<in> set (render_connections ns)"
    using assms(1,2) c(1) by (auto simp: set_render_connections answers_of_def)
  ultimately show ?thesis using c(2) by blast
qed

theorem render_connections_complete_witness:
  "initial_nodes ! 0 \<in> set initial_nodes \<and>
   hd (answers_of (initial_nodes ! 0)) \<in> set (answers_of (initial_nodes ! 0)) \<and>
   js_link (next_node_id (hd (answers_of (initial_nodes ! 0)))) = Some ''location'' \<and>
   ''location'' \<in> set (node_ids initial_nodes) \<and>
   (\<exists>c \<in> set (render_connections initial_nodes).
      conn_from c = node_id (initial_nodes ! 0) \<and> conn_to c = ''location'')"
proof -
  have h1: "initial_nodes ! 0 \<in> set initial_nodes" by (simp add: initial_nodes_def)
  have h2: "hd (answers_of (initial_nodes ! 0)) \<in> set (answers_of (initial_nodes ! 0))"
    by (simp add: initial_nodes_def answers_of_def)
  have h3: "js_link (next_node_id (hd (answers_of (initial_nodes ! 0)))) = Some ''location''"
    by (simp add: initial_nodes_def answers_of_def js_link_def)
  have h4: "''location'' \<in> set (node_ids initial_nodes)" by (simp add: initial_nodes_def)
  show ?thesis using h1 h2 h3 h4 render_connections_complete [OF h1 h2 h3 h4] by blast
qed

text \<open>
  C12. The canvas draws exactly one arrow per answer whose link resolves to a node on
  the canvas: dangling and empty links are silently skipped rather than reported.
\<close>

theorem render_connections_count:
  "length (render_connections ns) =
   length (concat (map (\<lambda>n. filter (\<lambda>a. \<exists>t. js_link (next_node_id a) = Some t \<and>
                                        t \<in> set (node_ids ns)) (answers_of n)) ns))"
  by (simp add: render_connections_def length_concat length_map_filter_filter
      answer_connection_exists_iff answers_of_def comp_def)

end
