(* ===== verification/Flow_Session.thy ===== *)
theory Flow_Session
  imports Flow_Canvas
begin

text \<open>
  An editing session of the flow builder as a state machine. The user's gestures are the
  events: a click on a node card or on its delete button (\<open>FlowNodeComponent\<close>), a drop
  on the canvas, and the edits of the properties panel. \<open>builder_step\<close> dispatches an
  event to the handler the component wires it to; \<open>event_enabled\<close> says when the UI can
  deliver it (a card can be clicked only while it is rendered; the panel's controls exist
  only while a node is selected, and its answer controls only for a question node and its
  rendered answers).
  Each event happens at a time \<open>Date.now()\<close>; \<open>builder_reach clk t s\<close> says that \<open>s\<close>
  is reached at time \<open>t\<close> by events whose successive times are related by \<open>clk\<close>.
  \<open>Date.now()\<close> has millisecond resolution and does not decrease, which is
  \<open>clk = (\<le>)\<close>; \<open>clk = (<)\<close> is the environment in which no two events share a
  millisecond.
\<close>

section \<open>Events and steps\<close>

datatype builder_event =
    ClickNode string
  | DeleteClick string
  | DropItem drag_item "client_offset option" "canvas_rect option"
  | EditQuestion string
  | AddAnswerClick
  | EditAnswerText string string
  | EditAnswerValue string string
  | DeleteAnswerClick string

text \<open>The panel's answer controls exist for the rendered answers of a question node.\<close>

definition panel_answer_ok :: "builder_state \<Rightarrow> string \<Rightarrow> bool" where
  "panel_answer_ok s aid =
     (case selectedNodeData s of
        Some n \<Rightarrow> ntype n = Question \<and> aid \<in> set (map answer_id (answers_of n))
      | None \<Rightarrow> False)"

definition panel_question_ok :: "builder_state \<Rightarrow> bool" where
  "panel_question_ok s =
     (case selectedNodeData s of Some n \<Rightarrow> ntype n = Question | None \<Rightarrow> False)"

fun event_enabled :: "builder_event \<Rightarrow> builder_state \<Rightarrow> bool" where
  "event_enabled (ClickNode nid) s = (nid \<in> set (node_ids (nodes s)))"
| "event_enabled (DeleteClick nid) s = (nid \<in> set (node_ids (nodes s)))"
| "event_enabled (DropItem (NodeDrag nid _ _) _ _) s = (nid \<in> set (node_ids (nodes s)))"
| "event_enabled (DropItem (PaletteDrag _) _ _) s = True"
| "event_enabled (EditQuestion _) s = panel_question_ok s"
| "event_enabled AddAnswerClick s = panel_question_ok s"
| "event_enabled (EditAnswerText aid _) s = panel_answer_ok s aid"
| "event_enabled (EditAnswerValue aid _) s = panel_answer_ok s aid"
| "event_enabled (DeleteAnswerClick aid) s = panel_answer_ok s aid"

text \<open>A panel event acts on the node the panel renders.\<close>

definition with_panel_node ::
  "(canvas_node \<Rightarrow> builder_state \<Rightarrow> builder_state) \<Rightarrow> builder_state \<Rightarrow> builder_state" where
  "with_panel_node f s = (case selectedNodeData s of Some n \<Rightarrow> f n s | None \<Rightarrow> s)"

fun builder_step :: "nat \<Rightarrow> builder_event \<Rightarrow> builder_state \<Rightarrow> builder_state" where
  "builder_step now (ClickNode nid) s = handleNodeSelect nid s"
| "builder_step now (DeleteClick nid) s = handleNodeDelete nid s"
| "builder_step now (DropItem item co cr) s = canvas_drop now item co cr s"
| "builder_step now (EditQuestion v) s = with_panel_node (\<lambda>n. handleQuestionChange n v) s"
| "builder_step now AddAnswerClick s = with_panel_node (handleAddAnswer now) s"
| "builder_step now (EditAnswerText aid v) s =
     with_panel_node (handleUpdateAnswer aid (no_answer_patch\<lparr>set_answer_text := Some v\<rparr>)) s"
| "builder_step now (EditAnswerValue aid v) s =
     with_panel_node (handleUpdateAnswer aid (no_answer_patch\<lparr>set_answer_value := Some v\<rparr>)) s"
| "builder_step now (DeleteAnswerClick aid) s = with_panel_node (handleDeleteAnswer aid) s"

inductive builder_reach :: "(nat \<Rightarrow> nat \<Rightarrow> bool) \<Rightarrow> nat \<Rightarrow> builder_state \<Rightarrow> bool"
  for clk :: "nat \<Rightarrow> nat \<Rightarrow> bool" where
  init: "builder_reach clk 0 initial_builder"
| step: "builder_reach clk t s \<Longrightarrow> clk t t' \<Longrightarrow> event_enabled e s \<Longrightarrow>
           builder_reach clk t' (builder_step t' e s)"

section \<open>Invariants\<close>

text \<open>The selected id, if any, names a node on the canvas.\<close>

definition selection_ok :: "builder_state \<Rightarrow> bool" where
  "selection_ok s =
     (case selectedNode s of None \<Rightarrow> True | Some i \<Rightarrow> i \<in> set (node_ids (nodes s)))"

text \<open>
  Every generated id (\<open>node_k\<close>, \<open>answer_k\<close>) carries a time no later than \<open>t\<close>.
\<close>

definition stamped_before :: "string \<Rightarrow> nat \<Rightarrow> string \<Rightarrow> bool" where
  "stamped_before pre t i = (\<forall>k. i = pre @ string_of_nat k \<longrightarrow> k \<le> t)"

definition node_ids_ok :: "nat \<Rightarrow> builder_state \<Rightarrow> bool" where
  "node_ids_ok t s =
     (distinct (node_ids (nodes s)) \<and>
      (\<forall>i \<in> set (node_ids (nodes s)). stamped_before ''node_'' t i))"

definition answers_ok :: "nat \<Rightarrow> flow_answer list \<Rightarrow> bool" where
  "answers_ok t as =
     (let ids = map answer_id as in
        distinct ids \<and> (\<forall>i \<in> set ids. stamped_before ''answer_'' t i))"

definition answer_ids_ok :: "nat \<Rightarrow> builder_state \<Rightarrow> bool" where
  "answer_ids_ok t s = (\<forall>n \<in> set (nodes s). answers_ok t (answers_of n))"

text \<open>
  The node ids after one step: a delete filters them, a palette drop with a known
  position appends \<open>node_now\<close>, every other event keeps them.
\<close>

definition step_ids :: "nat \<Rightarrow> builder_event \<Rightarrow> string list \<Rightarrow> string list" where
  "step_ids now e ids =
     (case e of
        DeleteClick nid \<Rightarrow> filter (\<lambda>i. i \<noteq> nid) ids
      | DropItem (PaletteDrag _) (Some _) (Some _) \<Rightarrow> ids @ [''node_'' @ string_of_nat now]
      | _ \<Rightarrow> ids)"

section \<open>What a step does to the ids and the selection\<close>

lemma panel_handler_ids [simp]:
  "node_ids (nodes (handleQuestionChange n v s)) = node_ids (nodes s)"
  "node_ids (nodes (handleAddAnswer now n s)) = node_ids (nodes s)"
  "node_ids (nodes (handleUpdateAnswer aid p n s)) = node_ids (nodes s)"
  "node_ids (nodes (handleDeleteAnswer aid n s)) = node_ids (nodes s)"
  by (simp_all add: handleQuestionChange_def handleAddAnswer_def handleUpdateAnswer_def
      handleDeleteAnswer_def)

lemma panel_handler_selected [simp]:
  "selectedNode (handleQuestionChange n v s) = selectedNode s"
  "selectedNode (handleAddAnswer now n s) = selectedNode s"
  "selectedNode (handleUpdateAnswer aid p n s) = selectedNode s"
  "selectedNode (handleDeleteAnswer aid n s) = selectedNode s"
  by (simp_all add: handleQuestionChange_def handleAddAnswer_def handleUpdateAnswer_def
      handleDeleteAnswer_def)

lemma with_panel_node_cases:
  "with_panel_node f s = s \<or> (\<exists>n. selectedNodeData s = Some n \<and> with_panel_node f s = f n s)"
  by (auto simp: with_panel_node_def split: option.splits)

lemma with_panel_node_ids:
  "(\<And>n. node_ids (nodes (f n s)) = node_ids (nodes s)) \<Longrightarrow>
   node_ids (nodes (with_panel_node f s)) = node_ids (nodes s)"
  by (simp add: with_panel_node_def split: option.splits)

lemma with_panel_node_selected:
  "(\<And>n. selectedNode (f n s) = selectedNode s) \<Longrightarrow>
   selectedNode (with_panel_node f s) = selectedNode s"
  by (simp add: with_panel_node_def split: option.splits)

lemma node_ids_builder_step:
  "node_ids (nodes (builder_step now e s)) = step_ids now e (node_ids (nodes s))"
proof (cases e)
  case (DeleteClick nid)
  then show ?thesis by (simp add: step_ids_def node_ids_def filter_map comp_def)
next
  case (DropItem item co cr)
  then show ?thesis
    by (cases item; cases co; cases cr) (simp_all add: step_ids_def)
qed (simp_all add: step_ids_def with_panel_node_ids)

lemma selectedNode_builder_step:
  "selectedNode (builder_step now e s) =
     (case e of
        ClickNode nid \<Rightarrow> Some nid
      | DeleteClick nid \<Rightarrow> (if selectedNode s = Some nid then None else selectedNode s)
      | DropItem (PaletteDrag _) (Some _) (Some _) \<Rightarrow> Some (''node_'' @ string_of_nat now)
      | _ \<Rightarrow> selectedNode s)"
proof (cases e)
  case (ClickNode nid)
  then show ?thesis by (simp add: handleNodeSelect_def)
next
  case (DropItem item co cr)
  then show ?thesis by (cases item; cases co; cases cr) simp_all
qed (simp_all add: with_panel_node_selected)

lemma stamped_before_mono: "stamped_before pre t i \<Longrightarrow> t \<le> t' \<Longrightarrow> stamped_before pre t' i"
  by (auto simp: stamped_before_def)

lemma stamped_before_self [simp]: "stamped_before pre t (pre @ string_of_nat t)"
  by (simp add: stamped_before_def)

lemma stamped_before_fresh:
  "stamped_before pre t (pre @ string_of_nat t') \<Longrightarrow> t < t' \<Longrightarrow> False"
  by (auto simp: stamped_before_def)

lemma initial_builder_ids: "node_ids (nodes initial_builder) = [''start'', ''location'']"
  by (simp add: initial_builder_def initial_nodes_def)

section \<open>Answer ids\<close>

lemma answers_ok_mono: "answers_ok t as \<Longrightarrow> t \<le> t' \<Longrightarrow> answers_ok t' as"
  by (auto simp: answers_ok_def Let_def intro: stamped_before_mono)

lemma answer_id_new_answer: "answer_id (new_answer now) = ''answer_'' @ string_of_nat now"
  by (simp add: new_answer_def)

lemma answers_ok_snoc_new:
  assumes ok: "answers_ok t as" and lt: "t < t'"
  shows "answers_ok t' (as @ [new_answer t'])"
proof -
  have st: "\<forall>a \<in> set as. stamped_before ''answer_'' t (answer_id a)"
    and d: "distinct (map answer_id as)"
    using ok by (simp_all add: answers_ok_def Let_def)
  have notin: "answer_id (new_answer t') \<notin> set (map answer_id as)"
  proof
    assume "answer_id (new_answer t') \<in> set (map answer_id as)"
    then obtain a where a: "a \<in> set as" and eq: "answer_id a = answer_id (new_answer t')"
      by (auto simp only: set_map image_iff)
    from st a have "stamped_before ''answer_'' t (answer_id a)" by blast
    with eq have "stamped_before ''answer_'' t (''answer_'' @ string_of_nat t')"
      by (simp only: answer_id_new_answer)
    then show False using lt by (rule stamped_before_fresh)
  qed
  have "stamped_before ''answer_'' t' (answer_id (new_answer t'))"
    by (simp only: answer_id_new_answer stamped_before_self)
  moreover have "\<forall>a \<in> set as. stamped_before ''answer_'' t' (answer_id a)"
    using st lt by (blast intro: stamped_before_mono less_imp_le)
  ultimately show ?thesis
    using d notin unfolding answers_ok_def Let_def by simp
qed

lemma answers_ok_map_patch:
  assumes "set_answer_id p = None" "answers_ok t as"
  shows "answers_ok t (map (\<lambda>a. if answer_id a = aid then apply_answer_patch p a else a) as)"
proof -
  let ?bs = "map (\<lambda>a. if answer_id a = aid then apply_answer_patch p a else a) as"
  have keep: "\<And>a. answer_id (apply_answer_patch p a) = answer_id a"
    using assms(1) by (simp add: apply_answer_patch_def)
  have ids: "map answer_id ?bs = map answer_id as"
    by (induction as) (simp_all add: keep)
  from assms(2) show ?thesis
    unfolding answers_ok_def Let_def ids by blast
qed

lemma answers_ok_filter: "answers_ok t as \<Longrightarrow> answers_ok t (filter P as)"
  by (auto simp: answers_ok_def Let_def distinct_map_filter)

lemma answers_ok_Nil [simp]: "answers_ok t []"
  by (simp add: answers_ok_def)

lemma nodes_answers_update:
  assumes "m \<in> set (nodes (handleUpdateNode nid (no_patch\<lparr>set_answers := Some as\<rparr>) s))"
  shows "m \<in> set (nodes s) \<or> answers_of m = as"
  using assms by (auto simp: handleUpdateNode_def answers_of_def)

lemma nodes_question_update:
  assumes "m \<in> set (nodes (handleQuestionChange n v s))"
  shows "\<exists>m0 \<in> set (nodes s). answers_of m = answers_of m0"
  using assms
  by (auto simp: handleQuestionChange_def handleUpdateNode_def answers_of_def
      apply_node_patch_def no_patch_def)

lemma nodes_move_answers:
  assumes "m \<in> set (nodes (handleNodeMove nid x y s))"
  shows "\<exists>m0 \<in> set (nodes s). answers_of m = answers_of m0"
  using assms by (auto simp: handleNodeMove_def answers_of_def)

lemma answers_of_new_canvas_node [simp]: "answers_of (new_canvas_node now t x y) = []"
  by (simp add: new_canvas_node_def answers_of_def)

lemma answer_ids_ok_panel:
  assumes inv: "answer_ids_ok t s" and lt: "t < t'"
    and new: "\<And>n. n \<in> set (nodes s) \<Longrightarrow> answers_ok t (answers_of n) \<Longrightarrow>
                  \<forall>m \<in> set (nodes (f n s)). m \<in> set (nodes s) \<or> answers_ok t' (answers_of m)"
  shows "answer_ids_ok t' (with_panel_node f s)"
proof (cases "selectedNodeData s")
  case None
  with inv lt show ?thesis
    by (auto simp: with_panel_node_def answer_ids_ok_def intro: answers_ok_mono)
next
  case (Some n)
  then have n: "n \<in> set (nodes s)" by (simp add: selectedNodeData_SomeD)
  with inv have "answers_ok t (answers_of n)" by (simp add: answer_ids_ok_def)
  with new [OF n] inv lt Some show ?thesis
    by (fastforce simp: with_panel_node_def answer_ids_ok_def intro: answers_ok_mono less_imp_le)
qed


section \<open>The invariants hold in every reachable state\<close>

lemma nodes_add_answer:
  "m \<in> set (nodes (handleAddAnswer now n s)) \<Longrightarrow>
   m \<in> set (nodes s) \<or> answers_of m = answers_of n @ [new_answer now]"
  unfolding handleAddAnswer_def by (drule nodes_answers_update) (simp add: answers_of_def)

lemma nodes_update_answer:
  "m \<in> set (nodes (handleUpdateAnswer aid p n s)) \<Longrightarrow>
   m \<in> set (nodes s) \<or>
   answers_of m = map (\<lambda>a. if answer_id a = aid then apply_answer_patch p a else a) (answers_of n)"
  unfolding handleUpdateAnswer_def
  by (drule nodes_answers_update) (auto simp: answers_of_def split: option.splits)

lemma nodes_delete_answer:
  "m \<in> set (nodes (handleDeleteAnswer aid n s)) \<Longrightarrow>
   m \<in> set (nodes s) \<or> answers_of m = filter (\<lambda>a. answer_id a \<noteq> aid) (answers_of n)"
  unfolding handleDeleteAnswer_def
  by (drule nodes_answers_update) (auto simp: answers_of_def split: option.splits)

lemma answer_patch_ids [simp]:
  "set_answer_id (no_answer_patch\<lparr>set_answer_text := Some v\<rparr>) = None"
  "set_answer_id (no_answer_patch\<lparr>set_answer_value := Some v\<rparr>) = None"
  by (simp_all add: no_answer_patch_def)

lemma answer_ids_ok_step:
  assumes inv: "answer_ids_ok t s" and lt: "t < t'"
  shows "answer_ids_ok t' (builder_step t' e s)"
proof -
  have old: "answers_ok t' (answers_of m)" if "m \<in> set (nodes s)" for m
    using inv that lt by (auto simp: answer_ids_ok_def intro: answers_ok_mono)
  show ?thesis
  proof (cases e)
    case (ClickNode nid)
    with old show ?thesis by (simp add: answer_ids_ok_def handleNodeSelect_def)
  next
    case (DeleteClick nid)
    with old show ?thesis by (simp add: answer_ids_ok_def)
  next
    case (DropItem item co cr)
    with old show ?thesis
      by (cases item; cases co; cases cr)
         (auto simp: answer_ids_ok_def dest!: nodes_move_answers)
  next
    case (EditQuestion v)
    have "\<forall>m \<in> set (nodes (handleQuestionChange n v s)). m \<in> set (nodes s) \<or>
            answers_ok t' (answers_of m)" for n
      using old by (fastforce dest: nodes_question_update)
    with EditQuestion inv lt show ?thesis by (auto intro: answer_ids_ok_panel)
  next
    case AddAnswerClick
    have "\<forall>m \<in> set (nodes (handleAddAnswer t' n s)). m \<in> set (nodes s) \<or>
            answers_ok t' (answers_of m)" if "answers_ok t (answers_of n)" for n
      using that lt answers_ok_snoc_new [OF that lt] by (auto dest!: nodes_add_answer)
    with AddAnswerClick inv lt show ?thesis by (auto intro: answer_ids_ok_panel)
  next
    case (EditAnswerText aid v)
    have "\<forall>m \<in> set (nodes (handleUpdateAnswer aid (no_answer_patch\<lparr>set_answer_text := Some v\<rparr>) n s)).
            m \<in> set (nodes s) \<or> answers_ok t' (answers_of m)" if "answers_ok t (answers_of n)" for n
      using answers_ok_map_patch [OF _ answers_ok_mono [OF that less_imp_le [OF lt]]]
      by (auto dest!: nodes_update_answer)
    with EditAnswerText inv lt show ?thesis by (auto intro: answer_ids_ok_panel)
  next
    case (EditAnswerValue aid v)
    have "\<forall>m \<in> set (nodes (handleUpdateAnswer aid (no_answer_patch\<lparr>set_answer_value := Some v\<rparr>) n s)).
            m \<in> set (nodes s) \<or> answers_ok t' (answers_of m)" if "answers_ok t (answers_of n)" for n
      using answers_ok_map_patch [OF _ answers_ok_mono [OF that less_imp_le [OF lt]]]
      by (auto dest!: nodes_update_answer)
    with EditAnswerValue inv lt show ?thesis by (auto intro: answer_ids_ok_panel)
  next
    case (DeleteAnswerClick aid)
    have "\<forall>m \<in> set (nodes (handleDeleteAnswer aid n s)).
            m \<in> set (nodes s) \<or> answers_ok t' (answers_of m)" if "answers_ok t (answers_of n)" for n
      using answers_ok_filter [OF answers_ok_mono [OF that less_imp_le [OF lt]]]
      by (auto dest!: nodes_delete_answer)
    with DeleteAnswerClick inv lt show ?thesis by (auto intro: answer_ids_ok_panel)
  qed
qed

lemma answer_ids_ok_initial: "answer_ids_ok 0 initial_builder"
  by (simp add: answer_ids_ok_def answers_ok_def initial_builder_def initial_nodes_def
      answers_of_def stamped_before_def)

lemma builder_reach_answer_ids_ok: "builder_reach (<) t s \<Longrightarrow> answer_ids_ok t s"
proof (induction rule: builder_reach.induct)
  case init
  show ?case by (rule answer_ids_ok_initial)
next
  case (step t s t' e)
  then show ?case by (blast intro: answer_ids_ok_step)
qed


lemma selection_ok_step:
  assumes "selection_ok s" "event_enabled e s"
  shows "selection_ok (builder_step now e s)"
  unfolding selection_ok_def node_ids_builder_step selectedNode_builder_step
  using assms
  by (cases e) (auto simp: selection_ok_def step_ids_def split: option.splits drag_item.splits)

lemma node_ids_ok_step:
  assumes inv: "node_ids_ok t s" and lt: "t < t'"
  shows "node_ids_ok t' (builder_step t' e s)"
proof -
  let ?ids = "node_ids (nodes s)"
  have mono: "\<forall>i \<in> set ?ids. stamped_before ''node_'' t' i"
    using inv lt by (auto simp: node_ids_ok_def intro: stamped_before_mono)
  have fresh: "''node_'' @ string_of_nat t' \<notin> set ?ids"
    using inv lt by (auto simp: node_ids_ok_def dest: stamped_before_fresh)
  have dist: "distinct ?ids" using inv by (simp add: node_ids_ok_def)
  show ?thesis
  proof (cases "step_ids t' e ?ids = ?ids @ [''node_'' @ string_of_nat t']")
    case True
    with mono fresh dist show ?thesis
      by (simp add: node_ids_ok_def node_ids_builder_step stamped_before_def)
  next
    case False
    then have "set (step_ids t' e ?ids) \<subseteq> set ?ids \<and> distinct (step_ids t' e ?ids)"
      using dist
      by (auto simp: step_ids_def split: builder_event.splits drag_item.splits option.splits)
    with mono show ?thesis
      by (auto simp: node_ids_ok_def node_ids_builder_step)
  qed
qed

lemma node_ids_ok_initial: "node_ids_ok 0 initial_builder"
  by (simp add: node_ids_ok_def initial_builder_ids stamped_before_def)

lemma builder_reach_node_ids_ok: "builder_reach (<) t s \<Longrightarrow> node_ids_ok t s"
proof (induction rule: builder_reach.induct)
  case init
  show ?case by (rule node_ids_ok_initial)
next
  case (step t s t' e)
  then show ?case by (blast intro: node_ids_ok_step)
qed

lemma builder_reach_selection_inv: "builder_reach clk t s \<Longrightarrow> selection_ok s"
proof (induction rule: builder_reach.induct)
  case init
  show ?case by (simp add: selection_ok_def initial_builder_def)
next
  case (step t s t' e)
  then show ?case by (blast intro: selection_ok_step)
qed

section \<open>Properties of editing sessions\<close>

text \<open>
  C1. In a session where no two events share a millisecond, no two nodes on the canvas
  ever have the same id: the ids \<open>handleNodeAdd\<close> generates from \<open>Date.now()\<close> are
  fresh, and no handler changes an id.
\<close>

theorem builder_reach_node_ids_distinct:
  "builder_reach (<) t s \<Longrightarrow> distinct (node_ids (nodes s))"
  using builder_reach_node_ids_ok by (simp add: node_ids_ok_def)

theorem builder_reach_node_ids_distinct_witness:
  "builder_reach (<) 1
     (builder_step 1 (DropItem (PaletteDrag Question) (Some \<lparr>off_x = 300, off_y = 250\<rparr>)
        (Some \<lparr>rect_left = 0, rect_top = 0\<rparr>)) initial_builder) \<and>
   distinct (node_ids (nodes
     (builder_step 1 (DropItem (PaletteDrag Question) (Some \<lparr>off_x = 300, off_y = 250\<rparr>)
        (Some \<lparr>rect_left = 0, rect_top = 0\<rparr>)) initial_builder)))"
proof -
  have r: "builder_reach (<) 1
     (builder_step 1 (DropItem (PaletteDrag Question) (Some \<lparr>off_x = 300, off_y = 250\<rparr>)
        (Some \<lparr>rect_left = 0, rect_top = 0\<rparr>)) initial_builder)"
    by (rule builder_reach.step [OF builder_reach.init]) simp_all
  show ?thesis using r builder_reach_node_ids_distinct [OF r] by blast
qed

text \<open>
  C2. In such a session the answers of every node have pairwise different ids (the
  spec's invariant (c)): \<open>handleAddAnswer\<close> names a new answer \<open>answer_${Date.now()}\<close>,
  the panel's edits keep ids, and deletion only removes answers.
\<close>

theorem builder_reach_answer_ids_distinct:
  "builder_reach (<) t s \<Longrightarrow> answer_ids_distinct (nodes s)"
  using builder_reach_answer_ids_ok
  by (auto simp: answer_ids_ok_def answers_ok_def answer_ids_distinct_def Let_def)

theorem builder_reach_answer_ids_distinct_witness:
  "builder_reach (<) 2
     (builder_step 2 AddAnswerClick (builder_step 1 (ClickNode ''location'') initial_builder)) \<and>
   answer_ids_distinct (nodes
     (builder_step 2 AddAnswerClick (builder_step 1 (ClickNode ''location'') initial_builder)))"
proof -
  have r1: "builder_reach (<) 1 (builder_step 1 (ClickNode ''location'') initial_builder)"
    by (rule builder_reach.step [OF builder_reach.init])
       (simp_all add: initial_builder_ids)
  have r2: "builder_reach (<) 2
     (builder_step 2 AddAnswerClick (builder_step 1 (ClickNode ''location'') initial_builder))"
    by (rule builder_reach.step [OF r1])
       (simp_all add: panel_question_ok_def selectedNodeData_def handleNodeSelect_def
          initial_builder_def initial_nodes_def)
  show ?thesis using r2 builder_reach_answer_ids_distinct [OF r2] by blast
qed

text \<open>
  C3. Whatever the timing, the selected node id, when there is one, names a node on the
  canvas: a delete of the selected node clears the selection, and a new node is selected
  as it is added.
\<close>

theorem builder_reach_selection_ok:
  "builder_reach clk t s \<Longrightarrow>
     (case selectedNode s of None \<Rightarrow> True | Some i \<Rightarrow> i \<in> set (node_ids (nodes s)))"
  using builder_reach_selection_inv by (simp add: selection_ok_def)

theorem builder_reach_selection_ok_witness:
  "builder_reach (\<le>) 1 (builder_step 1 (ClickNode ''start'') initial_builder) \<and>
   (case selectedNode (builder_step 1 (ClickNode ''start'') initial_builder) of
      None \<Rightarrow> True
    | Some i \<Rightarrow> i \<in> set (node_ids (nodes (builder_step 1 (ClickNode ''start'') initial_builder))))"
proof -
  have r: "builder_reach (\<le>) 1 (builder_step 1 (ClickNode ''start'') initial_builder)"
    by (rule builder_reach.step [OF builder_reach.init]) (simp_all add: initial_builder_ids)
  show ?thesis using r builder_reach_selection_ok [OF r] by blast
qed

text \<open>
  C4. Deleting a node leaves the links to it in place: from the initial canvas, whose
  links all resolve (the spec's invariant (a)), deleting \<open>location\<close> leaves the two
  answers of \<open>start\<close> pointing at a node that no longer exists. The spec requires
  \<open>delete_node\<close> to null such links.
\<close>

theorem delete_leaves_dangling_reference:
  "refs_ok (nodes initial_builder) \<and>
   builder_reach (\<le>) 1 (builder_step 1 (DeleteClick ''location'') initial_builder) \<and>
   \<not> refs_ok (nodes (builder_step 1 (DeleteClick ''location'') initial_builder))"
proof -
  have r: "builder_reach (\<le>) 1 (builder_step 1 (DeleteClick ''location'') initial_builder)"
    by (rule builder_reach.step [OF builder_reach.init]) (simp_all add: initial_builder_ids)
  have ok: "refs_ok (nodes initial_builder)"
    by (simp add: refs_ok_def node_refs_def initial_builder_def initial_nodes_def
        answers_of_def actions_of_def js_link_def)
  have bad: "\<not> refs_ok (nodes (builder_step 1 (DeleteClick ''location'') initial_builder))"
    by (simp add: refs_ok_def node_refs_def initial_builder_def initial_nodes_def
        answers_of_def actions_of_def js_link_def)
  from ok r bad show ?thesis by blast
qed

text \<open>
  C5. The start node can be deleted like any other node: after a click on its delete
  button no node named \<open>start\<close> remains. The spec requires the deletion of the start
  node to fail with \<open>CannotDeleteStartNode\<close>.
\<close>

theorem start_node_deletable:
  "builder_reach (\<le>) 1 (builder_step 1 (DeleteClick ''start'') initial_builder) \<and>
   ''start'' \<notin> set (node_ids (nodes (builder_step 1 (DeleteClick ''start'') initial_builder)))"
proof -
  have r: "builder_reach (\<le>) 1 (builder_step 1 (DeleteClick ''start'') initial_builder)"
    by (rule builder_reach.step [OF builder_reach.init]) (simp_all add: initial_builder_ids)
  have "''start'' \<notin> set (node_ids (nodes (builder_step 1 (DeleteClick ''start'') initial_builder)))"
    by (auto simp: node_ids_filter)
  with r show ?thesis by blast
qed

text \<open>
  C6. With the real clock, two palette drops within one millisecond create two nodes
  with the same id \<open>node_5\<close>: the id generator is unique only if no two additions
  share a millisecond, which is why C1 assumes strictly increasing times.
\<close>

theorem same_millisecond_duplicate_ids:
  "builder_reach (\<le>) 5
     (builder_step 5 (DropItem (PaletteDrag End) (Some \<lparr>off_x = 300, off_y = 250\<rparr>)
        (Some \<lparr>rect_left = 0, rect_top = 0\<rparr>))
       (builder_step 5 (DropItem (PaletteDrag End) (Some \<lparr>off_x = 100, off_y = 80\<rparr>)
          (Some \<lparr>rect_left = 0, rect_top = 0\<rparr>)) initial_builder)) \<and>
   \<not> distinct (node_ids (nodes
     (builder_step 5 (DropItem (PaletteDrag End) (Some \<lparr>off_x = 300, off_y = 250\<rparr>)
        (Some \<lparr>rect_left = 0, rect_top = 0\<rparr>))
       (builder_step 5 (DropItem (PaletteDrag End) (Some \<lparr>off_x = 100, off_y = 80\<rparr>)
          (Some \<lparr>rect_left = 0, rect_top = 0\<rparr>)) initial_builder))))"
proof -
  have r1: "builder_reach (\<le>) 5
       (builder_step 5 (DropItem (PaletteDrag End) (Some \<lparr>off_x = 100, off_y = 80\<rparr>)
          (Some \<lparr>rect_left = 0, rect_top = 0\<rparr>)) initial_builder)"
    by (rule builder_reach.step [OF builder_reach.init]) simp_all
  have r2: "builder_reach (\<le>) 5
     (builder_step 5 (DropItem (PaletteDrag End) (Some \<lparr>off_x = 300, off_y = 250\<rparr>)
        (Some \<lparr>rect_left = 0, rect_top = 0\<rparr>))
       (builder_step 5 (DropItem (PaletteDrag End) (Some \<lparr>off_x = 100, off_y = 80\<rparr>)
          (Some \<lparr>rect_left = 0, rect_top = 0\<rparr>)) initial_builder))"
    by (rule builder_reach.step [OF r1]) simp_all
  have "\<not> distinct (node_ids (nodes
     (builder_step 5 (DropItem (PaletteDrag End) (Some \<lparr>off_x = 300, off_y = 250\<rparr>)
        (Some \<lparr>rect_left = 0, rect_top = 0\<rparr>))
       (builder_step 5 (DropItem (PaletteDrag End) (Some \<lparr>off_x = 100, off_y = 80\<rparr>)
          (Some \<lparr>rect_left = 0, rect_top = 0\<rparr>)) initial_builder))))"
    by simp
  with r2 show ?thesis by blast
qed

end
