(* ===== verification/Auth_Service.thy ===== *)
theory Auth_Service
  imports Prelude
begin

text \<open>
  \<open>AuthService\<close> of \<open>src/src/services/auth.service.ts\<close>: the demo-credential login that
  stands in for Firebase authentication. The \<open>User\<close> interface of \<open>types/index.ts\<close>
  is a record (its dates omitted); a thrown \<open>Error\<close> is \<open>Inl\<close> of its message. The
  commented-out Firebase paths are not code and are not modelled; \<open>logout\<close>,
  \<open>updateUserProfile\<close> and \<open>onAuthStateChange\<close> do nothing in the demo and
  \<open>getCurrentUser\<close> always resolves to \<open>null\<close>.
\<close>

section \<open>Users and the demo accounts\<close>

datatype role = Global_app_admin | Trade_company_user

fun role_tag :: "role \<Rightarrow> string" where
  "role_tag Global_app_admin = ''global_app_admin''"
| "role_tag Trade_company_user = ''trade_company_user''"

record app_user =
  uid :: string
  email :: string
  user_name :: string
  role :: role
  company_id :: "string option"

record credentials =
  cred_email :: string
  cred_password :: string

datatype demo_kind = Admin_demo | Company_demo

definition demo_admin_user :: app_user where
  "demo_admin_user = \<lparr>uid = ''demo-admin-123'', email = ''admin@quotehub.com'',
     user_name = ''Global Admin'', role = Global_app_admin, company_id = None\<rparr>"

definition demo_company_user :: app_user where
  "demo_company_user = \<lparr>uid = ''demo-user-456'', email = ''john@acmeelectrical.com'',
     user_name = ''John Smith'', role = Trade_company_user, company_id = Some ''acme-electrical''\<rparr>"

text \<open>\<open>DEMO_CREDENTIALS[userType]\<close>: the login pair and the profile of each demo account.\<close>

fun demo_credentials :: "demo_kind \<Rightarrow> credentials" where
  "demo_credentials Admin_demo = \<lparr>cred_email = ''admin@quotehub.com'', cred_password = ''demo123''\<rparr>"
| "demo_credentials Company_demo =
     \<lparr>cred_email = ''john@acmeelectrical.com'', cred_password = ''demo123''\<rparr>"

fun demo_user :: "demo_kind \<Rightarrow> app_user" where
  "demo_user Admin_demo = demo_admin_user"
| "demo_user Company_demo = demo_company_user"

definition invalid_credentials_msg :: string where
  "invalid_credentials_msg =
     ''Invalid credentials. Use demo accounts: admin@quotehub.com or john@acmeelectrical.com with password: demo123''"

section \<open>The service's operations\<close>

text \<open>
  \<open>login\<close>: the admin pair first, then the company pair, else an error. The
  \<open>catch\<close> re-throws \<open>new Error(error.message || 'Login failed')\<close>, which keeps the
  (non-empty) message.
\<close>

definition rethrow :: "string \<Rightarrow> string" where
  "rethrow msg = (if msg = [] then ''Login failed'' else msg)"

definition login :: "string \<Rightarrow> string \<Rightarrow> string + app_user" where
  "login e pw =
     (if e = cred_email (demo_credentials Admin_demo) \<and> pw = cred_password (demo_credentials Admin_demo)
      then Inr (demo_user Admin_demo)
      else if e = cred_email (demo_credentials Company_demo) \<and>
              pw = cred_password (demo_credentials Company_demo)
      then Inr (demo_user Company_demo)
      else Inl (rethrow invalid_credentials_msg))"

definition loginWithDemo :: "demo_kind \<Rightarrow> string + app_user" where
  "loginWithDemo k = login (cred_email (demo_credentials k)) (cred_password (demo_credentials k))"

text \<open>
  \<open>register\<close>'s demo path: \<open>{ uid: 'new-user-' + Date.now(), email, ...userData }\<close>.
  \<open>userData\<close> is \<open>Omit<User, 'uid' | 'created_at' | 'updated_at'>\<close>, which still has an
  \<open>email\<close> key, and the spread comes after \<open>email\<close>.
\<close>

record user_data =
  ud_email :: string
  ud_name :: string
  ud_role :: role
  ud_company_id :: "string option"

definition register :: "nat \<Rightarrow> string \<Rightarrow> string \<Rightarrow> user_data \<Rightarrow> string + app_user" where
  "register now e pw ud =
     Inr \<lparr>uid = ''new-user-'' @ string_of_nat now, email = ud_email ud, user_name = ud_name ud,
          role = ud_role ud, company_id = ud_company_id ud\<rparr>"

definition getCurrentUser :: "app_user option" where
  "getCurrentUser = None"

definition getUserProfile :: "string \<Rightarrow> app_user option" where
  "getUserProfile u =
     (if u = uid (demo_user Admin_demo) then Some (demo_user Admin_demo)
      else if u = uid (demo_user Company_demo) then Some (demo_user Company_demo)
      else None)"

definition getDemoCredentials :: "credentials \<times> credentials" where
  "getDemoCredentials = (demo_credentials Admin_demo, demo_credentials Company_demo)"

text \<open>The demo's stubs: \<open>logout\<close> resolves, \<open>updateUserProfile\<close> resolves without storing
  anything, and \<open>onAuthStateChange\<close> never calls its callback (the list of its calls is
  empty) and returns a no-op unsubscribe.\<close>

definition service_logout :: "string + unit" where
  "service_logout = Inr ()"

definition updateUserProfile :: "string \<Rightarrow> 'u \<Rightarrow> string + unit" where
  "updateUserProfile u upd = Inr ()"

definition onAuthStateChange :: "(app_user option \<Rightarrow> 'a) \<Rightarrow> 'a list" where
  "onAuthStateChange cb = []"

section \<open>Lemmas\<close>

lemma demo_credentials_distinct:
  "cred_email (demo_credentials Admin_demo) \<noteq> cred_email (demo_credentials Company_demo)"
  by simp

lemma login_demo [simp]: "login (cred_email (demo_credentials k)) (cred_password (demo_credentials k)) =
                   Inr (demo_user k)"
  by (cases k) (simp_all add: login_def)

lemma rethrow_invalid [simp]: "rethrow invalid_credentials_msg = invalid_credentials_msg"
  by (simp add: rethrow_def invalid_credentials_msg_def)

lemma login_cases:
  "login e pw = Inr u \<Longrightarrow> \<exists>k. u = demo_user k \<and> demo_credentials k = \<lparr>cred_email = e, cred_password = pw\<rparr>"
  by (auto simp: login_def split: if_splits intro: exI [of _ Admin_demo] exI [of _ Company_demo])

lemma login_not_demo:
  assumes "\<forall>k. demo_credentials k \<noteq> \<lparr>cred_email = e, cred_password = pw\<rparr>"
  shows "login e pw = Inl invalid_credentials_msg"
proof -
  have "\<not> (e = ''admin@quotehub.com'' \<and> pw = ''demo123'')"
    using spec [OF assms, of Admin_demo] by auto
  moreover have "\<not> (e = ''john@acmeelectrical.com'' \<and> pw = ''demo123'')"
    using spec [OF assms, of Company_demo] by auto
  ultimately show ?thesis by (simp add: login_def)
qed

section \<open>Properties of the service\<close>

text \<open>
  C13. \<open>AuthService.login\<close> succeeds exactly for the two demo credential pairs, and
  then returns that demo account's profile.
\<close>

theorem login_success_iff:
  "login e pw = Inr u \<longleftrightarrow>
   (\<exists>k. demo_credentials k = \<lparr>cred_email = e, cred_password = pw\<rparr> \<and> u = demo_user k)"
proof
  assume "login e pw = Inr u"
  then show "\<exists>k. demo_credentials k = \<lparr>cred_email = e, cred_password = pw\<rparr> \<and> u = demo_user k"
    using login_cases by blast
next
  assume "\<exists>k. demo_credentials k = \<lparr>cred_email = e, cred_password = pw\<rparr> \<and> u = demo_user k"
  then obtain k where "demo_credentials k = \<lparr>cred_email = e, cred_password = pw\<rparr>" "u = demo_user k"
    by blast
  then show "login e pw = Inr u" using login_demo [of k] by simp
qed

text \<open>
  C14. Any other pair is rejected with the invalid-credentials message (the
  \<open>catch\<close> block re-throws it unchanged).
\<close>

theorem login_failure_message:
  "(\<forall>k. demo_credentials k \<noteq> \<lparr>cred_email = e, cred_password = pw\<rparr>) \<longleftrightarrow>
   login e pw = Inl invalid_credentials_msg"
proof
  assume "\<forall>k. demo_credentials k \<noteq> \<lparr>cred_email = e, cred_password = pw\<rparr>"
  then show "login e pw = Inl invalid_credentials_msg"
    by (rule login_not_demo)
next
  assume "login e pw = Inl invalid_credentials_msg"
  then show "\<forall>k. demo_credentials k \<noteq> \<lparr>cred_email = e, cred_password = pw\<rparr>"
    by (metis Inl_Inr_False credentials.select_convs login_demo)
qed

text \<open>
  A demo login always succeeds, and the profile lookup by the returned uid gives
  the same user back.
\<close>

theorem loginWithDemo_profile_roundtrip:
  "loginWithDemo k = Inr (demo_user k) \<and> getUserProfile (uid (demo_user k)) = Some (demo_user k)"
  by (cases k) (simp_all add: loginWithDemo_def getUserProfile_def login_def demo_admin_user_def
      demo_company_user_def)

text \<open>
  C16. \<open>register\<close> ignores its \<open>email\<close> and \<open>password\<close> arguments: the spread of
  \<open>userData\<close> after \<open>email\<close> overwrites the address, so the new user carries
  \<open>userData.email\<close> whatever address was passed.
\<close>

theorem register_ignores_email_argument:
  "register now e pw ud = register now e' pw' ud"
  by (simp add: register_def)

end
