(* ===== verification/Firestore.thy ===== *)
theory Firestore
  imports Prelude "HOL-Library.AList" "HOL-Library.Char_ord" "HOL-Library.List_Lexorder"
    "HOL-Library.Product_Lexorder"
begin

text \<open>
  The Cloud Firestore document store as the services of
  \<open>src/src/services/firestore.service.ts\<close> use it, and those services. A database maps
  collection paths to collections; a collection is an association list from document id
  to document, a document an association list from field name to value (JavaScript key
  order). The store's behaviour is that of the Firestore client library with its default
  settings (\<open>src/lib/firebase.ts\<close> is not in the repository): \<open>addDoc\<close> draws a fresh id,
  \<open>updateDoc\<close> fails on a missing document, \<open>deleteDoc\<close> of a missing document succeeds,
  and a write whose data holds \<open>undefined\<close> is rejected. Fresh ids come from a counter in
  the store (\<open>auto_id\<close>), standing for Firestore's random 20-character ids;
  \<open>serverTimestamp()\<close> is the parameter \<open>now\<close>.
\<close>

section \<open>Values, documents and the store\<close>

datatype fvalue =
  FUndefined | FNull | FBool bool | FNum int | FTimestamp nat | FStr string | FArr "fvalue list"

type_synonym fdoc = "(string \<times> fvalue) list"
type_synonym fcoll = "(string \<times> fdoc) list"

record fdb =
  fdb_colls :: "(string \<times> fcoll) list"
  fdb_seq :: nat

definition coll :: "fdb \<Rightarrow> string \<Rightarrow> fcoll" where
  "coll db p = opt_or (map_of (fdb_colls db) p) []"

definition set_coll :: "string \<Rightarrow> fcoll \<Rightarrow> fdb \<Rightarrow> fdb" where
  "set_coll p c db = db\<lparr>fdb_colls := AList.update p c (fdb_colls db)\<rparr>"

text \<open>\<open>{ ...a, ...b }\<close>: the keys of \<open>b\<close> override those of \<open>a\<close>, new keys go last.\<close>

definition spread :: "fdoc \<Rightarrow> fdoc \<Rightarrow> fdoc" where
  "spread a b = fold (\<lambda>(k, v). AList.update k v) b a"

text \<open>A value the client library refuses to write (\<open>undefined\<close>, also inside an array).\<close>

fun has_undefined :: "fvalue \<Rightarrow> bool" where
  "has_undefined FUndefined = True"
| "has_undefined (FArr vs) = list_ex has_undefined vs"
| "has_undefined _ = False"

definition valid_data :: "fdoc \<Rightarrow> bool" where
  "valid_data d = (\<not> list_ex (\<lambda>(k, v). has_undefined v) d)"

definition invalid_data_msg :: string where
  "invalid_data_msg = ''Function called with invalid data. Unsupported field value: undefined''"

definition auto_id :: "nat \<Rightarrow> string" where
  "auto_id n = ''auto-'' @ string_of_nat n"

section \<open>The client library operations\<close>

definition stamps :: "nat \<Rightarrow> fdoc" where
  "stamps now = [(''created_at'', FTimestamp now), (''updated_at'', FTimestamp now)]"

text \<open>\<open>addDoc(collection(db, p), d)\<close>: a new document under a fresh id.\<close>

definition addDoc :: "string \<Rightarrow> fdoc \<Rightarrow> fdb \<Rightarrow> string + string \<times> fdb" where
  "addDoc p d db =
     (if \<not> valid_data d then Inl invalid_data_msg
      else let i = auto_id (fdb_seq db)
           in Inr (i, set_coll p (coll db p @ [(i, d)]) (db\<lparr>fdb_seq := Suc (fdb_seq db)\<rparr>)))"

text \<open>\<open>getDoc(doc(db, p, i))\<close>: the data of the document, if it exists.\<close>

definition getDoc :: "string \<Rightarrow> string \<Rightarrow> fdb \<Rightarrow> fdoc option" where
  "getDoc p i db = map_of (coll db p) i"

text \<open>\<open>updateDoc(doc(db, p, i), d)\<close>: merge into an existing document, else \<open>not-found\<close>.\<close>

definition updateDoc :: "string \<Rightarrow> string \<Rightarrow> fdoc \<Rightarrow> fdb \<Rightarrow> string + fdb" where
  "updateDoc p i d db =
     (if \<not> valid_data d then Inl invalid_data_msg
      else case getDoc p i db of
        None \<Rightarrow> Inl (''No document to update: '' @ p @ ''/'' @ i)
      | Some old \<Rightarrow> Inr (set_coll p (AList.update i (spread old d) (coll db p)) db))"

definition deleteDoc :: "string \<Rightarrow> string \<Rightarrow> fdb \<Rightarrow> fdb" where
  "deleteDoc p i db = set_coll p (AList.delete i (coll db p)) db"

text \<open>\<open>batch.set(doc(collection(db, p)), d)\<close> for a list of writes, committed at once.\<close>

definition batch_set_new :: "(string \<times> fdoc) list \<Rightarrow> fdb \<Rightarrow> string + fdb" where
  "batch_set_new ws db =
     (if \<not> list_all (\<lambda>(p, d). valid_data d) ws then Inl invalid_data_msg
      else Inr (fold (\<lambda>(p, d) db. let i = auto_id (fdb_seq db)
                                  in set_coll p (coll db p @ [(i, d)]) (db\<lparr>fdb_seq := Suc (fdb_seq db)\<rparr>))
                 ws db))"

text \<open>\<open>where(f, op, v)\<close>: a missing field never matches.\<close>

datatype where_op = Op_eq | Op_array_contains

definition matches :: "where_op \<Rightarrow> string \<Rightarrow> fvalue \<Rightarrow> fdoc \<Rightarrow> bool" where
  "matches op f v d =
     (case map_of d f of
        None \<Rightarrow> False
      | Some x \<Rightarrow> (case op of
                    Op_eq \<Rightarrow> x = v
                  | Op_array_contains \<Rightarrow> (case x of FArr xs \<Rightarrow> v \<in> set xs | _ \<Rightarrow> False)))"

text \<open>
  \<open>orderBy(f1), orderBy(f2), ...\<close>: documents lacking a field are left out; the rest are
  sorted by the values in Firestore's cross-type order (null, booleans, numbers,
  timestamps, strings, arrays), ties broken by document id.
\<close>

fun fv_key :: "fvalue \<Rightarrow> nat \<times> int \<times> string" where
  "fv_key FNull = (0, 0, [])"
| "fv_key (FBool b) = (1, if b then 1 else 0, [])"
| "fv_key (FNum i) = (2, i, [])"
| "fv_key (FTimestamp t) = (3, int t, [])"
| "fv_key (FStr s) = (4, 0, s)"
| "fv_key (FArr _) = (5, 0, [])"
| "fv_key FUndefined = (6, 0, [])"

definition order_by :: "string list \<Rightarrow> fcoll \<Rightarrow> fcoll" where
  "order_by fs c =
     sort_key (\<lambda>(i, d). (map (\<lambda>f. fv_key (opt_or (map_of d f) FNull)) fs, i))
       (filter (\<lambda>(i, d). list_all (\<lambda>f. map_of d f \<noteq> None) fs) c)"

section \<open>BaseFirestoreService\<close>

text \<open>\<open>{ id: doc.id, ...doc.data() }\<close>, with the id under the key each service uses.\<close>

definition with_id :: "string \<Rightarrow> string \<times> fdoc \<Rightarrow> fdoc" where
  "with_id idk x = spread [(idk, FStr (fst x))] (snd x)"

definition fs_getAll :: "string \<Rightarrow> string \<Rightarrow> fdb \<Rightarrow> fdoc list" where
  "fs_getAll p idk db = map (with_id idk) (coll db p)"

definition fs_getById :: "string \<Rightarrow> string \<Rightarrow> string \<Rightarrow> fdb \<Rightarrow> fdoc option" where
  "fs_getById p idk i db = map_option (\<lambda>d. with_id idk (i, d)) (getDoc p i db)"

definition fs_create :: "string \<Rightarrow> fdoc \<Rightarrow> nat \<Rightarrow> fdb \<Rightarrow> string + string \<times> fdb" where
  "fs_create p d now db = addDoc p (spread d (stamps now)) db"

definition fs_update :: "string \<Rightarrow> string \<Rightarrow> fdoc \<Rightarrow> nat \<Rightarrow> fdb \<Rightarrow> string + fdb" where
  "fs_update p i d now db = updateDoc p i (spread d [(''updated_at'', FTimestamp now)]) db"

definition fs_delete :: "string \<Rightarrow> string \<Rightarrow> fdb \<Rightarrow> fdb" where
  "fs_delete p i db = deleteDoc p i db"

definition fs_getWhere ::
  "string \<Rightarrow> string \<Rightarrow> string \<Rightarrow> where_op \<Rightarrow> fvalue \<Rightarrow> fdb \<Rightarrow> fdoc list" where
  "fs_getWhere p idk f op v db = map (with_id idk) (filter (\<lambda>x. matches op f v (snd x)) (coll db p))"

text \<open>\<open>subscribe\<close>: each snapshot, newest \<open>created_at\<close> first.\<close>

definition fs_subscribe_snapshot :: "string \<Rightarrow> string \<Rightarrow> fdb \<Rightarrow> fdoc list" where
  "fs_subscribe_snapshot p idk db = map (with_id idk) (rev (order_by [''created_at''] (coll db p)))"

section \<open>The entity services\<close>

text \<open>\<open>companies[0] || null\<close>: the first result, if any.\<close>

definition first_or_null :: "'a list \<Rightarrow> 'a option" where
  "first_or_null xs = (case xs of [] \<Rightarrow> None | x # _ \<Rightarrow> Some x)"

subsection \<open>TradeService\<close>

definition quote_fields_path :: "string \<Rightarrow> string" where
  "quote_fields_path tid = ''trades/'' @ tid @ ''/quoteFields''"

definition templates_path :: "string \<Rightarrow> string" where
  "templates_path tid = ''trades/'' @ tid @ ''/templates''"

definition getActiveTrades :: "fdb \<Rightarrow> fdoc list" where
  "getActiveTrades db = fs_getWhere ''trades'' ''id'' ''is_active'' Op_eq (FBool True) db"

definition getQuoteFields :: "string \<Rightarrow> fdb \<Rightarrow> fdoc list" where
  "getQuoteFields tid db =
     map (with_id ''field_id'') (order_by [''category'', ''name''] (coll db (quote_fields_path tid)))"

definition addQuoteField :: "string \<Rightarrow> fdoc \<Rightarrow> nat \<Rightarrow> fdb \<Rightarrow> string + string \<times> fdb" where
  "addQuoteField tid f now db = addDoc (quote_fields_path tid) (spread f (stamps now)) db"

definition getTemplates :: "string \<Rightarrow> fdb \<Rightarrow> fdoc list" where
  "getTemplates tid db =
     map (with_id ''template_id'')
       (filter (\<lambda>x. matches Op_eq ''is_active'' (FBool True) (snd x)) (coll db (templates_path tid)))"

definition addTemplate :: "string \<Rightarrow> fdoc \<Rightarrow> nat \<Rightarrow> fdb \<Rightarrow> string + string \<times> fdb" where
  "addTemplate tid t now db = addDoc (templates_path tid) (spread t (stamps now)) db"

subsection \<open>CompanyService\<close>

definition settings_path :: "string \<Rightarrow> string" where
  "settings_path cid = ''companies/'' @ cid @ ''/settings''"

definition getByUserId :: "string \<Rightarrow> fdb \<Rightarrow> fdoc option" where
  "getByUserId u db = first_or_null (fs_getWhere ''companies'' ''id'' ''users'' Op_array_contains (FStr u) db)"

definition getActiveCompanies :: "fdb \<Rightarrow> fdoc list" where
  "getActiveCompanies db = fs_getWhere ''companies'' ''id'' ''status'' Op_eq (FStr ''active'') db"

definition assignTrades :: "string \<Rightarrow> string list \<Rightarrow> nat \<Rightarrow> fdb \<Rightarrow> string + fdb" where
  "assignTrades cid tids now db =
     fs_update ''companies'' cid [(''assigned_trades'', FArr (map FStr tids))] now db"

definition getBusinessSettings :: "string \<Rightarrow> fdb \<Rightarrow> fdoc option" where
  "getBusinessSettings cid db = getDoc (settings_path cid) ''business'' db"

definition updateBusinessSettings :: "string \<Rightarrow> fdoc \<Rightarrow> nat \<Rightarrow> fdb \<Rightarrow> string + fdb" where
  "updateBusinessSettings cid st now db =
     updateDoc (settings_path cid) ''business'' (spread st [(''updated_at'', FTimestamp now)]) db"

definition getSystemSettings :: "string \<Rightarrow> fdb \<Rightarrow> fdoc option" where
  "getSystemSettings cid db = getDoc (settings_path cid) ''system'' db"

definition updateSystemSettings :: "string \<Rightarrow> fdoc \<Rightarrow> nat \<Rightarrow> fdb \<Rightarrow> string + fdb" where
  "updateSystemSettings cid st now db =
     updateDoc (settings_path cid) ''system'' (spread st [(''updated_at'', FTimestamp now)]) db"

subsection \<open>UserService\<close>

definition getByEmail :: "string \<Rightarrow> fdb \<Rightarrow> fdoc option" where
  "getByEmail e db = first_or_null (fs_getWhere ''users'' ''id'' ''email'' Op_eq (FStr e) db)"

definition getByCompany :: "string \<Rightarrow> fdb \<Rightarrow> fdoc list" where
  "getByCompany cid db = fs_getWhere ''users'' ''id'' ''company_id'' Op_eq (FStr cid) db"

definition getGlobalAdmins :: "fdb \<Rightarrow> fdoc list" where
  "getGlobalAdmins db = fs_getWhere ''users'' ''id'' ''role'' Op_eq (FStr ''global_app_admin'') db"

text \<open>
  \<open>createWithAuth\<close>: the uid is \<open>user_${Date.now()}_${random}\<close> (the nine random
  base-36 characters are the parameter \<open>rnd\<close>); \<open>company_id: companyId\<close> is
  \<open>undefined\<close> when no company is given.
\<close>

definition createWithAuth ::
  "nat \<Rightarrow> string \<Rightarrow> string \<Rightarrow> string \<Rightarrow> string \<Rightarrow> string option \<Rightarrow> fdb \<Rightarrow> string + string \<times> fdb" where
  "createWithAuth now rnd e name r cid db =
     fs_create ''users''
       [(''uid'', FStr (''user_'' @ string_of_nat now @ ''_'' @ rnd)), (''email'', FStr e),
        (''name'', FStr name), (''role'', FStr r),
        (''company_id'', case cid of None \<Rightarrow> FUndefined | Some c \<Rightarrow> FStr c)] now db"

subsection \<open>ClientService\<close>

definition clients_path :: "string \<Rightarrow> string" where
  "clients_path cid = ''companies/'' @ cid @ ''/clients''"

definition client_getAll :: "string \<Rightarrow> fdb \<Rightarrow> fdoc list" where
  "client_getAll cid db = fs_getAll (clients_path cid) ''client_id'' db"

definition client_getById :: "string \<Rightarrow> string \<Rightarrow> fdb \<Rightarrow> fdoc option" where
  "client_getById cid i db = fs_getById (clients_path cid) ''client_id'' i db"

definition client_create :: "string \<Rightarrow> fdoc \<Rightarrow> nat \<Rightarrow> fdb \<Rightarrow> string + string \<times> fdb" where
  "client_create cid c now db = fs_create (clients_path cid) c now db"

definition client_update :: "string \<Rightarrow> string \<Rightarrow> fdoc \<Rightarrow> nat \<Rightarrow> fdb \<Rightarrow> string + fdb" where
  "client_update cid i c now db = fs_update (clients_path cid) i c now db"

definition client_delete :: "string \<Rightarrow> string \<Rightarrow> fdb \<Rightarrow> fdb" where
  "client_delete cid i db = fs_delete (clients_path cid) i db"

text \<open>
  The \<open>search\<close> predicate: \<open>client.name.toLowerCase()\<close> throws a \<open>TypeError\<close> unless the
  name is a string; \<open>client.email?.toLowerCase()\<close> is \<open>undefined\<close> (falsy) for a missing
  or null e-mail and throws for any other non-string.
\<close>

definition type_error :: string where
  "type_error = ''TypeError: toLowerCase is not a function''"

definition client_matches :: "string \<Rightarrow> fdoc \<Rightarrow> string + bool" where
  "client_matches t d =
     (case map_of d ''name'' of
        Some (FStr n) \<Rightarrow>
          if js_includes (toLowerCase n) (toLowerCase t) then Inr True
          else (case map_of d ''email'' of
                  None \<Rightarrow> Inr False
                | Some FUndefined \<Rightarrow> Inr False
                | Some FNull \<Rightarrow> Inr False
                | Some (FStr m) \<Rightarrow> Inr (js_includes (toLowerCase m) (toLowerCase t))
                | Some _ \<Rightarrow> Inl type_error)
      | _ \<Rightarrow> Inl type_error)"

text \<open>A client document as the \<open>Client\<close> interface types it for the search: a string
  \<open>name\<close> and an optional string \<open>email\<close>.\<close>

definition client_doc_typed :: "fdoc \<Rightarrow> bool" where
  "client_doc_typed d =
     ((case map_of d ''name'' of Some (FStr n) \<Rightarrow> True | _ \<Rightarrow> False) \<and>
      (case map_of d ''email'' of None \<Rightarrow> True | Some FUndefined \<Rightarrow> True | Some FNull \<Rightarrow> True
       | Some (FStr m) \<Rightarrow> True | Some _ \<Rightarrow> False))"

fun filter_throwing :: "('a \<Rightarrow> string + bool) \<Rightarrow> 'a list \<Rightarrow> string + 'a list" where
  "filter_throwing P [] = Inr []"
| "filter_throwing P (x # xs) =
     (case P x of
        Inl e \<Rightarrow> Inl e
      | Inr b \<Rightarrow> (case filter_throwing P xs of
                   Inl e \<Rightarrow> Inl e
                 | Inr ys \<Rightarrow> Inr (if b then x # ys else ys)))"

definition client_search :: "string \<Rightarrow> string \<Rightarrow> fdb \<Rightarrow> string + fdoc list" where
  "client_search cid t db = filter_throwing (client_matches t) (client_getAll cid db)"

subsection \<open>ProductServiceService\<close>

definition products_path :: "string \<Rightarrow> string" where
  "products_path cid = ''companies/'' @ cid @ ''/productsServices''"

definition product_getAll :: "string \<Rightarrow> fdb \<Rightarrow> fdoc list" where
  "product_getAll cid db =
     map (with_id ''product_id'') (order_by [''category'', ''name''] (coll db (products_path cid)))"

definition product_getByCategory :: "string \<Rightarrow> string \<Rightarrow> fdb \<Rightarrow> fdoc list" where
  "product_getByCategory cid cat db =
     map (with_id ''product_id'')
       (filter (\<lambda>x. matches Op_eq ''category'' (FStr cat) (snd x) \<and>
                    matches Op_eq ''is_active'' (FBool True) (snd x)) (coll db (products_path cid)))"

definition product_create :: "string \<Rightarrow> fdoc \<Rightarrow> nat \<Rightarrow> fdb \<Rightarrow> string + string \<times> fdb" where
  "product_create cid d now db = fs_create (products_path cid) d now db"

definition product_update :: "string \<Rightarrow> string \<Rightarrow> fdoc \<Rightarrow> nat \<Rightarrow> fdb \<Rightarrow> string + fdb" where
  "product_update cid i d now db = fs_update (products_path cid) i d now db"

definition product_delete :: "string \<Rightarrow> string \<Rightarrow> fdb \<Rightarrow> fdb" where
  "product_delete cid i db = fs_delete (products_path cid) i db"

definition getMarginRules :: "string \<Rightarrow> fdb \<Rightarrow> fdoc option" where
  "getMarginRules cid db = getDoc (settings_path cid) ''marginRules'' db"

definition updateMarginRules :: "string \<Rightarrow> fdoc \<Rightarrow> nat \<Rightarrow> fdb \<Rightarrow> string + fdb" where
  "updateMarginRules cid r now db =
     updateDoc (settings_path cid) ''marginRules'' (spread r [(''updated_at'', FTimestamp now)]) db"

subsection \<open>QuoteService\<close>

definition quotes_path :: "string \<Rightarrow> string" where
  "quotes_path cid = ''companies/'' @ cid @ ''/quotes''"

definition quote_getAll :: "string \<Rightarrow> fdb \<Rightarrow> fdoc list" where
  "quote_getAll cid db =
     map (with_id ''quote_id'') (rev (order_by [''created_at''] (coll db (quotes_path cid))))"

definition quote_getByStatus :: "string \<Rightarrow> string \<Rightarrow> fdb \<Rightarrow> fdoc list" where
  "quote_getByStatus cid st db =
     map (with_id ''quote_id'')
       (rev (order_by [''created_at'']
               (filter (\<lambda>x. matches Op_eq ''status'' (FStr st) (snd x)) (coll db (quotes_path cid)))))"

definition quote_create :: "string \<Rightarrow> fdoc \<Rightarrow> nat \<Rightarrow> fdb \<Rightarrow> string + string \<times> fdb" where
  "quote_create cid q now db = fs_create (quotes_path cid) q now db"

definition quote_update :: "string \<Rightarrow> string \<Rightarrow> fdoc \<Rightarrow> nat \<Rightarrow> fdb \<Rightarrow> string + fdb" where
  "quote_update cid i q now db = fs_update (quotes_path cid) i q now db"

definition quote_delete :: "string \<Rightarrow> string \<Rightarrow> fdb \<Rightarrow> fdb" where
  "quote_delete cid i db = fs_delete (quotes_path cid) i db"

text \<open>
  \<open>generateQuoteNumber\<close> in its two steps: the read of the \<open>system\<close> settings document
  (defaults \<open>'QTE-'\<close> and 1 when it does not exist), and the write of the incremented
  counter followed by the formatting \<open>`${prefix}${String(n).padStart(6, '0')}`\<close>.
  The cast \<open>as SystemSettings\<close> is unchecked in TypeScript; a document whose prefix is
  not a string or whose counter is not a number is outside the model (\<open>Inl\<close>).
\<close>

definition settings_shape_msg :: string where
  "settings_shape_msg = ''settings document does not match SystemSettings''"

definition gq_read :: "string \<Rightarrow> fdb \<Rightarrow> string + string \<times> int" where
  "gq_read cid db =
     (case getDoc (settings_path cid) ''system'' db of
        None \<Rightarrow> Inr (''QTE-'', 1)
      | Some d \<Rightarrow>
          (case (map_of d ''quote_number_prefix'', map_of d ''next_quote_number'') of
             (Some (FStr p), Some (FNum n)) \<Rightarrow> Inr (p, n)
           | _ \<Rightarrow> Inl settings_shape_msg))"

definition format_quote_number :: "string \<Rightarrow> int \<Rightarrow> string" where
  "format_quote_number p n = p @ padStart (string_of_int n) 6 CHR ''0''"

definition gq_write :: "string \<Rightarrow> nat \<Rightarrow> string \<times> int \<Rightarrow> fdb \<Rightarrow> string + string \<times> fdb" where
  "gq_write cid now r db =
     (case updateDoc (settings_path cid) ''system''
             [(''next_quote_number'', FNum (snd r + 1)), (''updated_at'', FTimestamp now)] db of
        Inl e \<Rightarrow> Inl e
      | Inr db' \<Rightarrow> Inr (format_quote_number (fst r) (snd r), db'))"

definition generateQuoteNumber :: "string \<Rightarrow> nat \<Rightarrow> fdb \<Rightarrow> string + string \<times> fdb" where
  "generateQuoteNumber cid now db =
     (case gq_read cid db of Inl e \<Rightarrow> Inl e | Inr r \<Rightarrow> gq_write cid now r db)"

text \<open>A caller issuing \<open>k\<close> calls one after the other, each awaited before the next.\<close>

fun gen_quote_numbers :: "nat \<Rightarrow> string \<Rightarrow> nat \<Rightarrow> fdb \<Rightarrow> string + string list \<times> fdb" where
  "gen_quote_numbers 0 cid now db = Inr ([], db)"
| "gen_quote_numbers (Suc k) cid now db =
     (case generateQuoteNumber cid now db of
        Inl e \<Rightarrow> Inl e
      | Inr (q, db') \<Rightarrow>
          (case gen_quote_numbers k cid now db' of
             Inl e \<Rightarrow> Inl e
           | Inr (qs, db'') \<Rightarrow> Inr (q # qs, db'')))"

subsection \<open>RebateService\<close>

definition rebates_path :: "string \<Rightarrow> string" where
  "rebates_path cid = ''companies/'' @ cid @ ''/rebates''"

definition rebate_getAll :: "string \<Rightarrow> fdb \<Rightarrow> fdoc list" where
  "rebate_getAll cid db = fs_getWhere (rebates_path cid) ''rebate_id'' ''is_active'' Op_eq (FBool True) db"

definition rebate_create :: "string \<Rightarrow> fdoc \<Rightarrow> nat \<Rightarrow> fdb \<Rightarrow> string + string \<times> fdb" where
  "rebate_create cid r now db = fs_create (rebates_path cid) r now db"

definition rebate_update :: "string \<Rightarrow> string \<Rightarrow> fdoc \<Rightarrow> nat \<Rightarrow> fdb \<Rightarrow> string + fdb" where
  "rebate_update cid i r now db = fs_update (rebates_path cid) i r now db"

subsection \<open>DataSeedService\<close>

text \<open>\<open>seedInitialData\<close>: five documents under fresh ids in one batch.\<close>

definition seed_docs :: "nat \<Rightarrow> (string \<times> fdoc) list" where
  "seed_docs now =
     [(''trades'', [(''trade_id'', FStr ''solar''), (''name'', FStr ''Solar Installation''),
         (''description'', FStr ''Solar panel installation and maintenance services''),
         (''is_active'', FBool True)] @ stamps now),
      (''trades'', [(''trade_id'', FStr ''electrical''), (''name'', FStr ''Electrical Services''),
         (''description'', FStr ''General electrical work and repairs''),
         (''is_active'', FBool True)] @ stamps now),
      (''companies'', [(''company_id'', FStr ''acme-electrical''),
         (''name'', FStr ''Acme Electrical Services''),
         (''assigned_trades'', FArr [FStr ''electrical'', FStr ''solar'']),
         (''status'', FStr ''active''), (''created_by'', FStr ''admin'')] @ stamps now),
      (''users'', [(''uid'', FStr ''demo-admin''), (''email'', FStr ''admin@quotehub.com''),
         (''name'', FStr ''Global Admin''), (''role'', FStr ''global_app_admin'')] @ stamps now),
      (''users'', [(''uid'', FStr ''demo-company-user''), (''email'', FStr ''john@acmeelectrical.com''),
         (''name'', FStr ''John Smith''), (''role'', FStr ''trade_company_user''),
         (''company_id'', FStr ''acme-electrical'')] @ stamps now)]"

definition seedInitialData :: "nat \<Rightarrow> fdb \<Rightarrow> string + fdb" where
  "seedInitialData now db = batch_set_new (seed_docs now) db"

definition empty_db :: fdb where
  "empty_db = \<lparr>fdb_colls = [], fdb_seq = 0\<rparr>"

section \<open>Store invariant and call sequences\<close>

text \<open>
  The store invariant: ids are unique in each collection and every id of the form of an
  automatic id is below the counter. \<open>svc_op\<close> names the writes the services make
  (the entity services' \<open>create\<close>, \<open>update\<close> and \<open>delete\<close> are the base service's on
  their collection paths); a write that throws leaves the store as it was.
\<close>

definition auto_index :: "string \<Rightarrow> nat option" where
  "auto_index i = (if take 5 i = ''auto-'' then Some (nat_of_digits (drop 5 i)) else None)"

definition auto_ok :: "nat \<Rightarrow> string \<Rightarrow> bool" where
  "auto_ok n i = (case auto_index i of None \<Rightarrow> True | Some k \<Rightarrow> k < n)"

definition coll_ok :: "nat \<Rightarrow> fcoll \<Rightarrow> bool" where
  "coll_ok n c = (distinct (map fst c) \<and> list_all (\<lambda>x. auto_ok n (fst x)) c)"

definition store_ok :: "fdb \<Rightarrow> bool" where
  "store_ok db = list_all (\<lambda>p. coll_ok (fdb_seq db) (coll db p)) (map fst (fdb_colls db))"

datatype svc_op =
  Svc_create string fdoc nat | Svc_update string string fdoc nat | Svc_delete string string
  | Svc_business string fdoc nat | Svc_system string fdoc nat | Svc_margin string fdoc nat
  | Svc_quote_number string nat | Svc_seed nat

definition svc_apply :: "svc_op \<Rightarrow> fdb \<Rightarrow> fdb" where
  "svc_apply op db =
     (case op of
        Svc_create p d now \<Rightarrow> (case fs_create p d now db of Inl _ \<Rightarrow> db | Inr (_, db') \<Rightarrow> db')
      | Svc_update p i d now \<Rightarrow> (case fs_update p i d now db of Inl _ \<Rightarrow> db | Inr db' \<Rightarrow> db')
      | Svc_delete p i \<Rightarrow> fs_delete p i db
      | Svc_business cid d now \<Rightarrow>
          (case updateBusinessSettings cid d now db of Inl _ \<Rightarrow> db | Inr db' \<Rightarrow> db')
      | Svc_system cid d now \<Rightarrow>
          (case updateSystemSettings cid d now db of Inl _ \<Rightarrow> db | Inr db' \<Rightarrow> db')
      | Svc_margin cid d now \<Rightarrow>
          (case updateMarginRules cid d now db of Inl _ \<Rightarrow> db | Inr db' \<Rightarrow> db')
      | Svc_quote_number cid now \<Rightarrow>
          (case generateQuoteNumber cid now db of Inl _ \<Rightarrow> db | Inr (_, db') \<Rightarrow> db')
      | Svc_seed now \<Rightarrow> (case seedInitialData now db of Inl _ \<Rightarrow> db | Inr db' \<Rightarrow> db'))"

text \<open>The \<open>system\<close> settings document holds prefix \<open>p\<close> and counter \<open>n\<close>.\<close>

definition settings_hold :: "string \<Rightarrow> string \<Rightarrow> int \<Rightarrow> fdb \<Rightarrow> bool" where
  "settings_hold cid p n db =
     (case getSystemSettings cid db of
        None \<Rightarrow> False
      | Some d \<Rightarrow> map_of d ''quote_number_prefix'' = Some (FStr p) \<and>
                  map_of d ''next_quote_number'' = Some (FNum n))"

text \<open>
  Concurrent callers of \<open>generateQuoteNumber\<close> as an explicit schedule of their two
  steps: \<open>GRead c\<close> is caller \<open>c\<close>'s \<open>getDoc\<close>, \<open>GWrite c\<close> its \<open>updateDoc\<close> and the
  formatting of the number it read; \<open>gw_out\<close> collects the numbers returned.
\<close>

record gq_world =
  gw_db :: fdb
  gw_reads :: "(nat \<times> string \<times> int) list"
  gw_out :: "(nat \<times> string) list"

datatype gq_action = GRead nat | GWrite nat

fun gq_run :: "string \<Rightarrow> nat \<Rightarrow> gq_action list \<Rightarrow> gq_world \<Rightarrow> string + gq_world" where
  "gq_run cid now [] w = Inr w"
| "gq_run cid now (GRead c # as) w =
     (case gq_read cid (gw_db w) of
        Inl e \<Rightarrow> Inl e
      | Inr r \<Rightarrow> gq_run cid now as (w\<lparr>gw_reads := AList.update c r (gw_reads w)\<rparr>))"
| "gq_run cid now (GWrite c # as) w =
     (case map_of (gw_reads w) c of
        None \<Rightarrow> Inl ''write before read''
      | Some r \<Rightarrow>
          (case gq_write cid now r (gw_db w) of
             Inl e \<Rightarrow> Inl e
           | Inr (q, db') \<Rightarrow> gq_run cid now as (w\<lparr>gw_db := db', gw_out := gw_out w @ [(c, q)]\<rparr>)))"

text \<open>Sample stores for the witnesses.\<close>

definition settings_demo_db :: fdb where
  "settings_demo_db =
     \<lparr>fdb_colls = [(''companies/acme-electrical/settings'',
        [(''system'', [(''quote_number_prefix'', FStr ''QTE-''), (''next_quote_number'', FNum 41)])])],
      fdb_seq = 0\<rparr>"

definition clients_demo_db :: fdb where
  "clients_demo_db =
     \<lparr>fdb_colls = [(''companies/acme/clients'',
        [(''c1'', [(''name'', FStr ''Ann Smith''), (''email'', FStr ''ann@x.com'')]),
         (''c2'', [(''name'', FStr ''Bob''), (''email'', FNull)])])], fdb_seq = 0\<rparr>"

section \<open>Lemmas\<close>

lemma coll_set_coll [simp]: "coll (set_coll p c db) q = (if q = p then c else coll db q)"
  by (simp add: coll_def set_coll_def AList.update_conv')

lemma coll_seq_update [simp]: "coll (db\<lparr>fdb_seq := n\<rparr>) q = coll db q"
  by (simp add: coll_def)

lemma coll_not_key: "q \<notin> set (map fst (fdb_colls db)) \<Longrightarrow> coll db q = []"
proof -
  assume "q \<notin> set (map fst (fdb_colls db))"
  then have "map_of (fdb_colls db) q = None" by (simp add: map_of_eq_None_iff)
  then show ?thesis by (simp add: coll_def)
qed

lemma coll_ok_Nil [simp]: "coll_ok n []"
  by (simp add: coll_ok_def)

lemma store_ok_iff: "store_ok db \<longleftrightarrow> (\<forall>p. coll_ok (fdb_seq db) (coll db p))"
proof
  assume a: "store_ok db"
  show "\<forall>p. coll_ok (fdb_seq db) (coll db p)"
  proof
    fix p show "coll_ok (fdb_seq db) (coll db p)"
    proof (cases "p \<in> set (map fst (fdb_colls db))")
      case True with a show ?thesis by (auto simp: store_ok_def list_all_iff)
    next
      case False then show ?thesis by (simp add: coll_not_key)
    qed
  qed
qed (simp add: store_ok_def list_all_iff)

lemma auto_index_auto_id [simp]: "auto_index (auto_id k) = Some k"
  by (simp add: auto_id_def auto_index_def)

lemma auto_ok_mono: "auto_ok n i \<Longrightarrow> n \<le> m \<Longrightarrow> auto_ok m i"
  by (auto simp: auto_ok_def split: option.splits)

lemma coll_ok_mono: "coll_ok n c \<Longrightarrow> n \<le> m \<Longrightarrow> coll_ok m c"
  by (auto simp: coll_ok_def list_all_iff intro: auto_ok_mono)

lemma fresh_auto_id: "coll_ok n c \<Longrightarrow> auto_id n \<notin> set (map fst c)"
proof
  assume "coll_ok n c" "auto_id n \<in> set (map fst c)"
  then obtain x where "x \<in> set c" "fst x = auto_id n" "auto_ok n (fst x)"
    by (auto simp: coll_ok_def list_all_iff)
  then show False by (simp add: auto_ok_def)
qed

lemma coll_ok_snoc_fresh: "coll_ok n c \<Longrightarrow> coll_ok (Suc n) (c @ [(auto_id n, d)])"
  using fresh_auto_id [of n c] coll_ok_mono [of n c "Suc n"]
  by (auto simp: coll_ok_def auto_ok_def)

lemma seq_set_coll [simp]: "fdb_seq (set_coll p c db) = fdb_seq db"
  by (simp add: set_coll_def)

lemma store_ok_set_coll:
  "store_ok db \<Longrightarrow> coll_ok (fdb_seq db) c \<Longrightarrow> store_ok (set_coll p c db)"
  by (simp add: store_ok_iff)

lemma store_ok_add_step:
  "store_ok db \<Longrightarrow>
   store_ok (set_coll p (coll db p @ [(auto_id (fdb_seq db), d)]) (db\<lparr>fdb_seq := Suc (fdb_seq db)\<rparr>))"
  by (auto simp: store_ok_iff intro: coll_ok_snoc_fresh coll_ok_mono)

lemma coll_ok_keys: "coll_ok n c \<longleftrightarrow> distinct (map fst c) \<and> list_all (auto_ok n) (map fst c)"
  by (simp add: coll_ok_def list_all_iff)

lemma getDoc_Some_key: "getDoc p i db = Some d \<Longrightarrow> i \<in> set (map fst (coll db p))"
  by (auto simp: getDoc_def dest: map_of_SomeD intro: rev_image_eqI)

lemma coll_ok_update: "coll_ok n c \<Longrightarrow> i \<in> set (map fst c) \<Longrightarrow> coll_ok n (AList.update i v c)"
  by (simp add: coll_ok_keys AList.update_keys)

lemma coll_ok_delete: "coll_ok n c \<Longrightarrow> coll_ok n (AList.delete i c)"
  by (auto simp: coll_ok_keys AList.delete_keys distinct_removeAll list_all_iff)

lemma store_ok_addDoc: "store_ok db \<Longrightarrow> addDoc p d db = Inr (i, db') \<Longrightarrow> store_ok db'"
  by (auto simp: addDoc_def Let_def split: if_splits intro: store_ok_add_step)

lemma store_ok_updateDoc: "store_ok db \<Longrightarrow> updateDoc p i d db = Inr db' \<Longrightarrow> store_ok db'"
  by (auto simp: updateDoc_def store_ok_iff split: if_splits option.splits
      intro!: coll_ok_update dest: getDoc_Some_key)

lemma store_ok_deleteDoc: "store_ok db \<Longrightarrow> store_ok (deleteDoc p i db)"
  by (simp add: deleteDoc_def store_ok_iff coll_ok_delete)

lemma store_ok_batch_fold:
  "store_ok db \<Longrightarrow>
   store_ok (fold (\<lambda>(p, d) db. let i = auto_id (fdb_seq db)
                               in set_coll p (coll db p @ [(i, d)]) (db\<lparr>fdb_seq := Suc (fdb_seq db)\<rparr>)) ws db)"
proof (induction ws arbitrary: db)
  case Nil then show ?case by simp
next
  case (Cons w ws)
  obtain p d where "w = (p, d)" by (cases w)
  with Cons show ?case by (simp add: Let_def store_ok_add_step)
qed

lemma store_ok_batch: "store_ok db \<Longrightarrow> batch_set_new ws db = Inr db' \<Longrightarrow> store_ok db'"
  using store_ok_batch_fold [of db ws] by (auto simp: batch_set_new_def Let_def split: if_splits)

lemma map_of_spread:
  "map_of (spread a b) k = (case map_of (rev b) k of None \<Rightarrow> map_of a k | Some v \<Rightarrow> Some v)"
proof (induction b arbitrary: a)
  case Nil then show ?case by (simp add: spread_def)
next
  case (Cons x b)
  have "spread a (x # b) = spread (AList.update (fst x) (snd x) a) b"
    by (cases x) (simp add: spread_def)
  then show ?case
    using Cons [of "AList.update (fst x) (snd x) a"]
    by (cases x) (auto simp: map_add_def AList.update_conv split: option.splits)
qed

lemma getDoc_set_coll [simp]: "getDoc p i (set_coll q c db) = (if p = q then map_of c i else getDoc p i db)"
  by (simp add: getDoc_def)

lemma getDoc_seq_update [simp]: "getDoc p i (db\<lparr>fdb_seq := n\<rparr>) = getDoc p i db"
  by (simp add: getDoc_def)

lemma addDoc_getDoc:
  assumes "store_ok db" "addDoc p d db = Inr (i, db')"
  shows "getDoc p i db' = Some d"
proof -
  have fresh: "auto_id (fdb_seq db) \<notin> set (map fst (coll db p))"
    using assms(1) fresh_auto_id by (simp add: store_ok_iff)
  then have "map_of (coll db p) (auto_id (fdb_seq db)) = None"
    by (simp add: map_of_eq_None_iff)
  with assms(2) show ?thesis
    by (auto simp: addDoc_def Let_def map_add_def split: if_splits)
qed







lemma format_quote_number_inj [simp]:
  "format_quote_number p m = format_quote_number p n \<longleftrightarrow> m = n"
proof
  assume "format_quote_number p m = format_quote_number p n"
  then have "dropWhile (\<lambda>x. x = CHR ''0'') (padStart (string_of_int m) 6 CHR ''0'') =
             dropWhile (\<lambda>x. x = CHR ''0'') (padStart (string_of_int n) 6 CHR ''0'')"
    by (simp add: format_quote_number_def)
  then have "(if m = 0 then [] else string_of_int m) = (if n = 0 then [] else string_of_int n)"
    by (simp add: dropWhile_padStart dropWhile_string_of_int)
  then show "m = n"
    by (auto split: if_splits dest: sym)
qed simp

lemma gq_read_hold: "settings_hold cid p n db \<Longrightarrow> gq_read cid db = Inr (p, n)"
  by (auto simp: settings_hold_def gq_read_def getSystemSettings_def split: option.splits)

lemma gq_write_hold:
  assumes "settings_hold cid p n db"
  shows "\<exists>db'. gq_write cid now r db = Inr (format_quote_number (fst r) (snd r), db') \<and>
              settings_hold cid p (snd r + 1) db'"
proof -
  obtain d where d: "getDoc (settings_path cid) ''system'' db = Some d"
    "map_of d ''quote_number_prefix'' = Some (FStr p)"
    using assms by (auto simp: settings_hold_def getSystemSettings_def split: option.splits)
  show ?thesis
    using d by (simp add: gq_write_def updateDoc_def valid_data_def settings_hold_def
        getSystemSettings_def AList.update_conv map_of_spread)
qed

lemma generateQuoteNumber_hold:
  "settings_hold cid p n db \<Longrightarrow>
   \<exists>db'. generateQuoteNumber cid now db = Inr (format_quote_number p n, db') \<and>
         settings_hold cid p (n + 1) db'"
  using gq_write_hold [of cid p n db now "(p, n)"] by (simp add: generateQuoteNumber_def gq_read_hold)

lemma gen_quote_numbers_hold:
  "settings_hold cid p n db \<Longrightarrow>
   \<exists>db'. gen_quote_numbers k cid now db = Inr (map (\<lambda>j. format_quote_number p (n + int j)) [0..<k], db')"
proof (induction k arbitrary: n db)
  case 0 then show ?case by simp
next
  case (Suc k)
  obtain db1 where 1: "generateQuoteNumber cid now db = Inr (format_quote_number p n, db1)"
    "settings_hold cid p (n + 1) db1"
    using generateQuoteNumber_hold [OF Suc.prems] by blast
  obtain db2 where 2: "gen_quote_numbers k cid now db1 =
      Inr (map (\<lambda>j. format_quote_number p (n + 1 + int j)) [0..<k], db2)"
    using Suc.IH [OF 1(2)] by blast
  have "map (\<lambda>j. format_quote_number p (n + int j)) [0..<Suc k] =
        format_quote_number p n # map (\<lambda>j. format_quote_number p (n + 1 + int j)) [0..<k]"
    by (simp add: upt_conv_Cons map_Suc_upt [symmetric] del: upt_Suc)
  with 1 2 show ?case by simp
qed

lemma auto_id_not_user: "auto_id k \<noteq> ''user_'' @ s"
  by (simp add: auto_id_def)

lemma addDoc_other:
  "addDoc p d db = Inr (i, db') \<Longrightarrow> j \<noteq> i \<Longrightarrow> getDoc p j db' = getDoc p j db"
  by (auto simp: addDoc_def Let_def map_add_def getDoc_def split: if_splits option.splits)

lemma addDoc_auto_id: "addDoc p d db = Inr (i, db') \<Longrightarrow> i = auto_id (fdb_seq db)"
  by (auto simp: addDoc_def Let_def split: if_splits)

lemma filter_throwing_total:
  "(\<And>x. x \<in> set xs \<Longrightarrow> P x = Inr (Q x)) \<Longrightarrow> filter_throwing P xs = Inr (filter Q xs)"
  by (induction xs) auto

lemma filter_throwing_Inr:
  "filter_throwing P xs = Inr ys \<Longrightarrow> ys = filter (\<lambda>x. P x = Inr True) xs"
  by (induction xs arbitrary: ys) (auto split: sum.splits)

lemma settings_demo_hold: "settings_hold ''acme-electrical'' ''QTE-'' 41 settings_demo_db"
  by (simp add: settings_hold_def settings_demo_db_def getSystemSettings_def getDoc_def coll_def
      settings_path_def)

section \<open>Properties of the store and the services\<close>

text \<open>
  Every write to the store keeps it well formed: document ids are unique within each
  collection and every automatic id lies below the id counter, so the next \<open>addDoc\<close> id is fresh.
\<close>

theorem svc_apply_store_ok: "store_ok db \<Longrightarrow> store_ok (svc_apply op db)"
proof (cases op)
  case (Svc_quote_number cid now)
  assume h: "store_ok db"
  show ?thesis
  proof (cases "gq_read cid db")
    case (Inr r)
    with h Svc_quote_number show ?thesis
      by (auto simp: svc_apply_def generateQuoteNumber_def gq_write_def split: sum.splits
          intro: store_ok_updateDoc)
  qed (simp add: Svc_quote_number svc_apply_def generateQuoteNumber_def h)
qed (auto simp: svc_apply_def fs_create_def fs_update_def fs_delete_def updateBusinessSettings_def
      updateSystemSettings_def updateMarginRules_def seedInitialData_def split: sum.splits
      intro: store_ok_addDoc store_ok_updateDoc store_ok_deleteDoc store_ok_batch)

theorem svc_apply_store_ok_witness:
  "store_ok empty_db \<and> store_ok (svc_apply (Svc_create ''trades'' [(''name'', FStr ''Solar'')] 5) empty_db)"
proof -
  have h: "store_ok empty_db" by (simp add: store_ok_def empty_db_def)
  show ?thesis using h svc_apply_store_ok [OF h] by blast
qed

text \<open>
  In a well-formed store, a document created by a service's \<open>create\<close> is read back by
  \<open>getById\<close> under the returned id, as its data with the two server timestamps and the id.
\<close>

theorem create_getById_roundtrip:
  "store_ok db \<Longrightarrow> fs_create p d now db = Inr (i, db') \<Longrightarrow>
   fs_getById p idk i db' = Some (with_id idk (i, spread d (stamps now)))"
  by (simp add: fs_create_def fs_getById_def addDoc_getDoc)

theorem create_getById_roundtrip_witness:
  "store_ok empty_db \<and>
   fs_create ''trades'' [(''name'', FStr ''Solar'')] 5 empty_db =
     Inr (auto_id 0, set_coll ''trades'' [(auto_id 0, spread [(''name'', FStr ''Solar'')] (stamps 5))]
                       (empty_db\<lparr>fdb_seq := 1\<rparr>)) \<and>
   fs_getById ''trades'' ''id'' (auto_id 0)
     (set_coll ''trades'' [(auto_id 0, spread [(''name'', FStr ''Solar'')] (stamps 5))] (empty_db\<lparr>fdb_seq := 1\<rparr>)) =
   Some (with_id ''id'' (auto_id 0, spread [(''name'', FStr ''Solar'')] (stamps 5)))"
proof -
  have h1: "store_ok empty_db" by (simp add: store_ok_def empty_db_def)
  have h2: "fs_create ''trades'' [(''name'', FStr ''Solar'')] 5 empty_db =
     Inr (auto_id 0, set_coll ''trades'' [(auto_id 0, spread [(''name'', FStr ''Solar'')] (stamps 5))]
                       (empty_db\<lparr>fdb_seq := 1\<rparr>))"
    by (simp add: fs_create_def addDoc_def valid_data_def spread_def stamps_def empty_db_def coll_def Let_def)
  show ?thesis using h1 h2 create_getById_roundtrip [OF h1 h2] by blast
qed

text \<open>
  C31. When a company has no \<open>settings/system\<close> document, \<open>generateQuoteNumber\<close> throws
  instead of using its defaults: the \<open>updateDoc\<close> of the counter fails on the missing
  document, so the fallback number \<open>QTE-000001\<close> is never returned.
\<close>

theorem missing_settings_quote_number_fails:
  "getSystemSettings cid db = None \<Longrightarrow>
   generateQuoteNumber cid now db = Inl (''No document to update: '' @ settings_path cid @ ''/system'')"
  by (simp add: generateQuoteNumber_def gq_read_def gq_write_def updateDoc_def valid_data_def
      getSystemSettings_def)

theorem missing_settings_quote_number_fails_witness:
  "getSystemSettings ''acme-electrical'' empty_db = None \<and>
   generateQuoteNumber ''acme-electrical'' 9 empty_db =
     Inl (''No document to update: '' @ settings_path ''acme-electrical'' @ ''/system'')"
proof -
  have h: "getSystemSettings ''acme-electrical'' empty_db = None"
    by (simp add: getSystemSettings_def getDoc_def coll_def empty_db_def)
  show ?thesis using h missing_settings_quote_number_fails [OF h] by blast
qed

text \<open>
  C32. Calls of \<open>generateQuoteNumber\<close> issued one after the other against a well-formed
  settings document all succeed and return pairwise distinct quote numbers.
\<close>

theorem sequential_quote_numbers_distinct:
  "settings_hold cid p n db \<Longrightarrow>
   \<exists>qs db'. gen_quote_numbers k cid now db = Inr (qs, db') \<and> length qs = k \<and> distinct qs"
proof -
  assume h: "settings_hold cid p n db"
  have "inj_on (\<lambda>j. format_quote_number p (n + int j)) (set [0..<k])"
    by (auto simp: inj_on_def)
  then show ?thesis
    using gen_quote_numbers_hold [OF h, of k now] by (auto simp: distinct_map)
qed

theorem sequential_quote_numbers_distinct_witness:
  "settings_hold ''acme-electrical'' ''QTE-'' 41 settings_demo_db \<and>
   (\<exists>qs db'. gen_quote_numbers 3 ''acme-electrical'' 9 settings_demo_db = Inr (qs, db') \<and> length qs = 3 \<and> distinct qs)"
  using settings_demo_hold sequential_quote_numbers_distinct [OF settings_demo_hold] by blast

text \<open>
  C33. Two clients whose calls interleave (both reads before both writes) receive the same
  quote number, and the counter advances by one instead of two: the read and the update
  are not in a transaction.
\<close>

theorem interleaved_quote_numbers_collide:
  "settings_hold cid p n db \<Longrightarrow>
   \<exists>w. gq_run cid now [GRead 1, GRead 2, GWrite 1, GWrite 2] \<lparr>gw_db = db, gw_reads = [], gw_out = []\<rparr> = Inr w \<and>
       gw_out w = [(1, format_quote_number p n), (2, format_quote_number p n)] \<and>
       settings_hold cid p (n + 1) (gw_db w)"
proof -
  assume h: "settings_hold cid p n db"
  obtain db1 where 1: "gq_write cid now (p, n) db = Inr (format_quote_number p n, db1)"
    "settings_hold cid p (n + 1) db1"
    using gq_write_hold [OF h, of now "(p, n)"] by auto
  obtain db2 where 2: "gq_write cid now (p, n) db1 = Inr (format_quote_number p n, db2)"
    "settings_hold cid p (n + 1) db2"
    using gq_write_hold [OF 1(2), of now "(p, n)"] by auto
  show ?thesis using h 1 2 by (simp add: gq_read_hold)
qed

theorem interleaved_quote_numbers_collide_witness:
  "settings_hold ''acme-electrical'' ''QTE-'' 41 settings_demo_db \<and>
   (\<exists>w. gq_run ''acme-electrical'' 9 [GRead 1, GRead 2, GWrite 1, GWrite 2]
          \<lparr>gw_db = settings_demo_db, gw_reads = [], gw_out = []\<rparr> = Inr w \<and>
       gw_out w = [(1, format_quote_number ''QTE-'' 41), (2, format_quote_number ''QTE-'' 41)] \<and>
       settings_hold ''acme-electrical'' ''QTE-'' (41 + 1) (gw_db w))"
  using settings_demo_hold interleaved_quote_numbers_collide [OF settings_demo_hold] by blast

text \<open>
  C34. \<open>UserService.createWithAuth\<close> succeeds only with a company id (an \<open>undefined\<close>
  \<open>company_id\<close> is rejected by Firestore), and even then the profile is stored under an
  automatic id, not under its \<open>uid\<close>: a lookup of \<open>users/uid\<close> (as
  \<open>fetchUserProfile\<close> does) finds nothing new.
\<close>

theorem createWithAuth_profile_unreachable:
  "createWithAuth now rnd e name r cid db = Inr (i, db') \<Longrightarrow>
   cid \<noteq> None \<and>
   getDoc ''users'' (''user_'' @ string_of_nat now @ ''_'' @ rnd) db' =
   getDoc ''users'' (''user_'' @ string_of_nat now @ ''_'' @ rnd) db"
proof -
  assume a: "createWithAuth now rnd e name r cid db = Inr (i, db')"
  then have add: "addDoc ''users'' (spread [(''uid'', FStr (''user_'' @ string_of_nat now @ ''_'' @ rnd)),
      (''email'', FStr e), (''name'', FStr name), (''role'', FStr r),
      (''company_id'', case cid of None \<Rightarrow> FUndefined | Some c \<Rightarrow> FStr c)] (stamps now)) db = Inr (i, db')"
    by (simp add: createWithAuth_def fs_create_def)
  have "cid \<noteq> None"
    using add by (cases cid) (auto simp: addDoc_def valid_data_def spread_def stamps_def)
  moreover have "''user_'' @ string_of_nat now @ ''_'' @ rnd \<noteq> i"
    using addDoc_auto_id [OF add] auto_id_not_user by (metis append.assoc)
  ultimately show ?thesis using addDoc_other [OF add] by blast
qed

theorem createWithAuth_profile_unreachable_witness:
  "\<exists>i db'. createWithAuth 7 ''k3x9'' ''ann@acme.com'' ''Ann'' ''trade_company_user'' (Some ''acme'') empty_db = Inr (i, db') \<and>
     Some ''acme'' \<noteq> None \<and>
     getDoc ''users'' (''user_'' @ string_of_nat 7 @ ''_'' @ ''k3x9'') db' =
     getDoc ''users'' (''user_'' @ string_of_nat 7 @ ''_'' @ ''k3x9'') empty_db"
proof -
  have "\<exists>i db'. createWithAuth 7 ''k3x9'' ''ann@acme.com'' ''Ann'' ''trade_company_user'' (Some ''acme'') empty_db = Inr (i, db')"
    by (simp add: createWithAuth_def fs_create_def addDoc_def valid_data_def spread_def stamps_def Let_def)
  then obtain i db' where h: "createWithAuth 7 ''k3x9'' ''ann@acme.com'' ''Ann'' ''trade_company_user'' (Some ''acme'') empty_db = Inr (i, db')"
    by blast
  show ?thesis using h createWithAuth_profile_unreachable [OF h] by blast
qed

text \<open>
  C35. On a store whose clients have the fields the \<open>Client\<close> interface gives them,
  \<open>ClientService.search\<close> returns, and its result is exactly the clients, in store order,
  whose lower-cased name contains the lower-cased term or whose e-mail, if any, does.
\<close>

theorem client_search_filter:
  "list_all client_doc_typed (client_getAll cid db) \<Longrightarrow>
   client_search cid t db =
     Inr (filter (\<lambda>c. (\<exists>n. map_of c ''name'' = Some (FStr n) \<and> js_includes (toLowerCase n) (toLowerCase t)) \<or>
                      (\<exists>m. map_of c ''email'' = Some (FStr m) \<and> js_includes (toLowerCase m) (toLowerCase t)))
            (client_getAll cid db))"
proof -
  assume h: "list_all client_doc_typed (client_getAll cid db)"
  have "client_matches t c =
        Inr ((\<exists>n. map_of c ''name'' = Some (FStr n) \<and> js_includes (toLowerCase n) (toLowerCase t)) \<or>
             (\<exists>m. map_of c ''email'' = Some (FStr m) \<and> js_includes (toLowerCase m) (toLowerCase t)))"
    if "client_doc_typed c" for c
    using that by (auto simp: client_doc_typed_def client_matches_def split: option.splits fvalue.splits)
  with h show ?thesis
    by (simp add: client_search_def filter_throwing_total list_all_iff)
qed

theorem client_search_filter_witness:
  "list_all client_doc_typed (client_getAll ''acme'' clients_demo_db) \<and>
   client_search ''acme'' ''ANN'' clients_demo_db =
     Inr (filter (\<lambda>c. (\<exists>n. map_of c ''name'' = Some (FStr n) \<and> js_includes (toLowerCase n) (toLowerCase ''ANN'')) \<or>
                      (\<exists>m. map_of c ''email'' = Some (FStr m) \<and> js_includes (toLowerCase m) (toLowerCase ''ANN'')))
            (client_getAll ''acme'' clients_demo_db))"
proof -
  have h: "list_all client_doc_typed (client_getAll ''acme'' clients_demo_db)"
    by (simp add: client_doc_typed_def client_getAll_def fs_getAll_def clients_demo_db_def coll_def
        clients_path_def with_id_def spread_def)
  show ?thesis using h client_search_filter [OF h] by blast
qed

end
