(* ===== verification/Auth_Context.thy ===== *)
theory Auth_Context
  imports Auth_Service Firestore
begin

text \<open>
  \<open>AuthProvider\<close> of \<open>src/src/contexts/AuthContext.tsx\<close> as explicit state passing.
  The state holds the provider's \<open>user\<close> and \<open>loading\<close> hooks, the browser's
  \<open>localStorage['demo_user']\<close> (as the user it decodes to) and the log of toasts shown.
  An async operation returns the new state and \<open>Inl\<close> of the message of the error it
  re-throws, or \<open>Inr ()\<close>; its \<open>finally\<close> block is part of the new state.
  \<open>register\<close> calls Firebase's \<open>createUserWithEmailAndPassword\<close>: its outcome is a
  parameter (\<open>Inl\<close> of the error message, or \<open>Inr\<close> of the new account's uid and
  optional email); the \<open>setDoc\<close> of the profile is the Firestore client's check of the
  data (\<open>Firestore.valid_data\<close>): it throws when \<open>company_id\<close> is \<open>undefined\<close>.
\<close>

section \<open>State\<close>

datatype toast = Toast_success string | Toast_error string

record auth_ctx =
  ctx_user :: "app_user option"
  loading :: bool
  stored_user :: "app_user option"
  toasts :: "toast list"

text \<open>A mount of the provider: \<open>useState(null)\<close>, \<open>useState(true)\<close>, the stored entry.\<close>

definition provider_init :: "app_user option \<Rightarrow> auth_ctx" where
  "provider_init st = \<lparr>ctx_user = None, loading = True, stored_user = st, toasts = []\<rparr>"

text \<open>The mount effect \<open>checkDemoUser\<close>: restore the stored demo user, then stop loading.\<close>

definition checkDemoUser :: "auth_ctx \<Rightarrow> auth_ctx" where
  "checkDemoUser c =
     (case stored_user c of
        Some u \<Rightarrow> c\<lparr>ctx_user := Some u, loading := False\<rparr>
      | None \<Rightarrow> c\<lparr>loading := False\<rparr>)"

section \<open>The context's demo users\<close>

text \<open>\<open>login\<close> and \<open>loginWithDemo\<close> each build their own copies of the demo profiles.\<close>

definition ctx_demo_admin :: app_user where
  "ctx_demo_admin = \<lparr>uid = ''demo-admin-123'', email = ''admin@quotehub.com'',
     user_name = ''Global Admin'', role = Global_app_admin, company_id = None\<rparr>"

definition ctx_demo_company :: app_user where
  "ctx_demo_company = \<lparr>uid = ''demo-user-456'', email = ''john@acmeelectrical.com'',
     user_name = ''John Smith'', role = Trade_company_user, company_id = Some ''acme-electrical''\<rparr>"

fun ctx_demo_user :: "demo_kind \<Rightarrow> app_user" where
  "ctx_demo_user Admin_demo =
     \<lparr>uid = ''demo-admin-123'', email = ''admin@quotehub.com'',
      user_name = ''Global Admin'', role = Global_app_admin, company_id = None\<rparr>"
| "ctx_demo_user Company_demo =
     \<lparr>uid = ''demo-user-456'', email = ''john@acmeelectrical.com'',
      user_name = ''John Smith'', role = Trade_company_user, company_id = Some ''acme-electrical''\<rparr>"

definition ctx_invalid_msg :: string where
  "ctx_invalid_msg =
     ''Invalid credentials. Use demo accounts:\<newline>- admin@quotehub.com\<newline>- john@acmeelectrical.com\<newline>Password: demo123''"

section \<open>Operations\<close>

text \<open>
  \<open>login\<close>: \<open>setLoading(true)\<close>; a demo pair sets the user, stores it and toasts;
  otherwise an error toast, \<open>throw new Error('Invalid demo credentials')\<close>, whose
  \<open>catch\<close> toasts the message again and re-throws; \<open>finally\<close> clears loading.
\<close>

definition ctx_login :: "string \<Rightarrow> string \<Rightarrow> auth_ctx \<Rightarrow> auth_ctx \<times> (string + unit)" where
  "ctx_login e pw c =
     (let c1 = c\<lparr>loading := True\<rparr> in
      if e = ''admin@quotehub.com'' \<and> pw = ''demo123'' then
        (c1\<lparr>ctx_user := Some ctx_demo_admin, stored_user := Some ctx_demo_admin,
             toasts := toasts c1 @ [Toast_success ''Successfully logged in as Global Admin''],
             loading := False\<rparr>, Inr ())
      else if e = ''john@acmeelectrical.com'' \<and> pw = ''demo123'' then
        (c1\<lparr>ctx_user := Some ctx_demo_company, stored_user := Some ctx_demo_company,
             toasts := toasts c1 @ [Toast_success ''Successfully logged in as Company User''],
             loading := False\<rparr>, Inr ())
      else
        (c1\<lparr>toasts := toasts c1 @ [Toast_error ctx_invalid_msg,
                                   Toast_error ''Invalid demo credentials''],
             loading := False\<rparr>, Inl ''Invalid demo credentials''))"

text \<open>The fields of \<open>Partial<User>\<close> that \<open>register\<close> reads.\<close>

record partial_user =
  pu_name :: "string option"
  pu_role :: "role option"
  pu_company_id :: "string option"

text \<open>The profile \<open>register\<close> writes with \<open>setDoc(doc(db, 'users', uid), newUser)\<close>: an
  absent \<open>company_id\<close> is the value \<open>undefined\<close>, which the Firestore client rejects before
  writing. The two \<open>new Date()\<close> fields are valid values and are left out.\<close>

definition user_doc :: "app_user \<Rightarrow> fdoc" where
  "user_doc u =
     [(''uid'', FStr (uid u)), (''email'', FStr (email u)), (''name'', FStr (user_name u)),
      (''role'', FStr (role_tag (role u))),
      (''company_id'', case company_id u of None \<Rightarrow> FUndefined | Some c \<Rightarrow> FStr c)]"

definition ctx_register ::
  "string + (string \<times> string option) \<Rightarrow> string \<Rightarrow> string \<Rightarrow> partial_user \<Rightarrow> auth_ctx \<Rightarrow>
   auth_ctx \<times> (string + unit)" where
  "ctx_register fb e pw ud c =
     (let fail = (\<lambda>msg. (c\<lparr>toasts := toasts c @ [Toast_error (js_or_str (Some msg) ''Failed to create account'')],
                            loading := False\<rparr>, Inl msg))
      in case fb of
        Inl msg \<Rightarrow> fail msg
      | Inr (fuid, femail) \<Rightarrow>
          (let nu = \<lparr>uid = fuid, email = js_or_str femail e,
                     user_name = js_or_str (pu_name ud) (takeWhile (\<lambda>ch. ch \<noteq> CHR ''@'') e),
                     role = opt_or (pu_role ud) Trade_company_user,
                     company_id = pu_company_id ud\<rparr>
           in if \<not> valid_data (user_doc nu) then fail invalid_data_msg
              else (c\<lparr>ctx_user := Some nu,
                       toasts := toasts c @ [Toast_success ''Account created successfully''],
                       loading := False\<rparr>, Inr ())))"

text \<open>
  \<open>fetchUserProfile\<close> (called only from the commented-out Firebase listener): the
  outcome of \<open>getDoc\<close> (\<open>Inl\<close> an error, \<open>Inr None\<close> a missing document) and of
  the \<open>setDoc\<close> that stores a default profile are parameters.
\<close>

definition fetchUserProfile ::
  "string \<Rightarrow> string option \<Rightarrow> string option \<Rightarrow> string + app_user option \<Rightarrow> string + unit \<Rightarrow>
   auth_ctx \<Rightarrow> auth_ctx" where
  "fetchUserProfile fuid femail fname gd sd c =
     (let err = c\<lparr>toasts := toasts c @ [Toast_error ''Error loading user profile'']\<rparr> in
      case gd of
        Inl _ \<Rightarrow> err
      | Inr (Some u) \<Rightarrow> c\<lparr>ctx_user := Some u\<rparr>
      | Inr None \<Rightarrow>
          (case sd of
             Inl _ \<Rightarrow> err
           | Inr () \<Rightarrow>
               c\<lparr>ctx_user := Some
                  \<lparr>uid = fuid, email = js_or_str femail [],
                   user_name = js_or_str fname
                     (js_or_str (map_option (takeWhile (\<lambda>ch. ch \<noteq> CHR ''@'')) femail) ''User''),
                   role = Trade_company_user, company_id = None\<rparr>\<rparr>))"

definition ctx_loginWithDemo :: "demo_kind \<Rightarrow> auth_ctx \<Rightarrow> auth_ctx \<times> (string + unit)" where
  "ctx_loginWithDemo k c =
     (let u = ctx_demo_user k
      in (c\<lparr>ctx_user := Some u, stored_user := Some u,
             toasts := toasts c @ [Toast_success (''Successfully logged in as '' @
                         (if k = Admin_demo then ''Global Admin'' else ''Company User''))],
             loading := False\<rparr>, Inr ()))"

definition ctx_logout :: "auth_ctx \<Rightarrow> auth_ctx" where
  "ctx_logout c =
     c\<lparr>ctx_user := None, stored_user := None,
       toasts := toasts c @ [Toast_success ''Successfully logged out'']\<rparr>"

definition isGlobalAdmin :: "auth_ctx \<Rightarrow> bool" where
  "isGlobalAdmin c = (case ctx_user c of Some u \<Rightarrow> role u = Global_app_admin | None \<Rightarrow> False)"

definition isTradeCompanyUser :: "auth_ctx \<Rightarrow> bool" where
  "isTradeCompanyUser c = (case ctx_user c of Some u \<Rightarrow> role u = Trade_company_user | None \<Rightarrow> False)"

text \<open>\<open>useAuth\<close>: the context value of the nearest provider, or the error a component
  raises when rendered outside any provider. \<open>getDemoCredentials\<close> is a second
  hard-coded copy of the demo credentials.\<close>

definition useAuth :: "auth_ctx option \<Rightarrow> string + auth_ctx" where
  "useAuth c = (case c of None \<Rightarrow> Inl ''useAuth must be used within an AuthProvider'' | Some x \<Rightarrow> Inr x)"

definition ctx_getDemoCredentials :: "credentials \<times> credentials" where
  "ctx_getDemoCredentials =
     (\<lparr>cred_email = ''admin@quotehub.com'', cred_password = ''demo123''\<rparr>,
      \<lparr>cred_email = ''john@acmeelectrical.com'', cred_password = ''demo123''\<rparr>)"

section \<open>Lemmas\<close>

lemma ctx_demo_users_agree [simp]:
  "ctx_demo_admin = demo_user Admin_demo" "ctx_demo_company = demo_user Company_demo"
  "ctx_demo_user k = demo_user k"
  by (simp_all add: ctx_demo_admin_def ctx_demo_company_def demo_admin_user_def
      demo_company_user_def, cases k, simp_all add: demo_admin_user_def demo_company_user_def)

lemma ctx_login_cases:
  "ctx_login e pw c =
     (case login e pw of
        Inr u \<Rightarrow> (c\<lparr>ctx_user := Some u, stored_user := Some u,
                    toasts := toasts c @ [Toast_success (''Successfully logged in as '' @
                      (if role u = Global_app_admin then ''Global Admin'' else ''Company User''))],
                    loading := False\<rparr>, Inr ())
      | Inl _ \<Rightarrow> (c\<lparr>toasts := toasts c @ [Toast_error ctx_invalid_msg,
                                        Toast_error ''Invalid demo credentials''],
                    loading := False\<rparr>, Inl ''Invalid demo credentials''))"
  by (simp add: ctx_login_def login_def Let_def demo_admin_user_def demo_company_user_def)

text \<open>A reload: a fresh provider mounted on the stored entry signs in exactly that user.\<close>

lemma reload_user [simp]: "ctx_user (checkDemoUser (provider_init st)) = st"
  by (simp add: provider_init_def checkDemoUser_def split: option.splits)

text \<open>The provider's copy of the demo credentials is the service's, so the credentials
  the sign-in page displays are the ones the service accepts.\<close>

lemma ctx_getDemoCredentials_agree: "ctx_getDemoCredentials = getDemoCredentials"
  by (simp add: ctx_getDemoCredentials_def getDemoCredentials_def)

section \<open>Properties of the provider\<close>

text \<open>
  C17. The provider's \<open>login\<close> refines \<open>AuthService.login\<close>: it signs in exactly the
  user the service returns, succeeds exactly when the service does, and leaves the
  signed-in user unchanged on a failure.
\<close>

theorem ctx_login_refines_service:
  "ctx_user (fst (ctx_login e pw c)) =
     (case login e pw of Inr u \<Rightarrow> Some u | Inl _ \<Rightarrow> ctx_user c) \<and>
   (snd (ctx_login e pw c) = Inr ()) = (\<exists>u. login e pw = Inr u)"
  by (simp add: ctx_login_cases split: sum.splits)

text \<open>
  C18. Every provider operation ends with \<open>loading\<close> false: the \<open>finally\<close> blocks of
  \<open>login\<close>, \<open>register\<close> and \<open>loginWithDemo\<close> clear it on success and on failure, and the
  mount effect clears it whether or not a stored user is found.
\<close>

theorem auth_ops_clear_loading:
  "\<not> loading (fst (ctx_login e pw c)) \<and> \<not> loading (fst (ctx_register fb e pw ud c)) \<and>
   \<not> loading (fst (ctx_loginWithDemo k c)) \<and> \<not> loading (checkDemoUser c)"
  by (simp add: ctx_login_def ctx_register_def ctx_loginWithDemo_def checkDemoUser_def Let_def
      split: sum.splits option.splits prod.splits)

text \<open>
  C19. A successful \<open>login\<close> survives a page reload: a fresh provider mounted on the
  stored \<open>demo_user\<close> entry restores the same user.
\<close>

theorem login_reload_roundtrip:
  "snd (ctx_login e pw c) = Inr () \<Longrightarrow>
   ctx_user (checkDemoUser (provider_init (stored_user (fst (ctx_login e pw c))))) =
   ctx_user (fst (ctx_login e pw c))"
  by (simp add: ctx_login_cases split: sum.splits)

theorem login_reload_roundtrip_witness:
  "snd (ctx_login ''john@acmeelectrical.com'' ''demo123'' (provider_init None)) = Inr () \<and>
   ctx_user (checkDemoUser (provider_init (stored_user
     (fst (ctx_login ''john@acmeelectrical.com'' ''demo123'' (provider_init None)))))) =
   ctx_user (fst (ctx_login ''john@acmeelectrical.com'' ''demo123'' (provider_init None)))"
proof -
  have h: "snd (ctx_login ''john@acmeelectrical.com'' ''demo123'' (provider_init None)) = Inr ()"
    by (simp add: ctx_login_def)
  show ?thesis using h login_reload_roundtrip [OF h] by blast
qed

text \<open>
  A demo login survives a reload as that demo account, and after \<open>logout\<close> a reload
  finds no user: the stored entry is removed together with the in-memory user.
\<close>

lemma demo_login_logout_reload:
  "ctx_user (checkDemoUser (provider_init (stored_user (fst (ctx_loginWithDemo k c))))) =
     Some (demo_user k) \<and>
   ctx_user (ctx_logout c) = None \<and>
   ctx_user (checkDemoUser (provider_init (stored_user (ctx_logout c)))) = None"
  by (simp add: ctx_loginWithDemo_def ctx_logout_def Let_def)

text \<open>Without a company id the profile write is rejected: \<open>register\<close> throws the
  Firestore message after the account was created, shows it in an error toast and
  signs nobody in.\<close>

lemma register_without_company_fails:
  "fb = Inr (fuid, femail) \<Longrightarrow> pu_company_id ud = None \<Longrightarrow>
   snd (ctx_register fb e pw ud c) = Inl invalid_data_msg \<and>
   ctx_user (fst (ctx_register fb e pw ud c)) = ctx_user c \<and>
   toasts (fst (ctx_register fb e pw ud c)) = toasts c @ [Toast_error invalid_data_msg]"
  by (simp add: ctx_register_def Let_def user_doc_def valid_data_def js_or_str_def invalid_data_msg_def)

text \<open>
  C21. A successful \<open>register\<close> (Firebase creates the account and the profile, which has
  a company id, is written) signs the new account in but does not write the
  \<open>demo_user\<close> entry: the stored user is unchanged, so a reload restores whoever was
  stored before (or nobody) instead of the registered account.
\<close>

theorem register_not_persisted:
  "fb = Inr (fuid, femail) \<Longrightarrow> pu_company_id ud = Some cid \<Longrightarrow>
   snd (ctx_register fb e pw ud c) = Inr () \<and>
   ctx_user (fst (ctx_register fb e pw ud c)) \<noteq> None \<and>
   ctx_user (checkDemoUser (provider_init (stored_user (fst (ctx_register fb e pw ud c))))) =
   stored_user c"
  by (simp add: ctx_register_def Let_def user_doc_def valid_data_def)

theorem register_not_persisted_witness:
  "Inr (''u1'', Some ''a@b.c'') = (Inr (''u1'', Some ''a@b.c'') :: string + string \<times> string option) \<and>
   pu_company_id \<lparr>pu_name = None, pu_role = None, pu_company_id = Some ''acme-electrical''\<rparr> = Some ''acme-electrical'' \<and>
   snd (ctx_register (Inr (''u1'', Some ''a@b.c'')) ''a@b.c'' ''pw''
      \<lparr>pu_name = None, pu_role = None, pu_company_id = Some ''acme-electrical''\<rparr> (provider_init None)) = Inr () \<and>
   ctx_user (fst (ctx_register (Inr (''u1'', Some ''a@b.c'')) ''a@b.c'' ''pw''
      \<lparr>pu_name = None, pu_role = None, pu_company_id = Some ''acme-electrical''\<rparr> (provider_init None))) \<noteq> None \<and>
   ctx_user (checkDemoUser (provider_init (stored_user (fst (ctx_register (Inr (''u1'', Some ''a@b.c''))
      ''a@b.c'' ''pw'' \<lparr>pu_name = None, pu_role = None, pu_company_id = Some ''acme-electrical''\<rparr>
      (provider_init None)))))) = stored_user (provider_init None)"
  using register_not_persisted [of "Inr (''u1'', Some ''a@b.c'')" "''u1''" "Some ''a@b.c''"
      "\<lparr>pu_name = None, pu_role = None, pu_company_id = Some ''acme-electrical''\<rparr>" "''acme-electrical''"
      "''a@b.c''" "''pw''" "provider_init None"]
  by simp

text \<open>
  C22. A rejected \<open>login\<close> keeps the signed-in user, re-throws
  \<open>'Invalid demo credentials'\<close>, and shows two error toasts: the explicit one with the
  demo accounts, then the \<open>catch\<close> block's toast of the thrown message.
\<close>

theorem failed_login_two_error_toasts:
  "(\<forall>k. demo_credentials k \<noteq> \<lparr>cred_email = e, cred_password = pw\<rparr>) \<Longrightarrow>
   snd (ctx_login e pw c) = Inl ''Invalid demo credentials'' \<and>
   ctx_user (fst (ctx_login e pw c)) = ctx_user c \<and>
   toasts (fst (ctx_login e pw c)) =
     toasts c @ [Toast_error ctx_invalid_msg, Toast_error ''Invalid demo credentials'']"
  by (drule login_not_demo) (simp add: ctx_login_cases)

theorem failed_login_two_error_toasts_witness:
  "(\<forall>k. demo_credentials k \<noteq> \<lparr>cred_email = ''admin@quotehub.com'', cred_password = ''x''\<rparr>) \<and>
   snd (ctx_login ''admin@quotehub.com'' ''x'' (provider_init None)) = Inl ''Invalid demo credentials'' \<and>
   ctx_user (fst (ctx_login ''admin@quotehub.com'' ''x'' (provider_init None))) =
     ctx_user (provider_init None) \<and>
   toasts (fst (ctx_login ''admin@quotehub.com'' ''x'' (provider_init None))) =
     toasts (provider_init None) @ [Toast_error ctx_invalid_msg, Toast_error ''Invalid demo credentials'']"
proof -
  have h: "\<forall>k. demo_credentials k \<noteq> \<lparr>cred_email = ''admin@quotehub.com'', cred_password = ''x''\<rparr>"
    by (intro allI, case_tac k) simp_all
  show ?thesis using h failed_login_two_error_toasts [OF h] by blast
qed

text \<open>
  The two role flags of the context never hold together, and after a demo login
  \<open>isGlobalAdmin\<close> holds exactly for the admin account and \<open>isTradeCompanyUser\<close> exactly
  for the company account.
\<close>

lemma role_flags_exclusive:
  "\<not> (isGlobalAdmin c \<and> isTradeCompanyUser c) \<and>
   isGlobalAdmin (fst (ctx_loginWithDemo k c)) = (k = Admin_demo) \<and>
   isTradeCompanyUser (fst (ctx_loginWithDemo k c)) = (k = Company_demo)"
  by (cases k) (auto simp: isGlobalAdmin_def isTradeCompanyUser_def ctx_loginWithDemo_def Let_def
      demo_admin_user_def demo_company_user_def split: option.splits)

end
