(* ===== verification/Routing.thy ===== *)
theory Routing
  imports Auth_Context
begin

text \<open>
  Navigation: the route table of \<open>src/src/App.tsx\<close> (\<open>createBrowserRouter\<close>), the guard
  \<open>src/src/components/auth/ProtectedRoute.tsx\<close>, and the sign-in handlers of
  \<open>src/src/pages/auth/Login.tsx\<close>. A path's pathname (the target up to its first
  \<open>?\<close> or \<open>#\<close>) is matched segment by segment, ignoring empty segments and letter
  case (React Router's default \<open>caseSensitive: false\<close>).
  A \<open><Navigate>\<close> is followed by matching its target again; \<open>resolve\<close> does so with
  fuel, and the lemmas show that three steps always suffice.
\<close>

section \<open>Pages and the route table\<close>

datatype page =
  Login_page | AdminDashboard | TradeManagement | CompanyManagement | UserManagement
  | PlatformSettings | Dashboard | BusinessSettings | ProductsServices | Clients | Quotes
  | Integrations | NotFound

datatype layout = AdminLayout | CompanyLayout

datatype route_child = Child_page page | Child_redirect string

text \<open>A top-level route: a public element, or a layout behind \<open>ProtectedRoute requiredRole\<close>.\<close>

datatype route_match = Public page | Protected role layout route_child

text \<open>Path segments: the pieces between slashes.\<close>

fun split_slash :: "string \<Rightarrow> string list" where
  "split_slash [] = [[]]"
| "split_slash (c # cs) =
     (let r = split_slash cs in if c = CHR ''/'' then [] # r else (c # hd r) # tl r)"

text \<open>The pathname of a \<open>navigate\<close> target: React Router's \<open>parsePath\<close> cuts the hash at the
  first \<open>#\<close> and the search at the first \<open>?\<close>, and matches the pathname only.\<close>

definition js_pathname :: "string \<Rightarrow> string" where
  "js_pathname p = takeWhile (\<lambda>c. c \<noteq> CHR ''?'' \<and> c \<noteq> CHR ''#'') p"

definition route_key :: "string \<Rightarrow> string list" where
  "route_key p = map toLowerCase (filter (\<lambda>s. s \<noteq> []) (split_slash (js_pathname p)))"

fun admin_child :: "string list \<Rightarrow> route_child" where
  "admin_child [] = Child_page AdminDashboard"
| "admin_child [s] =
     (if s = ''trades'' then Child_page TradeManagement
      else if s = ''companies'' then Child_page CompanyManagement
      else if s = ''users'' then Child_page UserManagement
      else if s = ''settings'' then Child_page PlatformSettings
      else Child_page NotFound)"
| "admin_child _ = Child_page NotFound"

fun company_child :: "string \<Rightarrow> page option" where
  "company_child s =
     (if s = ''dashboard'' then Some Dashboard
      else if s = ''business-settings'' then Some BusinessSettings
      else if s = ''products-services'' then Some ProductsServices
      else if s = ''clients'' then Some Clients
      else if s = ''quotes'' then Some Quotes
      else if s = ''integrations'' then Some Integrations
      else None)"

text \<open>
  The route table in its ranking: \<open>/login\<close>; \<open>/admin\<close> with its children and its own
  \<open>*\<close>; \<open>/\<close> with an index redirect to \<open>/dashboard\<close> and six children; then the
  top-level \<open>*\<close>, which is not guarded.
\<close>

fun match_route :: "string list \<Rightarrow> route_match" where
  "match_route [] = Protected Trade_company_user CompanyLayout (Child_redirect ''/dashboard'')"
| "match_route (s # rest) =
     (if s = ''login'' \<and> rest = [] then Public Login_page
      else if s = ''admin'' then Protected Global_app_admin AdminLayout (admin_child rest)
      else if rest = [] then
        (case company_child s of
           Some pg \<Rightarrow> Protected Trade_company_user CompanyLayout (Child_page pg)
         | None \<Rightarrow> Public NotFound)
      else Public NotFound)"

section \<open>The guard\<close>

datatype guard_result = Spinner | Navigate_to string | Render

text \<open>\<open>ProtectedRoute\<close>: spinner while loading; no user goes to \<open>redirectTo\<close>; a user of
  the wrong role goes to the home of their own role.\<close>

definition home_path :: "role \<Rightarrow> string" where
  "home_path r = (if r = Global_app_admin then ''/admin'' else ''/dashboard'')"

definition protectedRoute :: "role option \<Rightarrow> string \<Rightarrow> auth_ctx \<Rightarrow> guard_result" where
  "protectedRoute req redirectTo c =
     (if loading c then Spinner
      else case ctx_user c of
        None \<Rightarrow> Navigate_to redirectTo
      | Some u \<Rightarrow>
          (case req of
             Some r \<Rightarrow> if role u \<noteq> r then Navigate_to (home_path (role u)) else Render
           | None \<Rightarrow> Render))"

section \<open>Following a navigation\<close>

datatype screen = Screen_spinner | Screen page "layout option"

fun resolve :: "nat \<Rightarrow> auth_ctx \<Rightarrow> string \<Rightarrow> screen option" where
  "resolve 0 c p = None"
| "resolve (Suc n) c p =
     (case match_route (route_key p) of
        Public pg \<Rightarrow> Some (Screen pg None)
      | Protected r l ch \<Rightarrow>
          (case protectedRoute (Some r) ''/login'' c of
             Spinner \<Rightarrow> Some Screen_spinner
           | Navigate_to q \<Rightarrow> resolve n c q
           | Render \<Rightarrow>
               (case ch of
                  Child_page pg \<Rightarrow> Some (Screen pg (Some l))
                | Child_redirect q \<Rightarrow> resolve n c q)))"

section \<open>The sign-in page\<close>

text \<open>
  \<open>handleSubmit\<close>: empty fields toast an error and stop; otherwise \<open>login\<close>, then a
  navigation chosen from \<open>isGlobalAdmin\<close> and \<open>isTradeCompanyUser\<close> as they were when
  the page rendered (the closure of the \<open>setTimeout\<close> callback), i.e. in the context
  before the login. A failed login navigates nowhere. The result is the provider's state
  and the navigation target.
\<close>

definition login_handleSubmit :: "string \<Rightarrow> string \<Rightarrow> auth_ctx \<Rightarrow> auth_ctx \<times> string option" where
  "login_handleSubmit e pw c =
     (if e = [] \<or> pw = [] then
        (c\<lparr>toasts := toasts c @ [Toast_error ''Please fill in all fields'']\<rparr>, None)
      else
        (let (c', r) = ctx_login e pw c
         in (c', case r of
                   Inl _ \<Rightarrow> None
                 | Inr _ \<Rightarrow> Some (if isGlobalAdmin c then ''/admin''
                                   else if isTradeCompanyUser c then ''/dashboard'' else ''/''))))"

text \<open>The two demo buttons: \<open>loginWithDemo\<close>, then a fixed navigation.\<close>

definition login_demo_click :: "demo_kind \<Rightarrow> auth_ctx \<Rightarrow> auth_ctx \<times> string option" where
  "login_demo_click k c =
     (fst (ctx_loginWithDemo k c), Some (if k = Admin_demo then ''/admin'' else ''/dashboard''))"

definition layout_role :: "layout \<Rightarrow> role" where
  "layout_role l = (if l = AdminLayout then Global_app_admin else Trade_company_user)"

text \<open>The screen each role lands on: the index page of its layout.\<close>

definition home_screen :: "role \<Rightarrow> screen" where
  "home_screen r = (if r = Global_app_admin then Screen AdminDashboard (Some AdminLayout)
                    else Screen Dashboard (Some CompanyLayout))"

text \<open>
  The sign-in form's own state: the two controlled inputs, the password visibility and
  the page's \<open>loading\<close> flag, which disables the submit button while \<open>login\<close> is awaited
  and is cleared in the \<open>finally\<close>. \<open>handleChange\<close> writes the input's \<open>name\<close> key.
\<close>

record login_form =
  lf_email :: string
  lf_password :: string
  lf_showPassword :: bool
  lf_loading :: bool

definition login_form_init :: login_form where
  "login_form_init = \<lparr>lf_email = [], lf_password = [], lf_showPassword = False, lf_loading = False\<rparr>"

datatype login_field = Field_email | Field_password

definition login_handleChange :: "login_field \<Rightarrow> string \<Rightarrow> login_form \<Rightarrow> login_form" where
  "login_handleChange f v form =
     (if f = Field_email then form\<lparr>lf_email := v\<rparr> else form\<lparr>lf_password := v\<rparr>)"

definition login_toggle_password :: "login_form \<Rightarrow> login_form" where
  "login_toggle_password form = form\<lparr>lf_showPassword := \<not> lf_showPassword form\<rparr>"

definition password_input_type :: "login_form \<Rightarrow> string" where
  "password_input_type form = (if lf_showPassword form then ''text'' else ''password'')"

definition login_form_submit :: "login_form \<Rightarrow> auth_ctx \<Rightarrow> login_form \<times> auth_ctx \<times> string option" where
  "login_form_submit form c =
     (if lf_loading form then (form, c, None)
      else let (c', nav) = login_handleSubmit (lf_email form) (lf_password form) c
           in (form\<lparr>lf_loading := False\<rparr>, c', nav))"

section \<open>Lemmas\<close>

lemma route_key_literals [simp]:
  "route_key ''/login'' = [''login'']" "route_key ''/admin'' = [''admin'']"
  "route_key ''/dashboard'' = [''dashboard'']" "route_key ''/'' = []"
  "route_key ''/register'' = [''register'']"
  by (simp_all add: route_key_def js_pathname_def toLowerCase_def js_lower_char_def)

lemma protectedRoute_Render_iff:
  "protectedRoute (Some r) d c = Render \<longleftrightarrow> \<not> loading c \<and> (\<exists>u. ctx_user c = Some u \<and> role u = r)"
  by (auto simp: protectedRoute_def split: option.splits)

lemma protectedRoute_cases:
  "protectedRoute (Some r) d c = Spinner \<and> loading c \<or>
   protectedRoute (Some r) d c = Navigate_to d \<and> \<not> loading c \<and> ctx_user c = None \<or>
   (\<exists>u. protectedRoute (Some r) d c = Navigate_to (home_path (role u)) \<and> \<not> loading c \<and>
        ctx_user c = Some u \<and> role u \<noteq> r) \<or>
   protectedRoute (Some r) d c = Render \<and> \<not> loading c \<and> (\<exists>u. ctx_user c = Some u \<and> role u = r)"
  by (cases "ctx_user c") (auto simp: protectedRoute_def)

lemma resolve_home: "\<not> loading c \<Longrightarrow> ctx_user c = Some u \<Longrightarrow>
   resolve (Suc (Suc n)) c (home_path (role u)) = Some (home_screen (role u))"
  by (cases "role u") (auto simp: home_path_def home_screen_def protectedRoute_def)

lemma admin_child_page: "\<exists>pg. admin_child rest = Child_page pg"
  by (cases rest rule: admin_child.cases) auto

lemma match_route_redirect:
  "match_route k = Protected r l (Child_redirect q) \<Longrightarrow>
   q = ''/dashboard'' \<and> r = Trade_company_user \<and> l = CompanyLayout"
  using admin_child_page [of "tl k"]
  by (cases k) (auto split: if_splits option.splits)

lemma match_route_public: "match_route k = Public pg \<Longrightarrow> pg = Login_page \<or> pg = NotFound"
  by (cases k) (auto split: if_splits option.splits)

lemma ctx_login_success:
  "snd (ctx_login e pw c) = Inr () \<Longrightarrow>
   \<exists>u. ctx_user (fst (ctx_login e pw c)) = Some u \<and> \<not> loading (fst (ctx_login e pw c))"
  by (simp add: ctx_login_cases split: sum.splits)

lemma resolve_landing:
  "\<not> loading c \<Longrightarrow> ctx_user c = Some u \<Longrightarrow> q \<in> {''/'', ''/admin'', ''/dashboard''} \<Longrightarrow>
   resolve 3 c q = Some (home_screen (role u))"
  by (cases "role u") (auto simp: numeral_eq_Suc protectedRoute_def home_path_def home_screen_def)

lemma login_handleSubmit_SomeD:
  "login_handleSubmit e pw c = (c', Some q) \<Longrightarrow>
   c' = fst (ctx_login e pw c) \<and> snd (ctx_login e pw c) = Inr () \<and> q \<in> {''/'', ''/admin'', ''/dashboard''}"
  by (auto simp: login_handleSubmit_def split: if_splits prod.splits sum.splits)


text \<open>A path \<open>/quotes/<id>\<close> with a plain id has two segments.\<close>

lemma split_slash_no_slash: "CHR ''/'' \<notin> set q \<Longrightarrow> split_slash q = [q]"
  by (induction q) (auto simp: Let_def)

lemma route_key_quote_path:
  "CHR ''/'' \<notin> set q \<Longrightarrow> CHR ''?'' \<notin> set q \<Longrightarrow> CHR ''#'' \<notin> set q \<Longrightarrow> q \<noteq> [] \<Longrightarrow>
   route_key (''/quotes/'' @ q) = [''quotes'', toLowerCase q]"
proof -
  assume h: "CHR ''/'' \<notin> set q" "CHR ''?'' \<notin> set q" "CHR ''#'' \<notin> set q" "q \<noteq> []"
  then have "js_pathname (''/quotes/'' @ q) = ''/quotes/'' @ q"
    by (auto simp: js_pathname_def takeWhile_eq_all_conv)
  with h show ?thesis
    by (simp add: route_key_def split_slash_no_slash Let_def toLowerCase_def js_lower_char_def)
qed

text \<open>The form submits exactly what was typed; the eye button toggles the password's
  visibility back and forth.\<close>

lemma login_form_submits_typed:
  "login_form_submit (login_handleChange Field_password p (login_handleChange Field_email e login_form_init)) c =
   (\<lparr>lf_email = e, lf_password = p, lf_showPassword = False, lf_loading = False\<rparr>,
    login_handleSubmit e p c)"
  by (simp add: login_form_submit_def login_handleChange_def login_form_init_def split: prod.splits)

lemma password_toggle_twice: "login_toggle_password (login_toggle_password form) = form"
  by (simp add: login_toggle_password_def)

section \<open>Properties of navigation\<close>

text \<open>
  C24. A page inside a layout is shown only to a signed-in user of that layout's role,
  and never while the provider is loading: the admin pages to global admins, the company
  pages to trade company users, whatever path is visited and however many redirects are
  followed.
\<close>

theorem resolve_layout_role:
  "resolve n c p = Some (Screen pg (Some l)) \<Longrightarrow>
   \<not> loading c \<and> (\<exists>u. ctx_user c = Some u \<and> role u = layout_role l)"
proof (induction n arbitrary: p)
  case 0 then show ?case by simp
next
  case (Suc n)
  show ?case
  proof (cases "match_route (route_key p)")
    case (Public x) with Suc.prems show ?thesis by simp
  next
    case (Protected r l' ch)
    with Suc show ?thesis
      by (auto simp: protectedRoute_Render_iff layout_role_def split: guard_result.splits route_child.splits
          elim!: match_route.elims admin_child.elims split: if_splits option.splits)
  qed
qed

theorem resolve_layout_role_witness:
  "resolve 3 (fst (ctx_loginWithDemo Admin_demo (provider_init None))) ''/Admin/trades'' =
     Some (Screen TradeManagement (Some AdminLayout)) \<and>
   \<not> loading (fst (ctx_loginWithDemo Admin_demo (provider_init None))) \<and>
   (\<exists>u. ctx_user (fst (ctx_loginWithDemo Admin_demo (provider_init None))) = Some u \<and>
        role u = layout_role AdminLayout)"
proof -
  have h: "resolve 3 (fst (ctx_loginWithDemo Admin_demo (provider_init None))) ''/Admin/trades'' =
     Some (Screen TradeManagement (Some AdminLayout))"
  proof -
    have k: "route_key ''/Admin/trades'' = [''admin'', ''trades'']"
      by (simp add: route_key_def js_pathname_def toLowerCase_def js_lower_char_def)
    show ?thesis
      by (simp add: numeral_eq_Suc k protectedRoute_def ctx_loginWithDemo_def Let_def
          provider_init_def demo_admin_user_def)
  qed
  show ?thesis using h resolve_layout_role [OF h] by blast
qed

text \<open>
  C25. Every navigation settles within three steps (at most two redirects): \<open>resolve\<close>
  with fuel 3 always produces a screen, so the guard and the route table form no
  redirect loop.
\<close>

theorem resolve_total: "\<exists>s. resolve 3 c p = Some s"
proof (cases "match_route (route_key p)")
  case (Public x) then show ?thesis by (simp add: numeral_eq_Suc)
next
  case (Protected r l ch)
  show ?thesis
    using protectedRoute_cases [of r "''/login''" c]
  proof (elim disjE conjE exE)
    assume "protectedRoute (Some r) ''/login'' c = Spinner"
    with Protected show ?thesis by (simp add: numeral_eq_Suc)
  next
    assume "protectedRoute (Some r) ''/login'' c = Navigate_to ''/login''"
    with Protected show ?thesis by (simp add: numeral_eq_Suc)
  next
    fix u assume "protectedRoute (Some r) ''/login'' c = Navigate_to (home_path (role u))"
      "\<not> loading c" "ctx_user c = Some u"
    with Protected resolve_home [of c u 0] show ?thesis by (simp add: numeral_eq_Suc)
  next
    fix u assume a: "protectedRoute (Some r) ''/login'' c = Render" "\<not> loading c" "ctx_user c = Some u" "role u = r"
    show ?thesis
    proof (cases ch)
      case (Child_page x) with Protected a show ?thesis by (simp add: numeral_eq_Suc)
    next
      case (Child_redirect q)
      then have "q = ''/dashboard'' \<and> r = Trade_company_user"
        using Protected match_route_redirect by blast
      with Protected Child_redirect a show ?thesis
        by (simp add: numeral_eq_Suc protectedRoute_def)
    qed
  qed
qed

text \<open>
  C26. A visitor who is not signed in sees only the sign-in page or the not-found page:
  every guarded route sends them to \<open>/login\<close>.
\<close>

theorem anonymous_sees_public_only:
  "\<not> loading c \<Longrightarrow> ctx_user c = None \<Longrightarrow>
   resolve 2 c p = Some (Screen Login_page None) \<or> resolve 2 c p = Some (Screen NotFound None)"
proof (cases "match_route (route_key p)")
  case (Public pg) then show ?thesis
    using match_route_public [OF Public] by (auto simp: numeral_eq_Suc)
next
  case (Protected r l ch)
  moreover assume "\<not> loading c" "ctx_user c = None"
  ultimately show ?thesis by (simp add: numeral_eq_Suc protectedRoute_def)
qed

theorem anonymous_sees_public_only_witness:
  "\<not> loading (checkDemoUser (provider_init None)) \<and> ctx_user (checkDemoUser (provider_init None)) = None \<and>
   (resolve 2 (checkDemoUser (provider_init None)) ''/quotes'' = Some (Screen Login_page None) \<or>
    resolve 2 (checkDemoUser (provider_init None)) ''/quotes'' = Some (Screen NotFound None))"
proof -
  have h1: "\<not> loading (checkDemoUser (provider_init None))"
    by (simp add: checkDemoUser_def provider_init_def)
  have h2: "ctx_user (checkDemoUser (provider_init None)) = None"
    by (simp add: checkDemoUser_def provider_init_def)
  show ?thesis using h1 h2 anonymous_sees_public_only [OF h1 h2, of "''/quotes''"] by blast
qed

text \<open>
  C27. A sign-in from the form with credentials the service accepts navigates, and lands
  the user on their role's home page. The handler's own choice of target reads the role
  flags of the render before the login (a stale closure: from a signed-out page it
  always navigates to \<open>/\<close>); the guard then redirects to the right home.
\<close>

theorem login_lands_on_home:
  "e \<noteq> [] \<Longrightarrow> pw \<noteq> [] \<Longrightarrow> login e pw = Inr u \<Longrightarrow>
   \<exists>c' q. login_handleSubmit e pw c = (c', Some q) \<and>
     q = (if isGlobalAdmin c then ''/admin'' else if isTradeCompanyUser c then ''/dashboard'' else ''/'') \<and>
     ctx_user c' = Some u \<and> resolve 3 c' q = Some (home_screen (role u))"
proof -
  assume h: "e \<noteq> []" "pw \<noteq> []" "login e pw = Inr u"
  let ?q = "if isGlobalAdmin c then ''/admin'' else if isTradeCompanyUser c then ''/dashboard'' else ''/''"
  have r: "snd (ctx_login e pw c) = Inr ()" and cu: "ctx_user (fst (ctx_login e pw c)) = Some u"
    and nl: "\<not> loading (fst (ctx_login e pw c))"
    using h(3) by (simp_all add: ctx_login_cases)
  have eq: "ctx_login e pw c = (fst (ctx_login e pw c), Inr ())"
    using r by (cases "ctx_login e pw c") simp
  have "login_handleSubmit e pw c = (fst (ctx_login e pw c), Some ?q)"
    using h(1,2) by (subst login_handleSubmit_def, subst eq) simp
  moreover have "resolve 3 (fst (ctx_login e pw c)) ?q = Some (home_screen (role u))"
    using resolve_landing [OF nl cu] by simp
  ultimately show ?thesis using cu by blast
qed

theorem login_lands_on_home_witness:
  "''admin@quotehub.com'' \<noteq> [] \<and> ''demo123'' \<noteq> [] \<and>
   login ''admin@quotehub.com'' ''demo123'' = Inr (demo_user Admin_demo) \<and>
   (\<exists>c' q. login_handleSubmit ''admin@quotehub.com'' ''demo123'' (checkDemoUser (provider_init None)) = (c', Some q) \<and>
     q = (if isGlobalAdmin (checkDemoUser (provider_init None)) then ''/admin''
          else if isTradeCompanyUser (checkDemoUser (provider_init None)) then ''/dashboard'' else ''/'') \<and>
     ctx_user c' = Some (demo_user Admin_demo) \<and>
     resolve 3 c' q = Some (home_screen (role (demo_user Admin_demo))))"
proof -
  have h1: "''admin@quotehub.com'' \<noteq> []" "''demo123'' \<noteq> []" by simp_all
  have h2: "login ''admin@quotehub.com'' ''demo123'' = Inr (demo_user Admin_demo)"
    by (simp add: login_def)
  show ?thesis using h1 h2 login_lands_on_home [OF h1 h2] by blast
qed

end
