(* ===== verification/Navigation.thy ===== *)
theory Navigation
  imports Routing
begin

text \<open>
  The two layouts of \<open>src/src/components/layout/\<close> (their menus, the highlighting of the
  active entry, and the sign-out button) and the links of the two dashboards,
  \<open>src/src/pages/company/Dashboard.tsx\<close> and \<open>src/src/pages/admin/AdminDashboard.tsx\<close>,
  followed through the router of \<open>Routing\<close>.
\<close>

section \<open>Layouts\<close>

record menu_item =
  mi_id :: string
  mi_label :: string
  mi_path :: string

definition admin_menuItems :: "menu_item list" where
  "admin_menuItems =
     [\<lparr>mi_id = ''dashboard'', mi_label = ''Dashboard'', mi_path = ''/admin''\<rparr>,
      \<lparr>mi_id = ''trades'', mi_label = ''Trade Management'', mi_path = ''/admin/trades''\<rparr>,
      \<lparr>mi_id = ''companies'', mi_label = ''Company Management'', mi_path = ''/admin/companies''\<rparr>,
      \<lparr>mi_id = ''users'', mi_label = ''User Management'', mi_path = ''/admin/users''\<rparr>,
      \<lparr>mi_id = ''settings'', mi_label = ''Platform Settings'', mi_path = ''/admin/settings''\<rparr>]"

definition company_menuItems :: "menu_item list" where
  "company_menuItems =
     [\<lparr>mi_id = ''dashboard'', mi_label = ''Dashboard'', mi_path = ''/dashboard''\<rparr>,
      \<lparr>mi_id = ''business'', mi_label = ''My Business Settings'', mi_path = ''/business-settings''\<rparr>,
      \<lparr>mi_id = ''products'', mi_label = ''My Products & Services'', mi_path = ''/products-services''\<rparr>,
      \<lparr>mi_id = ''clients'', mi_label = ''My Clients'', mi_path = ''/clients''\<rparr>,
      \<lparr>mi_id = ''quotes'', mi_label = ''My Quotes'', mi_path = ''/quotes''\<rparr>,
      \<lparr>mi_id = ''integrations'', mi_label = ''Integrations'', mi_path = ''/integrations''\<rparr>]"

text \<open>The menu of a layout and the path of its index entry, which is highlighted only on
  an exact match.\<close>

definition layout_menu :: "layout \<Rightarrow> menu_item list" where
  "layout_menu l = (if l = AdminLayout then admin_menuItems else company_menuItems)"

definition layout_index :: "layout \<Rightarrow> string" where
  "layout_index l = (if l = AdminLayout then ''/admin'' else ''/dashboard'')"

text \<open>\<open>location.pathname === item.path || (item.path !== index && pathname.startsWith(item.path))\<close>.\<close>

definition menu_isActive :: "layout \<Rightarrow> string \<Rightarrow> menu_item \<Rightarrow> bool" where
  "menu_isActive l pathname item =
     (pathname = mi_path item \<or> (mi_path item \<noteq> layout_index l \<and> prefix (mi_path item) pathname))"

text \<open>\<open>handleLogout\<close>: \<open>await logout()\<close>, then \<open>navigate('/login')\<close>. The provider's logout
  does not throw, so the \<open>catch\<close> is not reached.\<close>

definition layout_handleLogout :: "auth_ctx \<Rightarrow> auth_ctx \<times> string" where
  "layout_handleLogout c = (ctx_logout c, ''/login'')"

text \<open>
  A layout's own state: the mobile sidebar flag, the location, and the provider it reads.
  The overlay is rendered only while the sidebar is open; a menu link navigates and
  closes the sidebar; the logout button runs \<open>handleLogout\<close>.
\<close>

record layout_state =
  ls_layout :: layout
  ls_sidebarOpen :: bool
  ls_pathname :: string
  ls_ctx :: auth_ctx

datatype layout_event = Open_sidebar | Close_sidebar | Overlay_click | Menu_click nat | Logout_click

fun layout_step :: "layout_event \<Rightarrow> layout_state \<Rightarrow> layout_state" where
  "layout_step Open_sidebar s = s\<lparr>ls_sidebarOpen := True\<rparr>"
| "layout_step Close_sidebar s = s\<lparr>ls_sidebarOpen := False\<rparr>"
| "layout_step Overlay_click s = (if ls_sidebarOpen s then s\<lparr>ls_sidebarOpen := False\<rparr> else s)"
| "layout_step (Menu_click i) s =
     (if i < length (layout_menu (ls_layout s))
      then s\<lparr>ls_pathname := mi_path (layout_menu (ls_layout s) ! i), ls_sidebarOpen := False\<rparr> else s)"
| "layout_step Logout_click s =
     (let (c, p) = layout_handleLogout (ls_ctx s) in s\<lparr>ls_ctx := c, ls_pathname := p\<rparr>)"

text \<open>The header's user name and, in the company layout, the company line
  \<open>user?.company_id || 'Not assigned'\<close>.\<close>

definition layout_user_name :: "auth_ctx \<Rightarrow> string option" where
  "layout_user_name c = map_option user_name (ctx_user c)"

definition layout_company_line :: "auth_ctx \<Rightarrow> string" where
  "layout_company_line c =
     (case ctx_user c of Some u \<Rightarrow> (case company_id u of Some i \<Rightarrow> if i = [] then ''Not assigned'' else i
                                                        | None \<Rightarrow> ''Not assigned'')
      | None \<Rightarrow> ''Not assigned'')"

text \<open>The pages of the menu entries, in order.\<close>

definition layout_pages :: "layout \<Rightarrow> page list" where
  "layout_pages l = (if l = AdminLayout then [AdminDashboard, TradeManagement, CompanyManagement, UserManagement, PlatformSettings]
                     else [Dashboard, BusinessSettings, ProductsServices, Clients, Quotes, Integrations])"

section \<open>Dashboards\<close>

text \<open>The link targets of each dashboard, in the order of the page: the header's
  "New Quote", the four quick actions and "View All Quotes" on the company dashboard;
  the four quick actions on the admin dashboard.\<close>

definition company_dashboard_links :: "string list" where
  "company_dashboard_links =
     [''/quotes/new'', ''/quotes/new'', ''/clients/new'', ''/products-services'', ''/business-settings'', ''/quotes'']"

definition admin_dashboard_links :: "string list" where
  "admin_dashboard_links = [''/admin/companies/new'', ''/admin/trades/new'', ''/admin/users/new'', ''/admin/analytics'']"

definition dashboard_links :: "role \<Rightarrow> string list" where
  "dashboard_links r = (if r = Global_app_admin then admin_dashboard_links else company_dashboard_links)"

record recent_quote =
  rq_id :: string
  rq_client :: string
  rq_value :: nat
  rq_status :: string
  rq_date :: string

definition dashboard_recentQuotes :: "recent_quote list" where
  "dashboard_recentQuotes =
     [\<lparr>rq_id = ''Q-2024-001'', rq_client = ''ABC Construction'', rq_value = 8500, rq_status = ''pending'', rq_date = ''2024-07-01''\<rparr>,
      \<lparr>rq_id = ''Q-2024-002'', rq_client = ''Home Renovations Inc'', rq_value = 12000, rq_status = ''accepted'', rq_date = ''2024-06-30''\<rparr>,
      \<lparr>rq_id = ''Q-2024-003'', rq_client = ''Solar Solutions Co'', rq_value = 15500, rq_status = ''draft'', rq_date = ''2024-06-29''\<rparr>,
      \<lparr>rq_id = ''Q-2024-004'', rq_client = ''Green Energy Ltd'', rq_value = 9200, rq_status = ''exported'', rq_date = ''2024-06-28''\<rparr>]"

definition dashboard_getStatusColor :: "string \<Rightarrow> string" where
  "dashboard_getStatusColor st =
     (if st = ''accepted'' then ''bg-green-100 text-green-800''
      else if st = ''pending'' then ''bg-yellow-100 text-yellow-800''
      else if st = ''exported'' then ''bg-blue-100 text-blue-800''
      else ''bg-gray-100 text-gray-800'')"

section \<open>Lemmas\<close>

text \<open>Each menu entry leads to its page for a user of the layout's role, and on that page
  exactly its own entry is highlighted; signing out sends every guarded path to the
  sign-in page.\<close>


lemma admin_menu_resolves:
  "\<not> loading c \<Longrightarrow> ctx_user c = Some u \<Longrightarrow> role u = Global_app_admin \<Longrightarrow>
   map (resolve 1 c \<circ> mi_path) admin_menuItems =
     map (\<lambda>pg. Some (Screen pg (Some AdminLayout)))
       [AdminDashboard, TradeManagement, CompanyManagement, UserManagement, PlatformSettings]"
  by (simp add: admin_menuItems_def route_key_def js_pathname_def toLowerCase_def js_lower_char_def protectedRoute_def)

lemma company_menu_resolves:
  "\<not> loading c \<Longrightarrow> ctx_user c = Some u \<Longrightarrow> role u = Trade_company_user \<Longrightarrow>
   map (resolve 1 c \<circ> mi_path) company_menuItems =
     map (\<lambda>pg. Some (Screen pg (Some CompanyLayout)))
       [Dashboard, BusinessSettings, ProductsServices, Clients, Quotes, Integrations]"
  by (simp add: company_menuItems_def route_key_def js_pathname_def toLowerCase_def js_lower_char_def protectedRoute_def)

lemma menu_active_unique:
  "map (\<lambda>it. map mi_id (filter (menu_isActive l (mi_path it)) (layout_menu l))) (layout_menu l) =
   map (\<lambda>it. [mi_id it]) (layout_menu l)"
  by (cases l) (simp_all add: layout_menu_def admin_menuItems_def company_menuItems_def menu_isActive_def layout_index_def)

text \<open>A menu click of a user of the layout's role lands on the entry's page in the same
  layout and closes the sidebar; the logout button signs out and lands on the sign-in
  page.\<close>

lemma layout_menu_resolves:
  "\<not> loading c \<Longrightarrow> ctx_user c = Some u \<Longrightarrow> role u = layout_role l \<Longrightarrow>
   map (resolve 1 c \<circ> mi_path) (layout_menu l) = map (\<lambda>pg. Some (Screen pg (Some l))) (layout_pages l)"
  using admin_menu_resolves [of c u] company_menu_resolves [of c u]
  by (cases l) (simp_all add: layout_menu_def layout_pages_def layout_role_def)

lemma length_layout_pages: "length (layout_pages l) = length (layout_menu l)"
  by (simp add: layout_pages_def layout_menu_def admin_menuItems_def company_menuItems_def)

lemma menu_click_lands:
  assumes "\<not> loading (ls_ctx s)" "ctx_user (ls_ctx s) = Some u" "role u = layout_role (ls_layout s)"
    and "i < length (layout_menu (ls_layout s))"
  shows "resolve 1 (ls_ctx s) (ls_pathname (layout_step (Menu_click i) s)) =
           Some (Screen (layout_pages (ls_layout s) ! i) (Some (ls_layout s))) \<and>
         \<not> ls_sidebarOpen (layout_step (Menu_click i) s)"
proof -
  have "(map (resolve 1 (ls_ctx s) \<circ> mi_path) (layout_menu (ls_layout s))) ! i =
        (map (\<lambda>pg. Some (Screen pg (Some (ls_layout s)))) (layout_pages (ls_layout s))) ! i"
    using layout_menu_resolves [OF assms(1-3)] by simp
  with assms(4) show ?thesis by (simp add: length_layout_pages)
qed

lemma logout_click_login:
  "\<not> loading (ls_ctx s) \<Longrightarrow>
   resolve 1 (ls_ctx (layout_step Logout_click s)) (ls_pathname (layout_step Logout_click s)) = Some (Screen Login_page None) \<and>
   ctx_user (ls_ctx (layout_step Logout_click s)) = None"
  by (simp add: layout_handleLogout_def ctx_logout_def)

text \<open>
  C28. Links of the application that reach no route: for a signed-in user, all four quick
  actions of the admin dashboard (\<open>/admin/companies/new\<close>, \<open>/admin/trades/new\<close>,
  \<open>/admin/users/new\<close>, \<open>/admin/analytics\<close>) show the admin layout's not-found page,
  and the company dashboard's "New Quote", "Create New Quote" and "Add New Client"
  (\<open>/quotes/new\<close>, \<open>/clients/new\<close>) the top-level not-found page, while its other links
  reach their pages; the sign-in page's \<open>/register\<close> link is dead as well.
\<close>

theorem dashboard_dead_links:
  "\<not> loading c \<Longrightarrow> ctx_user c = Some u \<Longrightarrow>
   map (resolve 3 c) (dashboard_links (role u)) =
     (if role u = Global_app_admin then replicate 4 (Some (Screen NotFound (Some AdminLayout)))
      else [Some (Screen NotFound None), Some (Screen NotFound None), Some (Screen NotFound None),
            Some (Screen ProductsServices (Some CompanyLayout)), Some (Screen BusinessSettings (Some CompanyLayout)),
            Some (Screen Quotes (Some CompanyLayout))]) \<and>
   resolve 3 c ''/register'' = Some (Screen NotFound None)"
  by (cases "role u") (simp_all add: dashboard_links_def admin_dashboard_links_def company_dashboard_links_def
      route_key_def js_pathname_def toLowerCase_def js_lower_char_def protectedRoute_def numeral_eq_Suc)

theorem dashboard_dead_links_witness:
  "\<not> loading (fst (ctx_loginWithDemo Admin_demo (provider_init None))) \<and>
   ctx_user (fst (ctx_loginWithDemo Admin_demo (provider_init None))) = Some ctx_demo_admin \<and>
   map (resolve 3 (fst (ctx_loginWithDemo Admin_demo (provider_init None)))) (dashboard_links (role ctx_demo_admin)) =
     replicate 4 (Some (Screen NotFound (Some AdminLayout))) \<and>
   resolve 3 (fst (ctx_loginWithDemo Admin_demo (provider_init None))) ''/register'' = Some (Screen NotFound None)"
proof -
  have h1: "\<not> loading (fst (ctx_loginWithDemo Admin_demo (provider_init None)))"
    and h2: "ctx_user (fst (ctx_loginWithDemo Admin_demo (provider_init None))) = Some ctx_demo_admin"
    and r: "role ctx_demo_admin = Global_app_admin"
    by (simp_all add: ctx_loginWithDemo_def Let_def ctx_demo_admin_def demo_admin_user_def)
  show ?thesis using dashboard_dead_links [OF h1 h2] h1 h2 r by simp
qed

lemma logout_guarded_to_login:
  "\<not> loading c \<Longrightarrow> match_route (route_key p) = Protected r l ch \<Longrightarrow>
   resolve 2 (fst (layout_handleLogout c)) p = Some (Screen Login_page None) \<and>
   resolve 1 (fst (layout_handleLogout c)) (snd (layout_handleLogout c)) = Some (Screen Login_page None)"
  by (simp add: layout_handleLogout_def ctx_logout_def protectedRoute_def numeral_eq_Suc)

end
