(* ===== verification/Firestore_Typing.thy ===== *)
theory Firestore_Typing
  imports Firestore
begin

text \<open>
  Typing of stored documents against the interfaces of \<open>src/src/types/index.ts\<close>, in the
  manner of a conformance relation: \<open>fv_type\<close> is the runtime type of a Firestore value,
  a schema lists the fields of an interface with their types, a document conforms when
  it has every field at its type, and the data of an update conforms to
  \<open>Partial<\<dots>>\<close> when each of its fields of the schema has its type. TypeScript checks
  these types at the services' call sites only, and \<open>getDoc\<close>'s result is cast with
  \<open>as SystemSettings\<close> unchecked; the lemmas show which writes keep the cast true.
\<close>

section \<open>Types of values and schemas\<close>

datatype ftype = T_undefined | T_null | T_bool | T_number | T_timestamp | T_string | T_array

fun fv_type :: "fvalue \<Rightarrow> ftype" where
  "fv_type FUndefined = T_undefined"
| "fv_type FNull = T_null"
| "fv_type (FBool _) = T_bool"
| "fv_type (FNum _) = T_number"
| "fv_type (FTimestamp _) = T_timestamp"
| "fv_type (FStr _) = T_string"
| "fv_type (FArr _) = T_array"

type_synonym schema = "(string \<times> ftype) list"

text \<open>\<open>interface SystemSettings\<close>; \<open>updated_at: Date\<close> is stored as a server timestamp.\<close>

definition system_settings_schema :: schema where
  "system_settings_schema =
     [(''quote_number_prefix'', T_string), (''next_quote_number'', T_number), (''date_format'', T_string),
      (''currency_symbol'', T_string), (''tax_rate'', T_number), (''tax_name'', T_string),
      (''updated_at'', T_timestamp)]"

definition doc_conf :: "schema \<Rightarrow> fdoc \<Rightarrow> bool" where
  "doc_conf S d = list_all (\<lambda>(k, T). case map_of d k of Some v \<Rightarrow> fv_type v = T | None \<Rightarrow> False) S"

definition partial_conf :: "schema \<Rightarrow> fdoc \<Rightarrow> bool" where
  "partial_conf S d = list_all (\<lambda>(k, v). case map_of S k of Some T \<Rightarrow> fv_type v = T | None \<Rightarrow> True) d"

text \<open>The \<open>system\<close> settings document of company \<open>cid\<close> is well typed, if it exists.\<close>

definition system_typed :: "string \<Rightarrow> fdb \<Rightarrow> bool" where
  "system_typed cid db =
     (case getSystemSettings cid db of None \<Rightarrow> True | Some d \<Rightarrow> doc_conf system_settings_schema d)"

text \<open>
  The writes the TypeScript types allow on that document: an update of it through the
  base service with \<open>Partial<SystemSettings>\<close> data, and \<open>updateSystemSettings\<close> with such
  data. Every other write of \<open>svc_op\<close> is typed by its service's signature.
\<close>

definition svc_typed :: "string \<Rightarrow> svc_op \<Rightarrow> bool" where
  "svc_typed cid op =
     (case op of
        Svc_update p i d now \<Rightarrow> (p = settings_path cid \<and> i = ''system'' \<longrightarrow> partial_conf system_settings_schema d)
      | Svc_system c d now \<Rightarrow> (c = cid \<longrightarrow> partial_conf system_settings_schema d)
      | _ \<Rightarrow> True)"

definition typed_demo_db :: fdb where
  "typed_demo_db =
     \<lparr>fdb_colls = [(''companies/acme-electrical/settings'',
        [(''system'', [(''quote_number_prefix'', FStr ''ACE-''), (''next_quote_number'', FNum 1001),
                       (''date_format'', FStr ''DD/MM/YYYY''), (''currency_symbol'', FStr ''AUD''),
                       (''tax_rate'', FNum 10), (''tax_name'', FStr ''GST''), (''updated_at'', FTimestamp 0)])])],
      fdb_seq = 0\<rparr>"

section \<open>Lemmas\<close>

lemma set_AList_update_subset: "set (AList.update k v al) \<subseteq> insert (k, v) (set al)"
  by (induction al) auto

lemma set_spread_subset: "set (spread a b) \<subseteq> set a \<union> set b"
proof (induction b arbitrary: a)
  case Nil then show ?case by (simp add: spread_def)
next
  case (Cons x b)
  have "spread a (x # b) = spread (AList.update (fst x) (snd x) a) b"
    by (cases x) (simp add: spread_def)
  then show ?case using Cons [of "AList.update (fst x) (snd x) a"] set_AList_update_subset [of "fst x" "snd x" a]
    by auto
qed

lemma partial_conf_iff: "partial_conf S d \<longleftrightarrow> (\<forall>(k, v) \<in> set d. case map_of S k of Some T \<Rightarrow> fv_type v = T | None \<Rightarrow> True)"
  by (simp add: partial_conf_def list_all_iff)

lemma partial_conf_spread: "partial_conf S a \<Longrightarrow> partial_conf S b \<Longrightarrow> partial_conf S (spread a b)"
  using set_spread_subset [of a b] by (fastforce simp: partial_conf_iff)

lemma doc_conf_spread:
  assumes "doc_conf S a" "partial_conf S b" "distinct (map fst S)"
  shows "doc_conf S (spread a b)"
  unfolding doc_conf_def list_all_iff
proof (clarify)
  fix k T assume kT: "(k, T) \<in> set S"
  then have S: "map_of S k = Some T" using assms(3) by simp
  show "case map_of (spread a b) k of Some v \<Rightarrow> fv_type v = T | None \<Rightarrow> False"
  proof (cases "map_of (rev b) k")
    case None
    then show ?thesis using assms(1) kT by (auto simp: map_of_spread doc_conf_def list_all_iff)
  next
    case (Some v)
    then have "(k, v) \<in> set b" by (auto dest: map_of_SomeD)
    then show ?thesis using Some S assms(2) by (fastforce simp: map_of_spread partial_conf_iff)
  qed
qed


lemma auto_id_not_system [simp]: "auto_id k \<noteq> ''system''" "''system'' \<noteq> auto_id k"
  by (simp_all add: auto_id_def)

lemma getDoc_addDoc: "addDoc p d db = Inr (i, db') \<Longrightarrow> j \<noteq> i \<Longrightarrow> getDoc q j db' = getDoc q j db"
  by (auto simp: addDoc_def Let_def getDoc_def map_add_def split: if_splits option.splits)

lemma getDoc_updateDoc:
  "updateDoc p i d db = Inr db' \<Longrightarrow>
   getDoc q j db' = (if q = p \<and> j = i then map_option (\<lambda>old. spread old d) (getDoc p i db) else getDoc q j db)"
  by (auto simp: updateDoc_def getDoc_def AList.update_conv split: if_splits option.splits)

lemma getDoc_deleteDoc: "getDoc q j (deleteDoc p i db) = (if q = p \<and> j = i then None else getDoc q j db)"
  by (simp add: deleteDoc_def getDoc_def AList.delete_conv)

lemma getDoc_batch_fold:
  "getDoc q ''system''
     (fold (\<lambda>(p, d) db. set_coll p (coll db p @ [(auto_id (fdb_seq db), d)]) (db\<lparr>fdb_seq := Suc (fdb_seq db)\<rparr>))
       ws db) =
   getDoc q ''system'' db"
proof (induction ws arbitrary: db)
  case Nil then show ?case by simp
next
  case (Cons w ws)
  obtain p d where "w = (p, d)" by (cases w)
  with Cons show ?case by (simp add: getDoc_def map_add_def split: option.splits)
qed

lemma distinct_system_settings_schema [simp]: "distinct (map fst system_settings_schema)"
  by (simp add: system_settings_schema_def)

lemma partial_conf_stamped:
  "partial_conf system_settings_schema d \<Longrightarrow>
   partial_conf system_settings_schema (spread d [(''updated_at'', FTimestamp now)])"
  by (rule partial_conf_spread) (simp_all add: partial_conf_def system_settings_schema_def)

text \<open>An update keeps the \<open>system\<close> document typed when its data conforms wherever it
  targets that document.\<close>

lemma system_typed_updateDoc:
  assumes "system_typed cid db" "updateDoc p i d db = Inr db'"
    and "p = settings_path cid \<and> i = ''system'' \<longrightarrow> partial_conf system_settings_schema d"
  shows "system_typed cid db'"
  using assms doc_conf_spread [of system_settings_schema _ d]
  by (auto simp: system_typed_def getSystemSettings_def getDoc_updateDoc split: option.splits)

lemma system_typed_gq_read: "system_typed cid db \<Longrightarrow> \<exists>r. gq_read cid db = Inr r"
proof -
  assume t: "system_typed cid db"
  show ?thesis
  proof (cases "getDoc (settings_path cid) ''system'' db")
    case None then show ?thesis by (simp add: gq_read_def)
  next
    case (Some d)
    then have "doc_conf system_settings_schema d"
      using t by (simp add: system_typed_def getSystemSettings_def)
    then obtain p n where "map_of d ''quote_number_prefix'' = Some (FStr p)" "map_of d ''next_quote_number'' = Some (FNum n)"
      by (auto simp: doc_conf_def system_settings_schema_def split: option.splits elim!: fv_type.elims)
    with Some show ?thesis by (simp add: gq_read_def)
  qed
qed

lemma system_typed_svc_apply: "system_typed cid db \<Longrightarrow> svc_typed cid op \<Longrightarrow> system_typed cid (svc_apply op db)"
proof (cases op)
  case (Svc_create p d now)
  assume t: "system_typed cid db"
  have "getDoc (settings_path cid) ''system'' db' = getDoc (settings_path cid) ''system'' db"
    if "addDoc p (spread d (stamps now)) db = Inr (i, db')" for i db'
    using that addDoc_auto_id [OF that] by (simp add: getDoc_addDoc)
  with t Svc_create show ?thesis
    by (auto simp: svc_apply_def fs_create_def system_typed_def getSystemSettings_def split: sum.splits)
next
  case (Svc_update p i d now)
  assume "system_typed cid db" "svc_typed cid op"
  then show ?thesis using Svc_update
    by (auto simp: svc_apply_def fs_update_def svc_typed_def
        intro: system_typed_updateDoc partial_conf_stamped split: sum.splits)
next
  case (Svc_delete p i)
  assume "system_typed cid db"
  then show ?thesis using Svc_delete
    by (simp add: svc_apply_def fs_delete_def system_typed_def getSystemSettings_def getDoc_deleteDoc)
next
  case (Svc_business c d now)
  assume "system_typed cid db"
  then show ?thesis using Svc_business
    by (auto simp: svc_apply_def updateBusinessSettings_def intro: system_typed_updateDoc split: sum.splits)
next
  case (Svc_system c d now)
  assume "system_typed cid db" "svc_typed cid op"
  then show ?thesis using Svc_system
    by (auto simp: svc_apply_def updateSystemSettings_def svc_typed_def settings_path_def
        intro: system_typed_updateDoc partial_conf_stamped split: sum.splits)
next
  case (Svc_margin c d now)
  assume "system_typed cid db"
  then show ?thesis using Svc_margin
    by (auto simp: svc_apply_def updateMarginRules_def intro: system_typed_updateDoc split: sum.splits)
next
  case (Svc_quote_number c now)
  assume "system_typed cid db"
  then show ?thesis using Svc_quote_number
    by (auto simp: svc_apply_def generateQuoteNumber_def gq_write_def partial_conf_def system_settings_schema_def
        intro: system_typed_updateDoc split: sum.splits)
next
  case (Svc_seed now)
  assume "system_typed cid db"
  then show ?thesis using Svc_seed
    by (auto simp: svc_apply_def seedInitialData_def batch_set_new_def system_typed_def getSystemSettings_def
        getDoc_batch_fold split: sum.splits if_splits)
qed


text \<open>Without the typing of the data the cast fails: a counter written as a string makes
  the next \<open>generateQuoteNumber\<close> throw.\<close>

lemma untyped_counter_breaks_quote_number:
  "gq_read ''acme-electrical''
     (svc_apply (Svc_system ''acme-electrical'' [(''next_quote_number'', FStr ''1002'')] 5) typed_demo_db) =
   Inl settings_shape_msg"
  by (simp add: svc_apply_def updateSystemSettings_def updateDoc_def valid_data_def typed_demo_db_def
      getDoc_def coll_def set_coll_def settings_path_def spread_def gq_read_def)

section \<open>Properties\<close>

text \<open>
  C20. Type soundness of the settings cast: every service write that TypeScript's types
  admit keeps the \<open>system\<close> settings document of a company conforming to
  \<open>SystemSettings\<close>, if it did before, and on such a store \<open>generateQuoteNumber\<close>'s read
  never takes its shape-error branch.
\<close>

theorem svc_apply_system_typed:
  "system_typed cid db \<Longrightarrow> svc_typed cid op \<Longrightarrow>
   system_typed cid (svc_apply op db) \<and> (\<exists>r. gq_read cid (svc_apply op db) = Inr r)"
  using system_typed_svc_apply system_typed_gq_read by blast

theorem svc_apply_system_typed_witness:
  "system_typed ''acme-electrical'' typed_demo_db \<and>
   svc_typed ''acme-electrical'' (Svc_system ''acme-electrical'' [(''tax_rate'', FNum 15)] 5) \<and>
   system_typed ''acme-electrical'' (svc_apply (Svc_system ''acme-electrical'' [(''tax_rate'', FNum 15)] 5) typed_demo_db) \<and>
   (\<exists>r. gq_read ''acme-electrical'' (svc_apply (Svc_system ''acme-electrical'' [(''tax_rate'', FNum 15)] 5) typed_demo_db) = Inr r)"
proof -
  have h1: "system_typed ''acme-electrical'' typed_demo_db"
    by (simp add: system_typed_def getSystemSettings_def typed_demo_db_def getDoc_def coll_def settings_path_def
        doc_conf_def system_settings_schema_def)
  have h2: "svc_typed ''acme-electrical'' (Svc_system ''acme-electrical'' [(''tax_rate'', FNum 15)] 5)"
    by (simp add: svc_typed_def partial_conf_def system_settings_schema_def)
  show ?thesis using svc_apply_system_typed [OF h1 h2] h1 h2 by blast
qed

end
