(* ===== verification/Pages_Company.thy ===== *)
theory Pages_Company
  imports Prelude Complex_Main
begin

text \<open>
  The trade company pages of \<open>src/src/pages/company/\<close>: \<open>Clients.tsx\<close>, \<open>Quotes.tsx\<close> and
  \<open>ProductsServices.tsx\<close>. Each page keeps its data in \<open>useState\<close> initialised with mock
  records; the model has the entity interfaces of \<open>src/src/types/index.ts\<close> as records
  (dates left out, JavaScript numbers as exact rationals), the mock data, the filters
  and statistics the pages compute, and their handlers. \<open>Math.round(x)\<close> is
  \<open>\<lfloor>x + 1/2\<rfloor>\<close>; a division by zero, which JavaScript turns into \<open>NaN\<close>, is \<open>None\<close>.
\<close>

section \<open>Shared page helpers\<close>

datatype page_toast = PT_success string | PT_error string | PT_loading string

text \<open>\<open>x?.toLowerCase().includes(t)\<close>: an absent optional field does not match.\<close>

definition opt_includes :: "string option \<Rightarrow> string \<Rightarrow> bool" where
  "opt_includes x t = (case x of None \<Rightarrow> False | Some s \<Rightarrow> js_includes (toLowerCase s) (toLowerCase t))"

definition str_includes :: "string \<Rightarrow> string \<Rightarrow> bool" where
  "str_includes s t = js_includes (toLowerCase s) (toLowerCase t)"

text \<open>JavaScript truthiness of an optional string: \<open>undefined\<close> and \<open>''\<close> are false.\<close>

definition js_truthy :: "string option \<Rightarrow> bool" where
  "js_truthy x = (case x of None \<Rightarrow> False | Some s \<Rightarrow> s \<noteq> [])"

definition js_round :: "rat \<Rightarrow> int" where
  "js_round x = \<lfloor>x + 1 / 2\<rfloor>"

text \<open>\<open>Math.round(sum / n)\<close> of a list of numbers: \<open>NaN\<close> (\<open>None\<close>) for an empty list.\<close>

definition round_mean :: "rat list \<Rightarrow> int option" where
  "round_mean xs = (if xs = [] then None else Some (js_round (sum_list xs / of_nat (length xs))))"

section \<open>Clients\<close>

record client =
  client_id :: string
  cl_name :: string
  cl_email :: "string option"
  cl_phone :: "string option"
  cl_address :: string
  contact_person :: "string option"
  crm_id :: "string option"
  cl_notes :: "string option"

definition mock_clients :: "client list" where
  "mock_clients =
     [\<lparr>client_id = ''client-001'', cl_name = ''Smith Residence'', cl_email = Some ''john.smith@email.com'',
       cl_phone = Some ''+61 7 1234 5678'', cl_address = ''123 Main Street, Brisbane, QLD 4000'',
       contact_person = Some ''John Smith'', crm_id = Some ''GHL-001'',
       cl_notes = Some ''Regular customer, prefers morning appointments''\<rparr>,
      \<lparr>client_id = ''client-002'', cl_name = ''Johnson Commercial Building'',
       cl_email = Some ''sarah.johnson@johnsonprops.com'', cl_phone = Some ''+61 7 2345 6789'',
       cl_address = ''456 Business Blvd, Gold Coast, QLD 4217'', contact_person = Some ''Sarah Johnson'',
       crm_id = Some ''GHL-002'', cl_notes = Some ''Commercial property manager, bulk electrical work''\<rparr>,
      \<lparr>client_id = ''client-003'', cl_name = ''Wilson Family Home'', cl_email = Some ''mike.wilson@email.com'',
       cl_phone = Some ''+61 7 3456 7890'', cl_address = ''789 Elm Street, Toowoomba, QLD 4350'',
       contact_person = Some ''Mike Wilson'', crm_id = None,
       cl_notes = Some ''New construction, solar panel installation required''\<rparr>,
      \<lparr>client_id = ''client-004'', cl_name = ''Brown Apartments'',
       cl_email = Some ''lisa.brown@brownproperties.com'', cl_phone = Some ''+61 7 4567 8901'',
       cl_address = ''321 Oak Avenue, Cairns, QLD 4870'', contact_person = Some ''Lisa Brown'',
       crm_id = Some ''GHL-003'', cl_notes = Some ''Multi-unit property, requires safety inspections''\<rparr>]"

record clients_page =
  cp_searchTerm :: string
  cp_isAddClientOpen :: bool
  cp_isGoHighLevelConnected :: bool
  cp_toasts :: "page_toast list"

definition clients_page_init :: clients_page where
  "clients_page_init = \<lparr>cp_searchTerm = [], cp_isAddClientOpen = False,
     cp_isGoHighLevelConnected = True, cp_toasts = []\<rparr>"

definition client_search_match :: "string \<Rightarrow> client \<Rightarrow> bool" where
  "client_search_match t c =
     (str_includes (cl_name c) t \<or> opt_includes (cl_email c) t \<or>
      opt_includes (contact_person c) t \<or> str_includes (cl_address c) t)"

definition filteredClients :: "clients_page \<Rightarrow> client list \<Rightarrow> client list" where
  "filteredClients s cs = filter (client_search_match (cp_searchTerm s)) cs"

text \<open>\<open>quoteCounts[clientId] || 0\<close> and \<open>lastQuotes[clientId]\<close> (dates as ISO strings).\<close>

definition getQuoteCount :: "string \<Rightarrow> nat" where
  "getQuoteCount i =
     opt_or (map_of [(''client-001'', 3), (''client-002'', 7), (''client-003'', 1), (''client-004'', 4)] i) 0"

definition getLastQuoteDate :: "string \<Rightarrow> string option" where
  "getLastQuoteDate i =
     map_of [(''client-001'', ''2024-05-20''), (''client-002'', ''2024-05-28''),
             (''client-003'', ''2024-05-10''), (''client-004'', ''2024-05-25'')] i"

text \<open>The "CRM Synced" card: clients whose \<open>crm_id\<close> is truthy.\<close>

definition crm_synced_count :: "client list \<Rightarrow> nat" where
  "crm_synced_count cs = length (filter (\<lambda>c. js_truthy (crm_id c)) cs)"

text \<open>
  \<open>handleSyncGoHighLevel\<close>: a loading toast, a two-second wait, a success toast (the
  \<open>catch\<close> is unreachable); \<open>handleConnectGoHighLevel\<close>; the "Clear Search" button.
\<close>

definition handleSyncGoHighLevel :: "clients_page \<Rightarrow> clients_page" where
  "handleSyncGoHighLevel s =
     s\<lparr>cp_toasts := cp_toasts s @ [PT_loading ''Syncing clients from GoHighLevel...'',
                                  PT_success ''Successfully synced 5 clients from GoHighLevel'']\<rparr>"

definition handleConnectGoHighLevel :: "clients_page \<Rightarrow> clients_page" where
  "handleConnectGoHighLevel s =
     s\<lparr>cp_toasts := cp_toasts s @ [PT_success ''Redirecting to GoHighLevel OAuth...''],
       cp_isGoHighLevelConnected := True\<rparr>"

definition clearClientSearch :: "clients_page \<Rightarrow> clients_page" where
  "clearClientSearch s = s\<lparr>cp_searchTerm := []\<rparr>"

section \<open>Quotes\<close>

datatype quote_status = Q_draft | Q_calculated | Q_exported | Q_accepted | Q_rejected

fun quote_status_tag :: "quote_status \<Rightarrow> string" where
  "quote_status_tag Q_draft = ''draft''"
| "quote_status_tag Q_calculated = ''calculated''"
| "quote_status_tag Q_exported = ''exported''"
| "quote_status_tag Q_accepted = ''accepted''"
| "quote_status_tag Q_rejected = ''rejected''"

record margin_summary =
  total_cost :: rat
  total_margin :: rat
  overall_margin_percentage :: rat

record rebate_applied =
  ra_rebate_id :: string
  ra_name :: string
  ra_amount :: rat

record calculated_summary =
  subtotal_before_discounts :: rat
  discount_amount :: rat
  subtotal_after_discounts :: rat
  rebates_applied :: "rebate_applied list"
  total_rebates :: rat
  subtotal_after_rebates :: rat
  tax_amount :: rat
  final_total_amount :: rat
  cs_margin :: margin_summary

datatype export_status = Export_success | Export_failed | Export_pending

record export_event =
  export_id :: string
  external_system :: string
  ex_status :: export_status

text \<open>\<open>Quote\<close>; \<open>raw_data_fields: Record<string, any>\<close> holds strings in all the sources.\<close>

record quote =
  quote_id :: string
  quote_number :: string
  customer_id :: string
  customer_name :: string
  q_status :: quote_status
  q_trade_id :: string
  q_template_id :: string
  raw_data_fields :: "(string \<times> string) list"
  calc_summary :: "calculated_summary option"
  export_history :: "export_event list"

record trade =
  trade_id :: string
  trade_name :: string
  trade_description :: string
  trade_is_active :: bool

datatype template_type = Standard_form | Conversational_flow

record trade_template =
  template_id :: string
  template_name :: string
  template_type :: template_type
  template_is_active :: bool

definition mock_quotes :: "quote list" where
  "mock_quotes =
     [\<lparr>quote_id = ''quote-001'', quote_number = ''ACE-000125'', customer_id = ''client-001'',
       customer_name = ''Smith Residence'', q_status = Q_calculated, q_trade_id = ''electrical'',
       q_template_id = ''template-001'',
       raw_data_fields = [(''project_type'', ''Electrical Panel Upgrade''),
                          (''location'', ''123 Main Street, Brisbane''), (''urgency'', ''standard'')],
       calc_summary = Some \<lparr>subtotal_before_discounts = 2850, discount_amount = 0,
         subtotal_after_discounts = 2850, rebates_applied = [], total_rebates = 0,
         subtotal_after_rebates = 2850, tax_amount = 285, final_total_amount = 3135,
         cs_margin = \<lparr>total_cost = 2100, total_margin = 750, overall_margin_percentage = 35.7\<rparr>\<rparr>,
       export_history = []\<rparr>,
      \<lparr>quote_id = ''quote-002'', quote_number = ''ACE-000124'', customer_id = ''client-003'',
       customer_name = ''Wilson Family Home'', q_status = Q_exported, q_trade_id = ''solar'',
       q_template_id = ''template-002'',
       raw_data_fields = [(''project_type'', ''Solar Panel Installation''),
                          (''location'', ''789 Elm Street, Toowoomba''), (''system_size'', ''6.6kW'')],
       calc_summary = Some \<lparr>subtotal_before_discounts = 8500, discount_amount = 500,
         subtotal_after_discounts = 8000,
         rebates_applied = [\<lparr>ra_rebate_id = ''solar-rebate'', ra_name = ''Solar Rebate'', ra_amount = 1200\<rparr>],
         total_rebates = 1200, subtotal_after_rebates = 6800, tax_amount = 680, final_total_amount = 7480,
         cs_margin = \<lparr>total_cost = 5200, total_margin = 1600, overall_margin_percentage = 30.8\<rparr>\<rparr>,
       export_history = [\<lparr>export_id = ''exp-001'', external_system = ''Make.com'', ex_status = Export_success\<rparr>]\<rparr>,
      \<lparr>quote_id = ''quote-003'', quote_number = ''ACE-000123'', customer_id = ''client-002'',
       customer_name = ''Johnson Commercial Building'', q_status = Q_draft, q_trade_id = ''electrical'',
       q_template_id = ''template-001'',
       raw_data_fields = [(''project_type'', ''Commercial Electrical Upgrade''),
                          (''location'', ''456 Business Blvd, Gold Coast'')],
       calc_summary = None, export_history = []\<rparr>]"

definition quotes_trades :: "trade list" where
  "quotes_trades =
     [\<lparr>trade_id = ''electrical'', trade_name = ''Electrical Services'',
       trade_description = ''General electrical work'', trade_is_active = True\<rparr>,
      \<lparr>trade_id = ''solar'', trade_name = ''Solar Installation'',
       trade_description = ''Solar panel systems'', trade_is_active = True\<rparr>]"

definition quotes_templates :: "trade_template list" where
  "quotes_templates =
     [\<lparr>template_id = ''template-001'', template_name = ''Standard Electrical Quote'',
       template_type = Standard_form, template_is_active = True\<rparr>,
      \<lparr>template_id = ''template-002'', template_name = ''Solar Consultation Flow'',
       template_type = Conversational_flow, template_is_active = True\<rparr>]"

record quotes_page =
  qp_searchTerm :: string
  qp_statusFilter :: string
  qp_tradeFilter :: string
  qp_isCreateQuoteOpen :: bool
  qp_toasts :: "page_toast list"
  qp_navigated :: "string option"

definition quotes_page_init :: quotes_page where
  "quotes_page_init = \<lparr>qp_searchTerm = [], qp_statusFilter = ''all'', qp_tradeFilter = ''all'',
     qp_isCreateQuoteOpen = False, qp_toasts = [], qp_navigated = None\<rparr>"

definition quote_matches :: "quotes_page \<Rightarrow> quote \<Rightarrow> bool" where
  "quote_matches s q =
     ((str_includes (quote_number q) (qp_searchTerm s) \<or> str_includes (customer_name q) (qp_searchTerm s) \<or>
       opt_includes (map_of (raw_data_fields q) ''project_type'') (qp_searchTerm s)) \<and>
      (qp_statusFilter s = ''all'' \<or> quote_status_tag (q_status q) = qp_statusFilter s) \<and>
      (qp_tradeFilter s = ''all'' \<or> q_trade_id q = qp_tradeFilter s))"

definition filteredQuotes :: "quotes_page \<Rightarrow> quote list \<Rightarrow> quote list" where
  "filteredQuotes s qs = filter (quote_matches s) qs"

datatype status_icon = Clock_icon | Calculator_icon | Send_icon | CheckCircle_icon | XCircle_icon

fun getStatusIcon :: "quote_status \<Rightarrow> status_icon \<times> string" where
  "getStatusIcon Q_draft = (Clock_icon, ''text-yellow-500'')"
| "getStatusIcon Q_calculated = (Calculator_icon, ''text-blue-500'')"
| "getStatusIcon Q_exported = (Send_icon, ''text-green-500'')"
| "getStatusIcon Q_accepted = (CheckCircle_icon, ''text-green-500'')"
| "getStatusIcon Q_rejected = (XCircle_icon, ''text-red-500'')"

fun getStatusColor :: "quote_status \<Rightarrow> string" where
  "getStatusColor Q_draft = ''bg-yellow-100 text-yellow-800''"
| "getStatusColor Q_calculated = ''bg-blue-100 text-blue-800''"
| "getStatusColor Q_exported = ''bg-green-100 text-green-800''"
| "getStatusColor Q_accepted = ''bg-green-100 text-green-800''"
| "getStatusColor Q_rejected = ''bg-red-100 text-red-800''"

text \<open>The three statistics cards.\<close>

definition active_quote_count :: "quote list \<Rightarrow> nat" where
  "active_quote_count qs = length (filter (\<lambda>q. q_status q = Q_draft \<or> q_status q = Q_calculated) qs)"

definition total_quote_value :: "quote list \<Rightarrow> rat" where
  "total_quote_value qs =
     sum_list (map (\<lambda>q. case calc_summary q of None \<Rightarrow> 0 | Some c \<Rightarrow> final_total_amount c) qs)"

definition avg_quote_margin :: "quote list \<Rightarrow> int option" where
  "avg_quote_margin qs =
     round_mean (List.map_filter (\<lambda>q. map_option (\<lambda>c. overall_margin_percentage (cs_margin c)) (calc_summary q)) qs)"

text \<open>The trade badge of a row: \<open>trades.find(...)?.name || quote.trade_id\<close>.\<close>

definition quote_trade_label :: "trade list \<Rightarrow> quote \<Rightarrow> string" where
  "quote_trade_label ts q =
     (case find (\<lambda>t. trade_id t = q_trade_id q) ts of
        Some t \<Rightarrow> if trade_name t = [] then q_trade_id q else trade_name t
      | None \<Rightarrow> q_trade_id q)"

definition handleCreateQuote :: "string \<Rightarrow> string \<Rightarrow> string \<Rightarrow> quotes_page \<Rightarrow> quotes_page" where
  "handleCreateQuote cl tr tm s =
     s\<lparr>qp_toasts := qp_toasts s @ [PT_success ''Creating new quote...''], qp_isCreateQuoteOpen := False\<rparr>"

definition handleViewQuote :: "string \<Rightarrow> quotes_page \<Rightarrow> quotes_page" where
  "handleViewQuote qid s = s\<lparr>qp_navigated := Some (''/quotes/'' @ qid)\<rparr>"

definition handleExportQuote :: "string \<Rightarrow> quotes_page \<Rightarrow> quotes_page" where
  "handleExportQuote qid s =
     s\<lparr>qp_toasts := qp_toasts s @ [PT_loading ''Exporting quote...'', PT_success ''Quote exported successfully'']\<rparr>"

section \<open>Products and services\<close>

datatype product_type = Material | Labour | Service | Equipment

fun product_type_tag :: "product_type \<Rightarrow> string" where
  "product_type_tag Material = ''material''"
| "product_type_tag Labour = ''labour''"
| "product_type_tag Service = ''service''"
| "product_type_tag Equipment = ''equipment''"

record product =
  product_id :: string
  sku :: string
  p_name :: string
  p_description :: "string option"
  p_type :: product_type
  p_category :: string
  base_cost :: rat
  unit_of_measure :: string
  default_margin_percentage :: rat
  p_is_active :: bool

record margin_rule =
  mr_category :: string
  margin_percentage :: rat

definition mock_products :: "product list" where
  "mock_products =
     [\<lparr>product_id = ''elec-001'', sku = ''ELEC-WIRE-001'', p_name = ''Electrical Wire - 2.5mm'',
       p_description = Some ''High-quality electrical wire suitable for residential installations'',
       p_type = Material, p_category = ''Electrical Supplies'', base_cost = 15.50,
       unit_of_measure = ''meter'', default_margin_percentage = 25, p_is_active = True\<rparr>,
      \<lparr>product_id = ''elec-002'', sku = ''ELEC-OUTLET-001'', p_name = ''Power Outlet - Double GPO'',
       p_description = Some ''Standard double power outlet with safety switch'',
       p_type = Material, p_category = ''Electrical Fittings'', base_cost = 45,
       unit_of_measure = ''each'', default_margin_percentage = 30, p_is_active = True\<rparr>,
      \<lparr>product_id = ''labor-001'', sku = ''LAB-ELECTRICIAN'', p_name = ''Licensed Electrician Labor'',
       p_description = Some ''Hourly rate for qualified electrician work'',
       p_type = Labour, p_category = ''Labor'', base_cost = 85,
       unit_of_measure = ''hour'', default_margin_percentage = 40, p_is_active = True\<rparr>,
      \<lparr>product_id = ''serv-001'', sku = ''SERV-INSPECTION'', p_name = ''Electrical Safety Inspection'',
       p_description = Some ''Comprehensive electrical safety inspection service'',
       p_type = Service, p_category = ''Inspection Services'', base_cost = 150,
       unit_of_measure = ''each'', default_margin_percentage = 35, p_is_active = True\<rparr>]"

definition mock_margin_rules :: "margin_rule list" where
  "mock_margin_rules =
     [\<lparr>mr_category = ''Electrical Supplies'', margin_percentage = 25\<rparr>,
      \<lparr>mr_category = ''Electrical Fittings'', margin_percentage = 30\<rparr>,
      \<lparr>mr_category = ''Labor'', margin_percentage = 40\<rparr>,
      \<lparr>mr_category = ''Inspection Services'', margin_percentage = 35\<rparr>,
      \<lparr>mr_category = ''Equipment'', margin_percentage = 20\<rparr>]"

record products_page =
  pp_marginRules :: "margin_rule list"
  pp_searchTerm :: string
  pp_categoryFilter :: string
  pp_typeFilter :: string
  pp_isAddProductOpen :: bool
  pp_isEditMarginOpen :: bool
  pp_toasts :: "page_toast list"

definition products_page_init :: products_page where
  "products_page_init = \<lparr>pp_marginRules = mock_margin_rules, pp_searchTerm = [],
     pp_categoryFilter = ''all'', pp_typeFilter = ''all'', pp_isAddProductOpen = False,
     pp_isEditMarginOpen = False, pp_toasts = []\<rparr>"

text \<open>The product table shows only active products that match all three filters.\<close>

definition product_matches :: "products_page \<Rightarrow> product \<Rightarrow> bool" where
  "product_matches s p =
     ((str_includes (p_name p) (pp_searchTerm s) \<or> str_includes (sku p) (pp_searchTerm s) \<or>
       opt_includes (p_description p) (pp_searchTerm s)) \<and>
      (pp_categoryFilter s = ''all'' \<or> p_category p = pp_categoryFilter s) \<and>
      (pp_typeFilter s = ''all'' \<or> product_type_tag (p_type p) = pp_typeFilter s) \<and>
      p_is_active p)"

definition filteredProducts :: "products_page \<Rightarrow> product list \<Rightarrow> product list" where
  "filteredProducts s ps = filter (product_matches s) ps"

text \<open>\<open>Array.from(new Set(products.map(p => p.category)))\<close>: first occurrences, in order.\<close>

definition product_categories :: "product list \<Rightarrow> string list" where
  "product_categories ps = rev (remdups (rev (map p_category ps)))"

definition product_types :: "string list" where
  "product_types = [''material'', ''labour'', ''service'', ''equipment'']"

fun getTypeColor :: "product_type \<Rightarrow> string" where
  "getTypeColor Material = ''bg-blue-100 text-blue-800''"
| "getTypeColor Labour = ''bg-green-100 text-green-800''"
| "getTypeColor Service = ''bg-purple-100 text-purple-800''"
| "getTypeColor Equipment = ''bg-orange-100 text-orange-800''"

definition calculateSellingPrice :: "rat \<Rightarrow> rat \<Rightarrow> rat" where
  "calculateSellingPrice baseCost marginPercentage = baseCost * (1 + marginPercentage / 100)"

text \<open>
  \<open>handleUpdateMarginRule\<close>: every rule of the category gets the new margin (the value
  \<open>parseFloat\<close> read from the input; the input's \<open>min\<close>/\<open>max\<close> are not enforced).
\<close>

definition handleUpdateMarginRule :: "string \<Rightarrow> rat \<Rightarrow> products_page \<Rightarrow> products_page" where
  "handleUpdateMarginRule c m s =
     s\<lparr>pp_marginRules := map (\<lambda>r. if mr_category r = c then r\<lparr>margin_percentage := m\<rparr> else r)
                              (pp_marginRules s)\<rparr>"

definition handleSaveMarginRules :: "products_page \<Rightarrow> products_page" where
  "handleSaveMarginRules s =
     s\<lparr>pp_toasts := pp_toasts s @ [PT_success ''Margin rules updated successfully''],
       pp_isEditMarginOpen := False\<rparr>"

text \<open>The statistics cards: materials, services and labour, and the average margin.\<close>

definition material_count :: "product list \<Rightarrow> nat" where
  "material_count ps = length (filter (\<lambda>p. p_type p = Material) ps)"

definition service_count :: "product list \<Rightarrow> nat" where
  "service_count ps = length (filter (\<lambda>p. p_type p = Service \<or> p_type p = Labour) ps)"

definition avg_product_margin :: "product list \<Rightarrow> int option" where
  "avg_product_margin ps = round_mean (map default_margin_percentage ps)"

text \<open>The category-to-margin map the rule list stands for (the first rule of a category).\<close>

definition margin_map :: "margin_rule list \<Rightarrow> string \<rightharpoonup> rat" where
  "margin_map rs = map_of (map (\<lambda>r. (mr_category r, margin_percentage r)) rs)"

section \<open>Lemmas\<close>

lemma floor_numeral_div [simp]: "\<lfloor>(numeral a / numeral b :: rat)\<rfloor> = numeral a div numeral b"
  using floor_divide_of_int_eq [of "numeral a" "numeral b", where 'a=rat] by simp

lemma sum_list_bounds:
  "list_all (\<lambda>x. lo \<le> x \<and> x \<le> hi) xs \<Longrightarrow>
   of_nat (length xs) * lo \<le> sum_list xs \<and> sum_list xs \<le> of_nat (length xs) * (hi :: rat)"
  by (induction xs) (auto simp: algebra_simps)

lemma length_map_filter_option:
  "length (List.map_filter (\<lambda>q. map_option g (h q)) qs) = length (filter (\<lambda>q. h q \<noteq> None) qs)"
  by (induction qs) (auto simp: List.map_filter_def)

lemma sum_list_map_filter_option:
  "sum_list (List.map_filter (\<lambda>q. map_option g (h q)) qs) =
   sum_list (map (\<lambda>q. case h q of None \<Rightarrow> 0 | Some c \<Rightarrow> g c) qs)"
  by (induction qs) (auto simp: List.map_filter_def split: option.split)

lemma round_mean_bounds:
  assumes "list_all (\<lambda>x. of_int lo \<le> x \<and> x \<le> of_int hi) xs" "round_mean xs = Some m"
  shows "lo \<le> m \<and> m \<le> hi"
proof -
  have ne: "xs \<noteq> []" and m: "m = js_round (sum_list xs / of_nat (length xs))"
    using assms(2) by (auto simp: round_mean_def split: if_splits)
  let ?n = "of_nat (length xs) :: rat"
  have n: "0 < ?n" using ne by simp
  from sum_list_bounds [OF assms(1)] have "?n * of_int lo \<le> sum_list xs" "sum_list xs \<le> ?n * of_int hi"
    by auto
  then have lo: "of_int lo \<le> sum_list xs / ?n" and hi: "sum_list xs / ?n \<le> of_int hi"
    using n by (simp_all add: pos_le_divide_eq pos_divide_le_eq mult.commute)
  have "lo \<le> js_round (sum_list xs / ?n)"
    using lo by (simp add: js_round_def le_floor_iff)
  moreover have "js_round (sum_list xs / ?n) \<le> hi"
    using hi by (simp add: js_round_def floor_le_iff)
  ultimately show ?thesis using m by simp
qed

text \<open>The "Avg Margin" card shows \<open>NaN%\<close> exactly when no quote has been calculated.\<close>

lemma avg_quote_margin_nan:
  "avg_quote_margin qs = None \<longleftrightarrow> list_all (\<lambda>q. calc_summary q = None) qs"
  by (induction qs) (auto simp: avg_quote_margin_def round_mean_def List.map_filter_def)

section \<open>Properties of the pages\<close>

text \<open>
  C38. The "Avg Margin" card of the quotes page shows the rounded mean of the margins of
  the calculated quotes only: their sum (\<open>|| 0\<close> for the others) divided by the number of
  calculated quotes. When every calculated quote has a margin between 0 and 100, that
  number is an integer between 0 and 100.
\<close>

theorem avg_quote_margin_bounds:
  "list_all (\<lambda>q. case calc_summary q of None \<Rightarrow> True
                  | Some c \<Rightarrow> 0 \<le> overall_margin_percentage (cs_margin c) \<and>
                              overall_margin_percentage (cs_margin c) \<le> 100) qs \<Longrightarrow>
   avg_quote_margin qs = Some m \<Longrightarrow>
   0 \<le> m \<and> m \<le> 100 \<and>
   m = js_round (sum_list (map (\<lambda>q. case calc_summary q of None \<Rightarrow> 0 | Some c \<Rightarrow> overall_margin_percentage (cs_margin c)) qs) /
              of_nat (length (filter (\<lambda>q. calc_summary q \<noteq> None) qs)))"
proof -
  assume a: "list_all (\<lambda>q. case calc_summary q of None \<Rightarrow> True
                  | Some c \<Rightarrow> 0 \<le> overall_margin_percentage (cs_margin c) \<and>
                              overall_margin_percentage (cs_margin c) \<le> 100) qs"
     and m: "avg_quote_margin qs = Some m"
  let ?xs = "List.map_filter (\<lambda>q. map_option (\<lambda>c. overall_margin_percentage (cs_margin c)) (calc_summary q)) qs"
  have "list_all (\<lambda>x. of_int 0 \<le> x \<and> x \<le> of_int 100) ?xs"
    using a by (auto simp: list_all_iff List.map_filter_def split: option.splits)
  then have b: "0 \<le> m \<and> m \<le> 100" using round_mean_bounds m by (fastforce simp: avg_quote_margin_def)
  have "m = js_round (sum_list ?xs / of_nat (length ?xs))"
    using m by (simp add: avg_quote_margin_def round_mean_def split: if_splits)
  with b show ?thesis by (simp add: sum_list_map_filter_option length_map_filter_option)
qed

theorem avg_quote_margin_bounds_witness:
  "list_all (\<lambda>q. case calc_summary q of None \<Rightarrow> True
                  | Some c \<Rightarrow> 0 \<le> overall_margin_percentage (cs_margin c) \<and>
                              overall_margin_percentage (cs_margin c) \<le> 100) mock_quotes \<and>
   avg_quote_margin mock_quotes = Some 33 \<and> 0 \<le> (33::int) \<and> (33::int) \<le> 100 \<and>
   (33::int) = js_round (sum_list (map (\<lambda>q. case calc_summary q of None \<Rightarrow> 0 | Some c \<Rightarrow> overall_margin_percentage (cs_margin c)) mock_quotes) /
              of_nat (length (filter (\<lambda>q. calc_summary q \<noteq> None) mock_quotes)))"
proof -
  have h1: "list_all (\<lambda>q. case calc_summary q of None \<Rightarrow> True
                  | Some c \<Rightarrow> 0 \<le> overall_margin_percentage (cs_margin c) \<and>
                              overall_margin_percentage (cs_margin c) \<le> 100) mock_quotes"
    by (simp add: mock_quotes_def)
  have h2: "avg_quote_margin mock_quotes = Some 33"
    by (simp add: avg_quote_margin_def mock_quotes_def List.map_filter_def round_mean_def js_round_def)
  show ?thesis using h1 h2 avg_quote_margin_bounds [OF h1 h2] by blast
qed

text \<open>
  C39. Editing a category's margin refines an update of the category-to-margin map:
  after \<open>handleUpdateMarginRule c m\<close> the rules map \<open>c\<close> to \<open>m\<close> and every other
  category as before; a category without a rule is not added.
\<close>

theorem margin_rules_refine_map:
  "margin_map (pp_marginRules (handleUpdateMarginRule c m s)) =
   (if c \<in> set (map mr_category (pp_marginRules s))
    then (margin_map (pp_marginRules s))(c \<mapsto> m) else margin_map (pp_marginRules s))"
proof -
  have "\<And>rs. margin_map (map (\<lambda>r. if mr_category r = c then r\<lparr>margin_percentage := m\<rparr> else r) rs) =
     (if c \<in> set (map mr_category rs) then (margin_map rs)(c \<mapsto> m) else margin_map rs)"
  proof -
    fix rs show "margin_map (map (\<lambda>r. if mr_category r = c then r\<lparr>margin_percentage := m\<rparr> else r) rs) =
     (if c \<in> set (map mr_category rs) then (margin_map rs)(c \<mapsto> m) else margin_map rs)"
      by (induction rs) (auto simp: margin_map_def fun_eq_iff)
  qed
  then show ?thesis by (simp add: handleUpdateMarginRule_def)
qed

end
