(* ===== verification/Pages_Admin.thy ===== *)
theory Pages_Admin
  imports Pages_Company Auth_Service
begin

text \<open>
  The global admin pages of \<open>src/src/pages/admin/\<close>: \<open>UserManagement.tsx\<close>,
  \<open>CompanyManagement.tsx\<close> and \<open>TradeManagement.tsx\<close>, on their mock data. Users are the
  \<open>app_user\<close> records of \<open>Auth_Service\<close>; companies, quote fields and the pages' state
  are records here. The user page's checkboxes and filters are events of a step function
  \<open>users_step\<close>, so that a sequence of clicks is a fold over it.
\<close>

section \<open>User management\<close>

definition admin_mock_users :: "app_user list" where
  "admin_mock_users =
     [\<lparr>uid = ''admin1'', email = ''admin@quotehub.com'', user_name = ''Admin User'',
       role = Global_app_admin, company_id = None\<rparr>,
      \<lparr>uid = ''user1'', email = ''john@acmeelectrical.com'', user_name = ''John Smith'',
       role = Trade_company_user, company_id = Some ''acme-electrical''\<rparr>,
      \<lparr>uid = ''user2'', email = ''sarah@acmeelectrical.com'', user_name = ''Sarah Johnson'',
       role = Trade_company_user, company_id = Some ''acme-electrical''\<rparr>,
      \<lparr>uid = ''user3'', email = ''mike@solarpro.com'', user_name = ''Mike Wilson'',
       role = Trade_company_user, company_id = Some ''solar-pro''\<rparr>,
      \<lparr>uid = ''user4'', email = ''lisa@quickplumbing.com'', user_name = ''Lisa Brown'',
       role = Trade_company_user, company_id = Some ''quick-plumbing''\<rparr>]"

datatype company_status = Company_active | Company_inactive

fun company_status_tag :: "company_status \<Rightarrow> string" where
  "company_status_tag Company_active = ''active''"
| "company_status_tag Company_inactive = ''inactive''"

record company =
  co_company_id :: string
  co_name :: string
  assigned_trades :: "string list"
  co_status :: company_status
  created_by :: string

definition admin_mock_companies :: "company list" where
  "admin_mock_companies =
     [\<lparr>co_company_id = ''acme-electrical'', co_name = ''Acme Electrical Services'',
       assigned_trades = [''electrical'', ''solar''], co_status = Company_active, created_by = ''admin_user''\<rparr>,
      \<lparr>co_company_id = ''solar-pro'', co_name = ''Solar Pro Solutions'',
       assigned_trades = [''solar''], co_status = Company_active, created_by = ''admin_user''\<rparr>,
      \<lparr>co_company_id = ''quick-plumbing'', co_name = ''Quick Plumbing Co.'',
       assigned_trades = [''plumbing''], co_status = Company_inactive, created_by = ''admin_user''\<rparr>]"

record users_page =
  up_searchTerm :: string
  up_roleFilter :: string
  up_companyFilter :: string
  up_selectedUsers :: "string list"
  up_isAddUserOpen :: bool
  up_isBulkActionOpen :: bool

definition users_page_init :: users_page where
  "users_page_init = \<lparr>up_searchTerm = [], up_roleFilter = ''all'', up_companyFilter = ''all'',
     up_selectedUsers = [], up_isAddUserOpen = False, up_isBulkActionOpen = False\<rparr>"

text \<open>The company filter: \<open>'none'\<close> selects users whose \<open>company_id\<close> is falsy.\<close>

definition user_matches :: "users_page \<Rightarrow> app_user \<Rightarrow> bool" where
  "user_matches s u =
     ((str_includes (user_name u) (up_searchTerm s) \<or> str_includes (email u) (up_searchTerm s)) \<and>
      (up_roleFilter s = ''all'' \<or> role_tag (role u) = up_roleFilter s) \<and>
      (up_companyFilter s = ''all'' \<or> (up_companyFilter s = ''none'' \<and> \<not> js_truthy (company_id u)) \<or>
       company_id u = Some (up_companyFilter s)))"

definition filteredUsers :: "users_page \<Rightarrow> app_user list \<Rightarrow> app_user list" where
  "filteredUsers s us = filter (user_matches s) us"

definition getCompanyName :: "company list \<Rightarrow> string option \<Rightarrow> string" where
  "getCompanyName cs cid =
     (if \<not> js_truthy cid then ''No Company''
      else case find (\<lambda>c. Some (co_company_id c) = cid) cs of
        Some c \<Rightarrow> if co_name c = [] then ''Unknown Company'' else co_name c
      | None \<Rightarrow> ''Unknown Company'')"

fun getRoleBadgeVariant :: "role \<Rightarrow> string" where
  "getRoleBadgeVariant Global_app_admin = ''default''"
| "getRoleBadgeVariant Trade_company_user = ''secondary''"

text \<open>The avatar: \<open>user.name.split(' ').map(n => n[0]).join('')\<close> (\<open>n[0]\<close> of \<open>''\<close> prints nothing).\<close>

definition user_initials :: "string \<Rightarrow> string" where
  "user_initials n = concat (map (take 1) (split_on CHR '' '' n))"

definition handleSelectUser :: "string \<Rightarrow> users_page \<Rightarrow> users_page" where
  "handleSelectUser i s =
     s\<lparr>up_selectedUsers := (if i \<in> set (up_selectedUsers s) then filter (\<lambda>j. j \<noteq> i) (up_selectedUsers s)
                            else up_selectedUsers s @ [i])\<rparr>"

text \<open>
  \<open>handleSelectAll\<close> compares only the lengths of the selection and of the filtered list:
  an equally long selection of other users is cleared, not replaced.
\<close>

definition handleSelectAll :: "app_user list \<Rightarrow> users_page \<Rightarrow> users_page" where
  "handleSelectAll us s =
     s\<lparr>up_selectedUsers := (if length (up_selectedUsers s) = length (filteredUsers s us) then []
                            else map uid (filteredUsers s us))\<rparr>"

definition select_all_checked :: "app_user list \<Rightarrow> users_page \<Rightarrow> bool" where
  "select_all_checked us s = (length (up_selectedUsers s) = length (filteredUsers s us))"

text \<open>The page's controls: the search and the two filter selects, the row and header
  checkboxes, the empty-state "Clear Filters" button (rendered only when no user is
  shown, and resetting only the search), the add-user dialog, whose Create button only
  closes it, and the bulk-action dialog, whose trigger is rendered only while users are
  selected and whose action buttons have no handler.\<close>

datatype users_event =
  U_search string | U_role_filter string | U_company_filter string | U_select string | U_select_all
  | U_clear_search | U_add_dialog bool | U_add_cancel | U_add_confirm | U_bulk_dialog bool

fun users_step :: "app_user list \<Rightarrow> users_page \<Rightarrow> users_event \<Rightarrow> users_page" where
  "users_step us s (U_search t) = s\<lparr>up_searchTerm := t\<rparr>"
| "users_step us s (U_role_filter r) = s\<lparr>up_roleFilter := r\<rparr>"
| "users_step us s (U_company_filter c) = s\<lparr>up_companyFilter := c\<rparr>"
| "users_step us s (U_select i) = handleSelectUser i s"
| "users_step us s U_select_all = handleSelectAll us s"
| "users_step us s U_clear_search = (if filteredUsers s us = [] then s\<lparr>up_searchTerm := []\<rparr> else s)"
| "users_step us s (U_add_dialog b) = s\<lparr>up_isAddUserOpen := b\<rparr>"
| "users_step us s U_add_cancel = (if up_isAddUserOpen s then s\<lparr>up_isAddUserOpen := False\<rparr> else s)"
| "users_step us s U_add_confirm = (if up_isAddUserOpen s then s\<lparr>up_isAddUserOpen := False\<rparr> else s)"
| "users_step us s (U_bulk_dialog b) =
     (if b \<longrightarrow> up_selectedUsers s \<noteq> [] then s\<lparr>up_isBulkActionOpen := b\<rparr> else s)"

definition users_run :: "app_user list \<Rightarrow> users_event list \<Rightarrow> users_page \<Rightarrow> users_page" where
  "users_run us evs s = foldl (users_step us) s evs"

definition admin_user_count :: "app_user list \<Rightarrow> nat \<times> nat" where
  "admin_user_count us =
     (length (filter (\<lambda>u. role u = Global_app_admin) us), length (filter (\<lambda>u. role u = Trade_company_user) us))"

section \<open>Company management\<close>

definition company_page_companies :: "company list" where
  "company_page_companies =
     [\<lparr>co_company_id = ''acme-electrical'', co_name = ''Acme Electrical Services'',
       assigned_trades = [''electrical'', ''solar''], co_status = Company_active, created_by = ''admin_user''\<rparr>,
      \<lparr>co_company_id = ''solar-pro'', co_name = ''Solar Pro Solutions'',
       assigned_trades = [''solar''], co_status = Company_active, created_by = ''admin_user''\<rparr>,
      \<lparr>co_company_id = ''quick-plumbing'', co_name = ''Quick Plumbing Co.'',
       assigned_trades = [''plumbing''], co_status = Company_inactive, created_by = ''admin_user''\<rparr>]"

definition company_page_users :: "app_user list" where
  "company_page_users =
     [\<lparr>uid = ''user1'', email = ''john@acmeelectrical.com'', user_name = ''John Smith'',
       role = Trade_company_user, company_id = Some ''acme-electrical''\<rparr>,
      \<lparr>uid = ''user2'', email = ''sarah@acmeelectrical.com'', user_name = ''Sarah Johnson'',
       role = Trade_company_user, company_id = Some ''acme-electrical''\<rparr>,
      \<lparr>uid = ''user3'', email = ''mike@solarpro.com'', user_name = ''Mike Wilson'',
       role = Trade_company_user, company_id = Some ''solar-pro''\<rparr>]"

definition company_page_trades :: "trade list" where
  "company_page_trades =
     [\<lparr>trade_id = ''solar'', trade_name = ''Solar Installation'',
       trade_description = ''Solar panel installation and maintenance'', trade_is_active = True\<rparr>,
      \<lparr>trade_id = ''electrical'', trade_name = ''Electrical Services'',
       trade_description = ''General electrical work and repairs'', trade_is_active = True\<rparr>,
      \<lparr>trade_id = ''plumbing'', trade_name = ''Plumbing Services'',
       trade_description = ''Plumbing installation and repairs'', trade_is_active = True\<rparr>]"

record companies_page =
  cmp_searchTerm :: string
  cmp_statusFilter :: string
  cmp_isAddCompanyOpen :: bool
  cmp_isAssignUserOpen :: bool
  cmp_selectedCompany :: "company option"

definition companies_page_init :: companies_page where
  "companies_page_init = \<lparr>cmp_searchTerm = [], cmp_statusFilter = ''all'', cmp_isAddCompanyOpen = False,
     cmp_isAssignUserOpen = False, cmp_selectedCompany = None\<rparr>"

definition filteredCompanies :: "companies_page \<Rightarrow> company list \<Rightarrow> company list" where
  "filteredCompanies s cs =
     filter (\<lambda>c. str_includes (co_name c) (cmp_searchTerm s) \<and>
                 (cmp_statusFilter s = ''all'' \<or> company_status_tag (co_status c) = cmp_statusFilter s)) cs"

definition getCompanyUsers :: "app_user list \<Rightarrow> string \<Rightarrow> app_user list" where
  "getCompanyUsers us cid = filter (\<lambda>u. company_id u = Some cid) us"

text \<open>\<open>getTradeNames\<close>: each id's trade name, or the id itself, joined by \<open>', '\<close>.\<close>

definition getTradeNames :: "trade list \<Rightarrow> string list \<Rightarrow> string" where
  "getTradeNames ts ids =
     js_join '', '' (map (\<lambda>i. case find (\<lambda>t. trade_id t = i) ts of Some t \<Rightarrow> trade_name t | None \<Rightarrow> i) ids)"

fun company_status_icon :: "company_status \<Rightarrow> status_icon \<times> string" where
  "company_status_icon Company_active = (CheckCircle_icon, ''text-green-500'')"
| "company_status_icon Company_inactive = (XCircle_icon, ''text-red-500'')"

text \<open>The statistics: active companies, their percentage, users per company (\<open>NaN\<close> as \<open>None\<close>).\<close>

definition active_company_count :: "company list \<Rightarrow> nat" where
  "active_company_count cs = length (filter (\<lambda>c. co_status c = Company_active) cs)"

definition active_company_percent :: "company list \<Rightarrow> int option" where
  "active_company_percent cs =
     (if cs = [] then None
      else Some (js_round (of_nat (active_company_count cs) / of_nat (length cs) * 100)))"

definition users_per_company :: "app_user list \<Rightarrow> company list \<Rightarrow> rat option" where
  "users_per_company us cs = (if cs = [] then None else Some (of_nat (length us) / of_nat (length cs)))"

definition handleAssignUserClick :: "company \<Rightarrow> companies_page \<Rightarrow> companies_page" where
  "handleAssignUserClick c s = s\<lparr>cmp_selectedCompany := Some c, cmp_isAssignUserOpen := True\<rparr>"

section \<open>Trade management\<close>

datatype field_data_type = DT_text | DT_number | DT_date | DT_boolean | DT_select | DT_multiselect

record quote_field =
  field_id :: string
  qf_name :: string
  dataType :: field_data_type
  qf_category :: string
  qf_description :: "string option"
  is_globally_mandatory :: bool
  qf_options :: "string list option"

definition trade_page_trades :: "trade list" where
  "trade_page_trades =
     [\<lparr>trade_id = ''solar'', trade_name = ''Solar Installation'',
       trade_description = ''Solar panel installation and maintenance services'', trade_is_active = True\<rparr>,
      \<lparr>trade_id = ''electrical'', trade_name = ''Electrical Services'',
       trade_description = ''General electrical work and repairs'', trade_is_active = True\<rparr>,
      \<lparr>trade_id = ''plumbing'', trade_name = ''Plumbing Services'',
       trade_description = ''Plumbing installation and repair services'', trade_is_active = False\<rparr>]"

definition trade_page_fields :: "quote_field list" where
  "trade_page_fields =
     [\<lparr>field_id = ''customer_name'', qf_name = ''Customer Name'', dataType = DT_text,
       qf_category = ''Customer Info'', qf_description = Some ''Full name of the customer'',
       is_globally_mandatory = True, qf_options = None\<rparr>,
      \<lparr>field_id = ''project_location'', qf_name = ''Project Location'', dataType = DT_text,
       qf_category = ''Project Details'', qf_description = Some ''Address where work will be performed'',
       is_globally_mandatory = True, qf_options = None\<rparr>,
      \<lparr>field_id = ''roof_type'', qf_name = ''Roof Type'', dataType = DT_select,
       qf_category = ''Solar Specific'', qf_description = Some ''Type of roof for solar installation'',
       is_globally_mandatory = False, qf_options = Some [''Tile'', ''Metal'', ''Flat'', ''Concrete'']\<rparr>]"

definition trade_page_templates :: "trade_template list" where
  "trade_page_templates =
     [\<lparr>template_id = ''solar_basic'', template_name = ''Basic Solar Quote'',
       template_type = Standard_form, template_is_active = True\<rparr>,
      \<lparr>template_id = ''solar_conversation'', template_name = ''Solar Consultation Flow'',
       template_type = Conversational_flow, template_is_active = True\<rparr>]"

record trades_page =
  tp_selectedTrade :: string
  tp_searchTerm :: string
  tp_isAddTradeOpen :: bool
  tp_isAddFieldOpen :: bool
  tp_isFlowBuilderOpen :: bool
  tp_selectedTemplate :: "trade_template option"

definition trades_page_init :: trades_page where
  "trades_page_init = \<lparr>tp_selectedTrade = ''solar'', tp_searchTerm = [], tp_isAddTradeOpen = False,
     tp_isAddFieldOpen = False, tp_isFlowBuilderOpen = False, tp_selectedTemplate = None\<rparr>"

text \<open>One search box filters the three tables.\<close>

definition filteredTrades :: "trades_page \<Rightarrow> trade list \<Rightarrow> trade list" where
  "filteredTrades s ts =
     filter (\<lambda>t. str_includes (trade_name t) (tp_searchTerm s) \<or>
                 str_includes (trade_description t) (tp_searchTerm s)) ts"

definition filteredFields :: "trades_page \<Rightarrow> quote_field list \<Rightarrow> quote_field list" where
  "filteredFields s fs =
     filter (\<lambda>f. str_includes (qf_name f) (tp_searchTerm s) \<or> str_includes (qf_category f) (tp_searchTerm s)) fs"

definition filteredTemplates :: "trades_page \<Rightarrow> trade_template list \<Rightarrow> trade_template list" where
  "filteredTemplates s ts = filter (\<lambda>t. str_includes (template_name t) (tp_searchTerm s)) ts"

text \<open>The "Edit Flow" button, rendered only in the rows of conversational-flow templates.\<close>

definition flow_button_shown :: "trade_template \<Rightarrow> bool" where
  "flow_button_shown t = (template_type t = Conversational_flow)"

definition handleOpenFlowBuilder :: "trade_template \<Rightarrow> trades_page \<Rightarrow> trades_page" where
  "handleOpenFlowBuilder t s = s\<lparr>tp_selectedTemplate := Some t, tp_isFlowBuilderOpen := True\<rparr>"

section \<open>Lemmas\<close>

lemma distinct_handleSelectUser:
  "distinct (up_selectedUsers s) \<Longrightarrow> distinct (up_selectedUsers (handleSelectUser i s))"
  by (simp add: handleSelectUser_def)

lemma distinct_handleSelectAll:
  "distinct (map uid us) \<Longrightarrow> distinct (up_selectedUsers (handleSelectAll us s))"
  by (simp add: handleSelectAll_def filteredUsers_def distinct_map_filter)

lemma distinct_users_step:
  "distinct (map uid us) \<Longrightarrow> distinct (up_selectedUsers s) \<Longrightarrow> distinct (up_selectedUsers (users_step us s e))"
  by (cases e) (simp_all add: distinct_handleSelectUser distinct_handleSelectAll)

lemma distinct_users_foldl:
  "distinct (map uid us) \<Longrightarrow> distinct (up_selectedUsers s) \<Longrightarrow>
   distinct (up_selectedUsers (foldl (users_step us) s evs))"
  by (induction evs arbitrary: s) (simp_all add: distinct_users_step)

lemma select_all_after_filter_change:
  "up_selectedUsers (users_run admin_mock_users [U_select ''user1'', U_role_filter ''global_app_admin'', U_select_all]
     users_page_init) = []"
  by (simp add: users_run_def handleSelectUser_def handleSelectAll_def filteredUsers_def user_matches_def
      users_page_init_def admin_mock_users_def str_includes_def toLowerCase_def js_lower_char_def)

section \<open>Properties of the admin pages\<close>

text \<open>
  Whatever the admin clicks on the user page (search, role and company filters,
  row checkboxes, the select-all checkbox), the list of selected user ids never holds an
  id twice, provided the users' ids are distinct.
\<close>

theorem users_selection_distinct:
  "distinct (map uid us) \<Longrightarrow> distinct (up_selectedUsers (users_run us evs users_page_init))"
  by (simp add: users_run_def users_page_init_def distinct_users_foldl)

theorem users_selection_distinct_witness:
  "distinct (map uid admin_mock_users) \<and>
   distinct (up_selectedUsers (users_run admin_mock_users [U_select ''user1'', U_select ''user2'', U_select_all,
     U_select ''user3''] users_page_init))"
proof -
  have h: "distinct (map uid admin_mock_users)" by (simp add: admin_mock_users_def)
  show ?thesis using h users_selection_distinct [OF h] by blast
qed

end
