(* ===== verification/Pages_Events.thy ===== *)
theory Pages_Events
  imports Pages_Admin
begin

text \<open>
  The event wiring of the company pages: what each input, select, dialog and button of
  \<open>Clients.tsx\<close>, \<open>Quotes.tsx\<close> and \<open>ProductsServices.tsx\<close>, and of the admin pages
  \<open>CompanyManagement.tsx\<close> and \<open>TradeManagement.tsx\<close>, does to the page's state, as a
  datatype of the user's actions and a step function per page. An action on a control
  that the page does not render in the current state (a row button of a hidden row, the
  empty-state button while the list is not empty, an input of a closed dialog) changes
  nothing. A dialog's \<open>onOpenChange\<close> is its trigger (\<open>True\<close>) or a dismissal by Escape
  or the overlay (\<open>False\<close>). The entity lists are \<open>useState\<close> without a setter: constants.
\<close>

section \<open>Clients\<close>

datatype clients_event =
  C_search string | C_add_dialog bool | C_add_cancel | C_add_confirm
  | C_sync | C_connect | C_clear_search

fun clients_step :: "clients_event \<Rightarrow> clients_page \<Rightarrow> clients_page" where
  "clients_step (C_search t) s = s\<lparr>cp_searchTerm := t\<rparr>"
| "clients_step (C_add_dialog b) s = s\<lparr>cp_isAddClientOpen := b\<rparr>"
| "clients_step C_add_cancel s = (if cp_isAddClientOpen s then s\<lparr>cp_isAddClientOpen := False\<rparr> else s)"
| "clients_step C_add_confirm s = (if cp_isAddClientOpen s then s\<lparr>cp_isAddClientOpen := False\<rparr> else s)"
| "clients_step C_sync s = (if cp_isGoHighLevelConnected s then handleSyncGoHighLevel s else s)"
| "clients_step C_connect s = (if cp_isGoHighLevelConnected s then s else handleConnectGoHighLevel s)"
| "clients_step C_clear_search s =
     (if filteredClients s mock_clients = [] then clearClientSearch s else s)"

definition clients_run :: "clients_event list \<Rightarrow> clients_page \<Rightarrow> clients_page" where
  "clients_run es s = foldl (\<lambda>s e. clients_step e s) s es"

section \<open>Quotes\<close>

datatype quotes_event =
  Q_search string | Q_status_filter string | Q_trade_filter string | Q_create_dialog bool
  | Q_create_cancel | Q_start_quote | Q_view string | Q_export string | Q_clear_filters

text \<open>
  The create dialog's three selects have no \<open>value\<close> or \<open>onValueChange\<close>: whatever is
  chosen there, "Start Quote" calls \<open>handleCreateQuote('client-001', 'electrical',
  'template-001')\<close>. "Clear Filters" is \<open>setSearchTerm('')\<close> only.
\<close>

definition quote_row_shown :: "string \<Rightarrow> quotes_page \<Rightarrow> bool" where
  "quote_row_shown i s = (i \<in> set (map quote_id (filteredQuotes s mock_quotes)))"

text \<open>The Export button is rendered only in the rows of calculated quotes.\<close>

definition quote_export_shown :: "string \<Rightarrow> quotes_page \<Rightarrow> bool" where
  "quote_export_shown i s = list_ex (\<lambda>q. quote_id q = i \<and> q_status q = Q_calculated) (filteredQuotes s mock_quotes)"

fun quotes_step :: "quotes_event \<Rightarrow> quotes_page \<Rightarrow> quotes_page" where
  "quotes_step (Q_search t) s = s\<lparr>qp_searchTerm := t\<rparr>"
| "quotes_step (Q_status_filter v) s = s\<lparr>qp_statusFilter := v\<rparr>"
| "quotes_step (Q_trade_filter v) s = s\<lparr>qp_tradeFilter := v\<rparr>"
| "quotes_step (Q_create_dialog b) s = s\<lparr>qp_isCreateQuoteOpen := b\<rparr>"
| "quotes_step Q_create_cancel s = (if qp_isCreateQuoteOpen s then s\<lparr>qp_isCreateQuoteOpen := False\<rparr> else s)"
| "quotes_step Q_start_quote s =
     (if qp_isCreateQuoteOpen s then handleCreateQuote ''client-001'' ''electrical'' ''template-001'' s else s)"
| "quotes_step (Q_view i) s = (if quote_row_shown i s then handleViewQuote i s else s)"
| "quotes_step (Q_export i) s = (if quote_export_shown i s then handleExportQuote i s else s)"
| "quotes_step Q_clear_filters s =
     (if filteredQuotes s mock_quotes = [] then s\<lparr>qp_searchTerm := []\<rparr> else s)"

definition quotes_run :: "quotes_event list \<Rightarrow> quotes_page \<Rightarrow> quotes_page" where
  "quotes_run es s = foldl (\<lambda>s e. quotes_step e s) s es"

text \<open>A navigation, if any, goes to the page of a quote of the list.\<close>

definition quotes_nav_ok :: "quotes_page \<Rightarrow> bool" where
  "quotes_nav_ok s = (case qp_navigated s of None \<Rightarrow> True
                       | Some p \<Rightarrow> p \<in> set (map (\<lambda>q. ''/quotes/'' @ quote_id q) mock_quotes))"

section \<open>Products and services\<close>

datatype products_event =
  P_search string | P_category_filter string | P_type_filter string | P_add_dialog bool
  | P_add_cancel | P_add_confirm | P_margin_dialog bool | P_margin_input string rat
  | P_margin_cancel | P_margin_save | P_clear_filters

text \<open>A margin input calls \<open>handleUpdateMarginRule(rule.category, parseFloat(value))\<close> on
  each keystroke; the event carries the parsed number. Cancel only closes the dialog.\<close>

fun products_step :: "products_event \<Rightarrow> products_page \<Rightarrow> products_page" where
  "products_step (P_search t) s = s\<lparr>pp_searchTerm := t\<rparr>"
| "products_step (P_category_filter v) s = s\<lparr>pp_categoryFilter := v\<rparr>"
| "products_step (P_type_filter v) s = s\<lparr>pp_typeFilter := v\<rparr>"
| "products_step (P_add_dialog b) s = s\<lparr>pp_isAddProductOpen := b\<rparr>"
| "products_step P_add_cancel s = (if pp_isAddProductOpen s then s\<lparr>pp_isAddProductOpen := False\<rparr> else s)"
| "products_step P_add_confirm s = (if pp_isAddProductOpen s then s\<lparr>pp_isAddProductOpen := False\<rparr> else s)"
| "products_step (P_margin_dialog b) s = s\<lparr>pp_isEditMarginOpen := b\<rparr>"
| "products_step (P_margin_input c m) s =
     (if pp_isEditMarginOpen s \<and> c \<in> set (map mr_category (pp_marginRules s)) then handleUpdateMarginRule c m s else s)"
| "products_step P_margin_cancel s = (if pp_isEditMarginOpen s then s\<lparr>pp_isEditMarginOpen := False\<rparr> else s)"
| "products_step P_margin_save s = (if pp_isEditMarginOpen s then handleSaveMarginRules s else s)"
| "products_step P_clear_filters s =
     (if filteredProducts s mock_products = [] then s\<lparr>pp_searchTerm := []\<rparr> else s)"

definition products_run :: "products_event list \<Rightarrow> products_page \<Rightarrow> products_page" where
  "products_run es s = foldl (\<lambda>s e. products_step e s) s es"

section \<open>Company management\<close>

text \<open>The assign-user dialog has no trigger: it opens only from a row's button, and its
  \<open>onOpenChange\<close> can only close it.\<close>

datatype companies_event =
  Cm_search string | Cm_status_filter string | Cm_add_dialog bool | Cm_add_cancel | Cm_add_confirm
  | Cm_assign_click string | Cm_assign_dismiss | Cm_assign_cancel | Cm_assign_confirm

definition company_row :: "string \<Rightarrow> companies_page \<Rightarrow> company option" where
  "company_row i s = find (\<lambda>c. co_company_id c = i) (filteredCompanies s company_page_companies)"

fun companies_step :: "companies_event \<Rightarrow> companies_page \<Rightarrow> companies_page" where
  "companies_step (Cm_search t) s = s\<lparr>cmp_searchTerm := t\<rparr>"
| "companies_step (Cm_status_filter v) s = s\<lparr>cmp_statusFilter := v\<rparr>"
| "companies_step (Cm_add_dialog b) s = s\<lparr>cmp_isAddCompanyOpen := b\<rparr>"
| "companies_step Cm_add_cancel s = (if cmp_isAddCompanyOpen s then s\<lparr>cmp_isAddCompanyOpen := False\<rparr> else s)"
| "companies_step Cm_add_confirm s = (if cmp_isAddCompanyOpen s then s\<lparr>cmp_isAddCompanyOpen := False\<rparr> else s)"
| "companies_step (Cm_assign_click i) s =
     (case company_row i s of Some c \<Rightarrow> handleAssignUserClick c s | None \<Rightarrow> s)"
| "companies_step Cm_assign_dismiss s = s\<lparr>cmp_isAssignUserOpen := False\<rparr>"
| "companies_step Cm_assign_cancel s = (if cmp_isAssignUserOpen s then s\<lparr>cmp_isAssignUserOpen := False\<rparr> else s)"
| "companies_step Cm_assign_confirm s = (if cmp_isAssignUserOpen s then s\<lparr>cmp_isAssignUserOpen := False\<rparr> else s)"

definition companies_run :: "companies_event list \<Rightarrow> companies_page \<Rightarrow> companies_page" where
  "companies_run es s = foldl (\<lambda>s e. companies_step e s) s es"

definition assign_ok :: "companies_page \<Rightarrow> bool" where
  "assign_ok s = ((case cmp_selectedCompany s of None \<Rightarrow> True | Some c \<Rightarrow> c \<in> set company_page_companies) \<and>
                  (cmp_isAssignUserOpen s \<longrightarrow> cmp_selectedCompany s \<noteq> None))"

section \<open>Trade management\<close>

text \<open>
  One \<open>searchTerm\<close> serves the search inputs of all three tabs, and the two "Select Trade"
  selects set \<open>selectedTrade\<close>, which no list reads. The flow builder dialog opens only
  from a template's "Edit Flow" button; the builder's \<open>onClose\<close> and the dialog's
  \<open>onOpenChange\<close> close it.
\<close>

datatype trades_event =
  Tm_search string | Tm_select_trade string | Tm_add_trade_dialog bool | Tm_add_trade_cancel
  | Tm_add_trade_confirm | Tm_add_field_dialog bool | Tm_add_field_cancel | Tm_add_field_confirm
  | Tm_edit_flow string | Tm_flow_dismiss | Tm_flow_close

definition template_row :: "string \<Rightarrow> trades_page \<Rightarrow> trade_template option" where
  "template_row i s = find (\<lambda>t. template_id t = i) (filteredTemplates s trade_page_templates)"

fun trades_step :: "trades_event \<Rightarrow> trades_page \<Rightarrow> trades_page" where
  "trades_step (Tm_search t) s = s\<lparr>tp_searchTerm := t\<rparr>"
| "trades_step (Tm_select_trade v) s = s\<lparr>tp_selectedTrade := v\<rparr>"
| "trades_step (Tm_add_trade_dialog b) s = s\<lparr>tp_isAddTradeOpen := b\<rparr>"
| "trades_step Tm_add_trade_cancel s = (if tp_isAddTradeOpen s then s\<lparr>tp_isAddTradeOpen := False\<rparr> else s)"
| "trades_step Tm_add_trade_confirm s = (if tp_isAddTradeOpen s then s\<lparr>tp_isAddTradeOpen := False\<rparr> else s)"
| "trades_step (Tm_add_field_dialog b) s = s\<lparr>tp_isAddFieldOpen := b\<rparr>"
| "trades_step Tm_add_field_cancel s = (if tp_isAddFieldOpen s then s\<lparr>tp_isAddFieldOpen := False\<rparr> else s)"
| "trades_step Tm_add_field_confirm s = (if tp_isAddFieldOpen s then s\<lparr>tp_isAddFieldOpen := False\<rparr> else s)"
| "trades_step (Tm_edit_flow i) s =
     (case template_row i s of
        Some t \<Rightarrow> if flow_button_shown t then handleOpenFlowBuilder t s else s
      | None \<Rightarrow> s)"
| "trades_step Tm_flow_dismiss s = s\<lparr>tp_isFlowBuilderOpen := False\<rparr>"
| "trades_step Tm_flow_close s = s\<lparr>tp_isFlowBuilderOpen := False\<rparr>"

definition trades_run :: "trades_event list \<Rightarrow> trades_page \<Rightarrow> trades_page" where
  "trades_run es s = foldl (\<lambda>s e. trades_step e s) s es"

definition flow_ok :: "trades_page \<Rightarrow> bool" where
  "flow_ok s = ((case tp_selectedTemplate s of None \<Rightarrow> True
                 | Some t \<Rightarrow> t \<in> set trade_page_templates \<and> flow_button_shown t) \<and>
                (tp_isFlowBuilderOpen s \<longrightarrow> tp_selectedTemplate s \<noteq> None))"

section \<open>Lemmas\<close>

text \<open>"Clear Filters" on the quotes page clears only the search: with a status filter that
  matches no quote, the list stays empty after the click, and the button stays.\<close>

lemma quotes_clear_keeps_selects:
  "qp_statusFilter (quotes_step Q_clear_filters s) = qp_statusFilter s \<and>
   qp_tradeFilter (quotes_step Q_clear_filters s) = qp_tradeFilter s"
  by simp

lemma quotes_clear_filters_stays_empty:
  "filteredQuotes (quotes_run [Q_status_filter ''rejected''] quotes_page_init) mock_quotes = [] \<and>
   filteredQuotes (quotes_run [Q_status_filter ''rejected'', Q_clear_filters] quotes_page_init) mock_quotes = []"
  by (simp add: quotes_run_def quotes_page_init_def filteredQuotes_def quote_matches_def mock_quotes_def)

text \<open>The page navigates only to the page of one of its quotes.\<close>

lemma quotes_step_nav_ok: "quotes_nav_ok s \<Longrightarrow> quotes_nav_ok (quotes_step e s)"
  by (cases e) (auto simp: quotes_nav_ok_def quote_row_shown_def handleViewQuote_def handleCreateQuote_def
      handleExportQuote_def filteredQuotes_def)

lemma quotes_run_nav_ok: "quotes_nav_ok s \<Longrightarrow> quotes_nav_ok (quotes_run es s)"
  by (induction es arbitrary: s) (simp_all add: quotes_run_def quotes_step_nav_ok)

text \<open>"Start Quote" does the same whatever the dialog's selects show.\<close>

lemma start_quote_fixed:
  "qp_isCreateQuoteOpen s \<Longrightarrow> quotes_step Q_start_quote s = handleCreateQuote c t m s"
  by (simp add: handleCreateQuote_def)

text \<open>Margin edits are applied as they are typed, so Cancel does not undo them.\<close>

lemma cancelled_margin_edit_persists:
  "pp_isEditMarginOpen s \<Longrightarrow> c \<in> set (map mr_category (pp_marginRules s)) \<Longrightarrow>
   pp_marginRules (products_run [P_margin_input c m, P_margin_cancel] s) = pp_marginRules (handleUpdateMarginRule c m s)"
  by (simp add: products_run_def handleUpdateMarginRule_def)

text \<open>Once connected, the GoHighLevel card never shows disconnected again.\<close>

lemma clients_connected_stays: "cp_isGoHighLevelConnected s \<Longrightarrow> cp_isGoHighLevelConnected (clients_step e s)"
  by (cases e) (simp_all add: handleSyncGoHighLevel_def handleConnectGoHighLevel_def clearClientSearch_def)


text \<open>The assign-user dialog is open only for a selected company of the list, and the flow
  builder only for a conversational-flow template of the list.\<close>

lemma companies_step_assign_ok: "assign_ok s \<Longrightarrow> assign_ok (companies_step e s)"
  by (cases e) (auto simp: assign_ok_def company_row_def handleAssignUserClick_def filteredCompanies_def
      dest!: find_SomeD_set split: option.splits)

lemma trades_step_flow_ok: "flow_ok s \<Longrightarrow> flow_ok (trades_step e s)"
  by (cases e) (auto simp: flow_ok_def template_row_def handleOpenFlowBuilder_def filteredTemplates_def
      dest!: find_SomeD_set split: option.splits)

lemma trades_run_flow_ok: "flow_ok s \<Longrightarrow> flow_ok (trades_run es s)"
  by (induction es arbitrary: s) (simp_all add: trades_run_def trades_step_flow_ok)

text \<open>The trade selectors change no list of the page.\<close>

lemma selected_trade_unread:
  "filteredFields (trades_step (Tm_select_trade v) s) fs = filteredFields s fs \<and>
   filteredTemplates (trades_step (Tm_select_trade v) s) ts = filteredTemplates s ts \<and>
   filteredTrades (trades_step (Tm_select_trade v) s) tr = filteredTrades s tr"
  by (simp add: filteredFields_def filteredTemplates_def filteredTrades_def)

end
