(* ===== verification/Pages_Rows.thy ===== *)
theory Pages_Rows
  imports Pages_Events
begin

text \<open>
  The table rows of the list pages: what each row of \<open>filteredClients.map\<close>,
  \<open>filteredQuotes.map\<close>, \<open>filteredProducts.map\<close> and the admin pages' tables renders,
  as a record of the row's cells, with the conditionals of the JSX (\<open>x && ...\<close>,
  \<open>x ? ... : ...\<close>, \<open>x || d\<close>) written out. Dates (\<open>toLocaleDateString\<close>, the "days
  ago" arithmetic on \<open>Date.now()\<close>) are kept as the date they are computed from, and
  \<open>toFixed(2)\<close> is the amount in cents, \<open>Math.round(x * 100)\<close>. The row action buttons
  that have no \<open>onClick\<close> are not modelled.
\<close>

section \<open>Clients\<close>


text \<open>\<open>{x && <...>{x}</...>}\<close>: the optional line is shown for a truthy value only.\<close>

definition truthy_opt :: "string option \<Rightarrow> string option" where
  "truthy_opt x = (if js_truthy x then x else None)"




section \<open>Quotes\<close>

datatype total_cell = Total rat rat | Not_calculated

record quote_row =
  qr_id :: string
  qr_number :: string
  qr_customer :: string
  qr_location :: string
  qr_project :: string
  qr_trade :: string
  qr_status :: quote_status
  qr_icon :: "status_icon \<times> string"
  qr_color :: string
  qr_total :: total_cell
  qr_export :: bool

definition quote_row_view :: "quote \<Rightarrow> quote_row" where
  "quote_row_view q =
     \<lparr>qr_id = quote_id q, qr_number = quote_number q, qr_customer = customer_name q,
      qr_location = js_or_str (map_of (raw_data_fields q) ''location'') ''No location'',
      qr_project = js_or_str (map_of (raw_data_fields q) ''project_type'') ''Untitled Project'',
      qr_trade = quote_trade_label quotes_trades q, qr_status = q_status q,
      qr_icon = getStatusIcon (q_status q), qr_color = getStatusColor (q_status q),
      qr_total = (case calc_summary q of
                    None \<Rightarrow> Not_calculated
                  | Some c \<Rightarrow> Total (final_total_amount c) (overall_margin_percentage (cs_margin c))),
      qr_export = (q_status q = Q_calculated)\<rparr>"

definition quotes_table :: "quotes_page \<Rightarrow> quote_row list" where
  "quotes_table s = map quote_row_view (filteredQuotes s mock_quotes)"


section \<open>Products and services\<close>

datatype type_icon = TI_package | TI_wrench | TI_settings | TI_calculator

text \<open>\<open>getTypeIcon\<close>; its \<open>default\<close> branch is unreachable for the four product types.\<close>

fun getTypeIcon :: "product_type \<Rightarrow> type_icon" where
  "getTypeIcon Material = TI_package"
| "getTypeIcon Labour = TI_wrench"
| "getTypeIcon Service = TI_settings"
| "getTypeIcon Equipment = TI_calculator"

definition to_cents :: "rat \<Rightarrow> int" where
  "to_cents x = js_round (x * 100)"

record product_row =
  pr_sku :: string
  pr_name :: string
  pr_description :: "string option"
  pr_icon :: type_icon
  pr_type_color :: string
  pr_type :: string
  pr_category :: string
  pr_cost_cents :: int
  pr_margin :: rat
  pr_price_cents :: int
  pr_unit :: string

definition product_row_view :: "product \<Rightarrow> product_row" where
  "product_row_view p =
     \<lparr>pr_sku = sku p, pr_name = p_name p, pr_description = truthy_opt (p_description p),
      pr_icon = getTypeIcon (p_type p), pr_type_color = getTypeColor (p_type p), pr_type = product_type_tag (p_type p),
      pr_category = p_category p, pr_cost_cents = to_cents (base_cost p), pr_margin = default_margin_percentage p,
      pr_price_cents = to_cents (calculateSellingPrice (base_cost p) (default_margin_percentage p)),
      pr_unit = unit_of_measure p\<rparr>"

definition products_table :: "products_page \<Rightarrow> product_row list" where
  "products_table s = map product_row_view (filteredProducts s mock_products)"

section \<open>Company management\<close>

record company_table_row =
  crw_name :: string
  crw_trades :: "string list"
  crw_users :: nat
  crw_icon :: "status_icon \<times> string"
  crw_variant :: string
  crw_status :: string

text \<open>A trade badge: \<open>trades.find(t => t.trade_id === tradeId)?.name || tradeId\<close>.\<close>

definition trade_badge :: "string \<Rightarrow> string" where
  "trade_badge i = js_or_str (map_option trade_name (find (\<lambda>t. trade_id t = i) company_page_trades)) i"

definition company_row_view :: "company \<Rightarrow> company_table_row" where
  "company_row_view c =
     \<lparr>crw_name = co_name c, crw_trades = map trade_badge (assigned_trades c),
      crw_users = length (getCompanyUsers company_page_users (co_company_id c)),
      crw_icon = company_status_icon (co_status c),
      crw_variant = (if co_status c = Company_active then ''default'' else ''secondary''),
      crw_status = company_status_tag (co_status c)\<rparr>"

definition companies_table :: "companies_page \<Rightarrow> company_table_row list" where
  "companies_table s = map company_row_view (filteredCompanies s company_page_companies)"

text \<open>The users tab of the same page lists every user, unfiltered.\<close>

record company_user_row =
  cur_name :: string
  cur_email :: string
  cur_company :: string
  cur_role :: string

definition company_user_row_view :: "app_user \<Rightarrow> company_user_row" where
  "company_user_row_view u =
     \<lparr>cur_name = user_name u, cur_email = email u,
      cur_company = js_or_str (map_option co_name (find (\<lambda>c. Some (co_company_id c) = company_id u) company_page_companies))
                      ''No Company'',
      cur_role = (if role u = Trade_company_user then ''Company User'' else role_tag (role u))\<rparr>"

definition company_users_table :: "company_user_row list" where
  "company_users_table = map company_user_row_view company_page_users"

section \<open>Trade management\<close>

fun field_type_tag :: "field_data_type \<Rightarrow> string" where
  "field_type_tag DT_text = ''text''" | "field_type_tag DT_number = ''number''"
| "field_type_tag DT_date = ''date''" | "field_type_tag DT_boolean = ''boolean''"
| "field_type_tag DT_select = ''select''" | "field_type_tag DT_multiselect = ''multiselect''"

definition trade_row_view :: "trade \<Rightarrow> string \<times> string \<times> string \<times> string" where
  "trade_row_view t =
     (trade_name t, trade_description t, if trade_is_active t then ''default'' else ''secondary'',
      if trade_is_active t then ''Active'' else ''Inactive'')"

definition field_row_view :: "quote_field \<Rightarrow> string \<times> string \<times> string \<times> string" where
  "field_row_view f =
     (qf_name f, field_type_tag (dataType f), qf_category f,
      if is_globally_mandatory f then ''Required'' else ''Optional'')"

definition trades_table :: "trades_page \<Rightarrow> (string \<times> string \<times> string \<times> string) list" where
  "trades_table s = map trade_row_view (filteredTrades s trade_page_trades)"

definition fields_table :: "trades_page \<Rightarrow> (string \<times> string \<times> string \<times> string) list" where
  "fields_table s = map field_row_view (filteredFields s trade_page_fields)"

text \<open>A template card: its name, the badge's variant and text, the description, and whether
  the "Edit Flow" button is rendered.\<close>

definition template_card_view :: "trade_template \<Rightarrow> string \<times> string \<times> string \<times> string \<times> bool" where
  "template_card_view t =
     (template_name t,
      if template_type t = Conversational_flow then ''default'' else ''secondary'',
      if template_type t = Conversational_flow then ''Flow'' else ''Form'',
      if template_type t = Conversational_flow then ''Interactive conversational flow'' else ''Standard form template'',
      flow_button_shown t)"

definition template_cards :: "trades_page \<Rightarrow> (string \<times> string \<times> string \<times> string \<times> bool) list" where
  "template_cards s = map template_card_view (filteredTemplates s trade_page_templates)"

section \<open>User management\<close>

record user_row =
  ur_key :: string
  ur_checked :: bool
  ur_initials :: string
  ur_name :: string
  ur_email :: string
  ur_variant :: string
  ur_role :: string
  ur_company :: string

definition user_row_view :: "users_page \<Rightarrow> app_user \<Rightarrow> user_row" where
  "user_row_view s u =
     \<lparr>ur_key = uid u, ur_checked = (uid u \<in> set (up_selectedUsers s)), ur_initials = user_initials (user_name u),
      ur_name = user_name u, ur_email = email u, ur_variant = getRoleBadgeVariant (role u),
      ur_role = (if role u = Global_app_admin then ''Global Admin'' else ''Company User''),
      ur_company = getCompanyName admin_mock_companies (company_id u)\<rparr>"

text \<open>\<open>getRoleIcon\<close>; its \<open>default\<close> branch is unreachable for the two roles.\<close>

fun getRoleIcon :: "role \<Rightarrow> string" where
  "getRoleIcon Global_app_admin = ''Crown text-yellow-500''"
| "getRoleIcon Trade_company_user = ''UserCheck text-blue-500''"

definition users_table :: "users_page \<Rightarrow> user_row list" where
  "users_table s = map (user_row_view s) (filteredUsers s admin_mock_users)"

section \<open>Lemmas\<close>

lemma client_search_match_Nil [simp]: "client_search_match [] c"
  by (simp add: client_search_match_def str_includes_def)



lemma quote_export_shown_row:
  "quote_export_shown i s \<longleftrightarrow> (\<exists>r\<in>set (quotes_table s). qr_id r = i \<and> qr_export r)"
  by (auto simp: quote_export_shown_def quotes_table_def list_ex_iff quote_row_view_def)

lemma quote_row_cells_not_blank:
  "qr_location (quote_row_view q) \<noteq> [] \<and> qr_project (quote_row_view q) \<noteq> []"
  by (simp add: quote_row_view_def js_or_str_not_Nil)

lemma to_cents_mono: "x \<le> y \<Longrightarrow> to_cents x \<le> to_cents y"
  by (simp add: to_cents_def js_round_def floor_mono)

lemma calculateSellingPrice_ge:
  "0 \<le> b \<Longrightarrow> 0 \<le> m \<Longrightarrow> b \<le> calculateSellingPrice b m"
  by (simp add: calculateSellingPrice_def algebra_simps)

lemma products_table_marginRules: "products_table (s\<lparr>pp_marginRules := r\<rparr>) = products_table s"
proof -
  have "product_matches (s\<lparr>pp_marginRules := r\<rparr>) = product_matches s"
    by (simp add: fun_eq_iff product_matches_def)
  then show ?thesis by (simp add: products_table_def filteredProducts_def)
qed

lemma companies_users_total:
  "distinct (map co_company_id cs) \<Longrightarrow>
   sum_list (map (\<lambda>c. crw_users (company_row_view c)) cs) \<le> length company_page_users"
proof -
  assume d: "distinct (map co_company_id cs)"
  have "sum_list (map (\<lambda>c. crw_users (company_row_view c)) cs) =
        sum_list (map (\<lambda>k. length (filter (\<lambda>u. company_id u = Some k) company_page_users)) (map co_company_id cs))"
    by (simp add: company_row_view_def getCompanyUsers_def comp_def)
  also have "\<dots> = length (filter (\<lambda>u. \<exists>k\<in>set (map co_company_id cs). company_id u = Some k) company_page_users)"
    using d by (rule sum_length_filter_keys)
  finally show ?thesis by simp
qed

lemma filteredUsers_handleSelectUser: "filteredUsers (handleSelectUser i s) us = filteredUsers s us"
proof -
  have "user_matches (handleSelectUser i s) = user_matches s"
    by (simp add: fun_eq_iff user_matches_def handleSelectUser_def)
  then show ?thesis by (simp add: filteredUsers_def)
qed

lemma user_row_handleSelectUser:
  "user_row_view (handleSelectUser i s) u =
   (user_row_view s u)\<lparr>ur_checked := (if uid u = i then \<not> ur_checked (user_row_view s u) else ur_checked (user_row_view s u))\<rparr>"
  by (auto simp: user_row_view_def handleSelectUser_def)

lemma admin_role_labels:
  "role u = Global_app_admin \<Longrightarrow>
   ur_role (user_row_view s u) = ''Global Admin'' \<and> cur_role (company_user_row_view u) = ''global_app_admin''"
  by (simp add: user_row_view_def company_user_row_view_def)

section \<open>Properties\<close>

text \<open>
  C15. Clicking a user's row checkbox on the user page toggles the checkbox of that row
  and of no other: the table keeps its rows, their order and every other cell.
\<close>

theorem users_table_handleSelectUser:
  "users_table (handleSelectUser i s) =
   map (\<lambda>r. if ur_key r = i then r\<lparr>ur_checked := \<not> ur_checked r\<rparr> else r) (users_table s)"
  by (simp add: users_table_def filteredUsers_handleSelectUser user_row_handleSelectUser)
     (simp add: user_row_view_def)


text \<open>
  C30. A product's row never shows a price, in cents, below its cost when the cost and the
  product's default margin are not negative.
\<close>

theorem product_row_price_ge_cost:
  "0 \<le> base_cost p \<Longrightarrow> 0 \<le> default_margin_percentage p \<Longrightarrow>
   pr_cost_cents (product_row_view p) \<le> pr_price_cents (product_row_view p)"
  by (simp add: product_row_view_def to_cents_mono calculateSellingPrice_ge)

theorem product_row_price_ge_cost_witness:
  "0 \<le> base_cost (hd mock_products) \<and> 0 \<le> default_margin_percentage (hd mock_products) \<and>
   pr_cost_cents (product_row_view (hd mock_products)) \<le> pr_price_cents (product_row_view (hd mock_products))"
proof -
  have h: "0 \<le> base_cost (hd mock_products)" "0 \<le> default_margin_percentage (hd mock_products)"
    by (simp_all add: mock_products_def)
  show ?thesis using h product_row_price_ge_cost [OF h] by blast
qed



end
