(* ===== verification/Pages_Settings.thy ===== *)
theory Pages_Settings
  imports Pages_Company Firestore
begin

text \<open>
  The settings and integration pages: \<open>src/src/pages/company/BusinessSettings.tsx\<close> and
  \<open>src/src/pages/company/Integrations.tsx\<close>.
  A page's \<open>useState\<close> is a record; an asynchronous handler that waits on a timer is split
  into the step before the wait and the step the timer runs. A number typed into a field
  is read with \<open>parseInt\<close>, whose \<open>NaN\<close> is \<open>None\<close>.
\<close>

section \<open>Business settings\<close>

record business_settings =
  business_name :: string
  abn :: string
  logo_url :: string
  address :: string
  phone :: string
  bs_email :: string
  website :: string
  terms_and_conditions :: string

text \<open>The keys \<open>handleBusinessChange\<close> is called with, one per input of the page.\<close>

datatype business_field =
  Business_name | Abn | Logo_url | Address | Phone | Email_field | Website | Terms_and_conditions

text \<open>\<open>{ ...prev, [field]: value }\<close> on the business settings, and reading a field back.\<close>

fun set_business_field :: "business_field \<Rightarrow> string \<Rightarrow> business_settings \<Rightarrow> business_settings" where
  "set_business_field Business_name v b = b\<lparr>business_name := v\<rparr>"
| "set_business_field Abn v b = b\<lparr>abn := v\<rparr>"
| "set_business_field Logo_url v b = b\<lparr>logo_url := v\<rparr>"
| "set_business_field Address v b = b\<lparr>address := v\<rparr>"
| "set_business_field Phone v b = b\<lparr>phone := v\<rparr>"
| "set_business_field Email_field v b = b\<lparr>bs_email := v\<rparr>"
| "set_business_field Website v b = b\<lparr>website := v\<rparr>"
| "set_business_field Terms_and_conditions v b = b\<lparr>terms_and_conditions := v\<rparr>"

fun get_business_field :: "business_field \<Rightarrow> business_settings \<Rightarrow> string" where
  "get_business_field Business_name b = business_name b"
| "get_business_field Abn b = abn b"
| "get_business_field Logo_url b = logo_url b"
| "get_business_field Address b = address b"
| "get_business_field Phone b = phone b"
| "get_business_field Email_field b = bs_email b"
| "get_business_field Website b = website b"
| "get_business_field Terms_and_conditions b = terms_and_conditions b"

text \<open>
  The system settings. \<open>next_quote_number\<close> holds what \<open>parseInt\<close> gave, \<open>NaN\<close> being
  \<open>None\<close>; \<open>tax_rate\<close> holds what \<open>parseFloat\<close> gave.
\<close>

record system_settings =
  quote_number_prefix :: string
  next_quote_number :: "int option"
  date_format :: string
  currency_symbol :: string
  tax_rate :: "rat option"
  tax_name :: string

datatype system_change =
  Quote_number_prefix string | Next_quote_number "int option" | Date_format string
  | Currency_symbol string | Tax_rate "rat option" | Tax_name string

fun apply_system_change :: "system_change \<Rightarrow> system_settings \<Rightarrow> system_settings" where
  "apply_system_change (Quote_number_prefix v) s = s\<lparr>quote_number_prefix := v\<rparr>"
| "apply_system_change (Next_quote_number v) s = s\<lparr>next_quote_number := v\<rparr>"
| "apply_system_change (Date_format v) s = s\<lparr>date_format := v\<rparr>"
| "apply_system_change (Currency_symbol v) s = s\<lparr>currency_symbol := v\<rparr>"
| "apply_system_change (Tax_rate v) s = s\<lparr>tax_rate := v\<rparr>"
| "apply_system_change (Tax_name v) s = s\<lparr>tax_name := v\<rparr>"

record settings_page =
  bsp_isLoading :: bool
  bsp_business :: business_settings
  bsp_system :: system_settings
  bsp_toasts :: "page_toast list"

definition settings_page_init :: settings_page where
  "settings_page_init =
     \<lparr>bsp_isLoading = False,
      bsp_business =
        \<lparr>business_name = ''Acme Electrical Services'', abn = ''12 345 678 901'', logo_url = [],
         address = ''123 Main Street, Brisbane, QLD 4000'', phone = ''+61 7 1234 5678'',
         bs_email = ''info@acmeelectrical.com'', website = ''https://www.acmeelectrical.com'',
         terms_and_conditions = ''Payment is due within 30 days of invoice date. A 10% GST will be added to all services unless otherwise stated. All work is guaranteed for 12 months from completion date.''\<rparr>,
      bsp_system =
        \<lparr>quote_number_prefix = ''ACE-'', next_quote_number = Some 1001, date_format = ''DD/MM/YYYY'',
         currency_symbol = ''AUD'', tax_rate = Some 10, tax_name = ''GST''\<rparr>,
      bsp_toasts = []\<rparr>"

definition handleBusinessChange :: "business_field \<Rightarrow> string \<Rightarrow> settings_page \<Rightarrow> settings_page" where
  "handleBusinessChange f v s = s\<lparr>bsp_business := set_business_field f v (bsp_business s)\<rparr>"

definition handleSystemChange :: "system_change \<Rightarrow> settings_page \<Rightarrow> settings_page" where
  "handleSystemChange ch s = s\<lparr>bsp_system := apply_system_change ch (bsp_system s)\<rparr>"

text \<open>The "Next Quote Number" input: \<open>handleSystemChange('next_quote_number', parseInt(value))\<close>.\<close>

definition next_quote_number_input :: "string \<Rightarrow> settings_page \<Rightarrow> settings_page" where
  "next_quote_number_input v s = handleSystemChange (Next_quote_number (js_parseInt v)) s"

text \<open>
  The two save buttons (disabled while \<open>isLoading\<close>): \<open>setIsLoading(true)\<close>, then, when the
  one-second timer fires, the success toast and \<open>setIsLoading(false)\<close>. Nothing is stored.
\<close>

datatype save_kind = Save_business | Save_system

definition save_click :: "save_kind \<Rightarrow> settings_page \<Rightarrow> settings_page" where
  "save_click k s = (if bsp_isLoading s then s else s\<lparr>bsp_isLoading := True\<rparr>)"

definition save_done :: "save_kind \<Rightarrow> settings_page \<Rightarrow> settings_page" where
  "save_done k s =
     s\<lparr>bsp_toasts := bsp_toasts s @ [PT_success (if k = Save_business then ''Business settings saved successfully''
                                                 else ''System settings saved successfully'')],
       bsp_isLoading := False\<rparr>"

text \<open>The preview card: \<open>String(n)\<close> of a \<open>NaN\<close> is \<open>''NaN''\<close>.\<close>

definition js_String_num :: "int option \<Rightarrow> string" where
  "js_String_num x = (case x of Some n \<Rightarrow> string_of_int n | None \<Rightarrow> ''NaN'')"

definition preview_quote_number :: "system_settings \<Rightarrow> string" where
  "preview_quote_number ss = quote_number_prefix ss @ padStart (js_String_num (next_quote_number ss)) 6 CHR ''0''"

definition preview_date :: "string \<Rightarrow> string" where
  "preview_date fmt =
     (if fmt = ''DD/MM/YYYY'' then ''31/12/2024'' else if fmt = ''MM/DD/YYYY'' then ''12/31/2024''
      else if fmt = ''YYYY-MM-DD'' then ''2024-12-31'' else ''31 Dec 2024'')"


section \<open>Integrations\<close>

datatype integration_status = Connected | Disconnected | Error_status

text \<open>\<open>lastSync\<close>: a date parsed from a literal of the mock data, or \<open>new Date()\<close> at a clock
  reading in milliseconds.\<close>

datatype sync_time = Date_literal string | Clock nat

record integration =
  ig_id :: string
  ig_name :: string
  ig_description :: string
  ig_status :: integration_status
  lastSync :: "sync_time option"
  features :: "string list"
  configurable :: bool

definition mock_integrations :: "integration list" where
  "mock_integrations =
     [\<lparr>ig_id = ''gohighlevel'', ig_name = ''GoHighLevel'',
       ig_description = ''Sync clients and leads from your CRM system'', ig_status = Connected,
       lastSync = Some (Date_literal ''2024-06-01T10:30:00''),
       features = [''Client Sync'', ''Lead Import'', ''Contact Management''], configurable = True\<rparr>,
      \<lparr>ig_id = ''make'', ig_name = ''Make.com'',
       ig_description = ''Automate quote delivery and document generation'', ig_status = Connected,
       lastSync = Some (Date_literal ''2024-06-01T09:15:00''),
       features = [''Quote Export'', ''PDF Generation'', ''Email Automation''], configurable = True\<rparr>,
      \<lparr>ig_id = ''google-sheets'', ig_name = ''Google Sheets'',
       ig_description = ''Advanced rebate calculations and data export'', ig_status = Error_status,
       lastSync = Some (Date_literal ''2024-05-30T14:20:00''),
       features = [''Rebate Rules'', ''Data Export'', ''Advanced Calculations''], configurable = True\<rparr>,
      \<lparr>ig_id = ''email'', ig_name = ''Email Service'',
       ig_description = ''Send quotes and notifications via email'', ig_status = Connected,
       lastSync = None,
       features = [''Quote Delivery'', ''Notifications'', ''Customer Communication''], configurable = False\<rparr>]"

text \<open>
  The page's state. \<open>ip_pending_syncs\<close> holds the ids of the \<open>handleSync\<close> calls waiting on
  their three-second timer, in the order they were started (equal delays fire in that order).
\<close>

record integrations_page =
  ip_integrations :: "integration list"
  ip_selected :: "integration option"
  ip_isConfigOpen :: bool
  ip_toasts :: "page_toast list"
  ip_pending_syncs :: "string list"

definition integrations_page_init :: integrations_page where
  "integrations_page_init = \<lparr>ip_integrations = mock_integrations, ip_selected = None,
     ip_isConfigOpen = False, ip_toasts = [], ip_pending_syncs = []\<rparr>"

definition status_icon_class :: "integration_status \<Rightarrow> string" where
  "status_icon_class st = (case st of Connected \<Rightarrow> ''h-4 w-4 text-green-500''
     | Error_status \<Rightarrow> ''h-4 w-4 text-yellow-500'' | Disconnected \<Rightarrow> ''h-4 w-4 text-red-500'')"

definition integration_status_color :: "integration_status \<Rightarrow> string" where
  "integration_status_color st = (case st of Connected \<Rightarrow> ''bg-green-100 text-green-800''
     | Error_status \<Rightarrow> ''bg-yellow-100 text-yellow-800'' | Disconnected \<Rightarrow> ''bg-red-100 text-red-800'')"

text \<open>\<open>prev.map(i => i.id === id ? {...i, ...patch} : i)\<close>.\<close>

definition map_integration :: "string \<Rightarrow> (integration \<Rightarrow> integration) \<Rightarrow> integration list \<Rightarrow> integration list" where
  "map_integration i f xs = map (\<lambda>x. if ig_id x = i then f x else x) xs"

definition handleConnect :: "string \<Rightarrow> nat \<Rightarrow> integrations_page \<Rightarrow> integrations_page" where
  "handleConnect i now s =
     s\<lparr>ip_integrations := map_integration i (\<lambda>x. x\<lparr>ig_status := Connected, lastSync := Some (Clock now)\<rparr>)
                           (ip_integrations s),
       ip_toasts := ip_toasts s @ [PT_success ''Integration connected successfully'']\<rparr>"

definition handleDisconnect :: "string \<Rightarrow> integrations_page \<Rightarrow> integrations_page" where
  "handleDisconnect i s =
     s\<lparr>ip_integrations := map_integration i (\<lambda>x. x\<lparr>ig_status := Disconnected\<rparr>) (ip_integrations s),
       ip_toasts := ip_toasts s @ [PT_success ''Integration disconnected'']\<rparr>"

definition handleTest :: "string \<Rightarrow> integrations_page \<Rightarrow> integrations_page" where
  "handleTest i s =
     s\<lparr>ip_toasts := ip_toasts s @ [PT_loading ''Testing connection...'', PT_success ''Connection test successful'']\<rparr>"

text \<open>\<open>handleSync\<close> up to its \<open>await\<close>, and the continuation its timer runs.\<close>

definition handleSync_start :: "string \<Rightarrow> integrations_page \<Rightarrow> integrations_page" where
  "handleSync_start i s =
     s\<lparr>ip_toasts := ip_toasts s @ [PT_loading ''Syncing data...''], ip_pending_syncs := ip_pending_syncs s @ [i]\<rparr>"

definition handleSync_resume :: "nat \<Rightarrow> integrations_page \<Rightarrow> integrations_page" where
  "handleSync_resume now s =
     (case ip_pending_syncs s of
        [] \<Rightarrow> s
      | i # rest \<Rightarrow>
          s\<lparr>ip_integrations := map_integration i (\<lambda>x. x\<lparr>lastSync := Some (Clock now)\<rparr>) (ip_integrations s),
            ip_toasts := ip_toasts s @ [PT_success ''Data synced successfully''], ip_pending_syncs := rest\<rparr>)"

text \<open>
  The user's clicks. A button is on the page only for an integration in the state the
  render tests: Test and Sync for a connected one, Connect for another, Disconnect for a
  connected one, the card's settings button for a configurable one, and the settings
  button of the "Connected" tab for every connected one.
\<close>

datatype integrations_event =
  Click_connect string nat | Click_disconnect string | Click_test string | Click_sync string
  | Sync_timer nat | Click_configure string | Click_connected_settings string | Close_config

definition find_integration :: "string \<Rightarrow> integrations_page \<Rightarrow> integration option" where
  "find_integration i s = find (\<lambda>x. ig_id x = i) (ip_integrations s)"

definition open_config :: "integration \<Rightarrow> integrations_page \<Rightarrow> integrations_page" where
  "open_config x s = s\<lparr>ip_selected := Some x, ip_isConfigOpen := True\<rparr>"

fun integrations_step :: "integrations_event \<Rightarrow> integrations_page \<Rightarrow> integrations_page" where
  "integrations_step (Click_connect i now) s =
     (case find_integration i s of
        Some x \<Rightarrow> if ig_status x \<noteq> Connected then handleConnect i now s else s | None \<Rightarrow> s)"
| "integrations_step (Click_disconnect i) s =
     (case find_integration i s of
        Some x \<Rightarrow> if ig_status x = Connected then handleDisconnect i s else s | None \<Rightarrow> s)"
| "integrations_step (Click_test i) s =
     (case find_integration i s of
        Some x \<Rightarrow> if ig_status x = Connected then handleTest i s else s | None \<Rightarrow> s)"
| "integrations_step (Click_sync i) s =
     (case find_integration i s of
        Some x \<Rightarrow> if ig_status x = Connected then handleSync_start i s else s | None \<Rightarrow> s)"
| "integrations_step (Sync_timer now) s = handleSync_resume now s"
| "integrations_step (Click_configure i) s =
     (case find_integration i s of
        Some x \<Rightarrow> if configurable x then open_config x s else s | None \<Rightarrow> s)"
| "integrations_step (Click_connected_settings i) s =
     (case find_integration i s of
        Some x \<Rightarrow> if ig_status x = Connected then open_config x s else s | None \<Rightarrow> s)"
| "integrations_step Close_config s = s\<lparr>ip_isConfigOpen := False\<rparr>"

definition integrations_run :: "integrations_event list \<Rightarrow> integrations_page \<Rightarrow> integrations_page" where
  "integrations_run es s = foldl (\<lambda>s e. integrations_step e s) s es"

definition active_integration_count :: "integrations_page \<Rightarrow> nat" where
  "active_integration_count s = length (filter (\<lambda>x. ig_status x = Connected) (ip_integrations s))"

text \<open>The configuration dialog is open only with a selected integration, which is one of
  the page's integrations.\<close>

definition config_ok :: "integrations_page \<Rightarrow> bool" where
  "config_ok s = ((case ip_selected s of None \<Rightarrow> True | Some x \<Rightarrow> ig_id x \<in> set (map ig_id (ip_integrations s)))
                  \<and> (ip_isConfigOpen s \<longrightarrow> ip_selected s \<noteq> None))"

section \<open>Lemmas\<close>

text \<open>Business settings: a field written is read back, the others are untouched; clearing
  the number field previews \<open>NaN\<close>; a save changes nothing but the toasts.\<close>


lemma get_set_business_field_same [simp]: "get_business_field f (set_business_field f v b) = v"
  by (cases f) simp_all

lemma get_set_business_field_other [simp]:
  "g \<noteq> f \<Longrightarrow> get_business_field g (set_business_field f v b) = get_business_field g b"
  by (cases f; cases g) simp_all

lemma preview_number [simp]:
  "next_quote_number ss = Some n \<Longrightarrow> preview_quote_number ss = format_quote_number (quote_number_prefix ss) n"
  by (simp add: preview_quote_number_def js_String_num_def format_quote_number_def)

text \<open>
  C23. The settings page and the quote number generator agree: after the user types the
  decimal form of a number \<open>n\<close> into "Next Quote Number", the preview card shows exactly
  the quote number \<open>generateQuoteNumber\<close> returns from a store whose settings document
  holds the page's prefix and the counter \<open>n\<close>. Numbers are exact integers in the model;
  a JavaScript number (the result of \<open>parseInt\<close>, the stored counter) equals them only up
  to \<open>2^53\<close> in magnitude, so the statement is made for those \<open>n\<close>.
\<close>

theorem typed_quote_number_preview:
  "\<bar>n\<bar> \<le> 2 ^ 53 \<Longrightarrow> settings_hold cid (quote_number_prefix (bsp_system s)) n db \<Longrightarrow>
   \<exists>db'. generateQuoteNumber cid now db =
     Inr (preview_quote_number (bsp_system (next_quote_number_input (string_of_int n) s)), db')"
proof -
  assume "settings_hold cid (quote_number_prefix (bsp_system s)) n db"
  then obtain db' where "generateQuoteNumber cid now db = Inr (format_quote_number (quote_number_prefix (bsp_system s)) n, db')"
    using generateQuoteNumber_hold by blast
  moreover have "preview_quote_number (bsp_system (next_quote_number_input (string_of_int n) s)) =
                 format_quote_number (quote_number_prefix (bsp_system s)) n"
    by (simp add: next_quote_number_input_def handleSystemChange_def)
  ultimately show ?thesis by auto
qed

theorem typed_quote_number_preview_witness:
  "\<bar>41 :: int\<bar> \<le> 2 ^ 53 \<and>
   settings_hold ''acme-electrical''
     (quote_number_prefix (bsp_system (handleSystemChange (Quote_number_prefix ''QTE-'') settings_page_init))) 41 settings_demo_db \<and>
   (\<exists>db'. generateQuoteNumber ''acme-electrical'' 9 settings_demo_db =
     Inr (preview_quote_number (bsp_system (next_quote_number_input (string_of_int 41)
       (handleSystemChange (Quote_number_prefix ''QTE-'') settings_page_init))), db'))"
proof -
  have h1: "\<bar>41 :: int\<bar> \<le> 2 ^ 53" by simp
  have h2: "settings_hold ''acme-electrical''
     (quote_number_prefix (bsp_system (handleSystemChange (Quote_number_prefix ''QTE-'') settings_page_init))) 41 settings_demo_db"
    using settings_demo_hold by (simp add: handleSystemChange_def)
  show ?thesis using h1 h2 typed_quote_number_preview [OF h1 h2] by blast
qed

lemma cleared_quote_number_preview:
  "preview_quote_number (bsp_system (next_quote_number_input [] s)) = quote_number_prefix (bsp_system s) @ ''000NaN''"
  by (simp add: next_quote_number_input_def handleSystemChange_def preview_quote_number_def
      js_String_num_def js_parseInt_def padStart_def numeral_eq_Suc)

lemma save_roundtrip:
  "\<not> bsp_isLoading s \<Longrightarrow> save_done k (save_click k s) =
     s\<lparr>bsp_toasts := bsp_toasts s @ [PT_success (if k = Save_business then ''Business settings saved successfully''
                                                 else ''System settings saved successfully'')]\<rparr>"
  by (simp add: save_click_def save_done_def)

lemma save_click_loading: "bsp_isLoading s \<Longrightarrow> save_click k s = s"
  by (simp add: save_click_def)

lemma map_ig_id_map_integration [simp]:
  "(\<And>x. ig_id (f x) = ig_id x) \<Longrightarrow> map ig_id (map_integration i f xs) = map ig_id xs"
  by (induction xs) (simp_all add: map_integration_def)

lemma integrations_step_ids [simp]:
  "map ig_id (ip_integrations (integrations_step e s)) = map ig_id (ip_integrations s)"
  by (cases e) (auto simp: handleConnect_def handleDisconnect_def handleTest_def handleSync_start_def
      handleSync_resume_def open_config_def split: option.splits list.splits)

lemma integrations_run_ids:
  "map ig_id (ip_integrations (integrations_run es s)) = map ig_id (ip_integrations s)"
  by (induction es arbitrary: s) (simp_all add: integrations_run_def)

lemma find_map_integration:
  "(\<And>x. ig_id (f x) = ig_id x) \<Longrightarrow>
   find (\<lambda>x. ig_id x = i) (map_integration i f xs) = map_option f (find (\<lambda>x. ig_id x = i) xs)"
  by (induction xs) (simp_all add: map_integration_def)

lemma connect_marks_connected:
  "find_integration i s = Some x \<Longrightarrow> ig_status x \<noteq> Connected \<Longrightarrow>
   find_integration i (integrations_step (Click_connect i now) s) =
     Some (x\<lparr>ig_status := Connected, lastSync := Some (Clock now)\<rparr>)"
  by (simp add: find_integration_def handleConnect_def find_map_integration)

lemma find_integration_SomeD: "find_integration i s = Some x \<Longrightarrow> ig_id x \<in> set (map ig_id (ip_integrations s))"
  by (auto simp: find_integration_def find_Some_iff)

lemma integrations_step_config_ok: "config_ok s \<Longrightarrow> config_ok (integrations_step e s)"
proof -
  assume "config_ok s"
  moreover have "map ig_id (ip_integrations (integrations_step e s)) = map ig_id (ip_integrations s)" by simp
  ultimately show ?thesis
    by (cases e) (auto simp: config_ok_def open_config_def handleConnect_def handleDisconnect_def
        handleTest_def handleSync_start_def handleSync_resume_def dest: find_integration_SomeD
        split: option.splits list.splits if_splits)
qed

lemma email_config_opens:
  "\<exists>x. integrations_run [Click_connected_settings ''email''] integrations_page_init =
     integrations_page_init\<lparr>ip_selected := Some x, ip_isConfigOpen := True\<rparr> \<and> \<not> configurable x"
  by (simp add: integrations_run_def find_integration_def integrations_page_init_def mock_integrations_def open_config_def)

lemma sync_after_disconnect:
  "find_integration ''make'' (integrations_run [Click_sync ''make'', Click_disconnect ''make'', Sync_timer t]
      integrations_page_init) =
   Some ((hd (tl mock_integrations))\<lparr>ig_status := Disconnected, lastSync := Some (Clock t)\<rparr>)"
  by (simp add: integrations_run_def find_integration_def integrations_page_init_def mock_integrations_def
      handleSync_start_def handleDisconnect_def handleSync_resume_def map_integration_def)

end
