(* ===== verification/Integrations_Config.thy ===== *)
theory Integrations_Config
  imports Pages_Settings "HOL-Library.Multiset"
begin

text \<open>
  The configuration dialog of \<open>src/src/pages/company/Integrations.tsx\<close> and the page's
  tabs. \<open>IntegrationConfig\<close> is a component declared inside the render of
  \<open>Integrations\<close>: every render of the page creates a new component type, so React
  unmounts the open dialog's content and mounts a fresh one, whose \<open>config\<close> state
  starts again from its defaults. The page renders when one of its setters changes its
  state. The tabs (\<open>defaultValue="all"\<close>) are uncontrolled, and a tab's content is mounted
  only while the tab is active (the Radix behaviour of \<open>TabsContent\<close>): a button can be
  clicked only on its tab, and the configuration dialogs, one per configurable card of
  the "All Integrations" tab, all follow the one \<open>isConfigOpen\<close> flag.
\<close>

section \<open>The dialog's state\<close>

record integration_config =
  apiKey :: string
  webhookUrl :: string
  cfg_enabled :: bool
  autoSync :: bool
  syncInterval :: string

definition config_default :: integration_config where
  "config_default = \<lparr>apiKey = [], webhookUrl = [], cfg_enabled = True, autoSync = False, syncInterval = ''15''\<rparr>"

text \<open>The rows of the "Connected" and "Available" tabs.\<close>

definition connected_tab :: "integrations_page \<Rightarrow> integration list" where
  "connected_tab p = filter (\<lambda>x. ig_status x = Connected) (ip_integrations p)"

definition available_tab :: "integrations_page \<Rightarrow> integration list" where
  "available_tab p = filter (\<lambda>x. ig_status x \<noteq> Connected) (ip_integrations p)"

text \<open>The configuration dialogs on screen: one per configurable card while the flag is
  set and the "All Integrations" tab is active.\<close>

definition open_config_dialogs :: "string \<Rightarrow> integrations_page \<Rightarrow> nat" where
  "open_config_dialogs tab p =
     (if tab = ''all'' \<and> ip_isConfigOpen p then length (filter configurable (ip_integrations p)) else 0)"

text \<open>Whether a page event makes the page render: \<open>setIntegrations(prev.map(...))\<close>
  always passes a new array; \<open>setSelectedIntegration\<close> and \<open>setIsConfigOpen\<close> cause a
  render only with a new value (React compares with \<open>Object.is\<close>); \<open>handleTest\<close> and the
  start of \<open>handleSync\<close> only toast.\<close>

fun parent_setter :: "integrations_event \<Rightarrow> integrations_page \<Rightarrow> bool" where
  "parent_setter (Click_connect i n) p =
     (case find_integration i p of Some x \<Rightarrow> ig_status x \<noteq> Connected | None \<Rightarrow> False)"
| "parent_setter (Click_disconnect i) p =
     (case find_integration i p of Some x \<Rightarrow> ig_status x = Connected | None \<Rightarrow> False)"
| "parent_setter (Click_test i) p = False"
| "parent_setter (Click_sync i) p = False"
| "parent_setter (Sync_timer t) p = (ip_pending_syncs p \<noteq> [])"
| "parent_setter (Click_configure i) p =
     (case find_integration i p of Some x \<Rightarrow> configurable x \<and> open_config x p \<noteq> p | None \<Rightarrow> False)"
| "parent_setter (Click_connected_settings i) p =
     (case find_integration i p of Some x \<Rightarrow> ig_status x = Connected \<and> open_config x p \<noteq> p | None \<Rightarrow> False)"
| "parent_setter Close_config p = ip_isConfigOpen p"

section \<open>The session\<close>

record integrations_session =
  ses_page :: integrations_page
  ses_tab :: string
  ses_config :: integration_config

definition session_init :: integrations_session where
  "session_init = \<lparr>ses_page = integrations_page_init, ses_tab = ''all'', ses_config = config_default\<rparr>"

datatype session_event =
  Page_event integrations_event | Tab_select string
  | Cfg_api_key string | Cfg_webhook string | Cfg_auto_sync bool

text \<open>The tab on which each page button is rendered.\<close>

fun event_on_tab :: "integrations_event \<Rightarrow> string \<Rightarrow> integrations_page \<Rightarrow> bool" where
  "event_on_tab (Click_connect i n) tab p =
     (tab = ''all'' \<or> (tab = ''available'' \<and> i \<in> set (map ig_id (available_tab p))))"
| "event_on_tab (Click_disconnect i) tab p = (tab = ''all'')"
| "event_on_tab (Click_test i) tab p = (tab = ''all'')"
| "event_on_tab (Click_sync i) tab p =
     (tab = ''all'' \<or> (tab = ''connected'' \<and> i \<in> set (map ig_id (connected_tab p))))"
| "event_on_tab (Sync_timer t) tab p = True"
| "event_on_tab (Click_configure i) tab p = (tab = ''all'')"
| "event_on_tab (Click_connected_settings i) tab p = (tab = ''connected'' \<and> i \<in> set (map ig_id (connected_tab p)))"
| "event_on_tab Close_config tab p = (open_config_dialogs tab p > 0)"

text \<open>The dialogs are modal: while one is on screen, only its own controls, the Escape
  key (\<open>Close_config\<close>) and the timers act.\<close>

definition modal_allows :: "integrations_event \<Rightarrow> integrations_session \<Rightarrow> bool" where
  "modal_allows e s =
     (open_config_dialogs (ses_tab s) (ses_page s) = 0 \<or> e = Close_config \<or> (\<exists>t. e = Sync_timer t))"

definition selected_is :: "string \<Rightarrow> integrations_session \<Rightarrow> bool" where
  "selected_is i s = (open_config_dialogs (ses_tab s) (ses_page s) > 0 \<and>
                      map_option ig_id (ip_selected (ses_page s)) = Some i)"

fun session_step :: "session_event \<Rightarrow> integrations_session \<Rightarrow> integrations_session" where
  "session_step (Page_event e) s =
     (if event_on_tab e (ses_tab s) (ses_page s) \<and> modal_allows e s then
        s\<lparr>ses_page := integrations_step e (ses_page s),
          ses_config := (if parent_setter e (ses_page s) then config_default else ses_config s)\<rparr>
      else s)"
| "session_step (Tab_select t) s =
     (if t = ses_tab s \<or> open_config_dialogs (ses_tab s) (ses_page s) > 0 then s
      else s\<lparr>ses_tab := t, ses_config := config_default\<rparr>)"
| "session_step (Cfg_api_key v) s =
     (if selected_is ''gohighlevel'' s then s\<lparr>ses_config := (ses_config s)\<lparr>apiKey := v\<rparr>\<rparr> else s)"
| "session_step (Cfg_webhook v) s =
     (if selected_is ''make'' s then s\<lparr>ses_config := (ses_config s)\<lparr>webhookUrl := v\<rparr>\<rparr> else s)"
| "session_step (Cfg_auto_sync b) s =
     (if selected_is ''gohighlevel'' s then s\<lparr>ses_config := (ses_config s)\<lparr>autoSync := b\<rparr>\<rparr> else s)"

definition config_clean :: "integrations_session \<Rightarrow> bool" where
  "config_clean s = (open_config_dialogs (ses_tab s) (ses_page s) = 0 \<longrightarrow> ses_config s = config_default)"

definition session_run :: "session_event list \<Rightarrow> integrations_session \<Rightarrow> integrations_session" where
  "session_run es s = foldl (\<lambda>s e. session_step e s) s es"

section \<open>Lemmas\<close>

text \<open>A sync that finishes while the GoHighLevel dialog is open re-renders the page and
  remounts the dialog: the API key being typed is gone, the dialogs still open.\<close>

lemma sync_timer_erases_api_key:
  "apiKey (ses_config (session_run [Page_event (Click_sync ''gohighlevel''), Page_event (Click_configure ''gohighlevel''),
                                    Cfg_api_key ''secret''] session_init)) = ''secret'' \<and>
   apiKey (ses_config (session_run [Page_event (Click_sync ''gohighlevel''), Page_event (Click_configure ''gohighlevel''),
                                    Cfg_api_key ''secret'', Page_event (Sync_timer 9)] session_init)) = [] \<and>
   open_config_dialogs ''all''
     (ses_page (session_run [Page_event (Click_sync ''gohighlevel''), Page_event (Click_configure ''gohighlevel''),
                             Cfg_api_key ''secret'', Page_event (Sync_timer 9)] session_init)) = 3"
  by (simp add: session_run_def session_init_def integrations_page_init_def mock_integrations_def
      find_integration_def handleSync_start_def handleSync_resume_def open_config_def map_integration_def
      selected_is_def open_config_dialogs_def config_default_def connected_tab_def modal_allows_def)

text \<open>The settings button of the "Connected" tab shows nothing on its own tab; back on
  "All Integrations", the three configurable cards' dialogs are all open, stacked,
  configuring the non-configurable e-mail service.\<close>

lemma connected_settings_email_dialogs:
  "let s = session_run [Tab_select ''connected'', Page_event (Click_connected_settings ''email'')] session_init
   in open_config_dialogs (ses_tab s) (ses_page s) = 0 \<and>
      (let s' = session_step (Tab_select ''all'') s
       in open_config_dialogs (ses_tab s') (ses_page s') = 3 \<and>
          map_option configurable (ip_selected (ses_page s')) = Some False)"
  by (simp add: session_run_def session_init_def integrations_page_init_def mock_integrations_def
      find_integration_def open_config_def open_config_dialogs_def connected_tab_def Let_def modal_allows_def)

text \<open>Cancel and Save Configuration close the dialog and drop what was typed.\<close>

lemma config_reset_on_close:
  "event_on_tab Close_config (ses_tab s) (ses_page s) \<Longrightarrow> ip_isConfigOpen (ses_page s) \<Longrightarrow>
   ses_config (session_step (Page_event Close_config) s) = config_default"
  by (cases "ses_page s") (simp add: modal_allows_def)

text \<open>Every integration is listed on exactly one of the "Connected" and "Available" tabs.\<close>

lemma mset_filter_split: "mset (filter P xs) + mset (filter (\<lambda>x. \<not> P x) xs) = mset xs"
  by (induction xs) auto

lemma tabs_partition:
  "mset (connected_tab p) + mset (available_tab p) = mset (ip_integrations p)"
  unfolding connected_tab_def available_tab_def by (rule mset_filter_split)


text \<open>Typed configuration never outlives the dialogs: whenever none is on screen, the
  dialog state is the default one.\<close>

lemma no_setter_fields:
  "\<not> parent_setter e p \<Longrightarrow>
   ip_isConfigOpen (integrations_step e p) = ip_isConfigOpen p \<and> ip_integrations (integrations_step e p) = ip_integrations p"
proof (cases e)
  case (Sync_timer t) then show "\<not> parent_setter e p \<Longrightarrow> ?thesis" by (simp add: handleSync_resume_def)
next
  case Close_config then show "\<not> parent_setter e p \<Longrightarrow> ?thesis" by simp
qed (auto simp: handleTest_def handleSync_start_def split: option.splits)

lemma no_setter_dialogs:
  "\<not> parent_setter e p \<Longrightarrow> open_config_dialogs tab (integrations_step e p) = open_config_dialogs tab p"
  using no_setter_fields [of e p] by (simp add: open_config_dialogs_def)

lemma session_step_config_clean: "config_clean s \<Longrightarrow> config_clean (session_step e s)"
proof (cases e)
  case (Page_event pe)
  assume c: "config_clean s"
  show ?thesis
  proof (cases "parent_setter pe (ses_page s)")
    case True with c Page_event show ?thesis by (simp add: config_clean_def)
  next
    case False
    with c Page_event no_setter_dialogs [OF False] show ?thesis by (simp add: config_clean_def)
  qed
qed (auto simp: config_clean_def selected_is_def)

lemma session_run_config_clean: "config_clean s \<Longrightarrow> config_clean (session_run es s)"
  by (induction es arbitrary: s) (simp_all add: session_run_def session_step_config_clean)

end
