(* ===== verification/Pages_Platform.thy ===== *)
theory Pages_Platform
  imports Prelude "HOL-Library.AList"
begin

text \<open>
  \<open>src/src/pages/admin/PlatformSettings.tsx\<close>. Every control of the page is
  uncontrolled (\<open>defaultValue\<close>, \<open>defaultChecked\<close>): its value lives in the DOM, modelled
  as association lists from a control's id to its text, its switch position or its
  selected option, initialised tab by tab from the defaults of the source. The
  notification switches have no id and are keyed by their row's label. The only
  handler, \<open>handleSaveSettings\<close>, toggles the loading flag around a two-second timer.
  The monitoring tab renders the constant \<open>systemStatus\<close> and two constant lists through
  \<open>getStatusIcon\<close> and \<open>getStatusColor\<close>.
\<close>

section \<open>System status and the status helpers\<close>

record sys_component =
  sc_name :: string
  sc_status :: string
  sc_metric :: string
  sc_usage :: "nat option"

definition platform_system_status :: "sys_component list" where
  "platform_system_status =
     [\<lparr>sc_name = ''Database'', sc_status = ''healthy'', sc_metric = ''12ms'', sc_usage = None\<rparr>,
      \<lparr>sc_name = ''API'', sc_status = ''healthy'', sc_metric = ''120ms'', sc_usage = None\<rparr>,
      \<lparr>sc_name = ''Storage'', sc_status = ''healthy'', sc_metric = ''500GB'', sc_usage = Some 68\<rparr>,
      \<lparr>sc_name = ''Memory'', sc_status = ''warning'', sc_metric = ''16GB'', sc_usage = Some 85\<rparr>,
      \<lparr>sc_name = ''CPU'', sc_status = ''healthy'', sc_metric = ''8'', sc_usage = Some 42\<rparr>]"

text \<open>\<open>switch (status)\<close> with a grey default for any other string.\<close>

definition platform_status_icon :: "string \<Rightarrow> string" where
  "platform_status_icon st =
     (if st = ''healthy'' then ''CheckCircle text-green-500'' else if st = ''warning'' then ''AlertTriangle text-yellow-500''
      else if st = ''error'' then ''XCircle text-red-500'' else ''CheckCircle text-gray-500'')"

definition platform_status_color :: "string \<Rightarrow> string" where
  "platform_status_color st =
     (if st = ''healthy'' then ''text-green-600 bg-green-100'' else if st = ''warning'' then ''text-yellow-600 bg-yellow-100''
      else if st = ''error'' then ''text-red-600 bg-red-100'' else ''text-gray-600 bg-gray-100'')"

section \<open>The controls of the tabs\<close>

record platform_controls =
  pc_inputs :: "(string \<times> string) list"
  pc_switches :: "(string \<times> bool) list"
  pc_selects :: "(string \<times> string) list"

definition platform_general_controls :: platform_controls where
  "platform_general_controls =
     \<lparr>pc_inputs = [(''app-name'', ''Quote Generation Hub''), (''app-url'', ''https://app.quotehub.com''),
                   (''company-name'', ''QuoteHub Technologies''), (''support-email'', ''support@quotehub.com''),
                   (''quote-prefix'', ''QH-''), (''tax-rate'', ''10'')],
      pc_switches = [(''registration'', True), (''api-access'', True), (''analytics'', True),
                     (''maintenance'', False), (''beta-features'', False)],
      pc_selects = [(''timezone'', ''UTC''), (''currency'', ''USD'')]\<rparr>"

definition platform_security_controls :: platform_controls where
  "platform_security_controls =
     \<lparr>pc_inputs = [(''session-timeout'', ''120''), (''max-attempts'', ''5''), (''lockout-duration'', ''30''),
                   (''encryption-key'', ''90''), (''backup-retention'', ''30''), (''rate-limit'', ''1000''),
                   (''api-key-expiry'', ''365'')],
      pc_switches = [(''mfa-required'', False), (''strong-passwords'', True), (''audit-logging'', True),
                     (''data-encryption'', True), (''gdpr-compliance'', True)],
      pc_selects = []\<rparr>"

text \<open>The webhook and API key inputs have a placeholder and no default: they start empty.\<close>

definition platform_integrations_controls :: platform_controls where
  "platform_integrations_controls =
     \<lparr>pc_inputs = [(''from-email'', ''noreply@quotehub.com''), (''from-name'', ''Quote Hub''), (''ghl-webhook'', []),
                   (''make-webhook'', []), (''google-sheets'', [])],
      pc_switches = [(''email-notifications'', True), (''webhook-retry'', True)],
      pc_selects = [(''smtp-provider'', ''sendgrid'')]\<rparr>"

record notification_pref =
  np_label :: string
  np_email :: bool
  np_push :: bool
  np_description :: string

definition platform_user_events :: "notification_pref list" where
  "platform_user_events =
     [\<lparr>np_label = ''New user registration'', np_email = True, np_push = False, np_description = ''When a new user registers''\<rparr>,
      \<lparr>np_label = ''User login attempts'', np_email = False, np_push = True, np_description = ''Failed login attempts''\<rparr>,
      \<lparr>np_label = ''Password changes'', np_email = True, np_push = False, np_description = ''When users change passwords''\<rparr>,
      \<lparr>np_label = ''Profile updates'', np_email = False, np_push = False, np_description = ''When users update profiles''\<rparr>]"

definition platform_system_events :: "notification_pref list" where
  "platform_system_events =
     [\<lparr>np_label = ''System errors'', np_email = True, np_push = True, np_description = ''Critical system errors''\<rparr>,
      \<lparr>np_label = ''Performance alerts'', np_email = True, np_push = False, np_description = ''Performance degradation alerts''\<rparr>,
      \<lparr>np_label = ''Backup completion'', np_email = False, np_push = False, np_description = ''Daily backup status''\<rparr>,
      \<lparr>np_label = ''Security alerts'', np_email = True, np_push = True, np_description = ''Security-related events''\<rparr>]"

definition join_controls :: "platform_controls \<Rightarrow> platform_controls \<Rightarrow> platform_controls" where
  "join_controls a b = \<lparr>pc_inputs = pc_inputs a @ pc_inputs b, pc_switches = pc_switches a @ pc_switches b,
                        pc_selects = pc_selects a @ pc_selects b\<rparr>"

record platform_page =
  ps_isLoading :: bool
  ps_controls :: platform_controls
  ps_notifications :: "notification_pref list"

definition platform_page_init :: platform_page where
  "platform_page_init =
     \<lparr>ps_isLoading = False,
      ps_controls = join_controls platform_general_controls (join_controls platform_security_controls platform_integrations_controls),
      ps_notifications = platform_user_events @ platform_system_events\<rparr>"

section \<open>The user's actions\<close>

text \<open>
  Typing into an input, flipping a switch, choosing an option, flipping a notification
  row's e-mail or push switch, and the save button with its timer. A control that the
  page does not render changes nothing.
\<close>

datatype platform_event =
  Pl_input string string | Pl_switch string bool | Pl_select string string
  | Pl_notify_email string bool | Pl_notify_push string bool | Pl_save_click | Pl_save_timer

definition set_control :: "string \<Rightarrow> 'a \<Rightarrow> (string \<times> 'a) list \<Rightarrow> (string \<times> 'a) list" where
  "set_control k v al = (if k \<in> set (map fst al) then AList.update k v al else al)"

definition handleSaveSettings_start :: "platform_page \<Rightarrow> platform_page" where
  "handleSaveSettings_start s = (if ps_isLoading s then s else s\<lparr>ps_isLoading := True\<rparr>)"

definition handleSaveSettings_resume :: "platform_page \<Rightarrow> platform_page" where
  "handleSaveSettings_resume s = s\<lparr>ps_isLoading := False\<rparr>"

fun platform_step :: "platform_event \<Rightarrow> platform_page \<Rightarrow> platform_page" where
  "platform_step (Pl_input k v) s =
     s\<lparr>ps_controls := (ps_controls s)\<lparr>pc_inputs := set_control k v (pc_inputs (ps_controls s))\<rparr>\<rparr>"
| "platform_step (Pl_switch k b) s =
     s\<lparr>ps_controls := (ps_controls s)\<lparr>pc_switches := set_control k b (pc_switches (ps_controls s))\<rparr>\<rparr>"
| "platform_step (Pl_select k v) s =
     s\<lparr>ps_controls := (ps_controls s)\<lparr>pc_selects := set_control k v (pc_selects (ps_controls s))\<rparr>\<rparr>"
| "platform_step (Pl_notify_email l b) s =
     s\<lparr>ps_notifications := map (\<lambda>n. if np_label n = l then n\<lparr>np_email := b\<rparr> else n) (ps_notifications s)\<rparr>"
| "platform_step (Pl_notify_push l b) s =
     s\<lparr>ps_notifications := map (\<lambda>n. if np_label n = l then n\<lparr>np_push := b\<rparr> else n) (ps_notifications s)\<rparr>"
| "platform_step Pl_save_click s = handleSaveSettings_start s"
| "platform_step Pl_save_timer s = handleSaveSettings_resume s"

definition platform_run :: "platform_event list \<Rightarrow> platform_page \<Rightarrow> platform_page" where
  "platform_run es s = foldl (\<lambda>s e. platform_step e s) s es"

section \<open>The monitoring and integration status cards\<close>

text \<open>System Health: a row per component with its icon and its latency, response time
  or \<open>usage% used\<close>; Resource Usage: the progress bars of storage, memory and CPU.\<close>

definition health_detail :: "sys_component \<Rightarrow> string" where
  "health_detail c = (case sc_usage c of Some u \<Rightarrow> string_of_nat u @ ''% used'' | None \<Rightarrow> sc_metric c)"

definition platform_health_rows :: "(string \<times> string \<times> string) list" where
  "platform_health_rows =
     map (\<lambda>c. (sc_name c, platform_status_icon (sc_status c), health_detail c)) platform_system_status"

definition platform_resource_bars :: "(string \<times> nat) list" where
  "platform_resource_bars =
     [(sc_name c, u). c \<leftarrow> platform_system_status, u \<leftarrow> (case sc_usage c of Some u \<Rightarrow> [u] | None \<Rightarrow> [])]"

text \<open>The Integration Status card: constant rows rendered with the same two helpers.\<close>

definition platform_integration_status :: "(string \<times> string \<times> string) list" where
  "platform_integration_status =
     [(''SendGrid Email'', ''connected'', ''2 minutes ago''), (''Make.com Webhook'', ''connected'', ''5 minutes ago''),
      (''Google Sheets API'', ''warning'', ''1 hour ago''), (''GoHighLevel API'', ''disconnected'', ''2 days ago'')]"

definition platform_integration_rows :: "(string \<times> string \<times> string) list" where
  "platform_integration_rows =
     map (\<lambda>(n, st, t). (n, platform_status_icon st, platform_status_color st)) platform_integration_status"

text \<open>Recent System Events: one icon per event type, none for another type.\<close>

definition platform_recent_events :: "(string \<times> string \<times> string) list" where
  "platform_recent_events =
     [(''info'', ''Daily backup completed successfully'', ''2 hours ago''),
      (''warning'', ''Memory usage exceeded 80% threshold'', ''4 hours ago''),
      (''success'', ''System maintenance completed'', ''1 day ago''),
      (''info'', ''New integration configured: SendGrid'', ''2 days ago''),
      (''error'', ''Failed webhook delivery to Make.com'', ''3 days ago'')]"

definition event_icon :: "string \<Rightarrow> string list" where
  "event_icon t =
     (if t = ''error'' then [''XCircle text-red-500''] else []) @
     (if t = ''warning'' then [''AlertTriangle text-yellow-500''] else []) @
     (if t = ''success'' then [''CheckCircle text-green-500''] else []) @
     (if t = ''info'' then [''Clock text-blue-500''] else [])"

section \<open>Lemmas\<close>

text \<open>Saving reads no control: click and timer restore the page exactly.\<close>

lemma platform_save_roundtrip:
  "\<not> ps_isLoading s \<Longrightarrow> platform_run [Pl_save_click, Pl_save_timer] s = s"
  by (simp add: platform_run_def handleSaveSettings_start_def handleSaveSettings_resume_def)

text \<open>A value typed into a rendered input is the input's value afterwards.\<close>

lemma set_control_lookup: "k \<in> set (map fst al) \<Longrightarrow> map_of (set_control k v al) k = Some v"
  by (simp add: set_control_def update_conv')

lemma set_control_keys [simp]: "map fst (set_control k v al) = map fst al"
  by (simp add: set_control_def AList.update_keys)

lemma platform_input_roundtrip:
  "k \<in> set (map fst (pc_inputs (ps_controls s))) \<Longrightarrow>
   map_of (pc_inputs (ps_controls (platform_step (Pl_input k v) s))) k = Some v"
  by (simp add: set_control_lookup)

text \<open>The Integration Status card passes \<open>connected\<close> and \<open>disconnected\<close>, which the helpers
  do not know: both get the grey default, so a disconnected service looks like a
  connected one.\<close>

lemma connected_disconnected_look_alike:
  "platform_status_icon ''connected'' = platform_status_icon ''disconnected'' \<and>
   platform_status_color ''connected'' = platform_status_color ''disconnected'' \<and>
   map (fst \<circ> snd) platform_integration_rows =
     [''CheckCircle text-gray-500'', ''CheckCircle text-gray-500'', ''AlertTriangle text-yellow-500'', ''CheckCircle text-gray-500'']"
  by (simp add: platform_status_icon_def platform_status_color_def platform_integration_rows_def platform_integration_status_def)

text \<open>The monitoring cards: progress values within 0..100, the health rows as rendered,
  exactly one icon per recent event, and distinct control ids.\<close>

lemma platform_resource_bars_bounds: "list_all (\<lambda>(n, u). u \<le> 100) platform_resource_bars"
  by (simp add: platform_resource_bars_def platform_system_status_def)

lemma platform_health_rows_value:
  "platform_health_rows =
     [(''Database'', ''CheckCircle text-green-500'', ''12ms''), (''API'', ''CheckCircle text-green-500'', ''120ms''),
      (''Storage'', ''CheckCircle text-green-500'', ''68% used''), (''Memory'', ''AlertTriangle text-yellow-500'', ''85% used''),
      (''CPU'', ''CheckCircle text-green-500'', ''42% used'')]"
  by (simp add: platform_health_rows_def platform_system_status_def platform_status_icon_def health_detail_def
      string_of_nat.simps digit_char_def)

lemma event_icon_single: "list_all (\<lambda>(t, m, w). length (event_icon t) = 1) platform_recent_events"
  by (simp add: platform_recent_events_def event_icon_def)

lemma platform_ids_distinct:
  "distinct (map fst (pc_inputs (ps_controls platform_page_init))) \<and>
   distinct (map fst (pc_switches (ps_controls platform_page_init))) \<and>
   distinct (map np_label (ps_notifications platform_page_init))"
  by (simp add: platform_page_init_def join_controls_def platform_general_controls_def platform_security_controls_def
      platform_integrations_controls_def platform_user_events_def platform_system_events_def)

end
