(* ===== verification/Dashboards.thy ===== *)
theory Dashboards
  imports Navigation Pages_Admin
begin

text \<open>
  The two dashboards, \<open>src/src/pages/company/Dashboard.tsx\<close> and
  \<open>src/src/pages/admin/AdminDashboard.tsx\<close>: their constant \<open>metrics\<close> objects, the metric
  cards, the recent lists and the performance and system-status panels. Numbers are
  printed with \<open>String(n)\<close> or \<open>n.toLocaleString()\<close> (en-US digit grouping). A card's note
  is a list of Unicode code points (a JavaScript string), because one of them is not
  ASCII. The links of both pages are in \<open>Navigation\<close>.
\<close>

type_synonym ustring = "nat list"

definition ustr :: "string \<Rightarrow> ustring" where
  "ustr s = map of_char s"

section \<open>Company dashboard\<close>

record company_metrics =
  totalQuotes :: nat
  quotesThisMonth :: nat
  totalRevenue :: nat
  revenueThisMonth :: nat
  conversionRate :: nat
  avgQuoteValue :: nat

definition dashboard_metrics :: company_metrics where
  "dashboard_metrics =
     \<lparr>totalQuotes = 24, quotesThisMonth = 8, totalRevenue = 125000, revenueThisMonth = 35000,
      conversionRate = 68, avgQuoteValue = 5200\<rparr>"

text \<open>The three metric cards: title, value, note. The Conversion Rate note begins with the
  three code points U+00E2 U+2020 U+2018 that the source file holds where an upward arrow
  was meant.\<close>

definition company_metric_cards :: "company_metrics \<Rightarrow> (string \<times> string \<times> ustring) list" where
  "company_metric_cards m =
     [(''Total Quotes'', string_of_nat (totalQuotes m), ustr (''+'' @ string_of_nat (quotesThisMonth m) @ '' this month'')),
      (''Total Revenue'', ''$'' @ toLocaleString_nat (totalRevenue m),
       ustr (''+$'' @ toLocaleString_nat (revenueThisMonth m) @ '' this month'')),
      (''Conversion Rate'', string_of_nat (conversionRate m) @ ''%'',
       [0xE2, 0x2020, 0x2018] @ ustr '' 5% from last month'')]"

text \<open>A Recent Quotes entry: id, status badge colour and text, client, date, value.\<close>

definition recent_quote_view :: "recent_quote \<Rightarrow> string \<times> string \<times> string \<times> string \<times> string \<times> string" where
  "recent_quote_view q =
     (rq_id q, dashboard_getStatusColor (rq_status q), rq_status q, rq_client q, rq_date q,
      ''$'' @ toLocaleString_nat (rq_value q))"

text \<open>This Month's Performance: quotes created, average value, \<open>Math.round(quotesThisMonth
  * conversionRate / 100)\<close> quotes accepted, revenue.\<close>

definition quotesAccepted :: "company_metrics \<Rightarrow> int" where
  "quotesAccepted m = js_round (of_nat (quotesThisMonth m * conversionRate m) / 100)"

definition company_performance :: "company_metrics \<Rightarrow> (string \<times> string) list" where
  "company_performance m =
     [(string_of_nat (quotesThisMonth m), ''Quotes Created''),
      (''$'' @ toLocaleString_nat (avgQuoteValue m), ''Avg Quote Value''),
      (string_of_int (quotesAccepted m), ''Quotes Accepted''),
      (''$'' @ toLocaleString_nat (revenueThisMonth m), ''Revenue Generated'')]"

section \<open>Admin dashboard\<close>

record admin_metrics =
  totalCompanies :: nat
  totalUsers :: nat
  activeTrades :: nat
  monthlyGrowth :: nat

definition admin_dashboard_metrics :: admin_metrics where
  "admin_dashboard_metrics = \<lparr>totalCompanies = 12, totalUsers = 48, activeTrades = 5, monthlyGrowth = 15\<rparr>"

definition admin_metric_cards :: "admin_metrics \<Rightarrow> (string \<times> string \<times> ustring) list" where
  "admin_metric_cards m =
     [(''Total Companies'', string_of_nat (totalCompanies m), ustr ''+2 this month''),
      (''Total Users'', string_of_nat (totalUsers m), ustr ''+8 this month''),
      (''Active Trades'', string_of_nat (activeTrades m), ustr ''Solar, Electrical, Plumbing, HVAC, Roofing''),
      (''Monthly Growth'', string_of_nat (monthlyGrowth m) @ ''%'', 0x2191 # ustr '' 3% from last month'')]"

record activity =
  act_id :: nat
  act_action :: string
  act_company :: string
  act_time :: string

definition admin_recentActivity :: "activity list" where
  "admin_recentActivity =
     [\<lparr>act_id = 1, act_action = ''New company registered'', act_company = ''Acme Electrical'', act_time = ''2 hours ago''\<rparr>,
      \<lparr>act_id = 2, act_action = ''User created'', act_company = ''Solar Pro Solutions'', act_time = ''4 hours ago''\<rparr>,
      \<lparr>act_id = 3, act_action = ''Quote template updated'', act_company = ''System'', act_time = ''1 day ago''\<rparr>,
      \<lparr>act_id = 4, act_action = ''New trade added'', act_company = ''System'', act_time = ''2 days ago''\<rparr>]"

definition admin_system_status :: "string list" where
  "admin_system_status = [''All Systems Operational'', ''Database Performance: Good'', ''API Response Time: 120ms'']"

section \<open>Lemmas\<close>

lemma ustr_inj: "ustr s = ustr t \<longleftrightarrow> s = t"
  by (simp add: ustr_def inj_map_eq_map inj_on_def)

lemma ustr_ascii: "\<forall>c\<in>set (ustr s). c < 256"
  by (simp add: ustr_def)

text \<open>With a conversion rate of at most 100 the Quotes Accepted figure is a count between 0
  and the quotes created this month.\<close>

lemma quotesAccepted_bounds:
  assumes "conversionRate m \<le> 100"
  shows "0 \<le> quotesAccepted m \<and> quotesAccepted m \<le> int (quotesThisMonth m)"
proof -
  let ?x = "of_nat (quotesThisMonth m * conversionRate m) / (100::rat)"
  have "quotesThisMonth m * conversionRate m \<le> quotesThisMonth m * 100"
    using assms by simp
  then have "rat_of_nat (quotesThisMonth m * conversionRate m) \<le> rat_of_nat (quotesThisMonth m * 100)"
    by (simp only: of_nat_le_iff)
  then have "?x \<le> of_nat (quotesThisMonth m)"
    by (simp add: divide_le_eq)
  then have "\<lfloor>?x + 1 / 2\<rfloor> \<le> int (quotesThisMonth m)"
    by (simp add: floor_le_iff)
  moreover have "0 \<le> \<lfloor>?x + 1 / 2\<rfloor>"
    by simp
  ultimately show ?thesis
    by (simp add: quotesAccepted_def js_round_def)
qed

text \<open>The dashboard's badge colours agree with the Quotes page's only on accepted quotes:
  it has no case for calculated or rejected quotes and colours exported ones blue.\<close>

lemma dashboard_status_colour_differs:
  "dashboard_getStatusColor (quote_status_tag s) = getStatusColor s \<longleftrightarrow> s = Q_accepted"
  by (cases s) (simp_all add: dashboard_getStatusColor_def)

lemma recent_quote_pending_not_status:
  "rq_status (hd dashboard_recentQuotes) = ''pending'' \<and> ''pending'' \<notin> range quote_status_tag"
proof -
  have "''pending'' \<noteq> quote_status_tag s" for s
    by (cases s) simp_all
  then show ?thesis
    by (auto simp: dashboard_recentQuotes_def)
qed

text \<open>The constant metrics agree neither with each other nor with the lists of the pages.\<close>

lemma company_metrics_inconsistent:
  "rat_of_nat (avgQuoteValue dashboard_metrics) \<noteq> of_nat (totalRevenue dashboard_metrics) / of_nat (totalQuotes dashboard_metrics) \<and>
   avgQuoteValue dashboard_metrics \<noteq> revenueThisMonth dashboard_metrics div quotesThisMonth dashboard_metrics"
  by (simp add: dashboard_metrics_def)

lemma admin_metrics_not_counts:
  "totalCompanies admin_dashboard_metrics \<noteq> length company_page_companies \<and>
   totalUsers admin_dashboard_metrics \<noteq> length admin_mock_users \<and>
   activeTrades admin_dashboard_metrics \<noteq> length (filter trade_is_active trade_page_trades)"
  by (simp add: admin_dashboard_metrics_def company_page_companies_def admin_mock_users_def trade_page_trades_def)

text \<open>The two "from last month" notes: the admin card starts with U+2191, the company card
  with the three code points of its UTF-8 bytes read as Windows-1252.\<close>

lemma conversion_note_mojibake:
  "take 3 (snd (snd (company_metric_cards m ! 2))) = [0xE2, 0x2020, 0x2018] \<and>
   hd (snd (snd (admin_metric_cards a ! 3))) = 0x2191"
  by (simp add: company_metric_cards_def admin_metric_cards_def)

end
