(* ===== verification/Page_Tabs.thy ===== *)
theory Page_Tabs
  imports Pages_Rows Pages_Platform
begin

text \<open>
  The Radix tabs of the Quotes, Products and services, Company management, Trade
  management and Platform settings pages. A tabbed page is the page's state with the
  active tab (\<open>Tabs defaultValue\<close>, uncontrolled); a click on another trigger switches the
  tab unless a modal dialog is open, and the content of the tab left is unmounted. An
  event of the page reaches its handler only while the control that sends it is rendered:
  outside the tabs, or in the active tab. State kept in the page component survives a
  switch; the DOM values of uncontrolled inputs in the unmounted content do not, which
  \<open>unmount\<close> writes out per page.
\<close>

section \<open>A page with tabs\<close>

record ('t, 's) tabbed =
  tb_tab :: 't
  tb_page :: 's

datatype ('t, 'e) tab_event = Tab_click 't | Page_event 'e

definition tab_step ::
  "('e \<Rightarrow> 't \<Rightarrow> bool) \<Rightarrow> ('s \<Rightarrow> bool) \<Rightarrow> ('t \<Rightarrow> 's \<Rightarrow> 's) \<Rightarrow> ('e \<Rightarrow> 's \<Rightarrow> 's) \<Rightarrow>
   ('t, 'e) tab_event \<Rightarrow> ('t, 's) tabbed \<Rightarrow> ('t, 's) tabbed" where
  "tab_step on_tab modal unmount step ev st =
     (case ev of
        Tab_click t \<Rightarrow>
          if modal (tb_page st) \<or> t = tb_tab st then st
          else \<lparr>tb_tab = t, tb_page = unmount (tb_tab st) (tb_page st)\<rparr>
      | Page_event e \<Rightarrow> if on_tab e (tb_tab st) then st\<lparr>tb_page := step e (tb_page st)\<rparr> else st)"

definition tab_run ::
  "('e \<Rightarrow> 't \<Rightarrow> bool) \<Rightarrow> ('s \<Rightarrow> bool) \<Rightarrow> ('t \<Rightarrow> 's \<Rightarrow> 's) \<Rightarrow> ('e \<Rightarrow> 's \<Rightarrow> 's) \<Rightarrow>
   ('t, 'e) tab_event list \<Rightarrow> ('t, 's) tabbed \<Rightarrow> ('t, 's) tabbed" where
  "tab_run on_tab modal unmount step es st = foldl (\<lambda>st e. tab_step on_tab modal unmount step e st) st es"

text \<open>The page events a session delivers, in order, when the page keeps all its state
  (nothing is lost on unmount).\<close>

fun delivered ::
  "('e \<Rightarrow> 't \<Rightarrow> bool) \<Rightarrow> ('s \<Rightarrow> bool) \<Rightarrow> ('e \<Rightarrow> 's \<Rightarrow> 's) \<Rightarrow> 't \<Rightarrow> 's \<Rightarrow> ('t, 'e) tab_event list \<Rightarrow> 'e list" where
  "delivered on_tab modal step t s [] = []"
| "delivered on_tab modal step t s (Tab_click t' # es) =
     delivered on_tab modal step (if modal s then t else t') s es"
| "delivered on_tab modal step t s (Page_event e # es) =
     (if on_tab e t then e # delivered on_tab modal step t (step e s) es else delivered on_tab modal step t s es)"

section \<open>Quotes\<close>

datatype quotes_tab = QT_all | QT_draft | QT_calculated | QT_exported | QT_accepted

text \<open>The search, the filters, the rows' buttons and "Clear Filters" are in the All Quotes
  tab; the create dialog is in the header.\<close>

fun quotes_on_tab :: "quotes_event \<Rightarrow> quotes_tab \<Rightarrow> bool" where
  "quotes_on_tab (Q_create_dialog b) t = True"
| "quotes_on_tab Q_create_cancel t = True"
| "quotes_on_tab Q_start_quote t = True"
| "quotes_on_tab e t = (t = QT_all)"

definition quotes_tab_step :: "(quotes_tab, quotes_event) tab_event \<Rightarrow> (quotes_tab, quotes_page) tabbed \<Rightarrow> (quotes_tab, quotes_page) tabbed" where
  "quotes_tab_step = tab_step quotes_on_tab qp_isCreateQuoteOpen (\<lambda>t s. s) quotes_step"

datatype quotes_panel = Quote_rows "quote_row list" | Placeholder string string string

text \<open>Only All Quotes lists quotes; the four status tabs render a fixed card.\<close>

fun quotes_tab_view :: "quotes_tab \<Rightarrow> quotes_page \<Rightarrow> quotes_panel" where
  "quotes_tab_view QT_all s = Quote_rows (quotes_table s)"
| "quotes_tab_view QT_draft s =
     Placeholder ''Draft Quotes'' ''Quotes that are still being worked on'' ''Draft quotes will be shown here...''"
| "quotes_tab_view QT_calculated s =
     Placeholder ''Calculated Quotes'' ''Quotes ready to be sent to clients'' ''Calculated quotes will be shown here...''"
| "quotes_tab_view QT_exported s =
     Placeholder ''Sent Quotes'' ''Quotes that have been sent to clients'' ''Exported quotes will be shown here...''"
| "quotes_tab_view QT_accepted s =
     Placeholder ''Accepted Quotes'' ''Quotes that have been accepted by clients'' ''Accepted quotes will be shown here...''"

section \<open>Products and services, company management, trade management\<close>

datatype products_tab = PT_products | PT_margins

fun products_on_tab :: "products_event \<Rightarrow> products_tab \<Rightarrow> bool" where
  "products_on_tab (P_search x) t = (t = PT_products)"
| "products_on_tab (P_category_filter x) t = (t = PT_products)"
| "products_on_tab (P_type_filter x) t = (t = PT_products)"
| "products_on_tab P_clear_filters t = (t = PT_products)"
| "products_on_tab (P_margin_dialog b) t = (t = PT_margins)"
| "products_on_tab (P_margin_input c m) t = (t = PT_margins)"
| "products_on_tab P_margin_cancel t = (t = PT_margins)"
| "products_on_tab P_margin_save t = (t = PT_margins)"
| "products_on_tab e t = True"

definition products_tab_step :: "(products_tab, products_event) tab_event \<Rightarrow> (products_tab, products_page) tabbed \<Rightarrow> (products_tab, products_page) tabbed" where
  "products_tab_step = tab_step products_on_tab (\<lambda>s. pp_isAddProductOpen s \<or> pp_isEditMarginOpen s) (\<lambda>t s. s) products_step"

datatype companies_tab = CT_companies | CT_users

fun companies_on_tab :: "companies_event \<Rightarrow> companies_tab \<Rightarrow> bool" where
  "companies_on_tab (Cm_search x) t = (t = CT_companies)"
| "companies_on_tab (Cm_status_filter x) t = (t = CT_companies)"
| "companies_on_tab (Cm_assign_click i) t = (t = CT_companies)"
| "companies_on_tab e t = True"

definition companies_tab_step :: "(companies_tab, companies_event) tab_event \<Rightarrow> (companies_tab, companies_page) tabbed \<Rightarrow> (companies_tab, companies_page) tabbed" where
  "companies_tab_step = tab_step companies_on_tab (\<lambda>s. cmp_isAddCompanyOpen s \<or> cmp_isAssignUserOpen s) (\<lambda>t s. s) companies_step"

datatype trades_tab = TT_trades | TT_fields | TT_templates

text \<open>Each tab renders its own search input bound to the one \<open>searchTerm\<close>; the Select
  Trade selects are in the fields and templates tabs; the add dialogs are in their tabs;
  the flow builder dialog is outside the tabs.\<close>

fun trades_on_tab :: "trades_event \<Rightarrow> trades_tab \<Rightarrow> bool" where
  "trades_on_tab (Tm_search x) t = True"
| "trades_on_tab (Tm_select_trade x) t = (t \<noteq> TT_trades)"
| "trades_on_tab (Tm_add_trade_dialog b) t = (t = TT_trades)"
| "trades_on_tab Tm_add_trade_cancel t = (t = TT_trades)"
| "trades_on_tab Tm_add_trade_confirm t = (t = TT_trades)"
| "trades_on_tab (Tm_add_field_dialog b) t = (t = TT_fields)"
| "trades_on_tab Tm_add_field_cancel t = (t = TT_fields)"
| "trades_on_tab Tm_add_field_confirm t = (t = TT_fields)"
| "trades_on_tab (Tm_edit_flow i) t = (t = TT_templates)"
| "trades_on_tab Tm_flow_dismiss t = True"
| "trades_on_tab Tm_flow_close t = True"

definition trades_tab_step :: "(trades_tab, trades_event) tab_event \<Rightarrow> (trades_tab, trades_page) tabbed \<Rightarrow> (trades_tab, trades_page) tabbed" where
  "trades_tab_step = tab_step trades_on_tab (\<lambda>s. tp_isAddTradeOpen s \<or> tp_isAddFieldOpen s \<or> tp_isFlowBuilderOpen s) (\<lambda>t s. s) trades_step"

section \<open>Platform settings\<close>

datatype platform_tab = PL_general | PL_security | PL_integrations | PL_notifications | PL_monitoring

definition platform_tabs :: "platform_tab list" where
  "platform_tabs = [PL_general, PL_security, PL_integrations, PL_notifications, PL_monitoring]"

text \<open>The inputs, switches and selects each tab renders, with their defaults.\<close>

fun tab_controls :: "platform_tab \<Rightarrow> platform_controls" where
  "tab_controls PL_general = platform_general_controls"
| "tab_controls PL_security = platform_security_controls"
| "tab_controls PL_integrations = platform_integrations_controls"
| "tab_controls t = \<lparr>pc_inputs = [], pc_switches = [], pc_selects = []\<rparr>"

text \<open>Remounting gives each uncontrolled control of the tab its \<open>defaultValue\<close> or
  \<open>defaultChecked\<close> again.\<close>

definition reset_al :: "('k \<times> 'v) list \<Rightarrow> ('k \<times> 'v) list \<Rightarrow> ('k \<times> 'v) list" where
  "reset_al D al = map (\<lambda>(k, v). (k, case map_of D k of Some d \<Rightarrow> d | None \<Rightarrow> v)) al"

definition reset_controls :: "platform_controls \<Rightarrow> platform_controls \<Rightarrow> platform_controls" where
  "reset_controls D c =
     \<lparr>pc_inputs = reset_al (pc_inputs D) (pc_inputs c), pc_switches = reset_al (pc_switches D) (pc_switches c),
      pc_selects = reset_al (pc_selects D) (pc_selects c)\<rparr>"

definition platform_unmount :: "platform_tab \<Rightarrow> platform_page \<Rightarrow> platform_page" where
  "platform_unmount t s =
     s\<lparr>ps_controls := reset_controls (tab_controls t) (ps_controls s),
       ps_notifications := (if t = PL_notifications then platform_user_events @ platform_system_events
                            else ps_notifications s)\<rparr>"

text \<open>A control's event comes from the tab that renders it; Save Settings is in the General
  tab; the save timer runs whatever the tab.\<close>

fun platform_on_tab :: "platform_event \<Rightarrow> platform_tab \<Rightarrow> bool" where
  "platform_on_tab (Pl_input k v) t = (k \<in> set (map fst (pc_inputs (tab_controls t))))"
| "platform_on_tab (Pl_switch k b) t = (k \<in> set (map fst (pc_switches (tab_controls t))))"
| "platform_on_tab (Pl_select k v) t = (k \<in> set (map fst (pc_selects (tab_controls t))))"
| "platform_on_tab (Pl_notify_email l b) t = (t = PL_notifications)"
| "platform_on_tab (Pl_notify_push l b) t = (t = PL_notifications)"
| "platform_on_tab Pl_save_click t = (t = PL_general)"
| "platform_on_tab Pl_save_timer t = True"

definition platform_tab_run :: "(platform_tab, platform_event) tab_event list \<Rightarrow> (platform_tab, platform_page) tabbed \<Rightarrow> (platform_tab, platform_page) tabbed" where
  "platform_tab_run = tab_run platform_on_tab (\<lambda>s. False) platform_unmount platform_step"

definition platform_tabs_init :: "(platform_tab, platform_page) tabbed" where
  "platform_tabs_init = \<lparr>tb_tab = PL_general, tb_page = platform_page_init\<rparr>"

text \<open>What a tab shows: the values of its controls, and the notification rows.\<close>

definition tab_values :: "platform_tab \<Rightarrow> platform_page \<Rightarrow> string option list \<times> bool option list \<times> string option list \<times> notification_pref list" where
  "tab_values t s =
     (map (map_of (pc_inputs (ps_controls s))) (map fst (pc_inputs (tab_controls t))),
      map (map_of (pc_switches (ps_controls s))) (map fst (pc_switches (tab_controls t))),
      map (map_of (pc_selects (ps_controls s))) (map fst (pc_selects (tab_controls t))),
      if t = PL_notifications then ps_notifications s else [])"

definition controls_keys_ok :: "platform_page \<Rightarrow> bool" where
  "controls_keys_ok s =
     (map fst (pc_inputs (ps_controls s)) = map fst (pc_inputs (ps_controls platform_page_init)) \<and>
      map fst (pc_switches (ps_controls s)) = map fst (pc_switches (ps_controls platform_page_init)) \<and>
      map fst (pc_selects (ps_controls s)) = map fst (pc_selects (ps_controls platform_page_init)))"

definition inactive_tabs_default :: "(platform_tab, platform_page) tabbed \<Rightarrow> bool" where
  "inactive_tabs_default st =
     list_all (\<lambda>t. t = tb_tab st \<or> tab_values t (tb_page st) = tab_values t platform_page_init) platform_tabs"

section \<open>Lemmas on tabbed pages\<close>
lemma tab_run_Nil [simp]: "tab_run on_tab modal unmount step [] st = st"
  by (simp add: tab_run_def)

lemma tab_run_Cons [simp]:
  "tab_run on_tab modal unmount step (e # es) st = tab_run on_tab modal unmount step es (tab_step on_tab modal unmount step e st)"
  by (simp add: tab_run_def)

lemma tab_run_append:
  "tab_run on_tab modal unmount step (es @ fs) st = tab_run on_tab modal unmount step fs (tab_run on_tab modal unmount step es st)"
  by (simp add: tab_run_def)

text \<open>An invariant of the page's handlers that unmounting keeps holds in every session.\<close>

lemma tab_run_invariant:
  assumes "\<And>e s. P s \<Longrightarrow> P (step e s)" "\<And>t s. P s \<Longrightarrow> P (unmount t s)" "P (tb_page st)"
  shows "P (tb_page (tab_run on_tab modal unmount step es st))"
  using assms(3)
proof (induction es arbitrary: st)
  case (Cons e es)
  have "P (tb_page (tab_step on_tab modal unmount step e st))"
    using Cons.prems assms(1,2) by (simp add: tab_step_def split: tab_event.split)
  then show ?case using Cons.IH by simp
qed simp

text \<open>When the page keeps all its state, a session through the tabs is the page's own run
  on the events the visible controls deliver.\<close>

lemma tab_run_delivered:
  "tb_page (tab_run on_tab modal (\<lambda>t s. s) step es st) =
   foldl (\<lambda>s e. step e s) (tb_page st) (delivered on_tab modal step (tb_tab st) (tb_page st) es)"
proof (induction es arbitrary: st)
  case (Cons e es)
  then show ?case
    by (cases e) (simp_all add: tab_step_def)
qed simp


section \<open>Lemmas on the platform tabs\<close>

lemma platform_tabs_all: "list_all P platform_tabs \<longleftrightarrow> (\<forall>t. P t)"
proof
  assume "list_all P platform_tabs"
  then show "\<forall>t. P t"
    by (simp add: platform_tabs_def) (metis platform_tab.exhaust)
qed (simp add: platform_tabs_def)

lemma map_of_concat_distinct:
  "distinct (concat (map (\<lambda>t. map fst (f t)) ts)) \<Longrightarrow> t \<in> set ts \<Longrightarrow> k \<in> set (map fst (f t)) \<Longrightarrow>
   map_of (concat (map f ts)) k = map_of (f t) k"
proof (induction ts)
  case (Cons u ts)
  show ?case
  proof (cases "u = t")
    case True
    with Cons.prems have "map_of (f u) k \<noteq> None" by (simp add: map_of_eq_None_iff)
    with True show ?thesis by (auto simp: map_of_append map_add_def split: option.split)
  next
    case False
    with Cons.prems have "k \<notin> set (map fst (f u))" by auto
    then have "map_of (f u) k = None" by (simp add: map_of_eq_None_iff)
    with Cons False show ?thesis by (simp add: map_of_append map_add_def)
  qed
qed simp

lemma concat_distinct_disjoint:
  "distinct (concat (map g ts)) \<Longrightarrow> distinct ts \<Longrightarrow> t \<in> set ts \<Longrightarrow> t' \<in> set ts \<Longrightarrow> t \<noteq> t' \<Longrightarrow>
   set (g t) \<inter> set (g t') = {}"
  by (induction ts) auto

lemma platform_tabs_set [simp]: "t \<in> set platform_tabs"
  by (cases t) (simp_all add: platform_tabs_def)

lemma distinct_platform_tabs: "distinct platform_tabs"
  by (simp add: platform_tabs_def)

lemma platform_init_controls:
  "pc_inputs (ps_controls platform_page_init) = concat (map (\<lambda>t. pc_inputs (tab_controls t)) platform_tabs) \<and>
   pc_switches (ps_controls platform_page_init) = concat (map (\<lambda>t. pc_switches (tab_controls t)) platform_tabs) \<and>
   pc_selects (ps_controls platform_page_init) = concat (map (\<lambda>t. pc_selects (tab_controls t)) platform_tabs)"
  by (simp add: platform_page_init_def join_controls_def platform_tabs_def)

lemma platform_tab_keys_distinct:
  "distinct (concat (map (\<lambda>t. map fst (pc_inputs (tab_controls t))) platform_tabs)) \<and>
   distinct (concat (map (\<lambda>t. map fst (pc_switches (tab_controls t))) platform_tabs)) \<and>
   distinct (concat (map (\<lambda>t. map fst (pc_selects (tab_controls t))) platform_tabs))"
  by (simp add: platform_tabs_def platform_general_controls_def platform_security_controls_def
      platform_integrations_controls_def)


lemma map_of_reset_al:
  "map_of (reset_al D al) k = map_option (\<lambda>v. case map_of D k of Some d \<Rightarrow> d | None \<Rightarrow> v) (map_of al k)"
  by (induction al) (auto simp: reset_al_def split: option.split)

lemma map_fst_reset_al [simp]: "map fst (reset_al D al) = map fst al"
  by (induction al) (auto simp: reset_al_def)

lemma map_of_set_control:
  "map_of (set_control k v al) k' = (if k' = k \<and> k \<in> set (map fst al) then Some v else map_of al k')"
  by (auto simp: set_control_def update_conv')

lemma reset_al_own:
  "set (map fst D) \<subseteq> set (map fst al) \<Longrightarrow> map (map_of (reset_al D al)) (map fst D) = map (map_of D) (map fst D)"
proof (rule map_cong [OF refl])
  fix k assume sub: "set (map fst D) \<subseteq> set (map fst al)" and k: "k \<in> set (map fst D)"
  then obtain v where "map_of al k = Some v" by (metis map_of_eq_None_iff not_None_eq set_map subsetD)
  moreover obtain d where "map_of D k = Some d" using k by (metis map_of_eq_None_iff not_None_eq set_map)
  ultimately show "map_of (reset_al D al) k = map_of D k" by (simp add: map_of_reset_al)
qed

lemma reset_al_other:
  "set K \<inter> set (map fst D) = {} \<Longrightarrow> map (map_of (reset_al D al)) K = map (map_of al) K"
proof (rule map_cong [OF refl])
  fix k assume "set K \<inter> set (map fst D) = {}" "k \<in> set K"
  then have "map_of D k = None" by (auto simp: map_of_eq_None_iff)
  then show "map_of (reset_al D al) k = map_of al k" by (simp add: map_of_reset_al option.map_ident)
qed

lemma set_control_other: "k \<notin> set K \<Longrightarrow> map (map_of (set_control k v al)) K = map (map_of al) K"
  by (auto simp: map_of_set_control)

lemma tab_keys_in_init:
  "set (map fst (pc_inputs (tab_controls t))) \<subseteq> set (map fst (pc_inputs (ps_controls platform_page_init))) \<and>
   set (map fst (pc_switches (tab_controls t))) \<subseteq> set (map fst (pc_switches (ps_controls platform_page_init))) \<and>
   set (map fst (pc_selects (tab_controls t))) \<subseteq> set (map fst (pc_selects (ps_controls platform_page_init)))"
  using platform_tabs_set [of t] by (fastforce simp: platform_init_controls)

lemma tab_init_values:
  "map (map_of (pc_inputs (ps_controls platform_page_init))) (map fst (pc_inputs (tab_controls t))) =
     map (map_of (pc_inputs (tab_controls t))) (map fst (pc_inputs (tab_controls t))) \<and>
   map (map_of (pc_switches (ps_controls platform_page_init))) (map fst (pc_switches (tab_controls t))) =
     map (map_of (pc_switches (tab_controls t))) (map fst (pc_switches (tab_controls t))) \<and>
   map (map_of (pc_selects (ps_controls platform_page_init))) (map fst (pc_selects (tab_controls t))) =
     map (map_of (pc_selects (tab_controls t))) (map fst (pc_selects (tab_controls t)))"
  using platform_tab_keys_distinct
    map_of_concat_distinct [of "\<lambda>t. pc_inputs (tab_controls t)" platform_tabs t]
    map_of_concat_distinct [of "\<lambda>t. pc_switches (tab_controls t)" platform_tabs t]
    map_of_concat_distinct [of "\<lambda>t. pc_selects (tab_controls t)" platform_tabs t]
  by (simp add: platform_init_controls)

lemma tab_keys_disjoint:
  "t \<noteq> t' \<Longrightarrow>
   set (map fst (pc_inputs (tab_controls t))) \<inter> set (map fst (pc_inputs (tab_controls t'))) = {} \<and>
   set (map fst (pc_switches (tab_controls t))) \<inter> set (map fst (pc_switches (tab_controls t'))) = {} \<and>
   set (map fst (pc_selects (tab_controls t))) \<inter> set (map fst (pc_selects (tab_controls t'))) = {}"
  using platform_tab_keys_distinct distinct_platform_tabs
    concat_distinct_disjoint [of "\<lambda>t. map fst (pc_inputs (tab_controls t))" platform_tabs t t']
    concat_distinct_disjoint [of "\<lambda>t. map fst (pc_switches (tab_controls t))" platform_tabs t t']
    concat_distinct_disjoint [of "\<lambda>t. map fst (pc_selects (tab_controls t))" platform_tabs t t']
  by simp


lemma ps_notifications_init: "ps_notifications platform_page_init = platform_user_events @ platform_system_events"
  by (simp add: platform_page_init_def)

lemma controls_keys_ok_unmount: "controls_keys_ok s \<Longrightarrow> controls_keys_ok (platform_unmount t s)"
  by (simp add: controls_keys_ok_def platform_unmount_def reset_controls_def)

lemma controls_keys_ok_step: "controls_keys_ok s \<Longrightarrow> controls_keys_ok (platform_step e s)"
  by (cases e) (simp_all add: controls_keys_ok_def handleSaveSettings_start_def handleSaveSettings_resume_def)

text \<open>Remounting a tab shows its defaults; unmounting another tab does not touch it.\<close>

lemma platform_unmount_sel [simp]:
  "ps_controls (platform_unmount t s) = reset_controls (tab_controls t) (ps_controls s)"
  "ps_notifications (platform_unmount t s) =
     (if t = PL_notifications then platform_user_events @ platform_system_events else ps_notifications s)"
  "ps_isLoading (platform_unmount t s) = ps_isLoading s"
  by (simp_all add: platform_unmount_def)

lemma reset_controls_sel [simp]:
  "pc_inputs (reset_controls D c) = reset_al (pc_inputs D) (pc_inputs c)"
  "pc_switches (reset_controls D c) = reset_al (pc_switches D) (pc_switches c)"
  "pc_selects (reset_controls D c) = reset_al (pc_selects D) (pc_selects c)"
  by (simp_all add: reset_controls_def)

lemma tab_values_unmount_own:
  assumes "controls_keys_ok s"
  shows "tab_values t (platform_unmount t s) = tab_values t platform_page_init"
proof -
  have sub: "set (map fst (pc_inputs (tab_controls t))) \<subseteq> set (map fst (pc_inputs (ps_controls s)))"
    "set (map fst (pc_switches (tab_controls t))) \<subseteq> set (map fst (pc_switches (ps_controls s)))"
    "set (map fst (pc_selects (tab_controls t))) \<subseteq> set (map fst (pc_selects (ps_controls s)))"
    using assms tab_keys_in_init [of t] unfolding controls_keys_ok_def by metis+
  have i: "map (map_of (reset_al (pc_inputs (tab_controls t)) (pc_inputs (ps_controls s)))) (map fst (pc_inputs (tab_controls t))) =
           map (map_of (pc_inputs (ps_controls platform_page_init))) (map fst (pc_inputs (tab_controls t)))"
    using reset_al_own [OF sub(1)] tab_init_values [of t] by simp
  have w: "map (map_of (reset_al (pc_switches (tab_controls t)) (pc_switches (ps_controls s)))) (map fst (pc_switches (tab_controls t))) =
           map (map_of (pc_switches (ps_controls platform_page_init))) (map fst (pc_switches (tab_controls t)))"
    using reset_al_own [OF sub(2)] tab_init_values [of t] by simp
  have l: "map (map_of (reset_al (pc_selects (tab_controls t)) (pc_selects (ps_controls s)))) (map fst (pc_selects (tab_controls t))) =
           map (map_of (pc_selects (ps_controls platform_page_init))) (map fst (pc_selects (tab_controls t)))"
    using reset_al_own [OF sub(3)] tab_init_values [of t] by simp
  have "tab_values t (platform_unmount t s) =
        (map (map_of (reset_al (pc_inputs (tab_controls t)) (pc_inputs (ps_controls s)))) (map fst (pc_inputs (tab_controls t))),
         map (map_of (reset_al (pc_switches (tab_controls t)) (pc_switches (ps_controls s)))) (map fst (pc_switches (tab_controls t))),
         map (map_of (reset_al (pc_selects (tab_controls t)) (pc_selects (ps_controls s)))) (map fst (pc_selects (tab_controls t))),
         if t = PL_notifications then platform_user_events @ platform_system_events else [])"
    by (simp add: tab_values_def)
  also have "\<dots> = tab_values t platform_page_init"
    by (simp only: tab_values_def i w l ps_notifications_init)
  finally show ?thesis .
qed

lemma tab_values_unmount_other:
  assumes "t \<noteq> t'"
  shows "tab_values t (platform_unmount t' s) = tab_values t s"
proof -
  note d = tab_keys_disjoint [OF assms]
  have i: "map (map_of (reset_al (pc_inputs (tab_controls t')) (pc_inputs (ps_controls s)))) (map fst (pc_inputs (tab_controls t))) =
           map (map_of (pc_inputs (ps_controls s))) (map fst (pc_inputs (tab_controls t)))"
    using d by (intro reset_al_other) blast
  have w: "map (map_of (reset_al (pc_switches (tab_controls t')) (pc_switches (ps_controls s)))) (map fst (pc_switches (tab_controls t))) =
           map (map_of (pc_switches (ps_controls s))) (map fst (pc_switches (tab_controls t)))"
    using d by (intro reset_al_other) blast
  have l: "map (map_of (reset_al (pc_selects (tab_controls t')) (pc_selects (ps_controls s)))) (map fst (pc_selects (tab_controls t))) =
           map (map_of (pc_selects (ps_controls s))) (map fst (pc_selects (tab_controls t)))"
    using d by (intro reset_al_other) blast
  have "tab_values t (platform_unmount t' s) =
        (map (map_of (reset_al (pc_inputs (tab_controls t')) (pc_inputs (ps_controls s)))) (map fst (pc_inputs (tab_controls t))),
         map (map_of (reset_al (pc_switches (tab_controls t')) (pc_switches (ps_controls s)))) (map fst (pc_switches (tab_controls t))),
         map (map_of (reset_al (pc_selects (tab_controls t')) (pc_selects (ps_controls s)))) (map fst (pc_selects (tab_controls t))),
         if t = PL_notifications then ps_notifications s else [])"
    using assms by (cases "t' = PL_notifications") (simp_all add: tab_values_def)
  also have "\<dots> = tab_values t s"
    by (simp only: tab_values_def i w l)
  finally show ?thesis .
qed

lemma tab_values_step_other:
  assumes "platform_on_tab e c" "t \<noteq> c"
  shows "tab_values t (platform_step e s) = tab_values t s"
proof (cases e)
  case (Pl_input k v)
  with assms tab_keys_disjoint [of t c] have "k \<notin> set (map fst (pc_inputs (tab_controls t)))" by auto
  with Pl_input show ?thesis by (force simp: tab_values_def map_of_set_control)
next
  case (Pl_switch k b)
  with assms tab_keys_disjoint [of t c] have "k \<notin> set (map fst (pc_switches (tab_controls t)))" by auto
  with Pl_switch show ?thesis by (force simp: tab_values_def map_of_set_control)
next
  case (Pl_select k v)
  with assms tab_keys_disjoint [of t c] have "k \<notin> set (map fst (pc_selects (tab_controls t)))" by auto
  with Pl_select show ?thesis by (force simp: tab_values_def map_of_set_control)
qed (use assms in \<open>auto simp: tab_values_def handleSaveSettings_start_def handleSaveSettings_resume_def\<close>)


lemma inactive_tabs_default_iff:
  "inactive_tabs_default st \<longleftrightarrow> (\<forall>t. t \<noteq> tb_tab st \<longrightarrow> tab_values t (tb_page st) = tab_values t platform_page_init)"
  by (auto simp: inactive_tabs_default_def platform_tabs_all)

lemma platform_tab_step_inv:
  assumes "inactive_tabs_default st" "controls_keys_ok (tb_page st)"
  shows "inactive_tabs_default (tab_step platform_on_tab (\<lambda>s. False) platform_unmount platform_step e st) \<and>
         controls_keys_ok (tb_page (tab_step platform_on_tab (\<lambda>s. False) platform_unmount platform_step e st))"
proof (cases e)
  case (Tab_click t')
  have "tab_values t (platform_unmount (tb_tab st) (tb_page st)) = tab_values t platform_page_init"
    if "t \<noteq> t'" for t
  proof (cases "t = tb_tab st")
    case True
    then show ?thesis using assms(2) by (simp add: tab_values_unmount_own)
  next
    case False
    then show ?thesis using assms(1) by (simp add: tab_values_unmount_other inactive_tabs_default_iff)
  qed
  with Tab_click assms show ?thesis
    by (simp add: tab_step_def inactive_tabs_default_iff controls_keys_ok_unmount)
next
  case (Page_event e')
  have "tab_values t (platform_step e' (tb_page st)) = tab_values t platform_page_init"
    if "platform_on_tab e' (tb_tab st)" "t \<noteq> tb_tab st" for t
    using that assms(1) by (simp add: tab_values_step_other inactive_tabs_default_iff)
  with Page_event assms show ?thesis
    by (simp add: tab_step_def inactive_tabs_default_iff controls_keys_ok_step)
qed

lemma platform_tab_run_inv:
  "inactive_tabs_default st \<Longrightarrow> controls_keys_ok (tb_page st) \<Longrightarrow>
   inactive_tabs_default (platform_tab_run es st) \<and> controls_keys_ok (tb_page (platform_tab_run es st))"
proof (induction es arbitrary: st)
  case (Cons e es)
  then show ?case using platform_tab_step_inv [OF Cons.prems] by (simp add: platform_tab_run_def)
qed (simp add: platform_tab_run_def)

lemma platform_tabs_init_inv:
  "inactive_tabs_default platform_tabs_init \<and> controls_keys_ok (tb_page platform_tabs_init)"
  by (simp add: inactive_tabs_default_iff controls_keys_ok_def platform_tabs_init_def)

lemma typed_app_name_lost:
  "map_of (pc_inputs (ps_controls (tb_page (platform_tab_run [Page_event (Pl_input ''app-name'' ''My Hub'')] platform_tabs_init))))
     ''app-name'' = Some ''My Hub'' \<and>
   map_of (pc_inputs (ps_controls (tb_page (platform_tab_run
     [Page_event (Pl_input ''app-name'' ''My Hub''), Tab_click PL_security, Tab_click PL_general] platform_tabs_init))))
     ''app-name'' = Some ''Quote Generation Hub''"
  by (simp add: platform_tab_run_def tab_run_def tab_step_def platform_tabs_init_def platform_page_init_def join_controls_def platform_general_controls_def platform_security_controls_def platform_integrations_controls_def platform_unmount_def reset_controls_def
      map_of_set_control map_of_reset_al)

section \<open>Quotes, companies, trades\<close>

lemma quotes_tabs_nav_ok:
  "quotes_nav_ok (tb_page st) \<Longrightarrow>
   quotes_nav_ok (tb_page (tab_run quotes_on_tab qp_isCreateQuoteOpen (\<lambda>t s. s) quotes_step es st))"
  by (rule tab_run_invariant) (simp_all add: quotes_step_nav_ok)

lemma companies_tabs_assign_ok:
  "assign_ok (tb_page st) \<Longrightarrow>
   assign_ok (tb_page (tab_run companies_on_tab (\<lambda>s. cmp_isAddCompanyOpen s \<or> cmp_isAssignUserOpen s) (\<lambda>t s. s) companies_step es st))"
  by (rule tab_run_invariant) (simp_all add: companies_step_assign_ok)

lemma trades_tabs_flow_ok:
  "flow_ok (tb_page st) \<Longrightarrow>
   flow_ok (tb_page (tab_run trades_on_tab (\<lambda>s. tp_isAddTradeOpen s \<or> tp_isAddFieldOpen s \<or> tp_isFlowBuilderOpen s) (\<lambda>t s. s) trades_step es st))"
  by (rule tab_run_invariant) (simp_all add: trades_step_flow_ok)

text \<open>The status tabs list no quote, and the row buttons and filters of All Quotes do
  nothing while another tab is shown; switching tabs keeps the filters.\<close>

lemma quotes_status_tabs_placeholder: "t \<noteq> QT_all \<Longrightarrow> quotes_tab_view t s \<noteq> Quote_rows rs"
  by (cases t) simp_all

lemma quotes_tab_row_events_inert:
  "tb_tab st \<noteq> QT_all \<Longrightarrow> e \<notin> {Q_create_cancel, Q_start_quote} \<Longrightarrow> (\<forall>b. e \<noteq> Q_create_dialog b) \<Longrightarrow>
   quotes_tab_step (Page_event e) st = st"
  by (cases e) (auto simp: quotes_tab_step_def tab_step_def)

lemma quotes_tab_switch_keeps_page: "tb_page (quotes_tab_step (Tab_click t) st) = tb_page st"
  by (simp add: quotes_tab_step_def tab_step_def)

section \<open>Properties\<close>

text \<open>
  C40. Every control of the Platform settings page is uncontrolled and Radix unmounts
  the content of the tabs not shown: in every session, each tab other than the active
  one shows exactly its default values, so whatever was typed, switched or chosen in a
  tab is lost when the user moves to another tab, before any save could read it.
\<close>

theorem platform_tabs_discard_edits:
  "t \<noteq> tb_tab (platform_tab_run es platform_tabs_init) \<Longrightarrow>
   tab_values t (tb_page (platform_tab_run es platform_tabs_init)) = tab_values t platform_page_init"
  using platform_tab_run_inv [of platform_tabs_init es] platform_tabs_init_inv
  by (simp add: inactive_tabs_default_iff)

theorem platform_tabs_discard_edits_witness:
  "PL_general \<noteq> tb_tab (platform_tab_run [Page_event (Pl_input ''app-name'' ''My Hub''), Tab_click PL_security] platform_tabs_init) \<and>
   tab_values PL_general (tb_page (platform_tab_run [Page_event (Pl_input ''app-name'' ''My Hub''), Tab_click PL_security] platform_tabs_init)) =
   tab_values PL_general platform_page_init"
proof -
  have "PL_general \<noteq> tb_tab (platform_tab_run [Page_event (Pl_input ''app-name'' ''My Hub''), Tab_click PL_security] platform_tabs_init)"
    by (simp add: platform_tab_run_def tab_run_def tab_step_def platform_tabs_init_def)
  then show ?thesis using platform_tabs_discard_edits by blast
qed

end
