(* ===== verification/Spec2Isabelle.thy ===== *)
theory Spec2Isabelle
  imports Flow_Session Navigation Firestore_Typing Pages_Rows Integrations_Config Pages_Platform Dashboards Page_Tabs
begin

text \<open>
  A verification library for the Quote Generation Hub, a React/TypeScript single-page
  application (sources under \<open>src/src/\<close>). The application has a conversational flow
  builder for administrators, a demo-credential sign-in, role-guarded routing, and a
  Firestore service layer; the pages work on mock data. Each part is modelled as a
  shallow embedding: a React component's state is a record, a handler is a function
  from the state (and the event's data) to the new state, a thrown error is \<open>Inl\<close> of its
  message, \<open>Date.now()\<close> and \<open>serverTimestamp()\<close> are parameters, and the external services
  (Firebase Auth, Firestore, the drag-and-drop library, the browser's \<open>localStorage\<close>)
  are modelled by their documented behaviour.

  \<^bold>\<open>Theories.\<close>
  \<^item> \<open>Prelude\<close>: the JavaScript runtime the sources call (\<open>toLowerCase\<close>, \<open>includes\<close>,
    \<open>padStart\<close>, \<open>String(n)\<close>, \<open>parseInt\<close>, \<open>x || d\<close>, en-US \<open>toLocaleString\<close> of an integer)
    and shared lemmas on lists and strings, with the round trips of decimal printing, of
    \<open>parseInt\<close> and of digit grouping.
  \<^item> \<open>Flow_Model\<close>: the flow data types of \<open>types/index.ts\<close> (\<open>FlowNode\<close>, \<open>FlowAnswer\<close>,
    \<open>FlowAction\<close>, \<open>ConversationalFlow\<close>) and \<open>CanvasNode\<close> of
    \<open>components/admin/ConversationalFlowBuilder.tsx\<close> as a record extension.
  \<^item> \<open>Flow_Builder\<close>: the builder's state (\<open>nodes\<close>, \<open>selectedNode\<close>) and every handler
    of \<open>ConversationalFlowBuilder\<close> and \<open>NodePropertiesPanel\<close>, with the
    \<open>{...node, ...updates}\<close> patches as option records.
  \<^item> \<open>Flow_Canvas\<close>: \<open>FlowCanvas\<close>'s drop handler, the connection arrows it draws and the
    node cards.
  \<^item> \<open>Flow_Session\<close>: the user's gestures as a datatype of events, \<open>builder_step\<close>
    dispatching them to the handlers, and \<open>builder_reach\<close>, the inductive set of states a
    session reaches, parametrised by the order of the millisecond clock between events.
  \<^item> \<open>Auth_Service\<close>: \<open>services/auth.service.ts\<close> (demo login, profiles, register).
  \<^item> \<open>Auth_Context\<close>: \<open>AuthProvider\<close> of \<open>contexts/AuthContext.tsx\<close>: user, loading flag,
    the \<open>demo_user\<close> storage entry and the toasts, with login, register, demo login,
    logout and the mount effect.
  \<^item> \<open>Routing\<close>: the route table of \<open>App.tsx\<close>, \<open>components/auth/ProtectedRoute.tsx\<close>, the
    following of redirects (\<open>resolve\<close>, with fuel), and the handlers of
    \<open>pages/auth/Login.tsx\<close>.
  \<^item> \<open>Firestore\<close>: a model of the document store and every service of
    \<open>services/firestore.service.ts\<close>, with a store invariant and \<open>generateQuoteNumber\<close>
    as read and write steps that callers may interleave.
  \<^item> \<open>Firestore_Typing\<close>: the runtime types of stored values, the \<open>SystemSettings\<close>
    interface as a schema, conformance of a document to it and of update data to
    \<open>Partial<SystemSettings>\<close>, and the writes that keep the unchecked
    \<open>as SystemSettings\<close> cast of \<open>generateQuoteNumber\<close> true.
  \<^item> \<open>Pages_Company\<close>: \<open>pages/company/Clients.tsx\<close>, \<open>Quotes.tsx\<close> and
    \<open>ProductsServices.tsx\<close>: the entity interfaces of \<open>types/index.ts\<close> as records, the
    mock data, the search filters, the statistics cards and the handlers.
  \<^item> \<open>Pages_Admin\<close>: \<open>pages/admin/UserManagement.tsx\<close>, \<open>CompanyManagement.tsx\<close> and
    \<open>TradeManagement.tsx\<close> likewise, with the user page's clicks as events of
    \<open>users_step\<close>.
  \<^item> \<open>Pages_Events\<close>: the controls of the Clients, Quotes, Products, Company and
    Trade management pages (search inputs, filter selects, dialogs and their buttons, row
    buttons) as events of one step function per page, guarded by what the page renders.
  \<^item> \<open>Pages_Settings\<close>: \<open>pages/company/BusinessSettings.tsx\<close> (the two settings forms,
    the save buttons and the preview card), \<open>pages/company/Integrations.tsx\<close> (the
    integration list with its buttons as events of \<open>integrations_step\<close>, and
    \<open>handleSync\<close> split at its \<open>await\<close> with a queue of pending timers).
  \<^item> \<open>Integrations_Config\<close>: the integrations page as a session with its tabs and the
    state of its configuration dialog, which React remounts on every render of the page
    because \<open>IntegrationConfig\<close> is declared inside it.
  \<^item> \<open>Pages_Platform\<close>: \<open>pages/admin/PlatformSettings.tsx\<close>: the defaults of every
    uncontrolled control tab by tab, the user's edits of them, the save handler that reads
    none of them, and the monitoring and status cards.
  \<^item> \<open>Navigation\<close>: \<open>components/layout/AdminLayout.tsx\<close> and \<open>CompanyLayout.tsx\<close> (menus,
    highlighting of the active entry, sign-out), and the links of
    \<open>pages/company/Dashboard.tsx\<close> and \<open>pages/admin/AdminDashboard.tsx\<close> followed
    through the router.
  \<^item> \<open>Pages_Rows\<close>: what each table row of the list pages renders (Clients, Quotes,
    Products, the companies and users tabs of Company Management, the trades, fields and
    template cards of Trade Management, User Management), as a record of its cells with
    the JSX conditionals written out.
  \<^item> \<open>Dashboards\<close>: the two dashboards' constant metrics, metric cards, recent lists and
    performance and status panels.
  \<^item> \<open>Page_Tabs\<close>: the Radix tabs of the Quotes, Products, Company management, Trade
    management and Platform settings pages, as a generic tabbed state (\<open>tab_step\<close>) over
    each page's step function: an event reaches its handler only while its control is
    rendered, a modal dialog blocks tab clicks, and unmounting a tab returns its
    uncontrolled controls to their defaults.

  \<^bold>\<open>What the lemmas show.\<close> In every builder session whose events have strictly
  increasing timestamps, node ids stay distinct, answer ids stay distinct within each
  node, and the selection names an existing node (rule induction on \<open>builder_reach\<close>).
  At equal timestamps two new nodes share an id. Deleting a node leaves dangling links
  and may delete the start node, against the specification. The drawn connections are
  exactly the links that resolve. The context's login refines the service's login, and
  every provider operation clears \<open>loading\<close>. Login and demo login survive a reload;
  a register with a company id signs the account in but does not survive a reload, and
  a register without one throws at the \<open>setDoc\<close> of the profile, whose
  \<open>company_id\<close> is \<open>undefined\<close>. A sign-in through the login form lands on the home
  page of the user's role, although its target is chosen from the previous render. Guarded pages are shown only to their role, and navigation settles
  within three steps. Client search on well-typed client documents returns exactly the
  clients whose name or e-mail contains the term. The store invariant is kept by every write, and create/getById is a
  round trip. Sequential quote numbers are distinct; interleaved callers collide; a
  missing settings document makes number generation throw. On the pages, the average
  margin card stays within the margins' range, a margin edit refines a map update, the
  user selection stays duplicate-free, and "View Quote" leads to a route that does not
  exist. A number typed into the settings page previews exactly the quote number the
  Firestore generator formats for it (through the round trip of \<open>parseInt\<close> and decimal
  printing). Every menu entry reaches its page with only itself highlighted, and signing
  out sends every guarded path to the sign-in page; the dashboards' quick actions and the
  \<open>/register\<close> link reach no route. On the integrations page, ids are kept, the settings
  dialog opens only with a selection, but it opens for the non-configurable e-mail
  integration, and a sync finishing after a disconnect still stamps the integration.
  The event wiring keeps the dialogs' selections well formed (a quote page navigates only
  to its own quotes, the assign-user dialog and the flow builder open only with a listed
  selection), while "Clear Filters" leaves the status filter and the margin dialog's
  Cancel keeps the edits. Writes typed by TypeScript keep the stored settings document
  conforming to \<open>SystemSettings\<close>, which makes the unchecked cast of
  \<open>generateQuoteNumber\<close> sound. On the platform settings page, saving restores the page
  exactly, and the status helpers draw connected and disconnected services alike. On the
  integrations page, typed configuration never survives the dialog, a sync completing
  meanwhile erases it, and the three configuration dialogs open together. In the
  layouts, a menu click lands on its page in the same layout and the logout button on
  the sign-in page; the sign-in form submits what was typed. In the table rows, the
  quote totals add up to the statistics card's value, the Export button appears exactly
  in the rows of calculated quotes, a product's shown price is never below its cost for
  non-negative margins but ignores the edited margin rules, a user's checkbox click flips
  that row alone, and the two admin pages label the admin role differently. On the
  dashboards, the Quotes Accepted figure is a count within the month's quotes, the status
  colours disagree with the Quotes page except for accepted quotes, the metrics disagree
  with each other and with the pages' lists, and one note is mojibake. Through the tabs,
  the pages' invariants still hold (a generic transfer lemma), a session of a page that
  keeps its state is the page's own run on the events the shown controls deliver, the
  status tabs of the Quotes page list nothing, and on the Platform settings page every
  tab not shown holds its defaults, so edits are lost on every tab switch.

  \<^bold>\<open>Bounds and fuel.\<close> \<open>resolve\<close> follows at most as many redirects as its fuel;
  \<open>Routing.resolve_total\<close> shows that 3 always suffices (a wrong-role user is sent home,
  and a home route renders for its own role). Routes are matched on the pathname only:
  \<open>js_pathname\<close> cuts a target at its first \<open>?\<close> or \<open>#\<close>, as React Router does. The clock order is a parameter of
  \<open>builder_reach\<close>: the distinctness invariants are proved for \<open>(<)\<close>, and the
  duplicate-id finding is shown for \<open>(\<le>)\<close>, the real behaviour of \<open>Date.now()\<close>.

  Page numbers are exact rationals (JavaScript doubles agree with them on the mock
  values), \<open>Math.round\<close> is \<open>\<lfloor>x + 1/2\<rfloor>\<close>, \<open>x.toFixed(2)\<close> is the amount in
  cents \<open>Math.round(x * 100)\<close> (they agree on non-negative amounts), \<open>toLocaleString\<close> is
  the en-US grouping, and a \<open>NaN\<close> from a division by zero is \<open>None\<close>. The quote
  counter and \<open>parseInt\<close> results are unbounded integers; a JavaScript number equals them
  only up to \<open>2^53\<close>, so the lemmas that relate them to what the page prints
  (\<open>Pages_Settings.typed_quote_number_preview\<close>) assume that bound, and the sequential
  numbering lemmas hold as stated only below it.

  \<^bold>\<open>Not modelled.\<close> Rendering and styling (markup, layout, CSS classes beyond
  the status and badge colours; icons are tags); dates and times (the
  \<open>created_at\<close> fields and the "days ago" texts: a row keeps the date string it is
  computed from); the row buttons that have no \<open>onClick\<close>; inputs with no state that no
  handler reads (the webhooks tab, the dialogs' uncontrolled form fields); the shadcn
  components of \<open>src/components/ui\<close>, which are not in the repository (Radix
  behaviour of dialogs and tabs is taken from its documentation); \<open>parseFloat\<close>, whose
  result is taken as the value of a tax-rate or margin event; the flow execution
  engine and the flow validation and serialization of the specification, which have no
  code in the repository; the commented-out Firebase paths; \<open>src/lib/firebase.ts\<close>,
  which is not in the repository (its Firestore settings are taken as the library
  defaults); React Router's own matching (\<open>split_slash\<close>, \<open>js_pathname\<close>,
  \<open>route_key\<close> in \<open>Routing\<close>) is a model of the library's documented behaviour, not
  of code of the repository; the QueryClient options of \<open>App.tsx\<close>, which no query uses.
\<close>

section \<open>Properties across components\<close>

text \<open>
  The demo data seeding and the demo login disagree on the user ids: after
  \<open>seedInitialData\<close> on an empty store, the profile with the admin's e-mail carries uid
  \<open>demo-admin\<close>, not the \<open>demo-admin-123\<close> that \<open>AuthService.login\<close> returns, and no
  profile document is stored under either demo uid.
\<close>

theorem seeded_profiles_miss_demo_uids:
  "\<exists>db. seedInitialData now empty_db = Inr db \<and>
     map_option (\<lambda>d. map_of d ''uid'') (getByEmail (email (demo_user Admin_demo)) db) =
       Some (Some (FStr ''demo-admin'')) \<and>
     ''demo-admin'' \<noteq> uid (demo_user Admin_demo) \<and>
     getDoc ''users'' (uid (demo_user Admin_demo)) db = None \<and>
     getDoc ''users'' (uid (demo_user Company_demo)) db = None"
  by (simp add: seedInitialData_def batch_set_new_def seed_docs_def valid_data_def stamps_def
      empty_db_def Let_def getByEmail_def fs_getWhere_def matches_def first_or_null_def with_id_def
      spread_def getDoc_def coll_def set_coll_def demo_admin_user_def demo_company_user_def auto_id_def)



end
